(* ===== verification/Prelude.thy ===== *)
theory Prelude
  imports Main "HOL-Library.Word" "HOL-Library.Signed_Division"
begin

text \<open>
  What every component of the development shares.

  \<^item> Rust integers. An \<open>i64\<close> is an \<open>int\<close> that satisfies \<open>in_i64\<close>; the operators of
    a release build (\<^verbatim>\<open>cargo build --release\<close>, no overflow checks) are
    \<open>i64_add\<close>, \<open>i64_mul\<close> and \<open>i64_div\<close>, which wrap and truncate. \<open>u64\<close> and
    \<open>u128\<close> are words, so that \<open>+\<close> and \<open>*\<close> wrap by themselves. The casts
    \<^verbatim>\<open>x as i64\<close>, \<^verbatim>\<open>x as u64\<close> and \<^verbatim>\<open>x as u128\<close> are \<open>as_i64\<close>, \<open>as_u64\<close> and
    \<open>as_u128\<close>, and \<^verbatim>\<open>i64::try_from\<close> is \<open>try_i64\<close>.
  \<^item> Results. \<^verbatim>\<open>Result<T, E>\<close> is \<open>'e + 'a\<close> with \<open>Inl\<close> for the error, and the
    \<^verbatim>\<open>?\<close> operator is \<open>res_bind\<close>.
  \<^item> The collections \<open>sql_simps\<close>, \<open>model_simps\<close> and \<open>ledger_simps\<close>, to which the
    component theories add their unfolding equations.
\<close>

named_theorems sql_simps \<open>equations that evaluate statements on tables\<close>
named_theorems model_simps \<open>definitions of the program's pure helpers\<close>
named_theorems ledger_simps \<open>what an operation does to capacity, use and holds\<close>

subsection \<open>Fixed-width integers\<close>

type_synonym u64 = "64 word"
type_synonym u128 = "128 word"

definition i64_max :: int where "i64_max = 9223372036854775807"
definition i64_min :: int where "i64_min = - 9223372036854775808"

definition in_i64 :: "int \<Rightarrow> bool" where
  "in_i64 x \<longleftrightarrow> i64_min \<le> x \<and> x \<le> i64_max"

definition in_i32 :: "int \<Rightarrow> bool" where
  "in_i32 x \<longleftrightarrow> - 2147483648 \<le> x \<and> x \<le> 2147483647"

definition wrap_i64 :: "int \<Rightarrow> int" where
  "wrap_i64 x = (x + 9223372036854775808) mod 18446744073709551616 - 9223372036854775808"

definition i64_add :: "int \<Rightarrow> int \<Rightarrow> int" where "i64_add a b = wrap_i64 (a + b)"
definition i64_sub :: "int \<Rightarrow> int \<Rightarrow> int" where "i64_sub a b = wrap_i64 (a - b)"
definition i64_mul :: "int \<Rightarrow> int \<Rightarrow> int" where "i64_mul a b = wrap_i64 (a * b)"

text \<open>Rust's \<^verbatim>\<open>/\<close> on signed integers truncates towards zero.\<close>

definition i64_div :: "int \<Rightarrow> int \<Rightarrow> int" where "i64_div a b = wrap_i64 (a sdiv b)"

definition as_i64 :: "u64 \<Rightarrow> int" where "as_i64 w = wrap_i64 (uint w)"
definition as_u64 :: "int \<Rightarrow> u64" where "as_u64 x = word_of_int x"
definition as_u128 :: "int \<Rightarrow> u128" where "as_u128 x = word_of_int x"

definition try_i64 :: "u128 \<Rightarrow> int option" where
  "try_i64 w = (if uint w \<le> i64_max then Some (uint w) else None)"

lemmas i64_bounds = in_i64_def i64_min_def i64_max_def

lemma wrap_i64_in [simp, intro]: "in_i64 (wrap_i64 x)"
proof -
  have "0 \<le> (x + 9223372036854775808) mod 18446744073709551616"
    and "(x + 9223372036854775808) mod 18446744073709551616 < 18446744073709551616"
    by simp_all
  then show ?thesis by (simp add: i64_bounds wrap_i64_def)
qed

lemma wrap_i64_id: "in_i64 x \<Longrightarrow> wrap_i64 x = x"
  by (simp add: i64_bounds wrap_i64_def mod_pos_pos_trivial)

lemma wrap_i64_id_nonneg: "0 \<le> x \<Longrightarrow> x \<le> i64_max \<Longrightarrow> wrap_i64 x = x"
  by (rule wrap_i64_id) (simp add: i64_bounds)

lemma in_i64_nonneg: "0 \<le> x \<Longrightarrow> in_i64 x \<longleftrightarrow> x \<le> i64_max"
  by (auto simp: i64_bounds)

lemma in_i64_0 [simp]: "in_i64 0"
  by (simp add: i64_bounds)

lemma as_i64_in [simp, intro]: "in_i64 (as_i64 w)"
  by (simp add: as_i64_def)

lemma as_i64_small: "uint w \<le> i64_max \<Longrightarrow> as_i64 w = uint w"
  by (simp add: as_i64_def wrap_i64_id_nonneg)

lemma as_u64_uint: "0 \<le> x \<Longrightarrow> x \<le> i64_max \<Longrightarrow> uint (as_u64 x) = x"
  by (simp add: as_u64_def uint_word_of_int i64_max_def mod_pos_pos_trivial)

lemma as_i64_as_u64: "0 \<le> x \<Longrightarrow> x \<le> i64_max \<Longrightarrow> as_i64 (as_u64 x) = x"
  by (simp add: as_i64_small as_u64_uint)

lemma uint_as_u128: "0 \<le> x \<Longrightarrow> x \<le> i64_max \<Longrightarrow> uint (as_u128 x) = x"
  by (simp add: as_u128_def uint_word_of_int i64_max_def mod_pos_pos_trivial)

lemma sdiv_nonneg: "0 \<le> a \<Longrightarrow> 0 < b \<Longrightarrow> (a::int) sdiv b = a div b"
  by (cases "a = 0") (simp_all add: signed_divide_int_def)

subsection \<open>Results\<close>

fun res_bind :: "'e + 'a \<Rightarrow> ('a \<Rightarrow> 'e + 'b) \<Rightarrow> 'e + 'b" where
  "res_bind (Inl e) f = Inl e"
| "res_bind (Inr a) f = f a"

fun ok_or :: "'e \<Rightarrow> 'a option \<Rightarrow> 'e + 'a" where
  "ok_or e None = Inl e"
| "ok_or e (Some a) = Inr a"

fun map_err :: "('e \<Rightarrow> 'f) \<Rightarrow> 'e + 'a \<Rightarrow> 'f + 'a" where
  "map_err g (Inl e) = Inl (g e)"
| "map_err g (Inr a) = Inr a"

lemma res_bind_right_id [simp]: "res_bind m Inr = m"
  by (cases m) auto

lemma res_bind_Inr_iff: "res_bind m f = Inr b \<longleftrightarrow> (\<exists>a. m = Inr a \<and> f a = Inr b)"
  by (cases m) auto

lemma res_bind_Inl_iff: "res_bind m f = Inl e \<longleftrightarrow> m = Inl e \<or> (\<exists>a. m = Inr a \<and> f a = Inl e)"
  by (cases m) auto

lemma map_err_Inr_iff [simp]: "map_err g m = Inr a \<longleftrightarrow> m = Inr a"
  by (cases m) auto

lemma map_err_Inl_iff: "map_err g m = Inl e \<longleftrightarrow> (\<exists>e'. m = Inl e' \<and> e = g e')"
  by (cases m) auto

lemma ok_or_Inr_iff [simp]: "ok_or e x = Inr a \<longleftrightarrow> x = Some a"
  by (cases x) auto

lemma ok_or_Inl_iff [simp]: "ok_or e x = Inl e' \<longleftrightarrow> x = None \<and> e' = e"
  by (cases x) auto

lemmas res_iffs = res_bind_Inr_iff res_bind_Inl_iff

subsection \<open>Lists with distinct keys\<close>

lemma distinct_map_inj: "distinct (map k xs) \<Longrightarrow> x \<in> set xs \<Longrightarrow> y \<in> set xs \<Longrightarrow> k x = k y \<Longrightarrow> x = y"
  by (simp add: distinct_map inj_on_def)

lemma filter_key_unique:
  "distinct (map k xs) \<Longrightarrow> x \<in> set xs \<Longrightarrow> filter (\<lambda>y. k y = k x) xs = [x]"
proof (induction xs)
  case Nil
  then show ?case by simp
next
  case (Cons a xs)
  have "filter (\<lambda>y. k y = k a) xs = []"
    using Cons.prems(1) by (auto simp: filter_empty_conv image_iff)
  moreover have "k a \<noteq> k x" if "x \<in> set xs"
    using that Cons.prems(1) by auto
  ultimately show ?case using Cons by auto
qed

lemma find_key:
  "distinct (map k xs) \<Longrightarrow> x \<in> set xs \<Longrightarrow> List.find (\<lambda>y. k y = k x) xs = Some x"
  by (induction xs) force+

lemma find_key_SomeD: "List.find P xs = Some x \<Longrightarrow> x \<in> set xs \<and> P x"
  by (auto simp: find_Some_iff)

end
