(* ===== verification/Sql.thy ===== *)
theory Sql
  imports Prelude
begin

text \<open>
  The state manager keeps its state in PostgreSQL tables and changes it with the SQL text
  of \<^verbatim>\<open>atoma-state/src/state_manager.rs\<close> over the schema of
  \<^verbatim>\<open>atoma-state/src/migrations\<close>. A table is the list of its rows in the order a scan
  visits them; no theorem assumes anything about that order, so a result about
  \<^verbatim>\<open>LIMIT 1\<close> holds whichever matching row the planner returns. A statement either
  fails as a whole and leaves the table as it was (\<open>Inl\<close>) or gives the new table and the
  rows it touched (\<open>RETURNING\<close>, \<^verbatim>\<open>rows_affected\<close>). The conjuncts of a \<^verbatim>\<open>WHERE\<close>
  are evaluated from left to right, and \<^verbatim>\<open>BIGINT\<close> arithmetic fails on overflow instead
  of wrapping. A table's \<^verbatim>\<open>CHECK\<close> constraints are its \<open>store\<close> argument: it is applied
  to every row that is written, and on \<^verbatim>\<open>INSERT .. ON CONFLICT\<close> to the proposed row
  before the conflict is looked for.
\<close>

datatype db_error =
    UniqueViolation
  | CheckViolation
  | NotNullViolation
  | NumericOutOfRange
  | StringTooLong
  | UndefinedColumn
  | UndefinedFunction
  | RowNotFound
  | ColumnDecode

subsection \<open>BIGINT arithmetic and conditions\<close>

definition bigint :: "int \<Rightarrow> db_error + int" where
  "bigint x = (if in_i64 x then Inr x else Inl NumericOutOfRange)"

definition bigint_add :: "int \<Rightarrow> int \<Rightarrow> db_error + int" where
  "bigint_add a b = bigint (a + b)"

definition bigint_sub :: "int \<Rightarrow> int \<Rightarrow> db_error + int" where
  "bigint_sub a b = bigint (a - b)"

text \<open>\<^verbatim>\<open>a + b + c + ..\<close> adds from left to right.\<close>

fun bigint_sum :: "int \<Rightarrow> int list \<Rightarrow> db_error + int" where
  "bigint_sum a [] = Inr a"
| "bigint_sum a (b # bs) = res_bind (bigint_add a b) (\<lambda>s. bigint_sum s bs)"

text \<open>Assignment of a \<^verbatim>\<open>BIGINT\<close> value to an \<^verbatim>\<open>INTEGER\<close> column.\<close>

definition to_int4 :: "int \<Rightarrow> db_error + int" where
  "to_int4 x = (if in_i32 x then Inr x else Inl NumericOutOfRange)"

definition sql_and :: "db_error + bool \<Rightarrow> db_error + bool \<Rightarrow> db_error + bool" where
  "sql_and a b = res_bind a (\<lambda>x. if x then b else Inr False)"

definition sql_is :: "bool \<Rightarrow> db_error + bool" where
  "sql_is b = Inr b"

lemma bigint_Inr_iff [sql_simps]: "bigint x = Inr y \<longleftrightarrow> in_i64 x \<and> y = x"
  by (auto simp: bigint_def)

lemma bigint_add_Inr_iff [sql_simps]: "bigint_add a b = Inr y \<longleftrightarrow> in_i64 (a + b) \<and> y = a + b"
  by (auto simp: bigint_add_def bigint_def)

lemma bigint_sub_Inr_iff [sql_simps]: "bigint_sub a b = Inr y \<longleftrightarrow> in_i64 (a - b) \<and> y = a - b"
  by (auto simp: bigint_sub_def bigint_def)

lemma bigint_sum_InrD: "bigint_sum a bs = Inr s \<Longrightarrow> s = a + sum_list bs"
  by (induction bs arbitrary: a) (fastforce simp: res_iffs sql_simps)+

lemma bigint_sum_nonneg:
  "in_i64 a \<Longrightarrow> 0 \<le> a \<Longrightarrow> (\<And>b. b \<in> set bs \<Longrightarrow> 0 \<le> b) \<Longrightarrow> a + sum_list bs \<le> i64_max \<Longrightarrow>
   bigint_sum a bs = Inr (a + sum_list bs)"
proof (induction bs arbitrary: a)
  case (Cons b bs)
  from Cons.prems have "0 \<le> sum_list bs" by (auto intro!: sum_list_nonneg)
  moreover have "0 \<le> b" using Cons.prems by simp
  ultimately have "in_i64 (a + b)" using Cons.prems(2,4) by (auto simp: i64_bounds)
  with Cons show ?case by (simp add: bigint_add_def bigint_def add.assoc)
qed simp

lemma to_int4_Inr_iff [sql_simps]: "to_int4 x = Inr y \<longleftrightarrow> in_i32 x \<and> y = x"
  by (auto simp: to_int4_def)

lemma sql_and_True_iff [sql_simps]: "sql_and a b = Inr True \<longleftrightarrow> a = Inr True \<and> b = Inr True"
  by (cases a) (auto simp: sql_and_def)

lemma sql_and_is [sql_simps]: "sql_and (sql_is p) b = (if p then b else Inr False)"
  by (simp add: sql_and_def sql_is_def)

lemma sql_is_alone: "sql_is p = sql_and (sql_is p) (Inr True)"
  by (simp add: sql_and_def sql_is_def)

lemma sql_is_iff [sql_simps]: "sql_is b = Inr c \<longleftrightarrow> c = b"
  by (auto simp: sql_is_def)

lemma sql_is_Inl [simp]: "sql_is b \<noteq> Inl e"
  by (simp add: sql_is_def)

subsection \<open>Statements\<close>

fun sql_select :: "('r \<Rightarrow> db_error + bool) \<Rightarrow> 'r list \<Rightarrow> db_error + 'r list" where
  "sql_select w [] = Inr []"
| "sql_select w (r # rs) =
     res_bind (w r) (\<lambda>hit. res_bind (sql_select w rs) (\<lambda>s. Inr (if hit then r # s else s)))"

text \<open>A query with \<^verbatim>\<open>LIMIT 1\<close> stops at the first row that satisfies its condition.\<close>

fun sql_first :: "('r \<Rightarrow> db_error + bool) \<Rightarrow> 'r list \<Rightarrow> db_error + 'r option" where
  "sql_first w [] = Inr None"
| "sql_first w (r # rs) = res_bind (w r) (\<lambda>hit. if hit then Inr (Some r) else sql_first w rs)"

text \<open>
  \<open>sql_update w f store t\<close>: rows that satisfy \<open>w\<close> are replaced by \<open>f\<close> of them, once
  \<open>store\<close> accepts the new row. The result is the new table and the new rows.
\<close>

fun sql_update ::
  "('r \<Rightarrow> db_error + bool) \<Rightarrow> ('r \<Rightarrow> db_error + 'r) \<Rightarrow> ('r \<Rightarrow> db_error + 'r) \<Rightarrow> 'r list
    \<Rightarrow> db_error + ('r list \<times> 'r list)" where
  "sql_update w f store [] = Inr ([], [])"
| "sql_update w f store (r # rs) =
     res_bind (w r) (\<lambda>hit.
     res_bind (if hit then res_bind (f r) store else Inr r) (\<lambda>r'.
     res_bind (sql_update w f store rs) (\<lambda>(t, u).
       Inr (r' # t, if hit then r' # u else u))))"

definition sql_insert ::
  "('r \<Rightarrow> 'r \<Rightarrow> bool) \<Rightarrow> ('r \<Rightarrow> db_error + 'r) \<Rightarrow> 'r \<Rightarrow> 'r list \<Rightarrow> db_error + 'r list" where
  "sql_insert clash store r t =
     res_bind (store r) (\<lambda>r'.
       if list_ex (clash r') t then Inl UniqueViolation else Inr (t @ [r']))"

text \<open>
  \<^verbatim>\<open>INSERT .. ON CONFLICT (key) DO UPDATE SET ..\<close>: \<open>f excluded old\<close> is the updated row.
\<close>

definition sql_upsert ::
  "('r \<Rightarrow> 'r \<Rightarrow> bool) \<Rightarrow> ('r \<Rightarrow> db_error + 'r) \<Rightarrow> ('r \<Rightarrow> 'r \<Rightarrow> db_error + 'r) \<Rightarrow> 'r \<Rightarrow> 'r list
    \<Rightarrow> db_error + 'r list" where
  "sql_upsert clash store f r t =
     res_bind (store r) (\<lambda>r'.
       if list_ex (clash r') t
       then res_bind (sql_update (\<lambda>q. sql_is (clash r' q)) (f r') store t) (\<lambda>(t', u). Inr t')
       else Inr (t @ [r']))"

definition sql_delete :: "('r \<Rightarrow> bool) \<Rightarrow> 'r list \<Rightarrow> 'r list" where
  "sql_delete w t = filter (\<lambda>r. \<not> w r) t"

text \<open>
  \<^verbatim>\<open>build_query_with_in\<close> of \<^verbatim>\<open>atoma-state/src/lib.rs\<close>: the rows whose column is among
  the values and that satisfy the additional condition; without values, \<^verbatim>\<open>WHERE 1=0\<close>.
\<close>

definition build_query_with_in :: "('r \<Rightarrow> 'k) \<Rightarrow> 'k list \<Rightarrow> ('r \<Rightarrow> bool) option \<Rightarrow> 'r list \<Rightarrow> 'r list" where
  "build_query_with_in column values additional t =
     (if values = [] then filter (\<lambda>_. False) t
      else filter (\<lambda>r. column r \<in> set values \<and> (case additional of None \<Rightarrow> True | Some c \<Rightarrow> c r)) t)"

text \<open>
  \<^verbatim>\<open>ORDER BY k DESC LIMIT 1\<close> gives a row with the greatest key (\<^verbatim>\<open>ASC\<close> negates it);
  among equal keys the first of the scan.
\<close>

fun top_by :: "('r \<Rightarrow> int) \<Rightarrow> 'r list \<Rightarrow> 'r option" where
  "top_by k [] = None"
| "top_by k (r # rs) = (case top_by k rs of None \<Rightarrow> Some r | Some q \<Rightarrow> if k r < k q then Some q else Some r)"

text \<open>\<^verbatim>\<open>fetch_one\<close> and \<^verbatim>\<open>fetch_optional\<close> take the first row of a result.\<close>

fun fetch_optional :: "'r list \<Rightarrow> 'r option" where
  "fetch_optional [] = None"
| "fetch_optional (r # rs) = Some r"

fun fetch_one :: "'r list \<Rightarrow> db_error + 'r" where
  "fetch_one [] = Inl RowNotFound"
| "fetch_one (r # rs) = Inr r"

subsection \<open>What a statement preserves\<close>

text \<open>Row by row: an update either leaves a row or stores its new version.\<close>

lemma sql_update_ConsE:
  assumes "sql_update w f store (r # rs) = Inr (t', u)"
  obtains (hit) s r' t1 u1 where "w r = Inr True" "f r = Inr s" "store s = Inr r'"
      "sql_update w f store rs = Inr (t1, u1)" "t' = r' # t1" "u = r' # u1"
    | (miss) t1 where "w r = Inr False" "sql_update w f store rs = Inr (t1, u)" "t' = r # t1"
  using assms by (auto simp: res_iffs split: if_splits)

lemma sql_update_rows:
  "sql_update w f store t = Inr (t', u) \<Longrightarrow>
   list_all2 (\<lambda>r r'. w r = Inr True \<and> res_bind (f r) store = Inr r' \<or> w r = Inr False \<and> r' = r) t t'"
proof (induction t arbitrary: t' u)
  case (Cons r rs)
  from Cons.prems show ?case by (rule sql_update_ConsE) (auto dest: Cons.IH)
qed simp

lemma sql_update_hit_in:
  assumes "sql_update w f store t = Inr (t', u)" and "r \<in> set t" and "w r = Inr True"
  shows "\<exists>r' \<in> set t'. res_bind (f r) store = Inr r'"
proof -
  from sql_update_rows [OF assms(1)] assms(2) obtain r' where "r' \<in> set t'"
    and "w r = Inr True \<and> res_bind (f r) store = Inr r' \<or> w r = Inr False \<and> r' = r"
    by (auto simp: list_all2_conv_all_nth in_set_conv_nth) blast
  with assms(3) show ?thesis by auto
qed

lemma sql_update_returning:
  "sql_update w f store t = Inr (t', u) \<Longrightarrow> r' \<in> set u \<Longrightarrow>
   \<exists>r \<in> set t. w r = Inr True \<and> res_bind (f r) store = Inr r'"
proof (induction t arbitrary: t' u)
  case (Cons r rs)
  from Cons.prems(1) show ?case
  proof (cases rule: sql_update_ConsE)
    case hit
    then show ?thesis using Cons.IH [OF hit(4)] Cons.prems(2) by auto
  next
    case miss
    then show ?thesis using Cons.IH [OF miss(2)] Cons.prems(2) by auto
  qed
qed simp

lemma sql_update_no_hit:
  "(\<And>r. r \<in> set t \<Longrightarrow> w r = Inr False) \<Longrightarrow> sql_update w f store t = Inr (t, [])"
  by (induction t) auto

lemma sql_update_inv:
  assumes "sql_update w f store t = Inr (t', u)"
    and "\<And>r. r \<in> set t \<Longrightarrow> P r"
    and step: "\<And>r r' s. P r \<Longrightarrow> w r = Inr True \<Longrightarrow> f r = Inr s \<Longrightarrow> store s = Inr r' \<Longrightarrow> P r'"
    and "r' \<in> set t'"
  shows "P r'"
  using assms(1,2,4)
proof (induction t arbitrary: t' u)
  case (Cons r rs)
  from Cons.prems(1) show ?case
  proof (cases rule: sql_update_ConsE)
    case hit
    then show ?thesis using Cons.IH [OF hit(4)] Cons.prems(2,3) step by auto
  next
    case miss
    then show ?thesis using Cons.IH [OF miss(2)] Cons.prems(2,3) by auto
  qed
qed simp

lemma sql_update_keys:
  assumes "sql_update w f store t = Inr (t', u)"
    and key: "\<And>r s r'. f r = Inr s \<Longrightarrow> store s = Inr r' \<Longrightarrow> k r' = k r"
  shows "map k t' = map k t"
  using assms(1)
proof (induction t arbitrary: t' u)
  case (Cons r rs)
  from Cons.prems show ?case by (rule sql_update_ConsE) (auto dest: Cons.IH key)
qed simp

lemma sql_insert_inv:
  assumes "sql_insert clash store r t = Inr t'"
    and "\<And>q. q \<in> set t \<Longrightarrow> P q"
    and "\<And>q. store r = Inr q \<Longrightarrow> P q"
    and "q \<in> set t'"
  shows "P q"
  using assms by (auto simp: sql_insert_def res_iffs split: if_splits)

lemma sql_insert_keys:
  assumes "sql_insert clash store r t = Inr t'"
    and "\<And>s. store r = Inr s \<Longrightarrow> s = r" and "\<And>q. clash r q = (k q = k r)"
    and "distinct (map k t)"
  shows "distinct (map k t')"
proof -
  from assms(1,2) have "t' = t @ [r]" and "\<not> list_ex (clash r) t"
    by (auto simp: sql_insert_def res_iffs split: if_splits)
  with assms(3,4) show ?thesis by (auto simp: list_ex_iff image_iff)
qed

lemma sql_select_Inr:
  "sql_select w t = Inr s \<Longrightarrow> s = filter (\<lambda>r. w r = Inr True) t"
  by (induction t arbitrary: s) (auto simp: res_iffs split: if_splits)

lemma sql_select_is [sql_simps]: "sql_select (\<lambda>r. sql_is (p r)) t = Inr (filter p t)"
  by (induction t) (auto simp: sql_is_def)

lemma sql_first_SomeD: "sql_first w t = Inr (Some r) \<Longrightarrow> r \<in> set t \<and> w r = Inr True"
  by (induction t) (auto simp: res_iffs split: if_splits)

lemma sql_first_NoneD: "sql_first w t = Inr None \<Longrightarrow> r \<in> set t \<Longrightarrow> w r = Inr False"
  by (induction t) (auto simp: res_iffs split: if_splits)

lemma sql_first_find: "(\<And>r. r \<in> set t \<Longrightarrow> w r = Inr (p r)) \<Longrightarrow> sql_first w t = Inr (List.find p t)"
  by (induction t) auto

lemma sql_first_total:
  "(\<And>r. r \<in> set t \<Longrightarrow> \<exists>b. w r = Inr b) \<Longrightarrow> \<exists>x. sql_first w t = Inr x"
proof (induction t)
  case (Cons r rs)
  then obtain b where "w r = Inr b" by auto
  with Cons show ?case by (cases b) auto
qed simp

lemma top_by_None_iff [simp]: "top_by k rs = None \<longleftrightarrow> rs = []"
  by (cases rs) (auto split: option.splits if_splits)

lemma top_by_SomeD: "top_by k rs = Some r \<Longrightarrow> r \<in> set rs \<and> (\<forall>q \<in> set rs. k q \<le> k r)"
  by (induction rs arbitrary: r) (force split: option.splits if_splits)+

subsection \<open>Statements on one key\<close>

text \<open>
  \<open>row_of k t i\<close> is the row with key \<open>i\<close>. Under a primary key an update whose
  \<^verbatim>\<open>WHERE\<close> starts with \<^verbatim>\<open>key = $1\<close> is decided by that row alone.
\<close>

definition row_of :: "('r \<Rightarrow> 'k) \<Rightarrow> 'r list \<Rightarrow> 'k \<Rightarrow> 'r option" where
  "row_of k t i = List.find (\<lambda>r. k r = i) t"

definition put_row :: "('r \<Rightarrow> 'k) \<Rightarrow> 'r \<Rightarrow> 'r list \<Rightarrow> 'r list" where
  "put_row k r' t = map (\<lambda>r. if k r = k r' then r' else r) t"

text \<open>An update that does not write the key column.\<close>

definition keeps_key :: "('r \<Rightarrow> 'k) \<Rightarrow> ('r \<Rightarrow> db_error + 'r) \<Rightarrow> bool" where
  "keeps_key k f \<longleftrightarrow> (\<forall>q s. f q = Inr s \<longrightarrow> k s = k q)"

lemma row_of_Nil [simp]: "row_of k [] i = None"
  by (simp add: row_of_def)

lemma row_of_Cons [simp]: "row_of k (r # rs) i = (if k r = i then Some r else row_of k rs i)"
  by (simp add: row_of_def)

lemma row_of_SomeD: "row_of k t i = Some r \<Longrightarrow> r \<in> set t \<and> k r = i"
  by (induction t) (auto split: if_splits)

lemma row_of_None_iff: "row_of k t i = None \<longleftrightarrow> i \<notin> k ` set t"
  by (induction t) auto

lemma row_of_put [simp]:
  "row_of k (put_row k r' t) i =
     (if i = k r' then (case row_of k t i of None \<Rightarrow> None | Some r \<Rightarrow> Some r') else row_of k t i)"
  by (induction t) (auto simp: put_row_def)

lemma map_key_put [simp]: "map k (put_row k r' t) = map k t"
  by (simp add: put_row_def)

lemma set_put_row: "q \<in> set (put_row k r' t) \<Longrightarrow> q = r' \<or> q \<in> set t"
  by (auto simp: put_row_def split: if_splits)

lemma put_row_other: "k r' \<notin> k ` set t \<Longrightarrow> put_row k r' t = t"
  by (induction t) (auto simp: put_row_def)

text \<open>Putting a row back under its key restores the table.\<close>

lemma put_row_put_row: "k a = k b \<Longrightarrow> put_row k a (put_row k b t) = put_row k a t"
  by (auto simp: put_row_def)

lemma put_row_same: "distinct (map k t) \<Longrightarrow> row_of k t i = Some r \<Longrightarrow> put_row k r t = t"
  by (auto simp: put_row_def intro!: map_idI dest!: row_of_SomeD intro: distinct_map_inj)

lemma sql_update_key:
  assumes "distinct (map k t)" and "row_of k t i = Some r"
    and "\<And>q. w q = sql_and (sql_is (k q = i)) (c q)"
    and "\<And>s r'. f r = Inr s \<Longrightarrow> store s = Inr r' \<Longrightarrow> k r' = k r"
  shows "sql_update w f store t =
     res_bind (c r) (\<lambda>hit. if hit
       then res_bind (res_bind (f r) store) (\<lambda>r'. Inr (put_row k r' t, [r']))
       else Inr (t, []))"
  using assms(1,2)
proof (induction t)
  case (Cons q t)
  show ?case
  proof (cases "k q = i")
    case True
    with Cons.prems have q: "q = r" and i: "i = k r" and out: "k r \<notin> k ` set t" by auto
    have rest: "sql_update w f store t = Inr (t, [])"
    proof (rule sql_update_no_hit)
      fix p assume "p \<in> set t"
      with out have "k p \<noteq> k r" by (metis image_eqI)
      then show "w p = Inr False" by (simp add: assms(3) sql_simps i)
    qed
    have put: "put_row k r' (r # t) = r' # t" if "k r' = k r" for r'
      using put_row_other [of k r' t] out that by (simp add: put_row_def)
    have wr: "w r = c r" by (simp add: assms(3) sql_simps i)
    have key: "k r' = k r" if "res_bind (f r) store = Inr r'" for r'
      using that assms(4) by (auto simp: res_iffs)
    show ?thesis unfolding q
      by (cases "c r"; cases "res_bind (f r) store") (auto simp: wr rest put dest: key)
  next
    case False
    with Cons have "sql_update w f store t =
      res_bind (c r) (\<lambda>hit. if hit
        then res_bind (res_bind (f r) store) (\<lambda>r'. Inr (put_row k r' t, [r']))
        else Inr (t, []))" and "k r = i" by (auto dest: row_of_SomeD)
    moreover have "w q = Inr False" using False by (simp add: assms(3) sql_simps)
    moreover have "put_row k r' (q # t) = q # put_row k r' t" if "res_bind (f r) store = Inr r'" for r'
      using that False \<open>k r = i\<close> assms(4) by (auto simp: put_row_def res_iffs)
    ultimately show ?thesis
      by (cases "c r"; cases "res_bind (f r) store") auto
  qed
qed simp

lemma sql_update_key_None:
  assumes "row_of k t i = None" and "\<And>q. w q = sql_and (sql_is (k q = i)) (c q)"
  shows "sql_update w f store t = Inr (t, [])"
proof (rule sql_update_no_hit)
  fix p assume "p \<in> set t"
  with assms(1) have "k p \<noteq> i" by (auto simp: row_of_None_iff)
  then show "w p = Inr False" by (simp add: assms(2) sql_simps)
qed

lemma row_of_append:
  "row_of k (t @ [r]) i = (case row_of k t i of None \<Rightarrow> if k r = i then Some r else None | Some q \<Rightarrow> Some q)"
  by (induction t) auto

text \<open>The conflict target is the key \<open>k\<close>, and the update does not write it.\<close>

definition key_upsert ::
  "('r \<Rightarrow> 'k) \<Rightarrow> ('r \<Rightarrow> 'r \<Rightarrow> bool) \<Rightarrow> ('r \<Rightarrow> db_error + 'r) \<Rightarrow> ('r \<Rightarrow> 'r \<Rightarrow> db_error + 'r) \<Rightarrow> bool" where
  "key_upsert k clash store f \<longleftrightarrow> (\<forall>r q. clash r q = (k q = k r)) \<and>
     (\<forall>r q s r'. f r q = Inr s \<longrightarrow> store s = Inr r' \<longrightarrow> k r' = k q)"

lemma sql_upsert_key:
  assumes "distinct (map k t)" and "store r = Inr r" and "key_upsert k clash store f"
  shows "sql_upsert clash store f r t = (case row_of k t (k r) of
      None \<Rightarrow> Inr (t @ [r])
    | Some old \<Rightarrow> res_bind (res_bind (f r old) store) (\<lambda>r'. Inr (put_row k r' t)))"
proof (cases "row_of k t (k r)")
  case None
  then have "\<not> list_ex (clash r) t"
    using assms(3) by (auto simp: key_upsert_def list_ex_iff row_of_None_iff image_iff)
  with None show ?thesis using assms(2) by (simp add: sql_upsert_def)
next
  case (Some old)
  then have "list_ex (clash r) t" using assms(3) by (auto simp: key_upsert_def list_ex_iff dest: row_of_SomeD)
  moreover have "sql_update (\<lambda>q. sql_is (clash r q)) (f r) store t =
      res_bind (Inr True) (\<lambda>hit. if hit
        then res_bind (res_bind (f r old) store) (\<lambda>r'. Inr (put_row k r' t, [r'])) else Inr (t, []))"
    by (rule sql_update_key [OF assms(1) Some]) (use assms(3) in \<open>auto simp: key_upsert_def sql_is_alone [symmetric] dest: row_of_SomeD\<close>)
  ultimately show ?thesis using Some assms(2)
    by (cases "res_bind (f r old) store") (simp_all add: sql_upsert_def)
qed

text \<open>An upsert keeps the key unique.\<close>

lemma sql_upsert_distinct:
  assumes "sql_upsert clash store f r t = Inr t'" and "distinct (map k t)" and "store r = Inr r"
    and "key_upsert k clash store f"
  shows "distinct (map k t')"
  using assms(1,2) unfolding sql_upsert_key [OF assms(2-4)]
  by (auto simp: res_iffs row_of_None_iff image_iff split: option.splits)

end
