(* ===== verification/Types.thy ===== *)
theory Types
  imports Sql
begin

text \<open>
  The structs of \<^verbatim>\<open>atoma-state/src/types.rs\<close> and the errors of
  \<^verbatim>\<open>atoma-state/src/errors.rs\<close>. An \<^verbatim>\<open>i64\<close>, \<^verbatim>\<open>i32\<close> or \<^verbatim>\<open>i16\<close> field is an
  \<open>int\<close>, a \<^verbatim>\<open>String\<close> a \<open>string\<close>, a \<^verbatim>\<open>Vec<u8>\<close> a list of bytes. A table row extends
  the struct that is read from it, so that \<^verbatim>\<open>Stack::from_row\<close> is \<open>stack.truncate\<close>.
  The events of the chain come from the crate \<open>atoma_sui\<close>; their records have the fields
  that the handlers read.
\<close>

type_synonym bytes = "8 word list"

text \<open>
  \<^verbatim>\<open>DateTime<Utc>\<close>: the hour since the epoch and the minute, second and nanosecond
  within it, which are the parts the code sets.
\<close>

record datetime =
  dt_hour :: int
  dt_minute :: int
  dt_second :: int
  dt_nanosecond :: int

definition with_second :: "int \<Rightarrow> datetime \<Rightarrow> datetime option" where
  "with_second s t = (if 0 \<le> s \<and> s < 60 then Some (t\<lparr>dt_second := s\<rparr>) else None)"

definition with_minute :: "int \<Rightarrow> datetime \<Rightarrow> datetime option" where
  "with_minute m t = (if 0 \<le> m \<and> m < 60 then Some (t\<lparr>dt_minute := m\<rparr>) else None)"

definition with_nanosecond :: "int \<Rightarrow> datetime \<Rightarrow> datetime option" where
  "with_nanosecond n t = (if 0 \<le> n \<and> n < 2000000000 then Some (t\<lparr>dt_nanosecond := n\<rparr>) else None)"

datatype state_error =
    DatabaseConnectionError db_error
  | DatabaseUrlError
  | StackNotFound
  | AttestationNodeNotFound int
  | InvalidMerkleLeafLength
  | InvalidCommittedStackProofLength
  | JsonParseError
  | FailedToRetrieveExistingTotalHash int
  | ChannelSendError
  | InvalidTimestamp
  | FailedToRunMigrations
  | NodeNotFound
  | NodeSmallIdOwnershipVerificationFailed
  | FailedToVerifyQuote string
  | FailedToParseQuote string
  | UnixTimeWentBackwards string
  | FailedToRetrieveCollateral string
  | FailedToRetrieveFmspc string
  | InsufficientBalance
  | InvalidCountry string
  | InvalidUrl string
  | RemoteAttestationVerificationError
  | CompressionError
  | RemoteAttestationError
  | UserNotFound int
  | Panicked  \<comment> \<open>not a value of the enum: the task panics\<close>

text \<open>\<^verbatim>\<open>?\<close> on a \<^verbatim>\<open>sqlx\<close> result converts its error.\<close>

definition db_try :: "db_error + 'a \<Rightarrow> state_error + 'a" where
  "db_try m = map_err DatabaseConnectionError m"

lemma db_try_Inr [simp]: "db_try m = Inr a \<longleftrightarrow> m = Inr a"
  by (simp add: db_try_def)

lemma db_try_simps [simp]:
  "db_try (Inr a) = Inr a" "db_try (Inl e) = Inl (DatabaseConnectionError e)"
  by (simp_all add: db_try_def)

subsection \<open>Tasks, nodes and subscriptions\<close>

record task =
  task_small_id :: int
  task_id :: string
  role :: int
  model_name :: "string option"
  is_deprecated :: bool
  valid_until_epoch :: "int option"
  deprecated_at_epoch :: "int option"
  security_level :: int
  minimum_reputation_score :: "int option"

record node_subscription =
  ns_node_small_id :: int
  ns_task_small_id :: int
  ns_price_per_one_million_compute_units :: int
  ns_max_num_compute_units :: int
  ns_valid :: bool

record cheapest_node =
  cn_task_small_id :: int
  cn_price_per_one_million_compute_units :: int
  cn_max_num_compute_units :: int
  cn_node_small_id :: int

record pricing =
  price_per_one_million_input_compute_units :: int
  price_per_one_million_output_compute_units :: int

subsection \<open>Stacks\<close>

record stack =
  owner :: string
  stack_small_id :: int
  stack_id :: string
  stk_task_small_id :: int
  selected_node_id :: int
  num_compute_units :: int
  price_per_one_million_compute_units :: int
  already_computed_units :: int
  locked_compute_units :: int
  in_settle_period :: bool
  num_total_messages :: int

text \<open>
  A row of the table \<^verbatim>\<open>stacks\<close> has the columns the later migrations add. The column
  \<^verbatim>\<open>locked_compute_units\<close> may be null by its declaration; every \<^verbatim>\<open>INSERT\<close> binds a value
  and every \<^verbatim>\<open>UPDATE\<close> keeps one, so it is an \<open>int\<close> here.
\<close>

record stack_row = stack +
  user_id :: int
  acquired_timestamp :: datetime
  is_claimed :: bool
  is_locked :: bool
  user_refund_amount :: "int option"

record stack_created_event =
  sce_owner :: string
  sce_stack_id :: string
  sce_stack_small_id :: u64
  sce_task_small_id :: u64
  sce_selected_node_id :: u64
  sce_num_compute_units :: u64
  sce_price_per_one_million_compute_units :: u64

definition stack_of_event :: "stack_created_event \<Rightarrow> stack" where
  "stack_of_event event = \<lparr>
     owner = sce_owner event,
     stack_small_id = as_i64 (sce_stack_small_id event),
     stack_id = sce_stack_id event,
     stk_task_small_id = as_i64 (sce_task_small_id event),
     selected_node_id = as_i64 (sce_selected_node_id event),
     num_compute_units = as_i64 (sce_num_compute_units event),
     price_per_one_million_compute_units = as_i64 (sce_price_per_one_million_compute_units event),
     already_computed_units = 0,
     locked_compute_units = 0,
     in_settle_period = False,
     num_total_messages = 0\<rparr>"

subsection \<open>Settlement tickets and disputes\<close>

record stack_settlement_ticket =
  tk_stack_small_id :: int
  tk_selected_node_id :: int
  tk_num_claimed_compute_units :: int
  tk_requested_attestation_nodes :: string
  tk_committed_stack_proofs :: bytes
  tk_stack_merkle_leaves :: bytes
  tk_dispute_settled_at_epoch :: "int option"
  tk_already_attested_nodes :: string
  tk_is_in_dispute :: bool
  tk_user_refund_amount :: int
  tk_is_claimed :: bool

record stack_attestation_dispute =
  ad_stack_small_id :: int
  ad_attestation_commitment :: bytes
  ad_attestation_node_id :: int
  ad_original_node_id :: int
  ad_original_commitment :: bytes

record node_public_key =
  pk_node_small_id :: int
  pk_public_key :: bytes
  pk_stack_small_id :: "int option"

end
