(* ===== verification/Ledger.thy ===== *)
theory Ledger
  imports Prelude
begin

text \<open>
  The proxy pays for a request in the same two steps whichever currency it uses. Before
  the request goes to a node, an estimate is reserved against a capacity; after the node
  has answered (or failed), the estimate is given back and the real amount is recorded as
  used. Stacks do so with compute units (\<^verbatim>\<open>num_compute_units\<close>, \<^verbatim>\<open>already_computed_units\<close>,
  \<^verbatim>\<open>locked_compute_units\<close>) and fiat balances with money (\<^verbatim>\<open>usd_balance\<close>, the two
  \<^verbatim>\<open>already_debited\<close> columns, the two \<^verbatim>\<open>overcharged_unsettled\<close> columns). The locale
  states what the two tables promise; what follows for any interleaving of requests is
  proved once, here, and interpreted in \<open>Stacks\<close> and \<open>Balances\<close>.
\<close>

text \<open>
  A run of requests: the pair of the table and the reservations that are still open. A
  request opens a reservation if the table grants it, and closes it with an amount between
  nothing (the request failed) and the estimate.
\<close>

inductive lifecycle ::
  "('k \<Rightarrow> 'n \<Rightarrow> 't \<Rightarrow> 't option) \<Rightarrow> ('k \<Rightarrow> 'n \<Rightarrow> 'n \<Rightarrow> 't \<Rightarrow> 't option) \<Rightarrow> ('n \<Rightarrow> int) \<Rightarrow> 't
    \<Rightarrow> ('k \<times> 'n) list \<Rightarrow> 't \<Rightarrow> bool"
  for reserve settle wt t0 where
  start: "lifecycle reserve settle wt t0 [] t0"
| opened: "lifecycle reserve settle wt t0 os t \<Longrightarrow> reserve k n t = Some t' \<Longrightarrow>
     lifecycle reserve settle wt t0 ((k, n) # os) t'"
| closed: "lifecycle reserve settle wt t0 os t \<Longrightarrow> (k, e) \<in> set os \<Longrightarrow>
     0 \<le> wt a \<Longrightarrow> wt a \<le> wt e \<Longrightarrow> settle k e a t = Some t' \<Longrightarrow>
     lifecycle reserve settle wt t0 (remove1 (k, e) os) t'"

inductive_cases lifecycle_consE: "lifecycle reserve settle wt t0 (x # os) t"

text \<open>The weight of the open reservations of one key.\<close>

fun open_weight :: "('n \<Rightarrow> int) \<Rightarrow> 'k \<Rightarrow> ('k \<times> 'n) list \<Rightarrow> int" where
  "open_weight wt k [] = 0"
| "open_weight wt k ((j, n) # os) = (if j = k then wt n else 0) + open_weight wt k os"

lemma open_weight_remove1:
  "(j, e) \<in> set os \<Longrightarrow>
   open_weight wt k (remove1 (j, e) os) = open_weight wt k os - (if j = k then wt e else 0)"
  by (induction os) auto

locale reservation_ledger =
  fixes inv :: "'t \<Rightarrow> bool"
    and cap :: "'t \<Rightarrow> 'k \<Rightarrow> int"
    and used :: "'t \<Rightarrow> 'k \<Rightarrow> int"
    and held :: "'t \<Rightarrow> 'k \<Rightarrow> int"
    and wt :: "'n \<Rightarrow> int"
    and reserve :: "'k \<Rightarrow> 'n \<Rightarrow> 't \<Rightarrow> 't option"
    and settle :: "'k \<Rightarrow> 'n \<Rightarrow> 'n \<Rightarrow> 't \<Rightarrow> 't option"
  assumes reserve_inv: "inv t \<Longrightarrow> reserve k n t = Some t' \<Longrightarrow> inv t'"
    and settle_inv: "inv t \<Longrightarrow> settle k e a t = Some t' \<Longrightarrow> inv t'"
    and reserve_within: "inv t \<Longrightarrow> reserve k n t = Some t' \<Longrightarrow> used t k + held t k + wt n \<le> cap t k"
    and reserve_cap: "inv t \<Longrightarrow> reserve k n t = Some t' \<Longrightarrow> cap t' j = cap t j"
    and reserve_used: "inv t \<Longrightarrow> reserve k n t = Some t' \<Longrightarrow> used t' j = used t j"
    and reserve_held: "inv t \<Longrightarrow> reserve k n t = Some t' \<Longrightarrow>
          held t' j = held t j + (if j = k then wt n else 0)"
    and settle_cap: "inv t \<Longrightarrow> settle k e a t = Some t' \<Longrightarrow> cap t' j = cap t j"
    and settle_used: "inv t \<Longrightarrow> settle k e a t = Some t' \<Longrightarrow>
          used t' j = used t j + (if j = k then wt a else 0)"
    and settle_held: "inv t \<Longrightarrow> settle k e a t = Some t' \<Longrightarrow>
          held t' j = held t j - (if j = k then wt e else 0)"
begin

lemmas reserve_laws = reserve_cap reserve_used reserve_held
lemmas settle_laws = settle_cap settle_used settle_held

lemma lifecycle_inv: "lifecycle reserve settle wt t0 os t \<Longrightarrow> inv t0 \<Longrightarrow> inv t"
  by (induction rule: lifecycle.induct) (auto intro: reserve_inv settle_inv)

lemma lifecycle_cap: "lifecycle reserve settle wt t0 os t \<Longrightarrow> inv t0 \<Longrightarrow> cap t k = cap t0 k"
  by (induction rule: lifecycle.induct) (auto simp: reserve_cap settle_cap dest: lifecycle_inv)

text \<open>What is held is what the open reservations ask for.\<close>

lemma lifecycle_held:
  "lifecycle reserve settle wt t0 os t \<Longrightarrow> inv t0 \<Longrightarrow> held t k = held t0 k + open_weight wt k os"
proof (induction rule: lifecycle.induct)
  case (opened os t j n t')
  then show ?case using reserve_held [OF lifecycle_inv] by auto
next
  case (closed os t j e a t')
  then show ?case using settle_held [OF lifecycle_inv] by (auto simp: open_weight_remove1)
qed simp

text \<open>No interleaving of requests commits more than the capacity.\<close>

lemma lifecycle_within:
  "lifecycle reserve settle wt t0 os t \<Longrightarrow> inv t0 \<Longrightarrow> used t0 k + held t0 k \<le> cap t0 k \<Longrightarrow>
   used t k + held t k \<le> cap t k"
proof (induction rule: lifecycle.induct)
  case (opened os t j n t')
  then have "inv t" by (auto dest: lifecycle_inv)
  with opened show ?case using reserve_within [of t j n t'] by (auto simp: reserve_laws)
next
  case (closed os t j e a t')
  then have "inv t" by (auto dest: lifecycle_inv)
  with closed show ?case by (auto simp: settle_laws)
qed simp

lemma lifecycle_used_mono:
  "lifecycle reserve settle wt t0 os t \<Longrightarrow> inv t0 \<Longrightarrow> used t0 k \<le> used t k"
proof (induction rule: lifecycle.induct)
  case (opened os t j n t')
  then show ?case using reserve_used [OF lifecycle_inv] by auto
next
  case (closed os t j e a t')
  then show ?case using settle_used [OF lifecycle_inv] by auto
qed simp

text \<open>Once every request is settled, nothing stays held.\<close>

lemma lifecycle_drained:
  "lifecycle reserve settle wt t0 [] t \<Longrightarrow> inv t0 \<Longrightarrow> held t k = held t0 k"
  by (auto dest: lifecycle_held)

text \<open>A reservation that is settled with nothing leaves no trace.\<close>

lemma reserve_rollback:
  assumes "inv t" and "reserve k n t = Some t1" and "settle k n a t1 = Some t2" and "wt a = 0"
  shows "cap t2 j = cap t j \<and> used t2 j = used t j \<and> held t2 j = held t j"
proof -
  have "inv t1" using assms by (auto intro: reserve_inv)
  with assms show ?thesis by (auto simp: reserve_laws settle_laws)
qed

end

end
