(* ===== verification/Stacks.thy ===== *)
theory Stacks
  imports Types Ledger
begin

text \<open>
  The statements of \<^verbatim>\<open>AtomaState\<close> on the table \<^verbatim>\<open>stacks\<close>
  (\<^verbatim>\<open>atoma-state/src/state_manager.rs\<close>). A stack is a prepaid number of compute units on
  one node; a request locks units on it before it runs (\<open>lock_compute_units\<close>,
  \<open>get_stacks_for_task\<close>, \<open>get_stacks_for_model\<close>, \<open>get_available_stack_with_compute_units\<close>)
  and reports what it used afterwards (\<open>update_stack_num_tokens\<close>). The lemmas show that
  every statement keeps the table's invariant, what each one does on each branch, and that
  the table is a reservation ledger.
\<close>

type_synonym stacks = "stack_row list"

text \<open>
  The constraint \<^verbatim>\<open>check_compute_units_constraint\<close> of
  \<^verbatim>\<open>20250403075604_locked_compute_units-stacks.sql\<close>, evaluated on every stored row.
\<close>

definition stack_store :: "stack_row \<Rightarrow> db_error + stack_row" where
  "stack_store r =
     res_bind (bigint_add (already_computed_units r) (locked_compute_units r)) (\<lambda>s.
       if s \<le> num_compute_units r then Inr r else Inl CheckViolation)"

definition stack_clash :: "stack_row \<Rightarrow> stack_row \<Rightarrow> bool" where
  "stack_clash r q \<longleftrightarrow> stack_small_id q = stack_small_id r \<or> stack_id q = stack_id r"

text \<open>\<^verbatim>\<open>num_compute_units - already_computed_units - locked_compute_units >= $n\<close>\<close>

definition has_free_units :: "int \<Rightarrow> stack_row \<Rightarrow> db_error + bool" where
  "has_free_units n r =
     res_bind (bigint_sub (num_compute_units r) (already_computed_units r)) (\<lambda>a.
     res_bind (bigint_sub a (locked_compute_units r)) (\<lambda>free. sql_is (n \<le> free)))"

text \<open>\<^verbatim>\<open>SET locked_compute_units = locked_compute_units + $n\<close>\<close>

definition lock_units :: "int \<Rightarrow> stack_row \<Rightarrow> db_error + stack_row" where
  "lock_units n r =
     res_bind (bigint_add (locked_compute_units r) n) (\<lambda>l. Inr (r\<lparr>locked_compute_units := l\<rparr>))"

text \<open>
  The tail that the selecting statements share:
  \<^verbatim>\<open>UPDATE stacks SET locked_compute_units = locked_compute_units + $2
  WHERE stack_small_id IN (SELECT stack_small_id FROM selected_stack) RETURNING *\<close>.
\<close>

definition lock_selected :: "int \<Rightarrow> int option \<Rightarrow> stacks \<Rightarrow> state_error + (stacks \<times> stack option)" where
  "lock_selected n selected t =
     db_try (res_bind (sql_update (\<lambda>r. sql_is (selected = Some (stack_small_id r))) (lock_units n) stack_store t)
       (\<lambda>(t', u). Inr (t', map_option stack.truncate (fetch_optional u))))"

subsection \<open>Selecting a stack and locking units on it\<close>

definition task_stack_available :: "int \<Rightarrow> int \<Rightarrow> int \<Rightarrow> stack_row \<Rightarrow> db_error + bool" where
  "task_stack_available tid free_units uid r =
     sql_and (sql_is (stk_task_small_id r = tid))
    (sql_and (has_free_units free_units r)
    (sql_and (sql_is (user_id r = uid))
    (sql_and (sql_is (\<not> is_claimed r))
    (sql_and (sql_is (\<not> is_locked r))
             (sql_is (\<not> in_settle_period r))))))"

definition get_stacks_for_task ::
  "stacks \<Rightarrow> int \<Rightarrow> int \<Rightarrow> int \<Rightarrow> state_error + (stacks \<times> stack option)" where
  "get_stacks_for_task t tid free_units uid =
     res_bind (db_try (sql_first (task_stack_available tid free_units uid) t)) (\<lambda>selected.
       lock_selected free_units (map_option stack_small_id selected) t)"

text \<open>
  \<^verbatim>\<open>stacks INNER JOIN tasks .. LEFT JOIN stack_settlement_tickets ..\<close>; a stack without
  a ticket joins with \<open>None\<close>.
\<close>

definition left_join_tickets :: "stack_settlement_ticket list \<Rightarrow> stack_row \<Rightarrow> stack_settlement_ticket option list" where
  "left_join_tickets tickets s =
     (case filter (\<lambda>k. tk_stack_small_id k = stack_small_id s) tickets of
        [] \<Rightarrow> [None] | ks \<Rightarrow> map Some ks)"

definition model_join ::
  "stacks \<Rightarrow> task list \<Rightarrow> stack_settlement_ticket list
    \<Rightarrow> (stack_row \<times> task \<times> stack_settlement_ticket option) list" where
  "model_join t tasks tickets =
     concat (map (\<lambda>s. concat (map (\<lambda>k. map (\<lambda>tk. (s, k, tk)) (left_join_tickets tickets s))
       (filter (\<lambda>k. task_small_id k = stk_task_small_id s) tasks))) t)"

definition model_stack_available ::
  "string \<Rightarrow> int \<Rightarrow> int \<Rightarrow> stack_row \<times> task \<times> stack_settlement_ticket option \<Rightarrow> db_error + bool" where
  "model_stack_available model free_units uid = (\<lambda>(s, k, tk).
     sql_and (sql_is (model_name k = Some model))
    (sql_and (has_free_units free_units s)
    (sql_and (sql_is (user_id s = uid))
    (sql_and (sql_is (\<not> is_claimed s))
    (sql_and (sql_is (\<not> is_locked s))
    (sql_and (sql_is (\<not> in_settle_period s))
             (sql_is (case tk of None \<Rightarrow> True | Some x \<Rightarrow> \<not> tk_is_claimed x))))))))"

text \<open>
  With \<open>is_confidential\<close> the query joins on \<^verbatim>\<open>stacks.node_small_id\<close>. No migration gives
  the table such a column (it is \<^verbatim>\<open>selected_node_id\<close>), so the statement does not analyse.
\<close>

definition get_stacks_for_model ::
  "stacks \<Rightarrow> task list \<Rightarrow> stack_settlement_ticket list \<Rightarrow> string \<Rightarrow> int \<Rightarrow> int \<Rightarrow> bool
    \<Rightarrow> state_error + (stacks \<times> stack option)" where
  "get_stacks_for_model t tasks tickets model free_units uid is_confidential =
     (if is_confidential then Inl (DatabaseConnectionError UndefinedColumn)
      else res_bind (db_try (sql_first (model_stack_available model free_units uid) (model_join t tasks tickets)))
        (\<lambda>selected. lock_selected free_units (map_option (\<lambda>(s, _). stack_small_id s) selected) t))"

definition get_available_stack_with_compute_units ::
  "stacks \<Rightarrow> int \<Rightarrow> string \<Rightarrow> int \<Rightarrow> state_error + (stacks \<times> stack option)" where
  "get_available_stack_with_compute_units t sid public_key num_units =
     db_try (res_bind (sql_update (\<lambda>r.
         sql_and (sql_is (stack_small_id r = sid))
        (sql_and (sql_is (owner r = public_key))
        (sql_and (has_free_units num_units r)
                 (sql_is (\<not> in_settle_period r))))) (lock_units num_units) stack_store t)
       (\<lambda>(t', u). Inr (t', map_option stack.truncate (fetch_optional u))))"

text \<open>\<^verbatim>\<open>already_computed_units + locked_compute_units + $1 <= num_compute_units\<close>\<close>

definition fits_units :: "int \<Rightarrow> stack_row \<Rightarrow> db_error + bool" where
  "fits_units n r =
     res_bind (bigint_add (already_computed_units r) (locked_compute_units r)) (\<lambda>a.
     res_bind (bigint_add a n) (\<lambda>s. sql_is (s \<le> num_compute_units r)))"

definition lock_compute_units :: "stacks \<Rightarrow> int \<Rightarrow> int \<Rightarrow> state_error + stacks" where
  "lock_compute_units t sid available_units =
     res_bind (db_try (sql_update (\<lambda>r.
         sql_and (sql_is (stack_small_id r = sid)) (fits_units available_units r))
       (lock_units available_units) stack_store t))
       (\<lambda>(t', u). if length u = 0 then Inl StackNotFound else Inr t')"

subsection \<open>Recording what a request used\<close>

definition record_tokens :: "int \<Rightarrow> int \<Rightarrow> stack_row \<Rightarrow> db_error + stack_row" where
  "record_tokens estimated tokens r =
     res_bind (bigint_add (already_computed_units r) tokens) (\<lambda>a.
     res_bind (bigint_sub (locked_compute_units r) estimated) (\<lambda>l.
     res_bind (bigint_add (num_total_messages r) (of_bool (tokens > 0))) (\<lambda>m.
       Inr (r\<lparr>already_computed_units := a, locked_compute_units := l, num_total_messages := m\<rparr>))))"

definition update_stack_num_tokens :: "stacks \<Rightarrow> int \<Rightarrow> int \<Rightarrow> int \<Rightarrow> state_error + stacks" where
  "update_stack_num_tokens t sid estimated_total_tokens total_tokens =
     res_bind (db_try (sql_update (\<lambda>r. sql_is (stack_small_id r = sid))
       (record_tokens estimated_total_tokens total_tokens) stack_store t))
       (\<lambda>(t', u). if length u = 0 then Inl StackNotFound else Inr t')"

subsection \<open>Creating, closing and reading stacks\<close>

definition insert_new_stack :: "stacks \<Rightarrow> stack \<Rightarrow> int \<Rightarrow> datetime \<Rightarrow> state_error + stacks" where
  "insert_new_stack t s uid timestamp =
     db_try (sql_insert stack_clash stack_store
       (stack.extend s \<lparr>user_id = uid, acquired_timestamp = timestamp, is_claimed = False,
          is_locked = False, user_refund_amount = None\<rparr>) t)"

definition lock_stack :: "stacks \<Rightarrow> int \<Rightarrow> state_error + stacks" where
  "lock_stack t sid =
     db_try (res_bind (sql_update (\<lambda>r. sql_is (stack_small_id r = sid))
       (\<lambda>r. Inr (r\<lparr>is_locked := True\<rparr>)) stack_store t) (\<lambda>(t', u). Inr t'))"

definition update_stack_claimed :: "stacks \<Rightarrow> int \<Rightarrow> int \<Rightarrow> state_error + stacks" where
  "update_stack_claimed t sid refund =
     db_try (res_bind (sql_update (\<lambda>r. sql_is (stack_small_id r = sid))
       (\<lambda>r. res_bind (to_int4 refund) (\<lambda>a.
          Inr (r\<lparr>is_claimed := True, is_locked := True, user_refund_amount := Some a\<rparr>))) stack_store t)
       (\<lambda>(t', u). Inr t'))"

definition get_stack :: "stacks \<Rightarrow> int \<Rightarrow> state_error + stack" where
  "get_stack t sid =
     db_try (res_bind (fetch_one (filter (\<lambda>r. stack_small_id r = sid) t)) (\<lambda>r. Inr (stack.truncate r)))"

definition get_stacks :: "stacks \<Rightarrow> int list \<Rightarrow> stack list" where
  "get_stacks t ids = map stack.truncate (build_query_with_in stack_small_id ids None t)"

definition get_stacks_by_node_small_ids :: "stacks \<Rightarrow> int list \<Rightarrow> stack list" where
  "get_stacks_by_node_small_ids t nodes = map stack.truncate (build_query_with_in selected_node_id nodes None t)"

definition get_stack_by_id :: "stacks \<Rightarrow> int \<Rightarrow> stack list" where
  "get_stack_by_id t node = map stack.truncate (filter (\<lambda>r. selected_node_id r = node) t)"

definition get_stacks_by_user_id :: "stacks \<Rightarrow> int \<Rightarrow> (stack \<times> datetime) list" where
  "get_stacks_by_user_id t uid =
     map (\<lambda>r. (stack.truncate r, acquired_timestamp r)) (filter (\<lambda>r. user_id r = uid) t)"

definition get_current_stacks :: "stacks \<Rightarrow> stack list" where
  "get_current_stacks t = map stack.truncate (filter (\<lambda>r. \<not> in_settle_period r) t)"

subsection \<open>The invariant of the table\<close>

text \<open>
  The primary key, the unique \<^verbatim>\<open>stack_id\<close>, the \<^verbatim>\<open>CHECK\<close> constraint and the column
  ranges. What \<^verbatim>\<open>already_computed_units + locked_compute_units\<close> adds up to is in range
  because the constraint computes it.
\<close>

definition stack_row_ok :: "stack_row \<Rightarrow> bool" where
  "stack_row_ok r \<longleftrightarrow>
     already_computed_units r + locked_compute_units r \<le> num_compute_units r \<and>
     in_i64 (num_compute_units r) \<and> in_i64 (already_computed_units r) \<and>
     in_i64 (locked_compute_units r) \<and> in_i64 (already_computed_units r + locked_compute_units r)"

definition stacks_inv :: "stacks \<Rightarrow> bool" where
  "stacks_inv t \<longleftrightarrow>
     distinct (map stack_small_id t) \<and> distinct (map stack_id t) \<and> (\<forall>r \<in> set t. stack_row_ok r)"

text \<open>No unit count of a row is negative, as the events report them.\<close>

definition units_nonneg :: "stacks \<Rightarrow> bool" where
  "units_nonneg t \<longleftrightarrow>
     (\<forall>r \<in> set t. 0 \<le> already_computed_units r \<and> 0 \<le> locked_compute_units r)"

lemma stack_store_Inr_iff [sql_simps]:
  "stack_store r = Inr r' \<longleftrightarrow> r' = r \<and> in_i64 (already_computed_units r + locked_compute_units r) \<and>
     already_computed_units r + locked_compute_units r \<le> num_compute_units r"
  by (auto simp: stack_store_def res_iffs sql_simps)

lemma lock_units_Inr_iff [sql_simps]:
  "lock_units n r = Inr r' \<longleftrightarrow> in_i64 (locked_compute_units r + n) \<and>
     r' = r\<lparr>locked_compute_units := locked_compute_units r + n\<rparr>"
  by (auto simp: lock_units_def res_iffs sql_simps)

lemma record_tokens_Inr_iff [sql_simps]:
  "record_tokens e n r = Inr r' \<longleftrightarrow>
     in_i64 (already_computed_units r + n) \<and> in_i64 (locked_compute_units r - e) \<and>
     in_i64 (num_total_messages r + of_bool (n > 0)) \<and>
     r' = r\<lparr>already_computed_units := already_computed_units r + n,
             locked_compute_units := locked_compute_units r - e,
             num_total_messages := num_total_messages r + of_bool (n > 0)\<rparr>"
  by (auto simp: record_tokens_def res_iffs sql_simps)

lemma has_free_units_True_iff [sql_simps]:
  "has_free_units n r = Inr True \<longleftrightarrow>
     in_i64 (num_compute_units r - already_computed_units r) \<and>
     in_i64 (num_compute_units r - already_computed_units r - locked_compute_units r) \<and>
     n \<le> num_compute_units r - already_computed_units r - locked_compute_units r"
  by (auto simp: has_free_units_def res_iffs sql_simps)

lemma fits_units_True_iff [sql_simps]:
  "fits_units n r = Inr True \<longleftrightarrow>
     in_i64 (already_computed_units r + locked_compute_units r) \<and>
     in_i64 (already_computed_units r + locked_compute_units r + n) \<and>
     already_computed_units r + locked_compute_units r + n \<le> num_compute_units r"
  by (auto simp: fits_units_def res_iffs sql_simps)

lemma stacks_invD:
  "stacks_inv t \<Longrightarrow> distinct (map stack_small_id t)"
  "stacks_inv t \<Longrightarrow> r \<in> set t \<Longrightarrow> stack_row_ok r"
  by (auto simp: stacks_inv_def)

text \<open>Every update through the constraint keeps the invariant if it keeps the keys.\<close>

lemma stacks_update_inv:
  assumes "sql_update w f stack_store t = Inr (t', u)" and "stacks_inv t"
    and f: "\<And>r s. f r = Inr s \<Longrightarrow> stack_small_id s = stack_small_id r \<and> stack_id s = stack_id r \<and>
      (stack_row_ok r \<longrightarrow> in_i64 (num_compute_units s) \<and> in_i64 (already_computed_units s) \<and>
         in_i64 (locked_compute_units s))"
  shows "stacks_inv t'"
proof -
  have "map stack_small_id t' = map stack_small_id t" "map stack_id t' = map stack_id t"
    using f by (auto intro!: sql_update_keys [OF assms(1)] simp: sql_simps)
  moreover have "stack_row_ok r'" if "r' \<in> set t'" for r'
    by (rule sql_update_inv [OF assms(1) _ _ that])
      (use assms(2) f in \<open>auto simp: stacks_inv_def sql_simps stack_row_ok_def\<close>)
  ultimately show ?thesis using assms(2) by (simp add: stacks_inv_def)
qed

lemma lock_selected_inv: "lock_selected n i t = Inr (t', x) \<Longrightarrow> stacks_inv t \<Longrightarrow> stacks_inv t'"
  by (auto simp: lock_selected_def res_iffs sql_simps stack_row_ok_def elim!: stacks_update_inv)

lemma get_stacks_for_task_inv:
  "get_stacks_for_task t i n u = Inr (t', x) \<Longrightarrow> stacks_inv t \<Longrightarrow> stacks_inv t'"
  by (auto simp: get_stacks_for_task_def res_iffs intro: lock_selected_inv)

lemma get_stacks_for_model_inv:
  "get_stacks_for_model t ts ks m n u c = Inr (t', x) \<Longrightarrow> stacks_inv t \<Longrightarrow> stacks_inv t'"
  by (auto simp: get_stacks_for_model_def res_iffs intro: lock_selected_inv split: if_splits)

lemma get_available_stack_inv:
  "get_available_stack_with_compute_units t i k n = Inr (t', x) \<Longrightarrow> stacks_inv t \<Longrightarrow> stacks_inv t'"
  by (auto simp: get_available_stack_with_compute_units_def res_iffs sql_simps stack_row_ok_def
      elim!: stacks_update_inv)

lemma lock_compute_units_inv: "lock_compute_units t i n = Inr t' \<Longrightarrow> stacks_inv t \<Longrightarrow> stacks_inv t'"
  by (auto simp: lock_compute_units_def res_iffs sql_simps stack_row_ok_def
      elim!: stacks_update_inv split: if_splits)

lemma update_stack_num_tokens_inv:
  "update_stack_num_tokens t i e n = Inr t' \<Longrightarrow> stacks_inv t \<Longrightarrow> stacks_inv t'"
  by (auto simp: update_stack_num_tokens_def res_iffs sql_simps stack_row_ok_def
      elim!: stacks_update_inv split: if_splits)

lemma lock_stack_inv: "lock_stack t i = Inr t' \<Longrightarrow> stacks_inv t \<Longrightarrow> stacks_inv t'"
  by (auto simp: lock_stack_def res_iffs stack_row_ok_def elim!: stacks_update_inv)

lemma update_stack_claimed_inv: "update_stack_claimed t i n = Inr t' \<Longrightarrow> stacks_inv t \<Longrightarrow> stacks_inv t'"
  by (auto simp: update_stack_claimed_def res_iffs stack_row_ok_def elim!: stacks_update_inv)

text \<open>A stack whose fields are in range (every \<^verbatim>\<open>i64\<close> is) keeps the invariant.\<close>

definition stack_in_range :: "stack \<Rightarrow> bool" where
  "stack_in_range s \<longleftrightarrow> in_i64 (num_compute_units s) \<and> in_i64 (already_computed_units s) \<and>
     in_i64 (locked_compute_units s)"

lemma insert_new_stack_inv:
  assumes "insert_new_stack t s uid ts = Inr t'" and "stacks_inv t" and "stack_in_range s"
  shows "stacks_inv t'"
proof -
  define r where "r = stack.extend s \<lparr>user_id = uid, acquired_timestamp = ts, is_claimed = False,
    is_locked = False, user_refund_amount = None\<rparr>"
  from assms(1) have "stack_store r = Inr r" and t': "t' = t @ [r]" and "\<not> list_ex (stack_clash r) t"
    by (auto simp: insert_new_stack_def sql_insert_def r_def [symmetric] res_iffs sql_simps split: if_splits)
  moreover from this assms(3) have "stack_row_ok r"
    by (simp add: stack_row_ok_def stack_in_range_def sql_simps) (simp add: r_def stack.defs)
  ultimately show ?thesis using assms(2)
    by (auto simp: stacks_inv_def list_ex_iff stack_clash_def)
qed

subsection \<open>What the statements do to one row\<close>

lemma lock_selected_None [simp]: "lock_selected n None t = Inr (t, None)"
  by (simp add: lock_selected_def sql_update_no_hit sql_is_def)

lemma sql_update_stack:
  assumes "stacks_inv t" and "row_of stack_small_id t i = Some r"
    and "keeps_key stack_small_id f"
    and "\<And>q. w q = sql_and (sql_is (stack_small_id q = i)) (c q)"
  shows "sql_update w f stack_store t =
    res_bind (c r) (\<lambda>hit. if hit
      then res_bind (res_bind (f r) stack_store) (\<lambda>r'. Inr (put_row stack_small_id r' t, [r']))
      else Inr (t, []))"
  by (rule sql_update_key [OF stacks_invD(1) [OF assms(1)] assms(2)])
    (use assms(3,4) in \<open>simp_all add: keeps_key_def sql_simps\<close>)

lemma lock_units_key: "keeps_key stack_small_id (lock_units n)"
  by (auto simp: keeps_key_def sql_simps)

lemma record_tokens_key: "keeps_key stack_small_id (record_tokens e n)"
  by (auto simp: keeps_key_def sql_simps)

lemma lock_selected_Some:
  assumes "stacks_inv t" and "row_of stack_small_id t i = Some r"
  shows "lock_selected n (Some i) t =
    db_try (res_bind (res_bind (lock_units n r) stack_store)
      (\<lambda>r'. Inr (put_row stack_small_id r' t, Some (stack.truncate r'))))"
proof -
  have "sql_update (\<lambda>q. sql_is (Some i = Some (stack_small_id q))) (lock_units n) stack_store t =
      res_bind (Inr True) (\<lambda>hit. if hit
        then res_bind (res_bind (lock_units n r) stack_store) (\<lambda>r'. Inr (put_row stack_small_id r' t, [r']))
        else Inr (t, []))"
    by (rule sql_update_stack [OF assms lock_units_key]) (auto simp: sql_is_def sql_and_def)
  then show ?thesis
    by (cases "res_bind (lock_units n r) stack_store") (simp_all add: lock_selected_def)
qed

lemma lock_compute_units_row:
  assumes "stacks_inv t" and "row_of stack_small_id t i = Some r"
  shows "lock_compute_units t i n =
    res_bind (db_try (fits_units n r)) (\<lambda>hit. if hit
      then db_try (res_bind (res_bind (lock_units n r) stack_store) (\<lambda>r'. Inr (put_row stack_small_id r' t)))
      else Inl StackNotFound)"
  unfolding lock_compute_units_def sql_update_stack [OF assms lock_units_key refl]
  by (cases "fits_units n r"; cases "res_bind (lock_units n r) stack_store") auto

lemma lock_compute_units_Inr_iff:
  assumes "stacks_inv t"
  shows "lock_compute_units t i n = Inr t' \<longleftrightarrow>
    (\<exists>r. row_of stack_small_id t i = Some r \<and> in_i64 (locked_compute_units r + n) \<and>
       in_i64 (already_computed_units r + locked_compute_units r + n) \<and>
       already_computed_units r + locked_compute_units r + n \<le> num_compute_units r \<and>
       t' = put_row stack_small_id (r\<lparr>locked_compute_units := locked_compute_units r + n\<rparr>) t)"
proof (cases "row_of stack_small_id t i")
  case None
  then show ?thesis
    unfolding lock_compute_units_def sql_update_key_None [OF None refl] by simp
next
  case (Some r)
  then have "stack_row_ok r" using assms by (auto dest: row_of_SomeD stacks_invD)
  then have "in_i64 (already_computed_units r + locked_compute_units r)" by (simp add: stack_row_ok_def)
  then show ?thesis
    unfolding lock_compute_units_row [OF assms Some] using Some
    by (auto simp: res_iffs sql_simps add.assoc split: if_splits)
qed

lemma update_stack_num_tokens_Inr_iff:
  assumes "stacks_inv t"
  shows "update_stack_num_tokens t i e n = Inr t' \<longleftrightarrow>
    (\<exists>r r'. row_of stack_small_id t i = Some r \<and> record_tokens e n r = Inr r' \<and>
       stack_store r' = Inr r' \<and> t' = put_row stack_small_id r' t)"
proof (cases "row_of stack_small_id t i")
  case None
  have "sql_update (\<lambda>r. sql_is (stack_small_id r = i)) (record_tokens e n) stack_store t = Inr (t, [])"
    by (rule sql_update_key_None [OF None, where c = "\<lambda>q. Inr True"]) (simp add: sql_is_alone [symmetric])
  with None show ?thesis by (simp add: update_stack_num_tokens_def)
next
  case (Some r)
  have "sql_update (\<lambda>r. sql_is (stack_small_id r = i)) (record_tokens e n) stack_store t =
      res_bind (Inr True) (\<lambda>hit. if hit
        then res_bind (res_bind (record_tokens e n r) stack_store)
          (\<lambda>r'. Inr (put_row stack_small_id r' t, [r']))
        else Inr (t, []))"
    by (rule sql_update_stack [OF assms Some record_tokens_key]) (simp add: sql_is_alone [symmetric])
  with Some show ?thesis
    by (auto simp: update_stack_num_tokens_def res_iffs sql_simps)
qed

subsection \<open>The table of stacks as a reservation ledger\<close>

definition stack_num :: "(stack_row \<Rightarrow> int) \<Rightarrow> stacks \<Rightarrow> int \<Rightarrow> int" where
  "stack_num g t i = (case row_of stack_small_id t i of None \<Rightarrow> 0 | Some r \<Rightarrow> g r)"

lemma stack_num_put:
  "row_of stack_small_id t i = Some r \<Longrightarrow> stack_small_id r' = stack_small_id r \<Longrightarrow>
   stack_num g (put_row stack_small_id r' t) j = (if j = i then g r' else stack_num g t j)"
  by (auto simp: stack_num_def dest!: row_of_SomeD split: option.splits)

lemma stack_num_Some: "row_of stack_small_id t i = Some r \<Longrightarrow> stack_num g t i = g r"
  by (simp add: stack_num_def)

definition reserve_units :: "int \<Rightarrow> int \<Rightarrow> stacks \<Rightarrow> stacks option" where
  "reserve_units i n t = (case lock_compute_units t i n of Inl e \<Rightarrow> None | Inr t' \<Rightarrow> Some t')"

definition settle_units :: "int \<Rightarrow> int \<Rightarrow> int \<Rightarrow> stacks \<Rightarrow> stacks option" where
  "settle_units i e n t = (case update_stack_num_tokens t i e n of Inl x \<Rightarrow> None | Inr t' \<Rightarrow> Some t')"

lemma reserve_units_iff: "reserve_units i n t = Some t' \<longleftrightarrow> lock_compute_units t i n = Inr t'"
  by (simp add: reserve_units_def split: sum.splits)

lemma settle_units_iff: "settle_units i e n t = Some t' \<longleftrightarrow> update_stack_num_tokens t i e n = Inr t'"
  by (simp add: settle_units_def split: sum.splits)

interpretation stack_ledger: reservation_ledger stacks_inv
  "stack_num num_compute_units" "stack_num already_computed_units" "stack_num locked_compute_units"
  "\<lambda>n. n" reserve_units settle_units
proof unfold_locales
  fix t :: stacks and i j n e :: int and t'
  assume inv: "stacks_inv t"
  show "stacks_inv t'" if "reserve_units i n t = Some t'"
    using that inv by (auto simp: reserve_units_iff intro: lock_compute_units_inv)
  show "stacks_inv t'" if "settle_units i e n t = Some t'"
    using that inv by (auto simp: settle_units_iff intro: update_stack_num_tokens_inv)
  show "stack_num already_computed_units t i + stack_num locked_compute_units t i + n
      \<le> stack_num num_compute_units t i" if "reserve_units i n t = Some t'"
    using that by (auto simp: reserve_units_iff lock_compute_units_Inr_iff [OF inv] stack_num_Some)
  show "stack_num num_compute_units t' j = stack_num num_compute_units t j"
      "stack_num already_computed_units t' j = stack_num already_computed_units t j"
      "stack_num locked_compute_units t' j = stack_num locked_compute_units t j + (if j = i then n else 0)"
    if "reserve_units i n t = Some t'"
    using that by (auto simp: reserve_units_iff lock_compute_units_Inr_iff [OF inv] stack_num_put stack_num_Some)
  show "stack_num num_compute_units t' j = stack_num num_compute_units t j"
      "stack_num already_computed_units t' j = stack_num already_computed_units t j + (if j = i then n else 0)"
      "stack_num locked_compute_units t' j = stack_num locked_compute_units t j - (if j = i then e else 0)"
    if "settle_units i e n t = Some t'"
    using that by (auto simp: settle_units_iff update_stack_num_tokens_Inr_iff [OF inv] stack_num_put
        stack_num_Some sql_simps)
qed

subsection \<open>Selection refines its specification\<close>

text \<open>
  The specification of a selection: on a table with unit counts that are not negative, the
  first eligible row of the scan gets the units, and if there is none nothing changes. The
  conditions never overflow there.
\<close>

definition free_units :: "stack_row \<Rightarrow> int" where
  "free_units r = num_compute_units r - already_computed_units r - locked_compute_units r"

definition stack_open :: "stack_row \<Rightarrow> bool" where
  "stack_open r \<longleftrightarrow> \<not> is_claimed r \<and> \<not> is_locked r \<and> \<not> in_settle_period r"

definition with_locked :: "int \<Rightarrow> stack_row \<Rightarrow> stack_row" where
  "with_locked n r = r\<lparr>locked_compute_units := locked_compute_units r + n\<rparr>"

definition grant :: "int \<Rightarrow> stacks \<Rightarrow> stack_row option \<Rightarrow> stacks \<times> stack option" where
  "grant n t x = (case x of None \<Rightarrow> (t, None)
     | Some r \<Rightarrow> (put_row stack_small_id (with_locked n r) t, Some (stack.truncate (with_locked n r))))"

lemma has_free_units_ok:
  assumes "stack_row_ok r" and "0 \<le> already_computed_units r" and "0 \<le> locked_compute_units r"
  shows "has_free_units n r = sql_is (n \<le> free_units r)"
proof -
  have "in_i64 (num_compute_units r - already_computed_units r)"
    "in_i64 (num_compute_units r - already_computed_units r - locked_compute_units r)"
    using assms by (auto simp: stack_row_ok_def i64_bounds)
  then show ?thesis by (simp add: has_free_units_def bigint_sub_def bigint_def free_units_def)
qed

lemma row_of_member:
  "stacks_inv t \<Longrightarrow> r \<in> set t \<Longrightarrow> row_of stack_small_id t (stack_small_id r) = Some r"
  unfolding row_of_def by (rule find_key [OF stacks_invD(1)])

lemma lock_selected_grant:
  assumes "stacks_inv t" and "units_nonneg t" and "r \<in> set t" and "0 \<le> n" and "n \<le> free_units r"
  shows "lock_selected n (Some (stack_small_id r)) t = Inr (grant n t (Some r))"
proof -
  have "stack_row_ok r" "0 \<le> already_computed_units r" "0 \<le> locked_compute_units r"
    using assms by (auto simp: stacks_inv_def units_nonneg_def)
  then have "lock_units n r = Inr (with_locked n r)" "stack_store (with_locked n r) = Inr (with_locked n r)"
    using assms(4,5) by (auto simp: sql_simps with_locked_def stack_row_ok_def free_units_def i64_bounds)
  then show ?thesis
    by (simp add: lock_selected_Some [OF assms(1) row_of_member [OF assms(1,3)]] grant_def)
qed

lemma task_stack_available_ok:
  assumes "stacks_inv t" and "units_nonneg t" and "r \<in> set t"
  shows "task_stack_available tid n uid r =
    Inr (stk_task_small_id r = tid \<and> n \<le> free_units r \<and> user_id r = uid \<and> stack_open r)"
proof -
  have "has_free_units n r = sql_is (n \<le> free_units r)"
    using assms by (intro has_free_units_ok) (auto simp: stacks_inv_def units_nonneg_def)
  then show ?thesis by (auto simp: task_stack_available_def sql_simps sql_and_is sql_is_def sql_and_def stack_open_def)
qed

lemma get_stacks_for_task_find:
  assumes "stacks_inv t" and "units_nonneg t" and "0 \<le> n"
  shows "get_stacks_for_task t tid n uid = Inr (grant n t (List.find (\<lambda>r.
    stk_task_small_id r = tid \<and> n \<le> free_units r \<and> user_id r = uid \<and> stack_open r) t))"
    (is "_ = Inr (grant n t (List.find ?P t))")
proof -
  have first: "sql_first (task_stack_available tid n uid) t = Inr (List.find ?P t)"
    by (rule sql_first_find) (rule task_stack_available_ok [OF assms(1,2)])
  show ?thesis
  proof (cases "List.find ?P t")
    case None
    then show ?thesis by (simp add: get_stacks_for_task_def first grant_def)
  next
    case (Some r)
    then have "r \<in> set t" "n \<le> free_units r" by (auto dest: find_key_SomeD)
    then show ?thesis using Some
      by (simp add: get_stacks_for_task_def first lock_selected_grant [OF assms(1,2) _ assms(3)])
  qed
qed

lemma model_join_stack: "(s, k, tk) \<in> set (model_join t tasks tickets) \<Longrightarrow> s \<in> set t"
  by (auto simp: model_join_def)

lemma model_stack_available_ok:
  assumes "stacks_inv t" and "units_nonneg t" and "s \<in> set t"
  shows "model_stack_available m n uid (s, k, tk) =
    Inr (model_name k = Some m \<and> n \<le> free_units s \<and> user_id s = uid \<and> stack_open s \<and>
      (\<forall>x. tk = Some x \<longrightarrow> \<not> tk_is_claimed x))"
proof -
  have "has_free_units n s = sql_is (n \<le> free_units s)"
    using assms by (intro has_free_units_ok) (auto simp: stacks_inv_def units_nonneg_def)
  then show ?thesis
    by (auto simp: model_stack_available_def sql_and_is sql_is_def sql_and_def stack_open_def
        split: option.splits)
qed

lemma get_stacks_for_model_find:
  assumes "stacks_inv t" and "units_nonneg t" and "0 \<le> n"
  shows "get_stacks_for_model t tasks tickets m n uid False =
    Inr (grant n t (map_option fst (List.find (\<lambda>(s, k, tk).
      model_name k = Some m \<and> n \<le> free_units s \<and> user_id s = uid \<and> stack_open s \<and>
      (\<forall>x. tk = Some x \<longrightarrow> \<not> tk_is_claimed x)) (model_join t tasks tickets))))"
    (is "_ = Inr (grant n t (map_option fst (List.find ?P ?J)))")
proof -
  have first: "sql_first (model_stack_available m n uid) ?J = Inr (List.find ?P ?J)"
    by (rule sql_first_find) (auto dest!: model_join_stack simp: model_stack_available_ok [OF assms(1,2)])
  show ?thesis
  proof (cases "List.find ?P ?J")
    case None
    then show ?thesis by (simp add: get_stacks_for_model_def first grant_def)
  next
    case (Some x)
    obtain s k tk where x: "x = (s, k, tk)" by (cases x) auto
    with Some have "s \<in> set t" "n \<le> free_units s"
      by (auto dest!: find_key_SomeD dest: model_join_stack)
    then show ?thesis using Some x
      by (simp add: get_stacks_for_model_def first lock_selected_grant [OF assms(1,2) _ assms(3)])
  qed
qed

text \<open>The unit counts stay non-negative as long as a settlement gives back what was locked.\<close>

lemma units_nonneg_put:
  assumes "units_nonneg t" and "0 \<le> already_computed_units r'" and "0 \<le> locked_compute_units r'"
  shows "units_nonneg (put_row stack_small_id r' t)"
  using assms by (auto simp: units_nonneg_def dest!: set_put_row)

lemma lock_compute_units_nonneg:
  "stacks_inv t \<Longrightarrow> units_nonneg t \<Longrightarrow> 0 \<le> n \<Longrightarrow> lock_compute_units t i n = Inr t' \<Longrightarrow> units_nonneg t'"
  by (auto simp: lock_compute_units_Inr_iff units_nonneg_def dest!: set_put_row row_of_SomeD)

lemma update_stack_num_tokens_nonneg:
  assumes "stacks_inv t" and "units_nonneg t" and "update_stack_num_tokens t i e n = Inr t'"
    and "0 \<le> n" and "e \<le> stack_num locked_compute_units t i"
  shows "units_nonneg t'"
proof -
  from assms(3) obtain r r' where "row_of stack_small_id t i = Some r" "record_tokens e n r = Inr r'"
    and "t' = put_row stack_small_id r' t" by (auto simp: update_stack_num_tokens_Inr_iff [OF assms(1)])
  with assms(2,4,5) show ?thesis
    by (auto simp: sql_simps stack_num_Some units_nonneg_def dest!: set_put_row row_of_SomeD)
qed

subsection \<open>Properties\<close>

definition sample_stack :: "int \<Rightarrow> int \<Rightarrow> int \<Rightarrow> stack_row" where
  "sample_stack sid computed locked = stack.extend \<lparr>owner = ''0xa'', stack_small_id = sid,
     stack_id = (if sid = 1 then ''s1'' else ''s2''), stk_task_small_id = 3, selected_node_id = 8,
     num_compute_units = 1000, price_per_one_million_compute_units = 10,
     already_computed_units = computed, locked_compute_units = locked, in_settle_period = False,
     num_total_messages = 0\<rparr>
     \<lparr>user_id = 5, acquired_timestamp = \<lparr>dt_hour = 0, dt_minute = 0, dt_second = 0, dt_nanosecond = 0\<rparr>,
      is_claimed = False, is_locked = False, user_refund_amount = None\<rparr>"

definition sample_stacks :: stacks where
  "sample_stacks = [sample_stack 1 900 50, sample_stack 2 100 0]"

lemma sample_stacks_ok: "stacks_inv sample_stacks" "units_nonneg sample_stacks"
  by code_simp+

text \<open>
  C15. Over any sequence of lock_compute_units and update_stack_num_tokens in which every
  request is settled at most once, for the units it locked and for at most that many used
  ones, a stack's computed and locked units never exceed its size, the computed units never
  decrease, and the locked units are exactly those of the open requests.
\<close>

theorem stack_never_overcommitted:
  assumes "stacks_inv t0"
    and "lifecycle reserve_units settle_units (\<lambda>n. n) t0 requests t"
    and "stack_num already_computed_units t0 sid + stack_num locked_compute_units t0 sid \<le> stack_num num_compute_units t0 sid"
  shows "stack_num already_computed_units t sid + stack_num locked_compute_units t sid \<le> stack_num num_compute_units t0 sid \<and>
    stack_num already_computed_units t0 sid \<le> stack_num already_computed_units t sid \<and>
    stack_num locked_compute_units t sid = stack_num locked_compute_units t0 sid + open_weight (\<lambda>n. n) sid requests"
  using stack_ledger.lifecycle_within [OF assms(2,1,3)] stack_ledger.lifecycle_cap [OF assms(2,1)]
    stack_ledger.lifecycle_held [OF assms(2,1)] stack_ledger.lifecycle_used_mono [OF assms(2,1)] by simp

lemma sample_stacks_run:
  "lifecycle reserve_units settle_units (\<lambda>n. n) sample_stacks [(2, 300)]
     [sample_stack 1 900 50, sample_stack 2 100 300]"
  by (rule lifecycle.opened [OF lifecycle.start]) code_simp

theorem stack_never_overcommitted_witness:
  "stack_num locked_compute_units [sample_stack 1 900 50, sample_stack 2 100 300] 2 = 300"
proof -
  have "stack_num already_computed_units sample_stacks 2 + stack_num locked_compute_units sample_stacks 2
      \<le> stack_num num_compute_units sample_stacks 2"
    and held: "stack_num locked_compute_units sample_stacks 2 + open_weight (\<lambda>n. n) (2 :: int) [(2, 300)] = 300"
    by code_simp+
  from stack_never_overcommitted [OF sample_stacks_ok(1) sample_stacks_run this(1)] held show ?thesis by simp
qed

text \<open>
  C23. get_stacks_for_task returns the first stack of the user and the task that is not
  claimed, locked or in its settle period and has the units free, with those units locked on
  it and on no other stack, and returns None without any change when there is none.
\<close>

theorem get_stacks_for_task_selects:
  assumes "stacks_inv t" and "units_nonneg t" and "0 \<le> n"
  shows "get_stacks_for_task t tid n uid = Inr (grant n t (List.find (\<lambda>r.
    stk_task_small_id r = tid \<and> n \<le> free_units r \<and> user_id r = uid \<and> stack_open r) t))"
  by (rule get_stacks_for_task_find [OF assms])

theorem get_stacks_for_task_selects_witness:
  "get_stacks_for_task sample_stacks 3 60 5 =
     Inr ([sample_stack 1 900 50, sample_stack 2 100 60], Some (stack.truncate (sample_stack 2 100 60)))"
proof -
  have "grant 60 sample_stacks (List.find (\<lambda>r.
      stk_task_small_id r = 3 \<and> 60 \<le> free_units r \<and> user_id r = 5 \<and> stack_open r) sample_stacks) =
    ([sample_stack 1 900 50, sample_stack 2 100 60], Some (stack.truncate (sample_stack 2 100 60)))"
    by code_simp
  with get_stacks_for_task_selects [OF sample_stacks_ok, of 60 3 5] show ?thesis by simp
qed

text \<open>
  get_stacks_for_model (not confidential) returns the first stack of the user whose task
  serves the model, that is open, has the units free and whose settlement tickets, if any,
  are unclaimed, with the units locked on it, and changes nothing when there is none.
\<close>

theorem get_stacks_for_model_selects:
  assumes "stacks_inv t" and "units_nonneg t" and "0 \<le> n"
  shows "get_stacks_for_model t tasks tickets m n uid False =
    Inr (grant n t (map_option fst (List.find (\<lambda>(s, k, tk).
      model_name k = Some m \<and> n \<le> free_units s \<and> user_id s = uid \<and> stack_open s \<and>
      (\<forall>x. tk = Some x \<longrightarrow> \<not> tk_is_claimed x)) (model_join t tasks tickets))))"
  by (rule get_stacks_for_model_find [OF assms])

theorem get_stacks_for_model_selects_witness:
  "get_stacks_for_model sample_stacks [] [] ''m'' 60 5 False = Inr (sample_stacks, None)"
proof -
  have "model_join sample_stacks [] [] = []" by code_simp
  with get_stacks_for_model_selects [OF sample_stacks_ok, of 60 "[]" "[]" "''m''" 5]
  show ?thesis by (simp add: grant_def)
qed

text \<open>
  update_stack_num_tokens with used tokens of at most the estimate, itself at most the
  locked units, succeeds: it adds the used tokens to the computed units, releases the whole
  estimate, counts a message only when tokens were used, and changes no other row.
\<close>

theorem update_stack_num_tokens_charges:
  assumes "stacks_inv t" and "row_of stack_small_id t sid = Some r" and "0 \<le> already_computed_units r"
    and "0 \<le> tokens" and "tokens \<le> estimate" and "estimate \<le> locked_compute_units r"
    and "0 \<le> num_total_messages r" and "num_total_messages r < i64_max"
  shows "update_stack_num_tokens t sid estimate tokens = Inr (put_row stack_small_id (r\<lparr>
      already_computed_units := already_computed_units r + tokens,
      locked_compute_units := locked_compute_units r - estimate,
      num_total_messages := num_total_messages r + of_bool (0 < tokens)\<rparr>) t)"
proof -
  have "stack_row_ok r" using assms(1,2) by (auto dest: row_of_SomeD stacks_invD(2))
  then show ?thesis
    using assms(2-) by (auto simp: update_stack_num_tokens_Inr_iff [OF assms(1)] sql_simps stack_row_ok_def i64_bounds)
qed

theorem update_stack_num_tokens_charges_witness:
  "update_stack_num_tokens [sample_stack 1 900 50] 1 50 30 =
     Inr [(sample_stack 1 930 0)\<lparr>num_total_messages := 1\<rparr>]"
proof -
  have ok: "stacks_inv [sample_stack 1 900 50]"
    and r: "row_of stack_small_id [sample_stack 1 900 50] 1 = Some (sample_stack 1 900 50)"
    by code_simp+
  show ?thesis
    using update_stack_num_tokens_charges [OF ok r, of 30 50]
    by (simp add: sample_stack_def stack.defs i64_max_def put_row_def)
qed

end
