(* ===== verification/Registry.thy ===== *)
theory Registry
  imports Stacks
begin

text \<open>
  The tables \<^verbatim>\<open>tasks\<close>, \<^verbatim>\<open>node_subscriptions\<close>, \<^verbatim>\<open>nodes\<close>, \<^verbatim>\<open>node_public_keys\<close>,
  \<^verbatim>\<open>key_rotations\<close> and \<^verbatim>\<open>node_attestations\<close> with the statements of
  \<^verbatim>\<open>atoma-state/src/state_manager.rs\<close> on them: who serves a model, at what price, at
  which address and with which encryption key. The lemmas show what the choice of a node
  guarantees and how a key rotation withdraws the keys of the previous one.
\<close>

subsection \<open>Tasks\<close>

definition get_task_by_small_id :: "task list \<Rightarrow> int \<Rightarrow> state_error + task" where
  "get_task_by_small_id tasks tid = db_try (fetch_one (filter (\<lambda>k. task_small_id k = tid) tasks))"

definition get_tasks_for_model :: "task list \<Rightarrow> string \<Rightarrow> task list" where
  "get_tasks_for_model tasks model =
     filter (\<lambda>k. model_name k = Some model \<and> is_deprecated k = False) tasks"

definition get_all_tasks :: "task list \<Rightarrow> task list" where
  "get_all_tasks tasks = tasks"

text \<open>The statement leaves \<^verbatim>\<open>deprecated_at_epoch\<close> to its default, null.\<close>

definition insert_new_task :: "task list \<Rightarrow> task \<Rightarrow> state_error + task list" where
  "insert_new_task tasks k =
     db_try (sql_insert (\<lambda>r q. task_small_id q = task_small_id r \<or> task_id q = task_id r) Inr
       (k\<lparr>deprecated_at_epoch := None\<rparr>) tasks)"

definition deprecate_task :: "task list \<Rightarrow> int \<Rightarrow> int \<Rightarrow> state_error + task list" where
  "deprecate_task tasks tid epoch =
     db_try (res_bind (sql_update (\<lambda>k. sql_is (task_small_id k = tid))
       (\<lambda>k. Inr (k\<lparr>is_deprecated := True, deprecated_at_epoch := Some epoch\<rparr>)) Inr tasks)
       (\<lambda>(t', u). Inr t'))"

subsection \<open>Node subscriptions\<close>

definition sub_clash :: "node_subscription \<Rightarrow> node_subscription \<Rightarrow> bool" where
  "sub_clash r q \<longleftrightarrow> ns_task_small_id q = ns_task_small_id r \<and> ns_node_small_id q = ns_node_small_id r"

definition get_subscribed_tasks :: "task list \<Rightarrow> node_subscription list \<Rightarrow> int \<Rightarrow> task list" where
  "get_subscribed_tasks tasks subs node =
     concat (map (\<lambda>k. map (\<lambda>_. k)
       (filter (\<lambda>s. ns_task_small_id s = task_small_id k \<and> ns_node_small_id s = node) subs)) tasks)"

definition get_all_node_subscriptions :: "node_subscription list \<Rightarrow> node_subscription list" where
  "get_all_node_subscriptions subs = subs"

definition get_all_node_subscriptions_for_task :: "node_subscription list \<Rightarrow> int \<Rightarrow> node_subscription list" where
  "get_all_node_subscriptions_for_task subs tid = filter (\<lambda>s. ns_task_small_id s = tid) subs"

definition is_node_subscribed_to_task :: "node_subscription list \<Rightarrow> int \<Rightarrow> int \<Rightarrow> bool" where
  "is_node_subscribed_to_task subs node tid =
     (length (filter (\<lambda>s. ns_node_small_id s = node \<and> ns_task_small_id s = tid) subs) > 0)"

definition subscribe_node_to_task ::
  "node_subscription list \<Rightarrow> int \<Rightarrow> int \<Rightarrow> int \<Rightarrow> int \<Rightarrow> state_error + node_subscription list" where
  "subscribe_node_to_task subs node tid price max_units =
     db_try (sql_insert sub_clash Inr
       \<lparr>ns_node_small_id = node, ns_task_small_id = tid,
        ns_price_per_one_million_compute_units = price,
        ns_max_num_compute_units = max_units, ns_valid = True\<rparr> subs)"

definition get_node_subscription_by_task_small_id ::
  "node_subscription list \<Rightarrow> int \<Rightarrow> state_error + node_subscription" where
  "get_node_subscription_by_task_small_id subs tid =
     db_try (fetch_one (filter (\<lambda>s. ns_task_small_id s = tid) subs))"

definition update_node_subscription ::
  "node_subscription list \<Rightarrow> int \<Rightarrow> int \<Rightarrow> int \<Rightarrow> int \<Rightarrow> state_error + node_subscription list" where
  "update_node_subscription subs node tid price max_units =
     db_try (res_bind (sql_update (\<lambda>s. sql_is (ns_node_small_id s = node \<and> ns_task_small_id s = tid))
       (\<lambda>s. Inr (s\<lparr>ns_price_per_one_million_compute_units := price,
                   ns_max_num_compute_units := max_units\<rparr>)) Inr subs)
       (\<lambda>(t', u). Inr t'))"

definition unsubscribe_node_from_task :: "node_subscription list \<Rightarrow> int \<Rightarrow> int \<Rightarrow> node_subscription list" where
  "unsubscribe_node_from_task subs node tid =
     sql_delete (\<lambda>s. ns_node_small_id s = node \<and> ns_task_small_id s = tid) subs"

subsection \<open>Key rotations and node public keys\<close>

record key_rotation =
  kr_epoch :: int
  kr_key_rotation_counter :: int
  kr_nonce :: int

record node_key_row =
  nk_node_small_id :: int
  nk_epoch :: int
  nk_key_rotation_counter :: int
  nk_public_key :: bytes
  nk_evidence_bytes :: bytes
  nk_device_type :: int
  nk_is_valid :: bool

definition insert_new_key_rotation ::
  "key_rotation list \<Rightarrow> int \<Rightarrow> int \<Rightarrow> int \<Rightarrow> state_error + key_rotation list" where
  "insert_new_key_rotation rots epoch counter nonce =
     db_try (sql_upsert (\<lambda>r q. kr_epoch q = kr_epoch r) Inr
       (\<lambda>new old. Inr (old\<lparr>kr_key_rotation_counter := kr_key_rotation_counter new, kr_nonce := kr_nonce new\<rparr>))
       \<lparr>kr_epoch = epoch, kr_key_rotation_counter = counter, kr_nonce = nonce\<rparr> rots)"

definition get_contract_key_rotation_nonce :: "key_rotation list \<Rightarrow> state_error + int" where
  "get_contract_key_rotation_nonce rots =
     (case top_by kr_epoch rots of
        None \<Rightarrow> Inl (DatabaseConnectionError RowNotFound) | Some r \<Rightarrow> Inr (kr_nonce r))"

text \<open>The column \<^verbatim>\<open>device_type\<close> is an \<^verbatim>\<open>INTEGER\<close>; the key is (node, device type).\<close>

definition key_store :: "node_key_row \<Rightarrow> db_error + node_key_row" where
  "key_store r = res_bind (to_int4 (nk_device_type r)) (\<lambda>_. Inr r)"

definition update_node_public_key ::
  "node_key_row list \<Rightarrow> int \<Rightarrow> int \<Rightarrow> int \<Rightarrow> bytes \<Rightarrow> bytes \<Rightarrow> int \<Rightarrow> bool
    \<Rightarrow> state_error + node_key_row list" where
  "update_node_public_key keys node epoch counter public_key evidence device valid =
     db_try (sql_upsert
       (\<lambda>r q. nk_node_small_id q = nk_node_small_id r \<and> nk_device_type q = nk_device_type r) key_store
       (\<lambda>new old. Inr (old\<lparr>nk_epoch := nk_epoch new,
          nk_key_rotation_counter := nk_key_rotation_counter new,
          nk_public_key := nk_public_key new, nk_evidence_bytes := nk_evidence_bytes new,
          nk_is_valid := nk_is_valid new\<rparr>))
       \<lparr>nk_node_small_id = node, nk_epoch = epoch, nk_key_rotation_counter = counter,
        nk_public_key = public_key, nk_evidence_bytes = evidence, nk_device_type = device,
        nk_is_valid = valid\<rparr> keys)"

text \<open>
  \<^verbatim>\<open>latest_rotation\<close> joined with \<^verbatim>\<open>node_public_keys\<close>: the keys of the greatest
  rotation counter, and none before the first rotation.
\<close>

definition current_keys :: "key_rotation list \<Rightarrow> node_key_row list \<Rightarrow> node_key_row list" where
  "current_keys rots keys =
     (case top_by kr_key_rotation_counter rots of None \<Rightarrow> []
      | Some r \<Rightarrow> filter (\<lambda>k. nk_key_rotation_counter k = kr_key_rotation_counter r) keys)"

text \<open>\<^verbatim>\<open>GROUP BY .. HAVING bool_and(is_valid) = true\<close>, by node and by node and key.\<close>

definition valid_nodes :: "key_rotation list \<Rightarrow> node_key_row list \<Rightarrow> int list" where
  "valid_nodes rots keys = (let cur = current_keys rots keys in
     filter (\<lambda>n. \<forall>k \<in> set cur. nk_node_small_id k = n \<longrightarrow> nk_is_valid k)
       (remdups (map nk_node_small_id cur)))"

definition valid_node_keys :: "key_rotation list \<Rightarrow> node_key_row list \<Rightarrow> (int \<times> bytes) list" where
  "valid_node_keys rots keys = (let cur = current_keys rots keys in
     filter (\<lambda>(n, p). \<forall>k \<in> set cur. nk_node_small_id k = n \<and> nk_public_key k = p \<longrightarrow> nk_is_valid k)
       (remdups (map (\<lambda>k. (nk_node_small_id k, nk_public_key k)) cur)))"

subsection \<open>Choosing a node\<close>

definition node_offers ::
  "task list \<Rightarrow> node_subscription list \<Rightarrow> key_rotation list \<Rightarrow> node_key_row list \<Rightarrow> string \<Rightarrow> bool
    \<Rightarrow> (task \<times> node_subscription) list" where
  "node_offers tasks subs rots keys model is_confidential =
     filter (\<lambda>(k, s). task_small_id k = ns_task_small_id s \<and>
         (is_confidential \<longrightarrow> ns_node_small_id s \<in> set (valid_nodes rots keys)) \<and>
         \<not> is_deprecated k \<and> model_name k = Some model \<and> ns_valid s \<and>
         (is_confidential \<longrightarrow> security_level k = 1))
       (List.product tasks subs)"

definition get_cheapest_node_for_model ::
  "task list \<Rightarrow> node_subscription list \<Rightarrow> key_rotation list \<Rightarrow> node_key_row list \<Rightarrow> string \<Rightarrow> bool
    \<Rightarrow> cheapest_node option" where
  "get_cheapest_node_for_model tasks subs rots keys model is_confidential =
     map_option (\<lambda>(k, s). \<lparr>cn_task_small_id = task_small_id k,
         cn_price_per_one_million_compute_units = ns_price_per_one_million_compute_units s,
         cn_max_num_compute_units = ns_max_num_compute_units s,
         cn_node_small_id = ns_node_small_id s\<rparr>)
       (top_by (\<lambda>(k, s). - ns_price_per_one_million_compute_units s)
         (node_offers tasks subs rots keys model is_confidential))"

text \<open>The join of valid keys, their nodes' stacks and the stacks' tasks.\<close>

definition key_stack_join ::
  "(int \<times> bytes) list \<Rightarrow> stacks \<Rightarrow> task list \<Rightarrow> ((int \<times> bytes) \<times> stack_row \<times> task) list" where
  "key_stack_join vks t tasks =
     filter (\<lambda>((n, p), s, k). selected_node_id s = n \<and> task_small_id k = stk_task_small_id s)
       (List.product vks (List.product t tasks))"

definition encryption_stack_available ::
  "string \<Rightarrow> int \<Rightarrow> int \<Rightarrow> (int \<times> bytes) \<times> stack_row \<times> task \<Rightarrow> db_error + bool" where
  "encryption_stack_available model max_num_tokens uid = (\<lambda>(np, s, k).
     sql_and (sql_is (model_name k = Some model))
    (sql_and (sql_is (security_level k = 1))
    (sql_and (sql_is (\<not> is_deprecated k))
    (sql_and (has_free_units max_num_tokens s)
    (sql_and (sql_is (\<not> is_claimed s))
    (sql_and (sql_is (\<not> is_locked s))
             (sql_is (user_id s = uid))))))))"

text \<open>\<^verbatim>\<open>UPDATE stacks .. FROM selected_stack .. RETURNING selected_stack.*\<close>\<close>

fun lock_encryption_stack ::
  "stacks \<Rightarrow> int \<Rightarrow> ((int \<times> bytes) \<times> stack_row \<times> task) option
    \<Rightarrow> db_error + (stacks \<times> node_public_key option)" where
  "lock_encryption_stack t max_num_tokens None = Inr (t, None)"
| "lock_encryption_stack t max_num_tokens (Some ((n, p), s, k)) =
     res_bind (sql_update (\<lambda>q. sql_is (stack_small_id q = stack_small_id s))
       (lock_units max_num_tokens) stack_store t)
       (\<lambda>(t', u). Inr (t', if u = [] then None
          else Some \<lparr>pk_node_small_id = n, pk_public_key = p, pk_stack_small_id = Some (stack_small_id s)\<rparr>))"

definition select_node_public_key_for_encryption ::
  "stacks \<Rightarrow> task list \<Rightarrow> key_rotation list \<Rightarrow> node_key_row list \<Rightarrow> string \<Rightarrow> int \<Rightarrow> int
    \<Rightarrow> state_error + (stacks \<times> node_public_key option)" where
  "select_node_public_key_for_encryption t tasks rots keys model max_num_tokens uid =
     db_try (res_bind (sql_select (encryption_stack_available model max_num_tokens uid)
         (key_stack_join (valid_node_keys rots keys) t tasks))
       (\<lambda>hits. lock_encryption_stack t max_num_tokens
         (top_by (\<lambda>(np, s, k). - price_per_one_million_compute_units s) hits)))"

definition select_node_public_key_for_encryption_for_node ::
  "key_rotation list \<Rightarrow> node_key_row list \<Rightarrow> int \<Rightarrow> node_public_key option" where
  "select_node_public_key_for_encryption_for_node rots keys node =
     map_option (\<lambda>(n, p). \<lparr>pk_node_small_id = n, pk_public_key = p, pk_stack_small_id = None\<rparr>)
       (fetch_optional (filter (\<lambda>(n, p). n = node) (valid_node_keys rots keys)))"

subsection \<open>Nodes and their addresses\<close>

record node_row =
  nd_node_small_id :: int
  nd_node_id :: string
  nd_sui_address :: string
  nd_public_address :: "string option"
  nd_country :: "string option"
  nd_timestamp :: "int option"

type_synonym nodes = "node_row list"

definition insert_new_node :: "nodes \<Rightarrow> int \<Rightarrow> string \<Rightarrow> string \<Rightarrow> state_error + nodes" where
  "insert_new_node nodes node nid sui =
     db_try (sql_insert (\<lambda>r q. nd_node_small_id q = nd_node_small_id r) Inr
       \<lparr>nd_node_small_id = node, nd_node_id = nid, nd_sui_address = sui, nd_public_address = None,
        nd_country = None, nd_timestamp = None\<rparr> nodes)"

definition update_node_public_address :: "nodes \<Rightarrow> int \<Rightarrow> string \<Rightarrow> string \<Rightarrow> state_error + nodes" where
  "update_node_public_address nodes node address country =
     db_try (res_bind (sql_update (\<lambda>d.
         sql_and (sql_is (nd_node_small_id d = node))
           (sql_is (nd_public_address d \<noteq> Some address \<or> nd_country d \<noteq> Some country)))
       (\<lambda>d. Inr (d\<lparr>nd_public_address := Some address, nd_country := Some country\<rparr>)) Inr nodes)
       (\<lambda>(t', u). Inr t'))"

definition retrieve_node_public_addresses :: "nodes \<Rightarrow> string list" where
  "retrieve_node_public_addresses nodes = List.map_filter nd_public_address nodes"

text \<open>
  The scalar is read as a \<^verbatim>\<open>String\<close>, so a row whose address is null does not decode.
\<close>

definition get_node_public_address :: "nodes \<Rightarrow> int \<Rightarrow> state_error + string option" where
  "get_node_public_address nodes node =
     (case fetch_optional (filter (\<lambda>d. nd_node_small_id d = node) nodes) of
        None \<Rightarrow> Inr None
      | Some d \<Rightarrow> (case nd_public_address d of
           None \<Rightarrow> Inl (DatabaseConnectionError ColumnDecode) | Some a \<Rightarrow> Inr (Some a)))"

definition get_node_public_url_and_small_id ::
  "stacks \<Rightarrow> nodes \<Rightarrow> int \<Rightarrow> state_error + (string option \<times> int)" where
  "get_node_public_url_and_small_id t nodes sid =
     ok_or StackNotFound (fetch_optional (map (\<lambda>(s, d). (nd_public_address d, nd_node_small_id d))
       (filter (\<lambda>(s, d). selected_node_id s = nd_node_small_id d \<and> stack_small_id s = sid)
         (List.product t nodes))))"

definition get_node_sui_address :: "nodes \<Rightarrow> int \<Rightarrow> string option" where
  "get_node_sui_address nodes node =
     map_option nd_sui_address (fetch_optional (filter (\<lambda>d. nd_node_small_id d = node) nodes))"

definition verify_node_small_id_ownership :: "nodes \<Rightarrow> int \<Rightarrow> string \<Rightarrow> state_error + unit" where
  "verify_node_small_id_ownership nodes node sui_address =
     (if list_ex (\<lambda>d. nd_node_small_id d = node \<and> nd_public_address d = Some sui_address) nodes
      then Inr () else Inl NodeSmallIdOwnershipVerificationFailed)"

text \<open>
  \<open>SELECT country, COUNT(*) .. GROUP BY country ORDER BY count DESC\<close>.
\<close>

definition get_nodes_distribution :: "nodes \<Rightarrow> (string option \<times> nat) list" where
  "get_nodes_distribution nodes =
     rev (sort_key snd (map (\<lambda>c. (c, length (filter (\<lambda>d. nd_country d = c) nodes)))
       (remdups (map nd_country nodes))))"

subsection \<open>Publishing an address\<close>

text \<open>
  \<^verbatim>\<open>state_manager.rs\<close>, module \<^verbatim>\<open>validation\<close>. \<open>now_millis\<close> is the clock;
  \<open>is_alpha2\<close> and \<open>is_url\<close> stand for \<^verbatim>\<open>isocountry::CountryCode::for_alpha2\<close> and
  \<^verbatim>\<open>url::Url::parse\<close>.
\<close>

definition validate_timestamp :: "int \<Rightarrow> int \<Rightarrow> state_error + unit" where
  "validate_timestamp now_millis timestamp =
     (if timestamp > i64_div (i64_add now_millis 250) 1000 then Inl InvalidTimestamp else Inr ())"

definition validate_country :: "(string \<Rightarrow> bool) \<Rightarrow> string \<Rightarrow> state_error + unit" where
  "validate_country is_alpha2 country =
     (if \<not> is_alpha2 country then Inl (InvalidCountry country) else Inr ())"

definition validate_url :: "(string \<Rightarrow> bool) \<Rightarrow> string \<Rightarrow> state_error + unit" where
  "validate_url is_url url = (if \<not> is_url url then Inl (InvalidUrl url) else Inr ())"

text \<open>One attempt, with the number of rows it changed.\<close>

definition publish_url :: "nodes \<Rightarrow> int \<Rightarrow> string \<Rightarrow> int \<Rightarrow> string \<Rightarrow> state_error + (nodes \<times> nat)" where
  "publish_url nodes node public_url timestamp country =
     db_try (res_bind (sql_update (\<lambda>d.
         sql_and (sql_is (nd_node_small_id d = node))
        (sql_and (sql_is (case nd_timestamp d of None \<Rightarrow> True | Some ts \<Rightarrow> ts < timestamp))
                 (sql_is (nd_public_address d \<noteq> Some public_url \<or> nd_country d \<noteq> Some country))))
       (\<lambda>d. Inr (d\<lparr>nd_public_address := Some public_url, nd_timestamp := Some timestamp,
                   nd_country := Some country\<rparr>)) Inr nodes)
       (\<lambda>(t', u). Inr (t', length u)))"

text \<open>
  Up to three attempts. While the task sleeps after a failed one, other tasks run:
  \<open>meanwhile retry\<close> is what they make of the table before the next attempt.
\<close>

fun publish_attempts ::
  "nat \<Rightarrow> (nat \<Rightarrow> nodes \<Rightarrow> nodes) \<Rightarrow> nat \<Rightarrow> nodes \<Rightarrow> int \<Rightarrow> string \<Rightarrow> int \<Rightarrow> string \<Rightarrow> state_error + nodes" where
  "publish_attempts 0 meanwhile retry nodes node public_url timestamp country = Inl NodeNotFound"
| "publish_attempts (Suc left) meanwhile retry nodes node public_url timestamp country =
     res_bind (publish_url nodes node public_url timestamp country) (\<lambda>(nodes', changed).
       if changed > 0 then Inr nodes'
       else publish_attempts left meanwhile (retry + 1)
         (if left > 0 then meanwhile retry nodes' else nodes') node public_url timestamp country)"

definition register_node_public_url ::
  "(string \<Rightarrow> bool) \<Rightarrow> (string \<Rightarrow> bool) \<Rightarrow> int \<Rightarrow> (nat \<Rightarrow> nodes \<Rightarrow> nodes)
    \<Rightarrow> nodes \<Rightarrow> int \<Rightarrow> string \<Rightarrow> int \<Rightarrow> string \<Rightarrow> state_error + nodes" where
  "register_node_public_url is_alpha2 is_url now_millis meanwhile nodes node public_url timestamp country =
     res_bind (validate_timestamp now_millis timestamp) (\<lambda>_.
     res_bind (validate_country is_alpha2 country) (\<lambda>_.
     res_bind (validate_url is_url public_url) (\<lambda>_.
       publish_attempts 3 meanwhile 0 nodes node public_url timestamp country)))"

subsection \<open>Attestations\<close>

record attestation_row =
  na_node_small_id :: int
  na_compressed_evidence :: bytes
  na_updated_at :: int

definition get_node_attestation :: "attestation_row list \<Rightarrow> int \<Rightarrow> (int \<times> bytes) option" where
  "get_node_attestation t node =
     map_option (\<lambda>a. (na_node_small_id a, na_compressed_evidence a))
       (fetch_optional (filter (\<lambda>a. na_node_small_id a = node) t))"

definition update_node_attestation ::
  "attestation_row list \<Rightarrow> int \<Rightarrow> int \<Rightarrow> bytes \<Rightarrow> state_error + attestation_row list" where
  "update_node_attestation t now node evidence =
     db_try (sql_upsert (\<lambda>r q. na_node_small_id q = na_node_small_id r) Inr
       (\<lambda>new old. Inr (old\<lparr>na_compressed_evidence := na_compressed_evidence new, na_updated_at := now\<rparr>))
       \<lparr>na_node_small_id = node, na_compressed_evidence = evidence, na_updated_at = now\<rparr> t)"

subsection \<open>What the choice of a node guarantees\<close>

lemma current_keys_counter:
  "k \<in> set (current_keys rots keys) \<Longrightarrow>
   k \<in> set keys \<and> (\<exists>r \<in> set rots. nk_key_rotation_counter k = kr_key_rotation_counter r) \<and>
   (\<forall>r \<in> set rots. kr_key_rotation_counter r \<le> nk_key_rotation_counter k)"
  by (cases "top_by kr_key_rotation_counter rots") (auto simp: current_keys_def dest!: top_by_SomeD)

lemma valid_nodes_iff:
  "n \<in> set (valid_nodes rots keys) \<longleftrightarrow>
   (\<exists>k \<in> set (current_keys rots keys). nk_node_small_id k = n) \<and>
   (\<forall>k \<in> set (current_keys rots keys). nk_node_small_id k = n \<longrightarrow> nk_is_valid k)"
  by (auto simp: valid_nodes_def Let_def)

lemma valid_node_keys_iff:
  "(n, p) \<in> set (valid_node_keys rots keys) \<longleftrightarrow>
   (\<exists>k \<in> set (current_keys rots keys). nk_node_small_id k = n \<and> nk_public_key k = p) \<and>
   (\<forall>k \<in> set (current_keys rots keys). nk_node_small_id k = n \<and> nk_public_key k = p \<longrightarrow> nk_is_valid k)"
  by (auto simp: valid_node_keys_def Let_def)

text \<open>After a rotation no key of an earlier counter is current.\<close>

lemma rotation_withdraws_keys:
  assumes "insert_new_key_rotation rots epoch counter nonce = Inr rots'"
    and "\<forall>k \<in> set keys. nk_key_rotation_counter k < counter"
  shows "current_keys rots' keys = []"
proof -
  let ?r = "\<lparr>kr_epoch = epoch, kr_key_rotation_counter = counter, kr_nonce = nonce\<rparr>"
  have "\<exists>r \<in> set rots'. kr_key_rotation_counter r = counter"
  proof (cases "list_ex (\<lambda>q. kr_epoch q = epoch) rots")
    case False
    with assms(1) show ?thesis by (auto simp: insert_new_key_rotation_def sql_upsert_def)
  next
    case True
    then obtain q where q: "q \<in> set rots" "kr_epoch q = epoch" by (auto simp: list_ex_iff)
    from True assms(1) obtain u where
      "sql_update (\<lambda>q. sql_is (kr_epoch q = epoch))
        (\<lambda>old. Inr (old\<lparr>kr_key_rotation_counter := counter, kr_nonce := nonce\<rparr>)) Inr rots = Inr (rots', u)"
      by (auto simp: insert_new_key_rotation_def sql_upsert_def res_iffs)
    from sql_update_hit_in [OF this q(1)] q(2)
    have "q\<lparr>kr_key_rotation_counter := counter, kr_nonce := nonce\<rparr> \<in> set rots'" by (auto simp: sql_simps)
    then show ?thesis by force
  qed
  then have "k \<notin> set (current_keys rots' keys)" for k
    using assms(2) by (force dest: current_keys_counter)
  then show ?thesis by (metis last_in_set)
qed

lemma get_cheapest_node_offer:
  assumes "get_cheapest_node_for_model tasks subs rots keys m conf = Some c"
  shows "\<exists>k s. (k, s) \<in> set (node_offers tasks subs rots keys m conf) \<and>
      cn_task_small_id c = task_small_id k \<and> cn_node_small_id c = ns_node_small_id s \<and>
      cn_price_per_one_million_compute_units c = ns_price_per_one_million_compute_units s \<and>
      cn_max_num_compute_units c = ns_max_num_compute_units s \<and>
      (\<forall>(k', s') \<in> set (node_offers tasks subs rots keys m conf).
         ns_price_per_one_million_compute_units s \<le> ns_price_per_one_million_compute_units s')"
  using assms by (force simp: get_cheapest_node_for_model_def dest!: top_by_SomeD)

lemma get_cheapest_node_None_iff:
  "get_cheapest_node_for_model tasks subs rots keys m conf = None \<longleftrightarrow>
   node_offers tasks subs rots keys m conf = []"
  by (simp add: get_cheapest_node_for_model_def)

text \<open>The statement that picks an encryption key locks the units on the stack it returns.\<close>

lemma lock_encryption_stack_inv:
  "lock_encryption_stack t n x = Inr (t', y) \<Longrightarrow> stacks_inv t \<Longrightarrow> stacks_inv t'"
  by (cases "(t, n, x)" rule: lock_encryption_stack.cases)
    (auto simp: res_bind_Inr_iff sql_simps stack_row_ok_def elim!: stacks_update_inv)

lemma select_node_public_key_inv:
  "select_node_public_key_for_encryption t tasks rots keys m n uid = Inr (t', x) \<Longrightarrow> stacks_inv t \<Longrightarrow> stacks_inv t'"
  by (auto simp: select_node_public_key_for_encryption_def res_bind_Inr_iff intro: lock_encryption_stack_inv)

text \<open>
  The key it returns is valid in the current rotation and belongs to the node that holds
  the cheapest stack with enough units; exactly the requested units are locked there.
\<close>

lemma select_node_public_key_spec:
  assumes "select_node_public_key_for_encryption t tasks rots keys m n uid = Inr (t', Some pk)"
    and "stacks_inv t"
  shows "(pk_node_small_id pk, pk_public_key pk) \<in> set (valid_node_keys rots keys) \<and>
    (\<exists>s \<in> set t. pk_stack_small_id pk = Some (stack_small_id s) \<and>
       selected_node_id s = pk_node_small_id pk \<and> user_id s = uid \<and> n \<le> free_units s \<and>
       t' = put_row stack_small_id (with_locked n s) t)"
proof -
  define hits where "hits = filter (\<lambda>x. encryption_stack_available m n uid x = Inr True)
    (key_stack_join (valid_node_keys rots keys) t tasks)"
  from assms(1) have "lock_encryption_stack t n
      (top_by (\<lambda>(np, s, k). - price_per_one_million_compute_units s) hits) = Inr (t', Some pk)"
    by (auto simp: select_node_public_key_for_encryption_def res_bind_Inr_iff hits_def dest!: sql_select_Inr)
  then obtain node p s k where "((node, p), s, k) \<in> set hits"
    and lock: "lock_encryption_stack t n (Some ((node, p), s, k)) = Inr (t', Some pk)"
    by (cases "top_by (\<lambda>(np, s, k). - price_per_one_million_compute_units s) hits")
      (auto dest!: top_by_SomeD)
  then have hit: "(node, p) \<in> set (valid_node_keys rots keys)" "s \<in> set t" "selected_node_id s = node"
      "user_id s = uid" "n \<le> free_units s"
    by (auto simp: hits_def key_stack_join_def encryption_stack_available_def sql_and_True_iff sql_is_iff
        has_free_units_True_iff free_units_def)
  have "sql_update (\<lambda>q. sql_is (stack_small_id q = stack_small_id s)) (lock_units n) stack_store t =
      res_bind (Inr True) (\<lambda>hit. if hit
        then res_bind (res_bind (lock_units n s) stack_store) (\<lambda>r'. Inr (put_row stack_small_id r' t, [r']))
        else Inr (t, []))"
    by (rule sql_update_stack [OF assms(2) row_of_member [OF assms(2) hit(2)] lock_units_key])
      (simp add: sql_is_alone [symmetric])
  with lock have "t' = put_row stack_small_id (with_locked n s) t"
    "pk = \<lparr>pk_node_small_id = node, pk_public_key = p, pk_stack_small_id = Some (stack_small_id s)\<rparr>"
    by (auto simp: res_bind_Inr_iff sql_simps with_locked_def)
  with hit show ?thesis by auto
qed

subsection \<open>Properties\<close>

definition sample_task :: task where
  "sample_task = \<lparr>task_small_id = 3, task_id = ''0x3'', role = 0, model_name = Some ''m'', is_deprecated = False,
     valid_until_epoch = None, deprecated_at_epoch = None, security_level = 1, minimum_reputation_score = None\<rparr>"

definition sample_subscription :: "int \<Rightarrow> int \<Rightarrow> node_subscription" where
  "sample_subscription node price = \<lparr>ns_node_small_id = node, ns_task_small_id = 3,
     ns_price_per_one_million_compute_units = price, ns_max_num_compute_units = 1000, ns_valid = True\<rparr>"

definition sample_key :: "int \<Rightarrow> int \<Rightarrow> bool \<Rightarrow> node_key_row" where
  "sample_key node counter valid = \<lparr>nk_node_small_id = node, nk_epoch = 1, nk_key_rotation_counter = counter,
     nk_public_key = [1, 2], nk_evidence_bytes = [], nk_device_type = 0, nk_is_valid = valid\<rparr>"

definition sample_rotations :: "key_rotation list" where
  "sample_rotations = [\<lparr>kr_epoch = 1, kr_key_rotation_counter = 4, kr_nonce = 9\<rparr>]"



text \<open>
  C37. Once a key rotation with a higher counter is recorded, no key of an older rotation is
  used any more: no confidential node is selected for any model and no encryption key is
  handed out, for a model or for a node, until nodes commit to new keys.
\<close>

theorem key_rotation_withdraws_keys:
  assumes "insert_new_key_rotation rots epoch counter nonce = Inr rots'"
    and "\<forall>k \<in> set keys. nk_key_rotation_counter k < counter"
  shows "get_cheapest_node_for_model tasks subs rots' keys model True = None \<and>
    select_node_public_key_for_encryption_for_node rots' keys node = None \<and>
    select_node_public_key_for_encryption t tasks rots' keys model units uid = Inr (t, None)"
proof -
  have "current_keys rots' keys = []" by (rule rotation_withdraws_keys [OF assms])
  then have v: "valid_nodes rots' keys = []" "valid_node_keys rots' keys = []"
    by (simp_all add: valid_nodes_def valid_node_keys_def)
  have "node_offers tasks subs rots' keys model True = []" by (simp add: node_offers_def v filter_empty_conv)
  then show ?thesis
    by (simp add: get_cheapest_node_None_iff select_node_public_key_for_encryption_for_node_def
        select_node_public_key_for_encryption_def v key_stack_join_def)
qed

theorem key_rotation_withdraws_keys_witness:
  "select_node_public_key_for_encryption_for_node
     (sample_rotations @ [\<lparr>kr_epoch = 2, kr_key_rotation_counter = 5, kr_nonce = 7\<rparr>]) [sample_key 9 4 True] 9 = None"
proof -
  have "insert_new_key_rotation sample_rotations 2 5 7 =
    Inr (sample_rotations @ [\<lparr>kr_epoch = 2, kr_key_rotation_counter = 5, kr_nonce = 7\<rparr>])"
    and "\<forall>k \<in> set [sample_key 9 4 True]. nk_key_rotation_counter k < 5" by code_simp+
  from key_rotation_withdraws_keys [OF this] show ?thesis by blast
qed

text \<open>
  A key that select_node_public_key_for_encryption returns is a valid key of the latest
  rotation of the node that serves a stack of the user with enough free units, and the
  requested units have been locked on exactly that stack.
\<close>

theorem encryption_key_is_current_and_paid:
  assumes "select_node_public_key_for_encryption t tasks rots keys model units uid = Inr (t', Some pk)"
    and "stacks_inv t"
  shows "(pk_node_small_id pk, pk_public_key pk) \<in> set (valid_node_keys rots keys) \<and>
    (\<exists>s \<in> set t. pk_stack_small_id pk = Some (stack_small_id s) \<and>
       selected_node_id s = pk_node_small_id pk \<and> user_id s = uid \<and> units \<le> free_units s \<and>
       t' = put_row stack_small_id (with_locked units s) t)"
  by (rule select_node_public_key_spec [OF assms])

theorem encryption_key_is_current_and_paid_witness:
  "(8, [1, 2]) \<in> set (valid_node_keys sample_rotations [sample_key 8 4 True])"
proof -
  have "select_node_public_key_for_encryption sample_stacks [sample_task] sample_rotations [sample_key 8 4 True] ''m'' 60 5 =
    Inr ([sample_stack 1 900 50, sample_stack 2 100 60],
      Some \<lparr>pk_node_small_id = 8, pk_public_key = [1, 2], pk_stack_small_id = Some 2\<rparr>)"
    by code_simp
  from encryption_key_is_current_and_paid [OF this sample_stacks_ok(1)] show ?thesis by simp
qed

text \<open>
  For a node whose registration has just been recorded with a Sui address,
  verify_node_small_id_ownership refuses that very address, since it compares the address
  with the node's public address.
\<close>

theorem registered_owner_is_refused:
  assumes "insert_new_node nodes node badge sui = Inr nodes'"
  shows "get_node_sui_address nodes' node = Some sui \<and>
    verify_node_small_id_ownership nodes' node sui = Inl NodeSmallIdOwnershipVerificationFailed"
proof -
  from assms have n: "nodes' = nodes @ [\<lparr>nd_node_small_id = node, nd_node_id = badge, nd_sui_address = sui,
      nd_public_address = None, nd_country = None, nd_timestamp = None\<rparr>]"
    and fresh: "\<forall>d \<in> set nodes. nd_node_small_id d \<noteq> node"
    by (auto simp: insert_new_node_def sql_insert_def res_iffs list_ex_iff split: if_splits)
  then have "filter (\<lambda>d. nd_node_small_id d = node) nodes = []" by (simp add: filter_empty_conv)
  with n fresh show ?thesis
    by (auto simp: get_node_sui_address_def verify_node_small_id_ownership_def list_ex_iff)
qed

theorem registered_owner_is_refused_witness:
  "verify_node_small_id_ownership [\<lparr>nd_node_small_id = 8, nd_node_id = ''0xb'', nd_sui_address = ''0xa'',
      nd_public_address = None, nd_country = None, nd_timestamp = None\<rparr>] 8 ''0xa'' =
     Inl NodeSmallIdOwnershipVerificationFailed"
proof -
  have "insert_new_node [] 8 ''0xb'' ''0xa'' = Inr [\<lparr>nd_node_small_id = 8, nd_node_id = ''0xb'',
      nd_sui_address = ''0xa'', nd_public_address = None, nd_country = None, nd_timestamp = None\<rparr>]" by code_simp
  from registered_owner_is_refused [OF this] show ?thesis by simp
qed

end
