(* ===== verification/Balances.thy ===== *)
theory Balances
  imports Types Ledger
begin

text \<open>
  The tables that hold a user's money and usage: \<^verbatim>\<open>crypto_balances\<close>,
  \<^verbatim>\<open>usdc_payment_digests\<close>, \<^verbatim>\<open>fiat_balances\<close>, \<^verbatim>\<open>usage_per_day\<close>, \<^verbatim>\<open>usage_per_model\<close>
  and \<^verbatim>\<open>user_model_prices\<close>, with the statements of
  \<^verbatim>\<open>atoma-state/src/state_manager.rs\<close> on them. The lemmas show that USDC is never
  overdrawn and is conserved by a deduction and its refund, and that the fiat table is a
  reservation ledger in the sense of \<open>Ledger\<close>.
\<close>

subsection \<open>USDC balances\<close>

record crypto_balance =
  cb_user_id :: int
  usdc_balance :: int

type_synonym crypto_balances = "crypto_balance list"

text \<open>
  The constraint \<^verbatim>\<open>balance_usdc_balance_check\<close> and the \<^verbatim>\<open>INTEGER\<close> key column.
\<close>

definition crypto_store :: "crypto_balance \<Rightarrow> db_error + crypto_balance" where
  "crypto_store r =
     res_bind (to_int4 (cb_user_id r)) (\<lambda>_.
       if 0 \<le> usdc_balance r then Inr r else Inl CheckViolation)"

definition crypto_clash :: "crypto_balance \<Rightarrow> crypto_balance \<Rightarrow> bool" where
  "crypto_clash r q \<longleftrightarrow> cb_user_id q = cb_user_id r"

definition get_crypto_balance_for_user :: "crypto_balances \<Rightarrow> int \<Rightarrow> int" where
  "get_crypto_balance_for_user t uid =
     (case fetch_optional (filter (\<lambda>r. cb_user_id r = uid) t) of None \<Rightarrow> 0 | Some r \<Rightarrow> usdc_balance r)"

definition add_usdc :: "int \<Rightarrow> crypto_balance \<Rightarrow> db_error + crypto_balance" where
  "add_usdc n r = res_bind (bigint_add (usdc_balance r) n) (\<lambda>b. Inr (r\<lparr>usdc_balance := b\<rparr>))"

definition sub_usdc :: "int \<Rightarrow> crypto_balance \<Rightarrow> db_error + crypto_balance" where
  "sub_usdc n r = res_bind (bigint_sub (usdc_balance r) n) (\<lambda>b. Inr (r\<lparr>usdc_balance := b\<rparr>))"

definition top_up_crypto_balance :: "crypto_balances \<Rightarrow> int \<Rightarrow> int \<Rightarrow> state_error + crypto_balances" where
  "top_up_crypto_balance t uid balance =
     db_try (sql_upsert crypto_clash crypto_store (\<lambda>new old. add_usdc (usdc_balance new) old)
       \<lparr>cb_user_id = uid, usdc_balance = balance\<rparr> t)"

definition deduct_from_usdc :: "crypto_balances \<Rightarrow> int \<Rightarrow> int \<Rightarrow> state_error + crypto_balances" where
  "deduct_from_usdc t uid balance =
     res_bind (db_try (sql_update (\<lambda>r.
         sql_and (sql_is (cb_user_id r = uid)) (sql_is (usdc_balance r \<ge> balance)))
       (sub_usdc balance) crypto_store t))
       (\<lambda>(t', u). if length u \<noteq> 1 then Inl InsufficientBalance else Inr t')"

definition refund_usdc :: "crypto_balances \<Rightarrow> int \<Rightarrow> int \<Rightarrow> state_error + crypto_balances" where
  "refund_usdc t uid amount =
     db_try (res_bind (sql_update (\<lambda>r. sql_is (cb_user_id r = uid)) (add_usdc amount) crypto_store t)
       (\<lambda>(t', u). Inr t'))"

definition insert_new_usdc_payment_digest :: "string list \<Rightarrow> string \<Rightarrow> state_error + string list" where
  "insert_new_usdc_payment_digest t digest = db_try (sql_insert (=) Inr digest t)"

subsection \<open>Fiat balances\<close>

record fiat_balance =
  fb_user_id :: int
  usd_balance :: int
  already_debited_completions_amount :: int
  already_debited_input_amount :: int
  overcharged_unsettled_completions_amount :: int
  overcharged_unsettled_input_amount :: int
  num_requests :: int

type_synonym fiat_balances = "fiat_balance list"

text \<open>
  \<^verbatim>\<open>usd_balance >= already_debited_completions_amount + already_debited_input_amount +
  overcharged_unsettled_completions_amount + overcharged_unsettled_input_amount + $2 + $3\<close>
\<close>

definition fiat_affords :: "int \<Rightarrow> int \<Rightarrow> fiat_balance \<Rightarrow> db_error + bool" where
  "fiat_affords input output r =
     res_bind (bigint_sum (already_debited_completions_amount r)
       [already_debited_input_amount r, overcharged_unsettled_completions_amount r,
        overcharged_unsettled_input_amount r, input, output])
       (\<lambda>s. sql_is (usd_balance r \<ge> s))"

definition hold_fiat :: "int \<Rightarrow> int \<Rightarrow> fiat_balance \<Rightarrow> db_error + fiat_balance" where
  "hold_fiat input output r =
     res_bind (bigint_add (overcharged_unsettled_input_amount r) input) (\<lambda>i.
     res_bind (bigint_add (overcharged_unsettled_completions_amount r) output) (\<lambda>c.
       Inr (r\<lparr>overcharged_unsettled_input_amount := i,
              overcharged_unsettled_completions_amount := c\<rparr>)))"

definition lock_user_fiat_balance ::
  "fiat_balances \<Rightarrow> int \<Rightarrow> int \<Rightarrow> int \<Rightarrow> state_error + (fiat_balances \<times> bool)" where
  "lock_user_fiat_balance t uid input_amount output_amount =
     db_try (res_bind (sql_update (\<lambda>r.
         sql_and (sql_is (fb_user_id r = uid)) (fiat_affords input_amount output_amount r))
       (hold_fiat input_amount output_amount) Inr t)
       (\<lambda>(t', u). Inr (t', length u = 1)))"

definition settle_fiat :: "int \<Rightarrow> int \<Rightarrow> int \<Rightarrow> int \<Rightarrow> fiat_balance \<Rightarrow> db_error + fiat_balance" where
  "settle_fiat estimated_input input estimated_output output r =
     res_bind (bigint_sub (overcharged_unsettled_input_amount r) estimated_input) (\<lambda>hi.
     res_bind (bigint_add (already_debited_input_amount r) input) (\<lambda>di.
     res_bind (bigint_sub (overcharged_unsettled_completions_amount r) estimated_output) (\<lambda>hc.
     res_bind (bigint_add (already_debited_completions_amount r) output) (\<lambda>dc.
     res_bind (bigint_add (num_requests r) (of_bool (output > 0))) (\<lambda>m.
       Inr (r\<lparr>overcharged_unsettled_input_amount := hi,
              already_debited_input_amount := di,
              overcharged_unsettled_completions_amount := hc,
              already_debited_completions_amount := dc,
              num_requests := m\<rparr>))))))"

definition update_real_amount_fiat_balance ::
  "fiat_balances \<Rightarrow> int \<Rightarrow> int \<Rightarrow> int \<Rightarrow> int \<Rightarrow> int \<Rightarrow> state_error + fiat_balances" where
  "update_real_amount_fiat_balance t uid estimated_input_amount input_amount estimated_output_amount output_amount =
     res_bind (db_try (sql_update (\<lambda>r. sql_is (fb_user_id r = uid))
       (settle_fiat estimated_input_amount input_amount estimated_output_amount output_amount) Inr t))
       (\<lambda>(t', u). if length u = 0 then Inl InsufficientBalance else Inr t')"

subsection \<open>Usage and prices\<close>

record usage_day =
  ud_user_id :: int
  ud_date :: int
  ud_model :: string
  ud_input_amount :: int
  ud_input_tokens :: int
  ud_output_amount :: int
  ud_output_tokens :: int

text \<open>\<open>today\<close> is the default \<^verbatim>\<open>CURRENT_DATE\<close> of the column \<^verbatim>\<open>date\<close>.\<close>

definition add_usage_day :: "usage_day \<Rightarrow> usage_day \<Rightarrow> db_error + usage_day" where
  "add_usage_day new old =
     res_bind (bigint_add (ud_input_amount old) (ud_input_amount new)) (\<lambda>ia.
     res_bind (bigint_add (ud_input_tokens old) (ud_input_tokens new)) (\<lambda>it.
     res_bind (bigint_add (ud_output_amount old) (ud_output_amount new)) (\<lambda>oa.
     res_bind (bigint_add (ud_output_tokens old) (ud_output_tokens new)) (\<lambda>ot.
       Inr (old\<lparr>ud_input_amount := ia, ud_input_tokens := it,
                ud_output_amount := oa, ud_output_tokens := ot\<rparr>)))))"

definition update_per_day_table ::
  "usage_day list \<Rightarrow> int \<Rightarrow> int \<Rightarrow> string \<Rightarrow> int \<Rightarrow> int \<Rightarrow> int \<Rightarrow> int \<Rightarrow> state_error + usage_day list" where
  "update_per_day_table t today uid model input_amount input_tokens output_amount output_tokens =
     db_try (sql_upsert
       (\<lambda>r q. ud_user_id q = ud_user_id r \<and> ud_model q = ud_model r \<and> ud_date q = ud_date r) Inr add_usage_day
       \<lparr>ud_user_id = uid, ud_date = today, ud_model = model, ud_input_amount = input_amount,
        ud_input_tokens = input_tokens, ud_output_amount = output_amount, ud_output_tokens = output_tokens\<rparr> t)"

record usage_model =
  um_user_id :: int
  um_model :: string
  total_input_tokens :: int
  total_output_tokens :: int

definition add_usage_model :: "usage_model \<Rightarrow> usage_model \<Rightarrow> db_error + usage_model" where
  "add_usage_model new old =
     res_bind (bigint_add (total_input_tokens old) (total_input_tokens new)) (\<lambda>i.
     res_bind (bigint_add (total_output_tokens old) (total_output_tokens new)) (\<lambda>o'.
       Inr (old\<lparr>total_input_tokens := i, total_output_tokens := o'\<rparr>)))"

definition usage_clash :: "usage_model \<Rightarrow> usage_model \<Rightarrow> bool" where
  "usage_clash r q \<longleftrightarrow> um_user_id q = um_user_id r \<and> um_model q = um_model r"

definition update_usage_per_model ::
  "usage_model list \<Rightarrow> int \<Rightarrow> string \<Rightarrow> int \<Rightarrow> int \<Rightarrow> state_error + usage_model list" where
  "update_usage_per_model t uid model input_tokens output_tokens =
     db_try (sql_upsert usage_clash Inr add_usage_model
       \<lparr>um_user_id = uid, um_model = model, total_input_tokens = input_tokens,
        total_output_tokens = output_tokens\<rparr> t)"

record model_price =
  mp_user_id :: int
  mp_model_name :: string
  mp_price_per_one_million_input_compute_units :: int
  mp_price_per_one_million_output_compute_units :: int
  mp_creation_timestamp :: int

text \<open>\<open>now\<close> is the default \<^verbatim>\<open>CURRENT_TIMESTAMP\<close> of the column \<^verbatim>\<open>creation_timestamp\<close>.\<close>

definition set_custom_pricing ::
  "model_price list \<Rightarrow> int \<Rightarrow> int \<Rightarrow> string \<Rightarrow> int \<Rightarrow> int \<Rightarrow> state_error + model_price list" where
  "set_custom_pricing t now uid model input_price output_price =
     db_try (sql_insert
       (\<lambda>r q. mp_user_id q = mp_user_id r \<and> mp_model_name q = mp_model_name r \<and>
              mp_creation_timestamp q = mp_creation_timestamp r) Inr
       \<lparr>mp_user_id = uid, mp_model_name = model,
        mp_price_per_one_million_input_compute_units = input_price,
        mp_price_per_one_million_output_compute_units = output_price,
        mp_creation_timestamp = now\<rparr> t)"

definition get_custom_pricing :: "model_price list \<Rightarrow> int \<Rightarrow> string \<Rightarrow> pricing option" where
  "get_custom_pricing t uid model =
     map_option (\<lambda>r. \<lparr>
         price_per_one_million_input_compute_units = mp_price_per_one_million_input_compute_units r,
         price_per_one_million_output_compute_units = mp_price_per_one_million_output_compute_units r\<rparr>)
       (top_by mp_creation_timestamp (filter (\<lambda>r. mp_user_id r = uid \<and> mp_model_name r = model) t))"

subsection \<open>USDC is never overdrawn\<close>

definition crypto_inv :: "crypto_balances \<Rightarrow> bool" where
  "crypto_inv t \<longleftrightarrow> distinct (map cb_user_id t) \<and>
     (\<forall>r \<in> set t. 0 \<le> usdc_balance r \<and> in_i64 (usdc_balance r) \<and> in_i32 (cb_user_id r))"

definition usdc_of :: "crypto_balances \<Rightarrow> int \<Rightarrow> int" where
  "usdc_of t i = (case row_of cb_user_id t i of None \<Rightarrow> 0 | Some r \<Rightarrow> usdc_balance r)"

lemma crypto_store_Inr_iff [sql_simps]:
  "crypto_store r = Inr r' \<longleftrightarrow> r' = r \<and> in_i32 (cb_user_id r) \<and> 0 \<le> usdc_balance r"
  by (auto simp: crypto_store_def res_iffs sql_simps)

lemma add_usdc_Inr_iff [sql_simps]:
  "add_usdc n r = Inr r' \<longleftrightarrow> in_i64 (usdc_balance r + n) \<and> r' = r\<lparr>usdc_balance := usdc_balance r + n\<rparr>"
  by (auto simp: add_usdc_def res_iffs sql_simps)

lemma sub_usdc_Inr_iff [sql_simps]:
  "sub_usdc n r = Inr r' \<longleftrightarrow> in_i64 (usdc_balance r - n) \<and> r' = r\<lparr>usdc_balance := usdc_balance r - n\<rparr>"
  by (auto simp: sub_usdc_def res_iffs sql_simps)

lemma crypto_invD:
  "crypto_inv t \<Longrightarrow> distinct (map cb_user_id t)"
  "crypto_inv t \<Longrightarrow> r \<in> set t \<Longrightarrow> 0 \<le> usdc_balance r \<and> in_i64 (usdc_balance r) \<and> in_i32 (cb_user_id r)"
  by (auto simp: crypto_inv_def)

lemma crypto_update_inv:
  assumes "sql_update w f crypto_store t = Inr (t', u)" and "crypto_inv t"
    and f: "\<And>r s. f r = Inr s \<Longrightarrow> cb_user_id s = cb_user_id r \<and> in_i64 (usdc_balance s)"
  shows "crypto_inv t'"
proof -
  have "map cb_user_id t' = map cb_user_id t"
    using f by (auto intro!: sql_update_keys [OF assms(1)] simp: sql_simps)
  moreover have "0 \<le> usdc_balance r' \<and> in_i64 (usdc_balance r') \<and> in_i32 (cb_user_id r')" if "r' \<in> set t'" for r'
    by (rule sql_update_inv [OF assms(1) _ _ that]) (use assms(2) f in \<open>auto simp: crypto_inv_def sql_simps\<close>)
  ultimately show ?thesis using assms(2) by (simp add: crypto_inv_def)
qed

lemma deduct_from_usdc_inv: "deduct_from_usdc t i n = Inr t' \<Longrightarrow> crypto_inv t \<Longrightarrow> crypto_inv t'"
  by (auto simp: deduct_from_usdc_def res_iffs sql_simps elim!: crypto_update_inv split: if_splits)

lemma refund_usdc_inv: "refund_usdc t i n = Inr t' \<Longrightarrow> crypto_inv t \<Longrightarrow> crypto_inv t'"
  by (auto simp: refund_usdc_def res_iffs sql_simps elim!: crypto_update_inv)

lemma top_up_crypto_balance_inv:
  assumes "top_up_crypto_balance t i n = Inr t'" and "crypto_inv t" and "in_i64 n"
  shows "crypto_inv t'"
proof (cases "list_ex (crypto_clash \<lparr>cb_user_id = i, usdc_balance = n\<rparr>) t")
  case True
  with assms(1) obtain u where
    "sql_update (\<lambda>q. sql_is (crypto_clash \<lparr>cb_user_id = i, usdc_balance = n\<rparr> q)) (add_usdc n) crypto_store t
      = Inr (t', u)"
    by (auto simp: top_up_crypto_balance_def sql_upsert_def res_iffs sql_simps)
  then show ?thesis by (rule crypto_update_inv [OF _ assms(2)]) (auto simp: sql_simps)
next
  case False
  with assms show ?thesis
    by (auto simp: top_up_crypto_balance_def sql_upsert_def res_iffs sql_simps crypto_inv_def
        list_ex_iff crypto_clash_def)
qed

text \<open>What a deduction does: it succeeds exactly when the user has the money.\<close>

lemma sql_update_crypto:
  assumes "crypto_inv t" and "row_of cb_user_id t i = Some r" and "keeps_key cb_user_id f"
    and "\<And>q. w q = sql_and (sql_is (cb_user_id q = i)) (c q)"
  shows "sql_update w f crypto_store t =
    res_bind (c r) (\<lambda>hit. if hit
      then res_bind (res_bind (f r) crypto_store) (\<lambda>r'. Inr (put_row cb_user_id r' t, [r']))
      else Inr (t, []))"
  by (rule sql_update_key [OF crypto_invD(1) [OF assms(1)] assms(2)])
    (use assms(3,4) in \<open>simp_all add: keeps_key_def sql_simps\<close>)

lemma deduct_from_usdc_row:
  assumes "crypto_inv t" and "0 \<le> n"
  shows "deduct_from_usdc t i n =
    (case row_of cb_user_id t i of None \<Rightarrow> Inl InsufficientBalance
     | Some r \<Rightarrow> if n \<le> usdc_balance r
         then Inr (put_row cb_user_id (r\<lparr>usdc_balance := usdc_balance r - n\<rparr>) t)
         else Inl InsufficientBalance)"
proof (cases "row_of cb_user_id t i")
  case None
  then show ?thesis
    unfolding deduct_from_usdc_def sql_update_key_None [OF None refl] by simp
next
  case (Some r)
  then have r: "0 \<le> usdc_balance r" "in_i64 (usdc_balance r)" "in_i32 (cb_user_id r)"
    using assms by (auto dest!: row_of_SomeD crypto_invD(2))
  have key: "keeps_key cb_user_id (sub_usdc n)" by (auto simp: keeps_key_def sql_simps)
  have "res_bind (sub_usdc n r) crypto_store = Inr (r\<lparr>usdc_balance := usdc_balance r - n\<rparr>)"
    if "n \<le> usdc_balance r"
    using that r assms(2) by (auto simp: res_iffs sql_simps i64_bounds)
  then show ?thesis
    unfolding deduct_from_usdc_def sql_update_crypto [OF assms(1) Some key refl] using Some
    by (simp add: sql_is_def)
qed

lemma refund_usdc_Inr_iff:
  assumes "crypto_inv t" and "row_of cb_user_id t i = Some r"
  shows "refund_usdc t i n = Inr t' \<longleftrightarrow>
    in_i64 (usdc_balance r + n) \<and> 0 \<le> usdc_balance r + n \<and>
    t' = put_row cb_user_id (r\<lparr>usdc_balance := usdc_balance r + n\<rparr>) t"
proof -
  have key: "keeps_key cb_user_id (add_usdc n)" by (auto simp: keeps_key_def sql_simps)
  have "in_i32 (cb_user_id r)" using assms by (auto dest!: row_of_SomeD crypto_invD(2))
  moreover have "sql_update (\<lambda>r. sql_is (cb_user_id r = i)) (add_usdc n) crypto_store t =
      res_bind (Inr True) (\<lambda>hit. if hit
        then res_bind (res_bind (add_usdc n r) crypto_store) (\<lambda>r'. Inr (put_row cb_user_id r' t, [r']))
        else Inr (t, []))"
    by (rule sql_update_crypto [OF assms key]) (simp add: sql_is_alone [symmetric])
  ultimately show ?thesis by (auto simp: refund_usdc_def res_iffs sql_simps)
qed

lemma deduct_refund:
  assumes "crypto_inv t" and "0 \<le> n" and "deduct_from_usdc t i n = Inr t1"
  shows "refund_usdc t1 i n = Inr t"
proof -
  from assms obtain r where r: "row_of cb_user_id t i = Some r" and "n \<le> usdc_balance r"
    and t1: "t1 = put_row cb_user_id (r\<lparr>usdc_balance := usdc_balance r - n\<rparr>) t"
    by (auto simp: deduct_from_usdc_row split: option.splits if_splits)
  from r assms(1) have "0 \<le> usdc_balance r" "in_i64 (usdc_balance r)" "cb_user_id r = i"
    by (auto dest: row_of_SomeD crypto_invD(2))
  moreover have "crypto_inv t1" using assms by (auto intro: deduct_from_usdc_inv)
  moreover have "row_of cb_user_id t1 i = Some (r\<lparr>usdc_balance := usdc_balance r - n\<rparr>)"
    using r \<open>cb_user_id r = i\<close> by (simp add: t1)
  moreover have "put_row cb_user_id r t1 = t"
    using r assms(1) by (simp add: t1 put_row_put_row put_row_same crypto_invD(1))
  ultimately show ?thesis by (simp add: refund_usdc_Inr_iff)
qed

subsection \<open>Fiat balances as a reservation ledger\<close>

definition fiat_row_ok :: "fiat_balance \<Rightarrow> bool" where
  "fiat_row_ok r \<longleftrightarrow> in_i64 (usd_balance r) \<and>
     in_i64 (already_debited_completions_amount r) \<and> in_i64 (already_debited_input_amount r) \<and>
     in_i64 (overcharged_unsettled_completions_amount r) \<and> in_i64 (overcharged_unsettled_input_amount r) \<and>
     in_i64 (num_requests r)"

definition fiat_inv :: "fiat_balances \<Rightarrow> bool" where
  "fiat_inv t \<longleftrightarrow> distinct (map fb_user_id t) \<and> (\<forall>r \<in> set t. fiat_row_ok r)"

definition fiat_debited :: "fiat_balance \<Rightarrow> int" where
  "fiat_debited r = already_debited_input_amount r + already_debited_completions_amount r"

definition fiat_held :: "fiat_balance \<Rightarrow> int" where
  "fiat_held r = overcharged_unsettled_input_amount r + overcharged_unsettled_completions_amount r"

lemma fiat_affords_TrueD:
  "fiat_affords a b r = Inr True \<Longrightarrow> fiat_debited r + fiat_held r + a + b \<le> usd_balance r"
  by (auto simp: fiat_affords_def res_bind_Inr_iff sql_simps fiat_debited_def fiat_held_def
      dest!: bigint_sum_InrD simp del: bigint_sum.simps)

lemma hold_fiat_Inr_iff [sql_simps]:
  "hold_fiat a b r = Inr r' \<longleftrightarrow>
     in_i64 (overcharged_unsettled_input_amount r + a) \<and>
     in_i64 (overcharged_unsettled_completions_amount r + b) \<and>
     r' = r\<lparr>overcharged_unsettled_input_amount := overcharged_unsettled_input_amount r + a,
            overcharged_unsettled_completions_amount := overcharged_unsettled_completions_amount r + b\<rparr>"
  by (auto simp: hold_fiat_def res_iffs sql_simps)

lemma settle_fiat_Inr_iff [sql_simps]:
  "settle_fiat ea a eb b r = Inr r' \<longleftrightarrow>
     in_i64 (overcharged_unsettled_input_amount r - ea) \<and> in_i64 (already_debited_input_amount r + a) \<and>
     in_i64 (overcharged_unsettled_completions_amount r - eb) \<and>
     in_i64 (already_debited_completions_amount r + b) \<and> in_i64 (num_requests r + of_bool (b > 0)) \<and>
     r' = r\<lparr>overcharged_unsettled_input_amount := overcharged_unsettled_input_amount r - ea,
            already_debited_input_amount := already_debited_input_amount r + a,
            overcharged_unsettled_completions_amount := overcharged_unsettled_completions_amount r - eb,
            already_debited_completions_amount := already_debited_completions_amount r + b,
            num_requests := num_requests r + of_bool (b > 0)\<rparr>"
  by (auto simp: settle_fiat_def res_iffs sql_simps)

lemma fiat_invD:
  "fiat_inv t \<Longrightarrow> distinct (map fb_user_id t)"
  "fiat_inv t \<Longrightarrow> r \<in> set t \<Longrightarrow> fiat_row_ok r"
  by (auto simp: fiat_inv_def)

lemma fiat_update_inv:
  assumes "sql_update w f Inr t = Inr (t', u)" and "fiat_inv t"
    and f: "\<And>r s. f r = Inr s \<Longrightarrow> fb_user_id s = fb_user_id r \<and> (fiat_row_ok r \<longrightarrow> fiat_row_ok s)"
  shows "fiat_inv t'"
proof -
  have "map fb_user_id t' = map fb_user_id t"
    using f by (auto intro!: sql_update_keys [OF assms(1)])
  moreover have "fiat_row_ok r'" if "r' \<in> set t'" for r'
    by (rule sql_update_inv [OF assms(1) _ _ that]) (use assms(2) f in \<open>auto simp: fiat_inv_def\<close>)
  ultimately show ?thesis using assms(2) by (simp add: fiat_inv_def)
qed

lemma lock_user_fiat_balance_inv:
  "lock_user_fiat_balance t i a b = Inr (t', ok) \<Longrightarrow> fiat_inv t \<Longrightarrow> fiat_inv t'"
  by (auto simp: lock_user_fiat_balance_def res_iffs sql_simps fiat_row_ok_def elim!: fiat_update_inv)

lemma update_real_amount_fiat_balance_inv:
  "update_real_amount_fiat_balance t i ea a eb b = Inr t' \<Longrightarrow> fiat_inv t \<Longrightarrow> fiat_inv t'"
  by (auto simp: update_real_amount_fiat_balance_def res_iffs sql_simps fiat_row_ok_def
      elim!: fiat_update_inv split: if_splits)

text \<open>Both statements are decided by the row of the user.\<close>

lemma hold_fiat_key: "keeps_key fb_user_id (hold_fiat a b)"
  by (auto simp: keeps_key_def sql_simps)

lemma settle_fiat_key: "keeps_key fb_user_id (settle_fiat ea a eb b)"
  by (auto simp: keeps_key_def sql_simps)

lemma sql_update_fiat:
  assumes "fiat_inv t" and "row_of fb_user_id t i = Some r" and "keeps_key fb_user_id f"
    and "\<And>q. w q = sql_and (sql_is (fb_user_id q = i)) (c q)"
  shows "sql_update w f Inr t =
    res_bind (c r) (\<lambda>hit. if hit
      then res_bind (f r) (\<lambda>r'. Inr (put_row fb_user_id r' t, [r'])) else Inr (t, []))"
proof -
  have "sql_update w f Inr t = res_bind (c r) (\<lambda>hit. if hit
      then res_bind (res_bind (f r) Inr) (\<lambda>r'. Inr (put_row fb_user_id r' t, [r'])) else Inr (t, []))"
    by (rule sql_update_key [OF fiat_invD(1) [OF assms(1)] assms(2,4)])
      (use assms(3) in \<open>simp add: keeps_key_def\<close>)
  then show ?thesis unfolding res_bind_right_id .
qed

lemma lock_user_fiat_balance_row:
  assumes "fiat_inv t" and "row_of fb_user_id t i = Some r"
  shows "lock_user_fiat_balance t i a b =
    db_try (res_bind (fiat_affords a b r) (\<lambda>hit. if hit
      then res_bind (hold_fiat a b r) (\<lambda>r'. Inr (put_row fb_user_id r' t, True)) else Inr (t, False)))"
  unfolding lock_user_fiat_balance_def sql_update_fiat [OF assms hold_fiat_key refl]
  by (cases "fiat_affords a b r"; cases "hold_fiat a b r") auto

lemma lock_user_fiat_balance_missing:
  "row_of fb_user_id t i = None \<Longrightarrow> lock_user_fiat_balance t i a b = Inr (t, False)"
  unfolding lock_user_fiat_balance_def by (subst sql_update_key_None [OF _ refl]) auto

lemma lock_user_fiat_balance_granted_iff:
  assumes "fiat_inv t"
  shows "lock_user_fiat_balance t i a b = Inr (t', True) \<longleftrightarrow>
    (\<exists>r r'. row_of fb_user_id t i = Some r \<and> fiat_affords a b r = Inr True \<and>
       hold_fiat a b r = Inr r' \<and> t' = put_row fb_user_id r' t)"
proof (cases "row_of fb_user_id t i")
  case None
  then show ?thesis by (simp add: lock_user_fiat_balance_missing)
next
  case (Some r)
  then show ?thesis
    by (cases "fiat_affords a b r")
      (auto simp: lock_user_fiat_balance_row [OF assms Some] res_iffs split: if_splits)
qed

lemma lock_user_fiat_balance_refused:
  assumes "fiat_inv t" and "lock_user_fiat_balance t i a b = Inr (t', False)"
  shows "t' = t"
proof (cases "row_of fb_user_id t i")
  case None
  with assms show ?thesis by (simp add: lock_user_fiat_balance_missing)
next
  case (Some r)
  with assms show ?thesis
    by (auto simp: lock_user_fiat_balance_row [OF assms(1) Some] res_iffs split: if_splits)
qed

lemma update_real_amount_fiat_balance_Inr_iff:
  assumes "fiat_inv t"
  shows "update_real_amount_fiat_balance t i ea a eb b = Inr t' \<longleftrightarrow>
    (\<exists>r r'. row_of fb_user_id t i = Some r \<and> settle_fiat ea a eb b r = Inr r' \<and>
       t' = put_row fb_user_id r' t)"
proof (cases "row_of fb_user_id t i")
  case None
  have "sql_update (\<lambda>r. sql_is (fb_user_id r = i)) (settle_fiat ea a eb b) Inr t = Inr (t, [])"
    by (rule sql_update_key_None [OF None, where c = "\<lambda>q. Inr True"]) (simp add: sql_is_alone [symmetric])
  with None show ?thesis by (simp add: update_real_amount_fiat_balance_def)
next
  case (Some r)
  have "sql_update (\<lambda>r. sql_is (fb_user_id r = i)) (settle_fiat ea a eb b) Inr t =
      res_bind (Inr True) (\<lambda>hit. if hit
        then res_bind (settle_fiat ea a eb b r) (\<lambda>r'. Inr (put_row fb_user_id r' t, [r'])) else Inr (t, []))"
    by (rule sql_update_fiat [OF assms Some settle_fiat_key]) (simp add: sql_is_alone [symmetric])
  with Some show ?thesis by (auto simp: update_real_amount_fiat_balance_def res_iffs sql_simps)
qed

definition fiat_num :: "(fiat_balance \<Rightarrow> int) \<Rightarrow> fiat_balances \<Rightarrow> int \<Rightarrow> int" where
  "fiat_num g t i = (case row_of fb_user_id t i of None \<Rightarrow> 0 | Some r \<Rightarrow> g r)"

lemma fiat_num_put:
  "row_of fb_user_id t i = Some r \<Longrightarrow> fb_user_id r' = fb_user_id r \<Longrightarrow>
   fiat_num g (put_row fb_user_id r' t) j = (if j = i then g r' else fiat_num g t j)"
  by (auto simp: fiat_num_def dest!: row_of_SomeD split: option.splits)

lemma fiat_num_Some: "row_of fb_user_id t i = Some r \<Longrightarrow> fiat_num g t i = g r"
  by (simp add: fiat_num_def)

text \<open>An amount is the pair of its input and its output part.\<close>

fun fiat_weight :: "int \<times> int \<Rightarrow> int" where
  "fiat_weight (input, output) = input + output"

fun reserve_fiat :: "int \<Rightarrow> int \<times> int \<Rightarrow> fiat_balances \<Rightarrow> fiat_balances option" where
  "reserve_fiat i (input, output) t =
     (case lock_user_fiat_balance t i input output of Inr (t', True) \<Rightarrow> Some t' | _ \<Rightarrow> None)"

fun settle_fiat_amounts :: "int \<Rightarrow> int \<times> int \<Rightarrow> int \<times> int \<Rightarrow> fiat_balances \<Rightarrow> fiat_balances option" where
  "settle_fiat_amounts i (ei, eo) (input, output) t =
     (case update_real_amount_fiat_balance t i ei input eo output of Inr t' \<Rightarrow> Some t' | Inl e \<Rightarrow> None)"

lemma reserve_fiat_iff:
  "reserve_fiat i n t = Some t' \<longleftrightarrow> lock_user_fiat_balance t i (fst n) (snd n) = Inr (t', True)"
  by (cases n) (auto split: sum.splits prod.splits bool.splits)

lemma settle_fiat_amounts_iff:
  "settle_fiat_amounts i e a t = Some t' \<longleftrightarrow>
   update_real_amount_fiat_balance t i (fst e) (fst a) (snd e) (snd a) = Inr t'"
  by (cases e; cases a) (auto split: sum.splits)

lemma fiat_weight_alt: "fiat_weight n = fst n + snd n"
  by (cases n) simp

interpretation fiat_ledger: reservation_ledger fiat_inv
  "fiat_num usd_balance" "fiat_num fiat_debited" "fiat_num fiat_held" fiat_weight reserve_fiat settle_fiat_amounts
proof unfold_locales
  fix t :: fiat_balances and i j :: int and n e :: "int \<times> int" and t'
  assume inv: "fiat_inv t"
  note defs = fiat_debited_def fiat_held_def fiat_weight_alt sql_simps fiat_num_put fiat_num_Some
  show "fiat_inv t'" if "reserve_fiat i n t = Some t'"
    using that inv by (auto simp: reserve_fiat_iff intro: lock_user_fiat_balance_inv)
  show "fiat_inv t'" if "settle_fiat_amounts i e n t = Some t'"
    using that inv by (auto simp: settle_fiat_amounts_iff intro: update_real_amount_fiat_balance_inv)
  show "fiat_num fiat_debited t i + fiat_num fiat_held t i + fiat_weight n \<le> fiat_num usd_balance t i"
    if "reserve_fiat i n t = Some t'"
    using that by (auto simp: reserve_fiat_iff lock_user_fiat_balance_granted_iff [OF inv] fiat_num_Some
        fiat_weight_alt dest!: fiat_affords_TrueD)
  show "fiat_num usd_balance t' j = fiat_num usd_balance t j"
      "fiat_num fiat_debited t' j = fiat_num fiat_debited t j"
      "fiat_num fiat_held t' j = fiat_num fiat_held t j + (if j = i then fiat_weight n else 0)"
    if "reserve_fiat i n t = Some t'"
    using that by (auto simp: reserve_fiat_iff lock_user_fiat_balance_granted_iff [OF inv] defs)
  show "fiat_num usd_balance t' j = fiat_num usd_balance t j"
      "fiat_num fiat_debited t' j = fiat_num fiat_debited t j + (if j = i then fiat_weight n else 0)"
      "fiat_num fiat_held t' j = fiat_num fiat_held t j - (if j = i then fiat_weight e else 0)"
    if "settle_fiat_amounts i e n t = Some t'"
    using that by (auto simp: settle_fiat_amounts_iff update_real_amount_fiat_balance_Inr_iff [OF inv] defs)
qed

text \<open>A lock that is rolled back leaves the table as it was.\<close>

lemma lock_rollback_fiat:
  assumes "fiat_inv t" and "lock_user_fiat_balance t i a b = Inr (t1, True)"
  shows "update_real_amount_fiat_balance t1 i a 0 b 0 = Inr t"
proof -
  from assms obtain r r1 where r: "row_of fb_user_id t i = Some r" and h: "hold_fiat a b r = Inr r1"
    and t1: "t1 = put_row fb_user_id r1 t"
    by (auto simp: lock_user_fiat_balance_granted_iff)
  have inv: "fiat_inv t1" using assms by (auto intro: lock_user_fiat_balance_inv)
  from r assms(1) have ok: "fiat_row_ok r" by (auto dest: row_of_SomeD fiat_invD(2))
  from h have k: "fb_user_id r1 = fb_user_id r" by (auto simp: sql_simps)
  from r k have "row_of fb_user_id t1 i = Some r1" by (auto simp: t1 dest: row_of_SomeD)
  moreover from h ok have "settle_fiat a 0 b 0 r1 = Inr r" by (auto simp: sql_simps fiat_row_ok_def)
  moreover have "put_row fb_user_id r t1 = t"
    using r assms(1) k by (simp add: t1 put_row_put_row put_row_same fiat_invD(1))
  ultimately show ?thesis by (auto simp: update_real_amount_fiat_balance_Inr_iff [OF inv])
qed

text \<open>On columns that are not negative the condition is the comparison it reads as.\<close>

lemma fiat_affords_nonneg:
  assumes "fiat_row_ok r"
    and "0 \<le> already_debited_input_amount r" "0 \<le> already_debited_completions_amount r"
    and "0 \<le> overcharged_unsettled_input_amount r" "0 \<le> overcharged_unsettled_completions_amount r"
    and "0 \<le> a" "0 \<le> b" "fiat_debited r + fiat_held r + a + b \<le> i64_max"
  shows "fiat_affords a b r = Inr (fiat_debited r + fiat_held r + a + b \<le> usd_balance r)"
proof -
  let ?bs = "[already_debited_input_amount r, overcharged_unsettled_completions_amount r,
    overcharged_unsettled_input_amount r, a, b]"
  have "bigint_sum (already_debited_completions_amount r) ?bs =
      Inr (already_debited_completions_amount r + sum_list ?bs)"
    using assms by (intro bigint_sum_nonneg) (auto simp: fiat_row_ok_def fiat_debited_def fiat_held_def)
  then show ?thesis
    by (simp add: fiat_affords_def sql_is_def fiat_debited_def fiat_held_def algebra_simps
        del: bigint_sum.simps)
qed

subsection \<open>Properties\<close>

definition sample_fiat_row :: "int \<Rightarrow> int \<Rightarrow> int \<Rightarrow> int \<Rightarrow> fiat_balance" where
  "sample_fiat_row uid balance held_input held_output = \<lparr>fb_user_id = uid, usd_balance = balance,
     already_debited_completions_amount = 0, already_debited_input_amount = 0,
     overcharged_unsettled_completions_amount = held_output, overcharged_unsettled_input_amount = held_input,
     num_requests = 0\<rparr>"

definition sample_fiat :: fiat_balances where
  "sample_fiat = [sample_fiat_row 7 50 0 0, sample_fiat_row 1 100 0 0]"

lemma sample_fiat_inv: "fiat_inv sample_fiat"
  by code_simp

text \<open>
  C3. Whatever sequence of lock_user_fiat_balance and update_real_amount_fiat_balance runs
  on the fiat balances, with every request settled at most once, for the amounts it locked
  and for charges of at most that, the debited and the held amounts of a user together never
  exceed the balance, the balance is never touched, and the held amount is exactly what the
  requests that are still open have reserved.
\<close>

theorem fiat_never_overspent:
  assumes "fiat_inv t0"
    and "fiat_num fiat_debited t0 uid + fiat_num fiat_held t0 uid \<le> fiat_num usd_balance t0 uid"
    and "lifecycle reserve_fiat settle_fiat_amounts fiat_weight t0 requests t"
  shows "fiat_num fiat_debited t uid + fiat_num fiat_held t uid \<le> fiat_num usd_balance t0 uid \<and>
    fiat_num usd_balance t uid = fiat_num usd_balance t0 uid \<and>
    fiat_num fiat_held t uid = fiat_num fiat_held t0 uid + open_weight fiat_weight uid requests"
  using fiat_ledger.lifecycle_within [OF assms(3,1,2)] fiat_ledger.lifecycle_cap [OF assms(3,1)]
    fiat_ledger.lifecycle_held [OF assms(3,1)] by simp

lemma sample_fiat_locked:
  "lifecycle reserve_fiat settle_fiat_amounts fiat_weight sample_fiat [(1, (10, 20))]
     [sample_fiat_row 7 50 0 0, sample_fiat_row 1 100 10 20]"
  by (rule lifecycle.opened [OF lifecycle.start]) code_simp

theorem fiat_never_overspent_witness:
  "fiat_num fiat_held [sample_fiat_row 7 50 0 0, sample_fiat_row 1 100 10 20] 1 = 30"
proof -
  have "fiat_num fiat_debited sample_fiat 1 + fiat_num fiat_held sample_fiat 1 \<le> fiat_num usd_balance sample_fiat 1"
    and held: "fiat_num fiat_held sample_fiat 1 + open_weight fiat_weight (1 :: int) [(1, (10, 20))] = 30"
    by code_simp+
  from fiat_never_overspent [OF sample_fiat_inv this(1) sample_fiat_locked] held show ?thesis by simp
qed

text \<open>
  lock_user_fiat_balance adds the input and output amounts to the user's held amounts and
  answers true exactly when debited, held and new amounts together fit into the balance, and
  otherwise answers false and changes nothing, as long as the sums fit a bigint.
\<close>

theorem lock_user_fiat_balance_correct:
  assumes "fiat_inv t" and "row_of fb_user_id t uid = Some r"
    and "0 \<le> already_debited_input_amount r" "0 \<le> already_debited_completions_amount r"
    and "0 \<le> overcharged_unsettled_input_amount r" "0 \<le> overcharged_unsettled_completions_amount r"
    and "0 \<le> input" "0 \<le> output" "fiat_debited r + fiat_held r + input + output \<le> i64_max"
  shows "lock_user_fiat_balance t uid input output = Inr
    (if fiat_debited r + fiat_held r + input + output \<le> usd_balance r
     then (put_row fb_user_id (r\<lparr>
         overcharged_unsettled_input_amount := overcharged_unsettled_input_amount r + input,
         overcharged_unsettled_completions_amount := overcharged_unsettled_completions_amount r + output\<rparr>) t, True)
     else (t, False))"
proof -
  have "fiat_row_ok r" using assms(1,2) by (auto dest: row_of_SomeD fiat_invD(2))
  note affords = fiat_affords_nonneg [OF this assms(3-9)]
  have "hold_fiat input output r = Inr (r\<lparr>
      overcharged_unsettled_input_amount := overcharged_unsettled_input_amount r + input,
      overcharged_unsettled_completions_amount := overcharged_unsettled_completions_amount r + output\<rparr>)"
    using assms(3-9) by (auto simp: sql_simps fiat_debited_def fiat_held_def in_i64_nonneg)
  with affords show ?thesis by (simp add: lock_user_fiat_balance_row [OF assms(1,2)])
qed

theorem lock_user_fiat_balance_correct_witness:
  "lock_user_fiat_balance sample_fiat 1 60 40 =
     Inr ([sample_fiat_row 7 50 0 0, sample_fiat_row 1 100 60 40], True) \<and>
   lock_user_fiat_balance sample_fiat 1 60 41 = Inr (sample_fiat, False)"
proof -
  have r: "row_of fb_user_id sample_fiat 1 = Some (sample_fiat_row 1 100 0 0)" by code_simp
  have p: "put_row fb_user_id (sample_fiat_row 1 100 60 40) sample_fiat =
    [sample_fiat_row 7 50 0 0, sample_fiat_row 1 100 60 40]" by code_simp
  show ?thesis
    using lock_user_fiat_balance_correct [OF sample_fiat_inv r, of 60 40]
      lock_user_fiat_balance_correct [OF sample_fiat_inv r, of 60 41] p
    by (simp add: sample_fiat_row_def fiat_debited_def fiat_held_def i64_max_def)
qed

text \<open>
  deduct_from_usdc takes exactly the amount from the user's USDC balance when it is covered,
  and fails with InsufficientBalance and without any change when it is not or the user has
  no balance; refund_usdc of the same amount undoes a deduction.
\<close>

theorem usdc_deduction_correct:
  assumes "crypto_inv t" and "0 \<le> amount"
  shows "deduct_from_usdc t uid amount =
      (case row_of cb_user_id t uid of
         None \<Rightarrow> Inl InsufficientBalance
       | Some r \<Rightarrow> if amount \<le> usdc_balance r
           then Inr (put_row cb_user_id (r\<lparr>usdc_balance := usdc_balance r - amount\<rparr>) t)
           else Inl InsufficientBalance) \<and>
    (\<forall>t1. deduct_from_usdc t uid amount = Inr t1 \<longrightarrow> refund_usdc t1 uid amount = Inr t)"
  using deduct_from_usdc_row [OF assms] deduct_refund [OF assms] by blast

theorem usdc_deduction_correct_witness:
  "refund_usdc [\<lparr>cb_user_id = 1, usdc_balance = 4\<rparr>] 1 6 = Inr [\<lparr>cb_user_id = 1, usdc_balance = 10\<rparr>]"
proof -
  have inv: "crypto_inv [\<lparr>cb_user_id = 1, usdc_balance = 10\<rparr>]"
    and d: "deduct_from_usdc [\<lparr>cb_user_id = 1, usdc_balance = 10\<rparr>] 1 6 = Inr [\<lparr>cb_user_id = 1, usdc_balance = 4\<rparr>]"
    by code_simp+
  show ?thesis
    by (rule usdc_deduction_correct [OF inv zero_le_numeral, THEN conjunct2, rule_format, OF d])
qed

end
