(* ===== verification/Stats.thy ===== *)
theory Stats
  imports Types
begin

text \<open>
  The tables \<^verbatim>\<open>stats_stacks\<close>, \<^verbatim>\<open>stats_compute_units_processed\<close> and
  \<^verbatim>\<open>stats_latency\<close> with the statements of \<^verbatim>\<open>atoma-state/src/state_manager.rs\<close> on them.
  Each gathers its data in hourly rows, and each has a \<^verbatim>\<open>CHECK\<close> that the timestamp of a
  row is on the hour. The lemmas show that an hourly row holds exactly what was added in
  that hour, and that \<open>new_stats_stack\<close>, which does not round, is refused by the check.
\<close>

text \<open>
  \<^verbatim>\<open>CHECK (date_part('minute', timestamp) = 0 AND date_part('second', timestamp) = 0 AND
  date_part('milliseconds', timestamp) = 0)\<close>. A stored timestamp has microseconds.
\<close>

definition on_the_hour :: "datetime \<Rightarrow> bool" where
  "on_the_hour t \<longleftrightarrow> dt_minute t = 0 \<and> dt_second t = 0 \<and> dt_nanosecond t div 1000 = 0"

text \<open>
  \<^verbatim>\<open>timestamp.with_second(0).and_then(|t| t.with_minute(0)).and_then(|t| t.with_nanosecond(0))
  .ok_or(InvalidTimestamp)\<close>
\<close>

definition to_the_hour :: "datetime \<Rightarrow> state_error + datetime" where
  "to_the_hour t =
     ok_or InvalidTimestamp (Option.bind (Option.bind (with_second 0 t) (with_minute 0)) (with_nanosecond 0))"

text \<open>The position of a point in time, for comparisons.\<close>

definition dt_nanos :: "datetime \<Rightarrow> int" where
  "dt_nanos t = ((dt_hour t * 60 + dt_minute t) * 60 + dt_second t) * 1000000000 + dt_nanosecond t"

subsection \<open>Stacks per hour\<close>

record stats_stack =
  ss_timestamp :: datetime
  ss_num_compute_units :: int
  ss_settled_num_compute_units :: int

definition stats_stack_store :: "stats_stack \<Rightarrow> db_error + stats_stack" where
  "stats_stack_store r = (if on_the_hour (ss_timestamp r) then Inr r else Inl CheckViolation)"

definition stats_stack_clash :: "stats_stack \<Rightarrow> stats_stack \<Rightarrow> bool" where
  "stats_stack_clash r q \<longleftrightarrow> ss_timestamp q = ss_timestamp r"

text \<open>
  The method ignores its \<open>timestamp\<close> and binds \<open>now\<close>, the clock as it is.
\<close>

definition new_stats_stack ::
  "stats_stack list \<Rightarrow> datetime \<Rightarrow> stack \<Rightarrow> datetime \<Rightarrow> state_error + stats_stack list" where
  "new_stats_stack t now s timestamp =
     db_try (sql_upsert stats_stack_clash stats_stack_store
       (\<lambda>new old. res_bind (bigint_add (ss_num_compute_units old) (ss_num_compute_units new)) (\<lambda>n.
          Inr (old\<lparr>ss_num_compute_units := n\<rparr>)))
       \<lparr>ss_timestamp = now, ss_num_compute_units = num_compute_units s,
        ss_settled_num_compute_units = 0\<rparr> t)"

text \<open>The second statement of \<^verbatim>\<open>insert_new_stack_settlement_ticket\<close>.\<close>

definition add_settled_units :: "stats_stack list \<Rightarrow> datetime \<Rightarrow> int \<Rightarrow> db_error + stats_stack list" where
  "add_settled_units t timestamp n =
     sql_upsert stats_stack_clash stats_stack_store
       (\<lambda>new old. res_bind (bigint_add (ss_settled_num_compute_units old) (ss_settled_num_compute_units new))
          (\<lambda>m. Inr (old\<lparr>ss_settled_num_compute_units := m\<rparr>)))
       \<lparr>ss_timestamp = timestamp, ss_num_compute_units = 0, ss_settled_num_compute_units = n\<rparr> t"

text \<open>\<open>since\<close> is \<^verbatim>\<open>Utc::now().checked_sub_signed(Duration::hours(last_hours))\<close>.\<close>

definition get_stats_stacks :: "stats_stack list \<Rightarrow> datetime option \<Rightarrow> state_error + stats_stack list" where
  "get_stats_stacks t since =
     res_bind (ok_or InvalidTimestamp since) (\<lambda>start.
       Inr (sort_key (\<lambda>r. dt_nanos (ss_timestamp r))
         (filter (\<lambda>r. dt_nanos start \<le> dt_nanos (ss_timestamp r)) t)))"

subsection \<open>Compute units and latency per hour\<close>

text \<open>
  The column \<^verbatim>\<open>time\<close> and the latency are \<^verbatim>\<open>DOUBLE PRECISION\<close>; \<open>fadd\<close> is the
  database's addition of them.
\<close>

record 'f units_hour =
  uh_timestamp :: datetime
  uh_model_name :: string
  uh_amount :: int
  uh_requests :: int
  uh_time :: 'f

definition units_hour_store :: "'f units_hour \<Rightarrow> db_error + 'f units_hour" where
  "units_hour_store r = (if on_the_hour (uh_timestamp r) then Inr r else Inl CheckViolation)"

definition units_hour_clash :: "'f units_hour \<Rightarrow> 'f units_hour \<Rightarrow> bool" where
  "units_hour_clash r q \<longleftrightarrow> uh_timestamp q = uh_timestamp r \<and> uh_model_name q = uh_model_name r"

definition add_units_hour ::
  "('f \<Rightarrow> 'f \<Rightarrow> db_error + 'f) \<Rightarrow> 'f units_hour \<Rightarrow> 'f units_hour \<Rightarrow> db_error + 'f units_hour" where
  "add_units_hour fadd new old =
     res_bind (bigint_add (uh_amount old) (uh_amount new)) (\<lambda>a.
     res_bind (fadd (uh_time old) (uh_time new)) (\<lambda>f.
     res_bind (bigint_add (uh_requests old) 1) (\<lambda>n.
       Inr (old\<lparr>uh_amount := a, uh_time := f, uh_requests := n\<rparr>))))"

definition add_compute_units_processed ::
  "('f \<Rightarrow> 'f \<Rightarrow> db_error + 'f) \<Rightarrow> 'f units_hour list \<Rightarrow> datetime \<Rightarrow> string \<Rightarrow> int \<Rightarrow> 'f
    \<Rightarrow> state_error + 'f units_hour list" where
  "add_compute_units_processed fadd t timestamp model compute_units_processed time =
     res_bind (to_the_hour timestamp) (\<lambda>ts.
       db_try (sql_upsert units_hour_clash units_hour_store (add_units_hour fadd)
         \<lparr>uh_timestamp = ts, uh_model_name = model, uh_amount = compute_units_processed,
          uh_requests = 1, uh_time = time\<rparr> t))"

text \<open>\<open>collate\<close> is the place of a name in the database's order of text.\<close>

definition get_compute_units_processed ::
  "(string \<Rightarrow> int) \<Rightarrow> 'f units_hour list \<Rightarrow> datetime option \<Rightarrow> state_error + 'f units_hour list" where
  "get_compute_units_processed collate t since =
     res_bind (ok_or InvalidTimestamp since) (\<lambda>start.
       Inr (sort_key (\<lambda>r. dt_nanos (uh_timestamp r))
         (sort_key (\<lambda>r. collate (uh_model_name r))
           (filter (\<lambda>r. dt_nanos start \<le> dt_nanos (uh_timestamp r)) t))))"

record 'f latency_hour =
  lh_timestamp :: datetime
  lh_latency :: 'f
  lh_requests :: int

definition latency_hour_store :: "'f latency_hour \<Rightarrow> db_error + 'f latency_hour" where
  "latency_hour_store r = (if on_the_hour (lh_timestamp r) then Inr r else Inl CheckViolation)"

definition add_latency ::
  "('f \<Rightarrow> 'f \<Rightarrow> db_error + 'f) \<Rightarrow> 'f latency_hour list \<Rightarrow> datetime \<Rightarrow> 'f \<Rightarrow> state_error + 'f latency_hour list" where
  "add_latency fadd t timestamp latency =
     res_bind (to_the_hour timestamp) (\<lambda>ts.
       db_try (sql_upsert (\<lambda>r q. lh_timestamp q = lh_timestamp r) latency_hour_store
         (\<lambda>new old. res_bind (fadd (lh_latency old) (lh_latency new)) (\<lambda>f.
            res_bind (bigint_add (lh_requests old) 1) (\<lambda>n.
              Inr (old\<lparr>lh_latency := f, lh_requests := n\<rparr>))))
         \<lparr>lh_timestamp = ts, lh_latency = latency, lh_requests = 1\<rparr> t))"

definition get_latency_performance ::
  "'f latency_hour list \<Rightarrow> datetime option \<Rightarrow> state_error + 'f latency_hour list" where
  "get_latency_performance t since =
     res_bind (ok_or InvalidTimestamp since) (\<lambda>start.
       Inr (sort_key (\<lambda>r. dt_nanos (lh_timestamp r))
         (filter (\<lambda>r. dt_nanos start \<le> dt_nanos (lh_timestamp r)) t)))"

subsection \<open>What a row holds\<close>

lemma to_the_hour: "to_the_hour t = Inr (t\<lparr>dt_second := 0, dt_minute := 0, dt_nanosecond := 0\<rparr>)"
  by (simp add: to_the_hour_def with_second_def with_minute_def with_nanosecond_def)

lemma on_the_hour_rounded: "to_the_hour t = Inr ts \<Longrightarrow> on_the_hour ts"
  by (auto simp: to_the_hour on_the_hour_def)

text \<open>The check refuses the clock unless it happens to be on the hour.\<close>

lemma new_stats_stack_off_hour:
  "\<not> on_the_hour now \<Longrightarrow> new_stats_stack t now s ts = Inl (DatabaseConnectionError CheckViolation)"
  by (simp add: new_stats_stack_def sql_upsert_def stats_stack_store_def)

text \<open>
  The hour and the model are the key of a row: one more call adds to the row of its hour,
  and to no other.
\<close>

definition uh_key :: "'f units_hour \<Rightarrow> datetime \<times> string" where
  "uh_key r = (uh_timestamp r, uh_model_name r)"

definition units_hour_of :: "'f units_hour list \<Rightarrow> datetime \<times> string \<Rightarrow> int \<times> int" where
  "units_hour_of t i = (case row_of uh_key t i of None \<Rightarrow> (0, 0) | Some r \<Rightarrow> (uh_amount r, uh_requests r))"

lemma add_compute_units_processed_Inr:
  assumes "distinct (map uh_key t)" and "add_compute_units_processed fadd t ts m a f = Inr t'"
  shows "distinct (map uh_key t') \<and>
    (\<forall>i. units_hour_of t' i = (if i = (ts\<lparr>dt_second := 0, dt_minute := 0, dt_nanosecond := 0\<rparr>, m)
       then (fst (units_hour_of t i) + a, snd (units_hour_of t i) + 1) else units_hour_of t i))"
proof -
  define h where "h = ts\<lparr>dt_second := 0, dt_minute := 0, dt_nanosecond := 0\<rparr>"
  define r where "r = \<lparr>uh_timestamp = h, uh_model_name = m, uh_amount = a, uh_requests = 1, uh_time = f\<rparr>"
  have store: "units_hour_store r = Inr r"
    by (simp add: units_hour_store_def r_def h_def on_the_hour_def)
  have key: "key_upsert uh_key units_hour_clash units_hour_store (add_units_hour fadd)"
    by (auto simp: key_upsert_def units_hour_clash_def add_units_hour_def res_iffs sql_simps
        units_hour_store_def uh_key_def split: if_splits)
  from assms(2) have up: "sql_upsert units_hour_clash units_hour_store (add_units_hour fadd) r t = Inr t'"
    by (simp add: add_compute_units_processed_def to_the_hour r_def h_def)
  note d = sql_upsert_distinct [OF up assms(1) store key]
  have "units_hour_of t' i = (if i = (h, m)
       then (fst (units_hour_of t i) + a, snd (units_hour_of t i) + 1) else units_hour_of t i)" for i
  proof (cases "row_of uh_key t (uh_key r)")
    case None
    with up have "t' = t @ [r]" by (simp add: sql_upsert_key [OF assms(1) store key])
    with None show ?thesis
      by (auto simp: units_hour_of_def row_of_append r_def uh_key_def split: option.splits)
  next
    case (Some old)
    with up obtain r' where r': "add_units_hour fadd r old = Inr r'" and t': "t' = put_row uh_key r' t"
      by (auto simp: sql_upsert_key [OF assms(1) store key] res_iffs units_hour_store_def split: if_splits)
    from r' have "uh_key r' = uh_key old" "uh_amount r' = uh_amount old + a" "uh_requests r' = uh_requests old + 1"
      by (auto simp: add_units_hour_def res_iffs sql_simps uh_key_def r_def)
    moreover from Some have "uh_key old = (h, m)" by (auto dest!: row_of_SomeD simp: uh_key_def r_def)
    ultimately show ?thesis using Some
      by (auto simp: units_hour_of_def t' uh_key_def r_def split: option.splits)
  qed
  with d show ?thesis by (simp add: h_def)
qed

text \<open>A run of calls: the row of each hour and model holds the sum and the number of its calls.\<close>

fun add_all_units ::
  "('f \<Rightarrow> 'f \<Rightarrow> db_error + 'f) \<Rightarrow> 'f units_hour list \<Rightarrow> (datetime \<times> string \<times> int \<times> 'f) list
    \<Rightarrow> state_error + 'f units_hour list" where
  "add_all_units fadd t [] = Inr t"
| "add_all_units fadd t ((ts, m, a, f) # cs) =
     res_bind (add_compute_units_processed fadd t ts m a f) (\<lambda>t'. add_all_units fadd t' cs)"

definition calls_of :: "datetime \<times> string \<Rightarrow> (datetime \<times> string \<times> int \<times> 'f) list \<Rightarrow> int list" where
  "calls_of i cs = map (\<lambda>(ts, m, a, f). a)
     (filter (\<lambda>(ts, m, a, f). i = (ts\<lparr>dt_second := 0, dt_minute := 0, dt_nanosecond := 0\<rparr>, m)) cs)"

lemma add_all_units_sum:
  "distinct (map uh_key t) \<Longrightarrow> add_all_units fadd t cs = Inr t' \<Longrightarrow>
   units_hour_of t' i = (fst (units_hour_of t i) + sum_list (calls_of i cs),
                         snd (units_hour_of t i) + int (length (calls_of i cs)))"
proof (induction cs arbitrary: t)
  case Nil
  then show ?case by (simp add: calls_of_def)
next
  case (Cons c cs)
  obtain ts m a f where c: "c = (ts, m, a, f)" by (cases c) auto
  with Cons.prems obtain t1 where t1: "add_compute_units_processed fadd t ts m a f = Inr t1"
    and rest: "add_all_units fadd t1 cs = Inr t'" by (auto simp: res_iffs)
  from add_compute_units_processed_Inr [OF Cons.prems(1) t1]
  have "distinct (map uh_key t1)" and step: "units_hour_of t1 i =
      (if i = (ts\<lparr>dt_second := 0, dt_minute := 0, dt_nanosecond := 0\<rparr>, m)
       then (fst (units_hour_of t i) + a, snd (units_hour_of t i) + 1) else units_hour_of t i)" by blast+
  from Cons.IH [OF this(1) rest] step show ?case by (simp add: c calls_of_def)
qed

subsection \<open>Properties\<close>

definition sample_time :: "int \<Rightarrow> datetime" where
  "sample_time m = \<lparr>dt_hour = 480000, dt_minute = m, dt_second = 7, dt_nanosecond = 11\<rparr>"

text \<open>
  After any sequence of add_compute_units_processed, the row of every hour and model holds
  the sum of the units and the number of the calls that fell into that hour for that model,
  on top of what it held before.
\<close>

theorem hourly_units_are_sums:
  assumes "distinct (map uh_key t)" and "add_all_units fadd t calls = Inr t'"
  shows "units_hour_of t' i = (fst (units_hour_of t i) + sum_list (calls_of i calls),
                         snd (units_hour_of t i) + int (length (calls_of i calls)))"
  by (rule add_all_units_sum [OF assms])

theorem hourly_units_are_sums_witness:
  "units_hour_of [\<lparr>uh_timestamp = \<lparr>dt_hour = 480000, dt_minute = 0, dt_second = 0, dt_nanosecond = 0\<rparr>,
       uh_model_name = ''m'', uh_amount = 50, uh_requests = 2, uh_time = (0 :: int)\<rparr>]
     (\<lparr>dt_hour = 480000, dt_minute = 0, dt_second = 0, dt_nanosecond = 0\<rparr>, ''m'') = (50, 2)"
proof -
  have "add_all_units (\<lambda>a b. Inr (a + b)) [] [(sample_time 5, ''m'', 20, 0), (sample_time 59, ''m'', 30, 0)] =
     Inr [\<lparr>uh_timestamp = \<lparr>dt_hour = 480000, dt_minute = 0, dt_second = 0, dt_nanosecond = 0\<rparr>,
       uh_model_name = ''m'', uh_amount = 50, uh_requests = 2, uh_time = (0 :: int)\<rparr>]"
    and sums: "calls_of (\<lparr>dt_hour = 480000, dt_minute = 0, dt_second = 0, dt_nanosecond = 0\<rparr>, ''m'')
      [(sample_time 5, ''m'', 20, 0), (sample_time 59, ''m'', 30, (0 :: int))] = [20, 30]"
    by code_simp+
  from hourly_units_are_sums [OF _ this(1), of "(\<lparr>dt_hour = 480000, dt_minute = 0, dt_second = 0, dt_nanosecond = 0\<rparr>, ''m'')"]
  show ?thesis by (simp add: sums units_hour_of_def)
qed

end
