(* ===== verification/Settlement.thy ===== *)
theory Settlement
  imports Stats
begin

text \<open>
  The tables \<^verbatim>\<open>stack_settlement_tickets\<close> and \<^verbatim>\<open>stack_attestation_disputes\<close> with the
  statements of \<^verbatim>\<open>atoma-state/src/state_manager.rs\<close> on them, and the conversions of the
  chain's events in \<^verbatim>\<open>atoma-state/src/types.rs\<close>. JSON is the crate \<^verbatim>\<open>serde_json\<close>:
  \<open>to_json\<close> and \<open>from_json\<close> are its encoding and decoding of a list of identifiers. The
  lemmas show what a ticket created from an event looks like and why an attestation is
  never recorded on one.
\<close>

type_synonym tickets = "stack_settlement_ticket list"
type_synonym disputes = "stack_attestation_dispute list"

subsection \<open>From the chain's events\<close>

record stack_try_settle_event =
  tse_stack_small_id :: u64
  tse_selected_node_id :: u64
  tse_num_claimed_compute_units :: u64
  tse_requested_attestation_nodes :: "u64 list"
  tse_committed_stack_proof :: bytes
  tse_stack_merkle_leaf :: bytes

text \<open>\<^verbatim>\<open>Vec::resize(n, 0)\<close>\<close>

definition resize :: "nat \<Rightarrow> bytes \<Rightarrow> bytes" where
  "resize n v = take n v @ replicate (n - length v) 0"

definition ticket_of_event :: "(int list \<Rightarrow> string) \<Rightarrow> stack_try_settle_event \<Rightarrow> stack_settlement_ticket" where
  "ticket_of_event to_json event =
     (let expanded_size = 32 * length (tse_requested_attestation_nodes event) in
      \<lparr>tk_stack_small_id = as_i64 (tse_stack_small_id event),
       tk_selected_node_id = as_i64 (tse_selected_node_id event),
       tk_num_claimed_compute_units = as_i64 (tse_num_claimed_compute_units event),
       tk_requested_attestation_nodes = to_json (map uint (tse_requested_attestation_nodes event)),
       tk_committed_stack_proofs = resize expanded_size (tse_committed_stack_proof event),
       tk_stack_merkle_leaves = resize expanded_size (tse_stack_merkle_leaf event),
       tk_dispute_settled_at_epoch = None,
       tk_already_attested_nodes = to_json [],
       tk_is_in_dispute = False,
       tk_user_refund_amount = 0,
       tk_is_claimed = False\<rparr>)"

record stack_attestation_dispute_event =
  ade_stack_small_id :: u64
  ade_attestation_commitment :: bytes
  ade_attestation_node_id :: u64
  ade_original_node_id :: u64
  ade_original_commitment :: bytes

definition dispute_of_event :: "stack_attestation_dispute_event \<Rightarrow> stack_attestation_dispute" where
  "dispute_of_event event = \<lparr>
     ad_stack_small_id = as_i64 (ade_stack_small_id event),
     ad_attestation_commitment = ade_attestation_commitment event,
     ad_attestation_node_id = as_i64 (ade_attestation_node_id event),
     ad_original_node_id = as_i64 (ade_original_node_id event),
     ad_original_commitment = ade_original_commitment event\<rparr>"

subsection \<open>Statements on tickets\<close>

text \<open>
  The columns \<^verbatim>\<open>selected_node_id\<close>, \<^verbatim>\<open>num_claimed_compute_units\<close>,
  \<^verbatim>\<open>dispute_settled_at_epoch\<close> and \<^verbatim>\<open>user_refund_amount\<close> are of type \<^verbatim>\<open>INTEGER\<close>.
\<close>

definition ticket_store :: "stack_settlement_ticket \<Rightarrow> db_error + stack_settlement_ticket" where
  "ticket_store r =
     (if in_i32 (tk_selected_node_id r) \<and> in_i32 (tk_num_claimed_compute_units r) \<and>
         in_i32 (tk_user_refund_amount r) \<and>
         (case tk_dispute_settled_at_epoch r of None \<Rightarrow> True | Some e \<Rightarrow> in_i32 e)
      then Inr r else Inl NumericOutOfRange)"

text \<open>
  Reading a row decodes its columns into the fields of the struct; \<open>dec\<close> is the decoder
  of \<^verbatim>\<open>sqlx\<close>, which may reject a column whose type it does not accept.
\<close>

fun decode_all :: "('r \<Rightarrow> db_error + 'r) \<Rightarrow> 'r list \<Rightarrow> db_error + 'r list" where
  "decode_all dec [] = Inr []"
| "decode_all dec (r # rs) = res_bind (dec r) (\<lambda>x. res_bind (decode_all dec rs) (\<lambda>xs. Inr (x # xs)))"

definition get_stack_settlement_ticket ::
  "(stack_settlement_ticket \<Rightarrow> db_error + stack_settlement_ticket) \<Rightarrow> tickets \<Rightarrow> int
    \<Rightarrow> state_error + stack_settlement_ticket" where
  "get_stack_settlement_ticket dec t sid =
     db_try (res_bind (fetch_one (filter (\<lambda>r. tk_stack_small_id r = sid) t)) dec)"

definition get_stack_settlement_tickets ::
  "(stack_settlement_ticket \<Rightarrow> db_error + stack_settlement_ticket) \<Rightarrow> tickets \<Rightarrow> int list
    \<Rightarrow> state_error + tickets" where
  "get_stack_settlement_tickets dec t sids =
     db_try (decode_all dec (build_query_with_in tk_stack_small_id sids None t))"

definition get_claimed_stacks ::
  "(stack_settlement_ticket \<Rightarrow> db_error + stack_settlement_ticket) \<Rightarrow> tickets \<Rightarrow> int list
    \<Rightarrow> state_error + tickets" where
  "get_claimed_stacks dec t node_ids =
     db_try (decode_all dec (build_query_with_in tk_selected_node_id node_ids (Some tk_is_claimed) t))"

text \<open>One transaction: both statements take effect or none.\<close>

definition insert_new_stack_settlement_ticket ::
  "tickets \<Rightarrow> stats_stack list \<Rightarrow> stack_settlement_ticket \<Rightarrow> datetime
    \<Rightarrow> state_error + (tickets \<times> stats_stack list)" where
  "insert_new_stack_settlement_ticket t stats k timestamp =
     res_bind (db_try (sql_insert (\<lambda>r q. tk_stack_small_id q = tk_stack_small_id r) ticket_store k t)) (\<lambda>t'.
     res_bind (to_the_hour timestamp) (\<lambda>ts.
     res_bind (db_try (add_settled_units stats ts (tk_num_claimed_compute_units k))) (\<lambda>stats'.
       Inr (t', stats'))))"

text \<open>\<^verbatim>\<open>requested_nodes.iter().position(|&id| id == x)\<close>\<close>

fun position :: "int \<Rightarrow> int list \<Rightarrow> nat option" where
  "position x [] = None"
| "position x (y # ys) = (if y = x then Some 0 else map_option Suc (position x ys))"

text \<open>\<^verbatim>\<open>dst[start..start + 32].copy_from_slice(&src[..32])\<close>, within bounds.\<close>

definition copy_32 :: "nat \<Rightarrow> bytes \<Rightarrow> bytes \<Rightarrow> bytes" where
  "copy_32 start src dst = take start dst @ take 32 src @ drop (start + 32) dst"

text \<open>
  The last statement calls \<^verbatim>\<open>json_insert(.., '$[#]', ..)\<close>, a function of SQLite.
  PostgreSQL has none of this name and rejects the statement when it is parsed, whatever
  it would write (\<open>has_json_insert\<close> says whether the database provides one); its result
  would be \<open>append_json\<close>. Slicing a source shorter than 32 bytes panics.
\<close>

definition update_stack_settlement_ticket_with_attestation_commitments ::
  "bool \<Rightarrow> (string \<Rightarrow> int \<Rightarrow> string) \<Rightarrow> (string \<Rightarrow> int list option) \<Rightarrow> tickets \<Rightarrow> int \<Rightarrow> bytes \<Rightarrow> bytes \<Rightarrow> int
    \<Rightarrow> state_error + tickets" where
  "update_stack_settlement_ticket_with_attestation_commitments has_json_insert append_json from_json t sid proof_bytes leaf node =
     res_bind (db_try (fetch_one (filter (\<lambda>r. tk_stack_small_id r = sid) t))) (\<lambda>row.
     res_bind (ok_or JsonParseError (from_json (tk_requested_attestation_nodes row))) (\<lambda>requested.
     res_bind (ok_or (AttestationNodeNotFound node) (position node requested)) (\<lambda>index.
       let start = (index + 1) * 32; stop = start + 32 in
       if stop > length (tk_stack_merkle_leaves row) then Inl InvalidMerkleLeafLength
       else if stop > length (tk_committed_stack_proofs row) then Inl InvalidCommittedStackProofLength
       else if length leaf < 32 \<or> length proof_bytes < 32 then Inl Panicked
       else if \<not> has_json_insert then Inl (DatabaseConnectionError UndefinedFunction)
       else db_try (res_bind (sql_update (\<lambda>r. sql_is (tk_stack_small_id r = sid))
         (\<lambda>r. Inr (r\<lparr>
            tk_committed_stack_proofs := copy_32 start proof_bytes (tk_committed_stack_proofs row),
            tk_stack_merkle_leaves := copy_32 start leaf (tk_stack_merkle_leaves row),
            tk_already_attested_nodes := append_json (tk_already_attested_nodes r) node\<rparr>)) ticket_store t)
         (\<lambda>(t', u). Inr t')))))"

definition settle_stack_settlement_ticket :: "tickets \<Rightarrow> int \<Rightarrow> int \<Rightarrow> state_error + tickets" where
  "settle_stack_settlement_ticket t sid epoch =
     db_try (res_bind (sql_update (\<lambda>r. sql_is (tk_stack_small_id r = sid))
       (\<lambda>r. Inr (r\<lparr>tk_dispute_settled_at_epoch := Some epoch\<rparr>)) ticket_store t) (\<lambda>(t', u). Inr t'))"

definition update_stack_settlement_ticket_with_claim :: "tickets \<Rightarrow> int \<Rightarrow> int \<Rightarrow> state_error + tickets" where
  "update_stack_settlement_ticket_with_claim t sid refund =
     db_try (res_bind (sql_update (\<lambda>r. sql_is (tk_stack_small_id r = sid))
       (\<lambda>r. Inr (r\<lparr>tk_user_refund_amount := refund, tk_is_claimed := True\<rparr>)) ticket_store t) (\<lambda>(t', u). Inr t'))"

subsection \<open>Statements on disputes\<close>

definition dispute_store :: "stack_attestation_dispute \<Rightarrow> db_error + stack_attestation_dispute" where
  "dispute_store r =
     (if in_i32 (ad_attestation_node_id r) \<and> in_i32 (ad_original_node_id r)
      then Inr r else Inl NumericOutOfRange)"

definition get_stack_attestation_disputes ::
  "(stack_attestation_dispute \<Rightarrow> db_error + stack_attestation_dispute) \<Rightarrow> disputes \<Rightarrow> int \<Rightarrow> int
    \<Rightarrow> state_error + disputes" where
  "get_stack_attestation_disputes dec t sid node =
     db_try (decode_all dec (filter (\<lambda>r. ad_stack_small_id r = sid \<and> ad_attestation_node_id r = node) t))"

definition get_against_attestation_disputes ::
  "(stack_attestation_dispute \<Rightarrow> db_error + stack_attestation_dispute) \<Rightarrow> disputes \<Rightarrow> int list
    \<Rightarrow> state_error + disputes" where
  "get_against_attestation_disputes dec t nodes =
     db_try (decode_all dec (build_query_with_in ad_original_node_id nodes None t))"

definition get_own_attestation_disputes ::
  "(stack_attestation_dispute \<Rightarrow> db_error + stack_attestation_dispute) \<Rightarrow> disputes \<Rightarrow> int list
    \<Rightarrow> state_error + disputes" where
  "get_own_attestation_disputes dec t nodes =
     db_try (decode_all dec (build_query_with_in ad_attestation_node_id nodes None t))"

definition insert_stack_attestation_dispute :: "disputes \<Rightarrow> stack_attestation_dispute \<Rightarrow> state_error + disputes" where
  "insert_stack_attestation_dispute t d =
     db_try (sql_insert (\<lambda>r q. ad_stack_small_id q = ad_stack_small_id r \<and>
         ad_attestation_node_id q = ad_attestation_node_id r) dispute_store d t)"

subsection \<open>Attestations on a ticket\<close>

lemma length_resize [simp]: "length (resize n v) = n"
  by (simp add: resize_def)

lemma length_copy_32 [simp]:
  "start + 32 \<le> length dst \<Longrightarrow> 32 \<le> length src \<Longrightarrow> length (copy_32 start src dst) = length dst"
  by (simp add: copy_32_def)

lemma position_SomeD: "position x ys = Some i \<Longrightarrow> i < length ys \<and> ys ! i = x \<and> (\<forall>j < i. ys ! j \<noteq> x)"
proof (induction ys arbitrary: i)
  case (Cons y ys)
  show ?case
  proof (cases "y = x")
    case False
    with Cons.prems obtain k where "position x ys = Some k" "i = Suc k" by auto
    with Cons.IH [of k] False show ?thesis by (auto simp: nth_Cons split: nat.splits)
  qed (use Cons.prems in auto)
qed simp

lemma position_None_iff: "position x ys = None \<longleftrightarrow> x \<notin> set ys"
  by (induction ys) auto

lemma position_last: "distinct ys \<Longrightarrow> ys \<noteq> [] \<Longrightarrow> position (last ys) ys = Some (length ys - 1)"
  by (induction ys) auto

text \<open>Without \<^verbatim>\<open>json_insert\<close> no attestation is ever recorded.\<close>

lemma attestation_never_recorded:
  "update_stack_settlement_ticket_with_attestation_commitments False app from_json t sid p l node \<noteq> Inr t'"
  by (auto simp: update_stack_settlement_ticket_with_attestation_commitments_def res_iffs Let_def)

text \<open>
  A ticket made from an event has 32 bytes for each requested node, while the offset of the
  node at position i is 32 (i + 1): the last requested node never fits.
\<close>

lemma attestation_last_node:
  assumes "filter (\<lambda>r. tk_stack_small_id r = sid) t = ticket_of_event to_json ev # rs"
    and "from_json (to_json (map uint (tse_requested_attestation_nodes ev)))
           = Some (map uint (tse_requested_attestation_nodes ev))"
    and "distinct (tse_requested_attestation_nodes ev)" and "tse_requested_attestation_nodes ev \<noteq> []"
  shows "update_stack_settlement_ticket_with_attestation_commitments b app from_json t sid p l
      (uint (last (tse_requested_attestation_nodes ev))) = Inl InvalidMerkleLeafLength"
proof -
  let ?ns = "tse_requested_attestation_nodes ev"
  have "distinct (map uint ?ns)" using assms(3) by (auto simp: distinct_map word_uint_eq_iff intro!: inj_onI)
  then have "position (uint (last ?ns)) (map uint ?ns) = Some (length ?ns - 1)"
    using position_last [of "map uint ?ns"] assms(4) by (simp add: last_map)
  moreover obtain m where "length ?ns = Suc m" using assms(4) by (cases ?ns) auto
  ultimately show ?thesis
    by (simp add: update_stack_settlement_ticket_with_attestation_commitments_def assms(1,2)
        ticket_of_event_def Let_def)
qed

text \<open>The statement that inserts a ticket counts its units in the hour it was settled.\<close>

lemma insert_ticket_inv:
  assumes "insert_new_stack_settlement_ticket t stats k ts = Inr (t', stats')"
    and "distinct (map tk_stack_small_id t)"
  shows "t' = t @ [k] \<and> distinct (map tk_stack_small_id t')"
proof -
  from assms(1) have "sql_insert (\<lambda>r q. tk_stack_small_id q = tk_stack_small_id r) ticket_store k t = Inr t'"
    by (auto simp: insert_new_stack_settlement_ticket_def res_iffs)
  then have "t' = t @ [k]" "\<not> list_ex (\<lambda>q. tk_stack_small_id q = tk_stack_small_id k) t"
    by (auto simp: sql_insert_def ticket_store_def res_iffs split: if_splits)
  with assms(2) show ?thesis by (auto simp: list_ex_iff)
qed

subsection \<open>Properties\<close>

lemma position_nth: "distinct ys \<Longrightarrow> i < length ys \<Longrightarrow> position (ys ! i) ys = Some i"
proof (induction ys arbitrary: i)
  case (Cons y ys)
  then show ?case by (cases i) auto
qed simp

text \<open>
  For a freshly inserted settlement ticket, the attestation of the i-th requested node is
  refused with InvalidMerkleLeafLength exactly when it is the last one: the ticket's buffers
  are made for one entry too few for the offset that is used.
\<close>

theorem attestation_refused_iff_last:
  assumes "filter (\<lambda>r. tk_stack_small_id r = sid) t = ticket_of_event to_json ev # rs"
    and "from_json (to_json (map uint (tse_requested_attestation_nodes ev)))
           = Some (map uint (tse_requested_attestation_nodes ev))"
    and "distinct (tse_requested_attestation_nodes ev)" and "i < length (tse_requested_attestation_nodes ev)"
  shows "update_stack_settlement_ticket_with_attestation_commitments b append_json from_json t sid proof_bytes leaf
      (uint (tse_requested_attestation_nodes ev ! i)) = Inl InvalidMerkleLeafLength \<longleftrightarrow>
    i + 1 = length (tse_requested_attestation_nodes ev)"
proof -
  let ?ns = "map uint (tse_requested_attestation_nodes ev)"
  have "distinct ?ns" using assms(3) by (auto simp: distinct_map word_uint_eq_iff intro!: inj_onI)
  from position_nth [OF this, of i] assms(4)
  have pos: "position (uint (tse_requested_attestation_nodes ev ! i)) ?ns = Some i" by simp
  show ?thesis
  proof (cases "i + 1 = length ?ns")
    case True
    with pos show ?thesis
      by (auto simp: update_stack_settlement_ticket_with_attestation_commitments_def assms(1,2)
          ticket_of_event_def Let_def)
  next
    case False
    with assms(4) have "(i + 1) * 32 + 32 \<le> 32 * length ?ns" by simp
    with pos False show ?thesis
      by (auto simp: update_stack_settlement_ticket_with_attestation_commitments_def assms(1,2)
          ticket_of_event_def Let_def res_iffs db_try_def map_err_Inl_iff split: if_splits)
  qed
qed

definition sample_settle_event :: stack_try_settle_event where
  "sample_settle_event = \<lparr>tse_stack_small_id = 1, tse_selected_node_id = 8, tse_num_claimed_compute_units = 5,
     tse_requested_attestation_nodes = [4, 6], tse_committed_stack_proof = [1], tse_stack_merkle_leaf = [2]\<rparr>"

definition sample_to_json :: "int list \<Rightarrow> string" where
  "sample_to_json = map (\<lambda>n. char_of (nat n))"

definition sample_from_json :: "string \<Rightarrow> int list option" where
  "sample_from_json s = Some (map (\<lambda>c. int (of_char c)) s)"

theorem attestation_refused_iff_last_witness:
  "update_stack_settlement_ticket_with_attestation_commitments True (\<lambda>s n. s) sample_from_json
     [ticket_of_event sample_to_json sample_settle_event] 1 (replicate 32 7) (replicate 32 7) 6 =
   Inl InvalidMerkleLeafLength"
proof -
  have "filter (\<lambda>r. tk_stack_small_id r = 1) [ticket_of_event sample_to_json sample_settle_event] =
      ticket_of_event sample_to_json sample_settle_event # []"
    and "sample_from_json (sample_to_json (map uint (tse_requested_attestation_nodes sample_settle_event)))
           = Some (map uint (tse_requested_attestation_nodes sample_settle_event))"
    and "distinct (tse_requested_attestation_nodes sample_settle_event)"
    and "1 < length (tse_requested_attestation_nodes sample_settle_event)"
    by code_simp+
  from attestation_refused_iff_last [where to_json = sample_to_json and from_json = sample_from_json and
      ev = sample_settle_event, OF this] show ?thesis by (simp add: sample_settle_event_def)
qed

end
