(* ===== verification/Accounts.thy ===== *)
theory Accounts
  imports Types
begin

text \<open>
  The tables \<^verbatim>\<open>users\<close>, \<^verbatim>\<open>refresh_tokens\<close> and \<^verbatim>\<open>api_tokens\<close> with the statements of
  \<^verbatim>\<open>atoma-state/src/state_manager.rs\<close> on them. The value that the sequence of a
  \<^verbatim>\<open>BIGSERIAL\<close> column hands out is an argument of the statements that insert. The lemmas
  show that an email names one account whatever way it signs in, and that a token is
  accepted exactly from when it is stored until its owner deletes it.
\<close>

subsection \<open>Users\<close>

record user =
  u_id :: int
  u_email :: string
  u_password_hash :: "string option"
  u_password_salt :: string
  u_sui_address :: "string option"
  u_zk_salt :: "string option"

type_synonym users = "user list"

text \<open>\<^verbatim>\<open>email VARCHAR(50)\<close>, \<^verbatim>\<open>password_hash VARCHAR(64)\<close>, the primary key.\<close>

definition user_store :: "user \<Rightarrow> db_error + user" where
  "user_store r =
     (if length (u_email r) > 50 then Inl StringTooLong
      else if (case u_password_hash r of None \<Rightarrow> False | Some h \<Rightarrow> length h > 64) then Inl StringTooLong
      else Inr r)"

text \<open>
  A conflict of the email is the target of the \<^verbatim>\<open>ON CONFLICT\<close>; one of the primary key
  is an error.
\<close>

definition register :: "users \<Rightarrow> int \<Rightarrow> string \<Rightarrow> string \<Rightarrow> string \<Rightarrow> state_error + (users \<times> int option)" where
  "register t new_id email password_hash password_salt =
     db_try (res_bind (user_store \<lparr>u_id = new_id, u_email = email, u_password_hash = Some password_hash,
         u_password_salt = password_salt, u_sui_address = None, u_zk_salt = None\<rparr>) (\<lambda>r.
       if list_ex (\<lambda>q. u_email q = email) t then Inr (t, None)
       else if list_ex (\<lambda>q. u_id q = new_id) t then Inl UniqueViolation
       else Inr (t @ [r], Some new_id)))"

definition oauth :: "users \<Rightarrow> int \<Rightarrow> string \<Rightarrow> string \<Rightarrow> state_error + (users \<times> int)" where
  "oauth t new_id email password_salt =
     db_try (res_bind (user_store \<lparr>u_id = new_id, u_email = email, u_password_hash = None,
         u_password_salt = password_salt, u_sui_address = None, u_zk_salt = None\<rparr>) (\<lambda>r.
       if list_ex (\<lambda>q. u_email q = email) t
       then res_bind (sql_update (\<lambda>q. sql_is (u_email q = email)) (\<lambda>q. Inr (q\<lparr>u_email := email\<rparr>)) user_store t)
         (\<lambda>(t', u). res_bind (fetch_one u) (\<lambda>q. Inr (t', u_id q)))
       else if list_ex (\<lambda>q. u_id q = new_id) t then Inl UniqueViolation
       else Inr (t @ [r], new_id)))"

definition get_password_salt :: "users \<Rightarrow> string \<Rightarrow> string option" where
  "get_password_salt t email =
     map_option u_password_salt (fetch_optional (filter (\<lambda>u. u_email u = email) t))"

definition get_user_id_by_email_password :: "users \<Rightarrow> string \<Rightarrow> string \<Rightarrow> int option" where
  "get_user_id_by_email_password t email hashed_password =
     map_option u_id (fetch_optional
       (filter (\<lambda>u. u_email u = email \<and> u_password_hash u = Some hashed_password) t))"

definition get_user_profile :: "users \<Rightarrow> int \<Rightarrow> state_error + string" where
  "get_user_profile t uid =
     db_try (res_bind (fetch_one (filter (\<lambda>u. u_id u = uid) t)) (\<lambda>u. Inr (u_email u)))"

definition update_sui_address :: "users \<Rightarrow> int \<Rightarrow> string \<Rightarrow> state_error + users" where
  "update_sui_address t uid address =
     db_try (res_bind (sql_update (\<lambda>u. sql_is (u_id u = uid))
       (\<lambda>u. Inr (u\<lparr>u_sui_address := Some address\<rparr>)) user_store t) (\<lambda>(t', u). Inr t'))"

definition get_sui_address :: "users \<Rightarrow> int \<Rightarrow> string option" where
  "get_sui_address t uid =
     Option.bind (fetch_optional (filter (\<lambda>u. u_id u = uid) t)) u_sui_address"

definition confirm_user :: "users \<Rightarrow> string \<Rightarrow> int \<Rightarrow> bool" where
  "confirm_user t address uid = list_ex (\<lambda>u. u_sui_address u = Some address \<and> u_id u = uid) t"

definition get_zk_salt :: "users \<Rightarrow> int \<Rightarrow> string option" where
  "get_zk_salt t uid = Option.bind (fetch_optional (filter (\<lambda>u. u_id u = uid) t)) u_zk_salt"

definition set_zk_salt :: "users \<Rightarrow> int \<Rightarrow> string \<Rightarrow> state_error + users" where
  "set_zk_salt t uid salt =
     db_try (res_bind (sql_update (\<lambda>u. sql_is (u_id u = uid))
       (\<lambda>u. Inr (u\<lparr>u_zk_salt := Some salt\<rparr>)) user_store t) (\<lambda>(t', u). Inr t'))"

subsection \<open>Refresh tokens\<close>

record refresh_token =
  rt_id :: int
  rt_user_id :: int
  rt_token_hash :: string

definition is_refresh_token_valid :: "refresh_token list \<Rightarrow> int \<Rightarrow> string \<Rightarrow> bool" where
  "is_refresh_token_valid t uid hash = list_ex (\<lambda>r. rt_user_id r = uid \<and> rt_token_hash r = hash) t"

definition store_refresh_token ::
  "refresh_token list \<Rightarrow> int \<Rightarrow> int \<Rightarrow> string \<Rightarrow> state_error + refresh_token list" where
  "store_refresh_token t new_id uid hash =
     db_try (sql_insert (\<lambda>r q. rt_id q = rt_id r \<or> rt_token_hash q = rt_token_hash r)
       (\<lambda>r. if length (rt_token_hash r) > 255 then Inl StringTooLong else Inr r)
       \<lparr>rt_id = new_id, rt_user_id = uid, rt_token_hash = hash\<rparr> t)"

definition delete_refresh_token :: "refresh_token list \<Rightarrow> int \<Rightarrow> string \<Rightarrow> refresh_token list" where
  "delete_refresh_token t uid hash = sql_delete (\<lambda>r. rt_user_id r = uid \<and> rt_token_hash r = hash) t"

subsection \<open>API tokens\<close>

record api_token =
  at_id :: int
  at_token :: string
  at_user_id :: int
  at_name :: string
  at_creation_timestamp :: int
  at_last_used_timestamp :: "int option"

type_synonym api_tokens = "api_token list"

definition delete_api_token :: "api_tokens \<Rightarrow> int \<Rightarrow> int \<Rightarrow> api_tokens" where
  "delete_api_token t uid tid = sql_delete (\<lambda>r. at_user_id r = uid \<and> at_id r = tid) t"

definition is_api_token_valid :: "api_tokens \<Rightarrow> int \<Rightarrow> string \<Rightarrow> state_error + (api_tokens \<times> int)" where
  "is_api_token_valid t now token =
     db_try (res_bind (sql_update (\<lambda>r. sql_is (at_token r = token))
         (\<lambda>r. Inr (r\<lparr>at_last_used_timestamp := Some now\<rparr>)) Inr t)
       (\<lambda>(t', u). res_bind (fetch_one u) (\<lambda>r. Inr (t', at_user_id r))))"

definition store_api_token ::
  "api_tokens \<Rightarrow> int \<Rightarrow> int \<Rightarrow> int \<Rightarrow> string \<Rightarrow> string \<Rightarrow> state_error + api_tokens" where
  "store_api_token t new_id now uid token name =
     db_try (sql_insert (\<lambda>r q. at_id q = at_id r \<or> at_token q = at_token r)
       (\<lambda>r. if length (at_token r) > 255 then Inl StringTooLong else Inr r)
       \<lparr>at_id = new_id, at_token = token, at_user_id = uid, at_name = name,
        at_creation_timestamp = now, at_last_used_timestamp = None\<rparr> t)"

text \<open>\<^verbatim>\<open>RIGHT(token, 4)\<close>\<close>

definition last_4 :: "string \<Rightarrow> string" where
  "last_4 s = drop (length s - 4) s"

definition get_api_tokens_for_user ::
  "api_tokens \<Rightarrow> int \<Rightarrow> (int \<times> string \<times> int option \<times> int \<times> string) list" where
  "get_api_tokens_for_user t uid =
     map (\<lambda>r. (at_id r, last_4 (at_token r), at_last_used_timestamp r, at_creation_timestamp r, at_name r))
       (filter (\<lambda>r. at_user_id r = uid) t)"

subsection \<open>One account per email\<close>

definition users_inv :: "users \<Rightarrow> bool" where
  "users_inv t \<longleftrightarrow> distinct (map u_id t) \<and> distinct (map u_email t)"

lemma register_inv: "register t i e h s = Inr (t', x) \<Longrightarrow> users_inv t \<Longrightarrow> users_inv t'"
  by (auto simp: register_def users_inv_def res_iffs user_store_def list_ex_iff split: if_splits)

lemma register_known:
  "u \<in> set t \<Longrightarrow> u_email u = e \<Longrightarrow> register t i e h s = Inr (t', x) \<Longrightarrow> t' = t \<and> x = None"
  by (auto simp: register_def res_iffs list_ex_iff split: if_splits)

lemma user_store_Inr_iff [sql_simps]:
  "user_store r = Inr r' \<longleftrightarrow> r' = r \<and> length (u_email r) \<le> 50 \<and>
     (\<forall>h. u_password_hash r = Some h \<longrightarrow> length h \<le> 64)"
  by (auto simp: user_store_def split: option.splits)

text \<open>Signing in with a provider an email that has an account gives this account, unchanged.\<close>

lemma oauth_known:
  assumes "users_inv t" and "u \<in> set t" and "u_email u = e" and "oauth t i e s = Inr (t', x)"
  shows "t' = t \<and> x = u_id u"
proof -
  have row: "row_of u_email t e = Some u"
    using assms(1-3) find_key [of u_email t u] by (simp add: users_inv_def row_of_def)
  have "sql_update (\<lambda>q. sql_is (u_email q = e)) (\<lambda>q. Inr (q\<lparr>u_email := e\<rparr>)) user_store t =
      res_bind (Inr True) (\<lambda>hit. if hit
        then res_bind (res_bind (Inr (u\<lparr>u_email := e\<rparr>)) user_store) (\<lambda>r'. Inr (put_row u_email r' t, [r']))
        else Inr (t, []))"
    by (rule sql_update_key [OF _ row])
      (use assms(1,3) in \<open>auto simp: users_inv_def sql_is_alone [symmetric] user_store_Inr_iff\<close>)
  moreover have "u\<lparr>u_email := e\<rparr> = u" using assms(3) by simp
  moreover have "put_row u_email u t = t"
    using assms(1) by (intro put_row_same [OF _ row]) (simp add: users_inv_def)
  moreover have "list_ex (\<lambda>q. u_email q = e) t" using assms(2,3) by (auto simp: list_ex_iff)
  ultimately show ?thesis using assms(4)
    by (auto simp: oauth_def res_iffs user_store_Inr_iff)
qed

lemma oauth_new:
  assumes "\<forall>u \<in> set t. u_email u \<noteq> e" and "oauth t i e s = Inr (t', x)" and "users_inv t"
  shows "users_inv t' \<and> x = i \<and> (\<exists>u \<in> set t'. u_id u = i \<and> u_email u = e)"
proof -
  have "\<not> list_ex (\<lambda>q. u_email q = e) t" using assms(1) by (auto simp: list_ex_iff)
  with assms(2,3) show ?thesis
    by (auto simp: oauth_def res_iffs user_store_Inr_iff users_inv_def list_ex_iff split: if_splits)
qed

text \<open>The round trip of an account: what was registered signs in.\<close>

lemma register_login:
  assumes "register t i e h s = Inr (t', Some x)"
  shows "get_user_id_by_email_password t' e h = Some x \<and> get_password_salt t' e = Some s"
proof -
  from assms have "\<not> list_ex (\<lambda>q. u_email q = e) t"
    and "t' = t @ [\<lparr>u_id = i, u_email = e, u_password_hash = Some h, u_password_salt = s,
         u_sui_address = None, u_zk_salt = None\<rparr>]" and "x = i"
    by (auto simp: register_def res_iffs user_store_Inr_iff split: if_splits)
  then show ?thesis
    by (auto simp: get_user_id_by_email_password_def get_password_salt_def list_ex_iff filter_empty_conv
        intro: arg_cong [of _ _ fetch_optional])
qed

subsection \<open>The life of a token\<close>

lemma refresh_token_stored: "store_refresh_token t i u h = Inr t' \<Longrightarrow> is_refresh_token_valid t' v k \<longleftrightarrow>
    is_refresh_token_valid t v k \<or> v = u \<and> k = h"
  by (auto simp: store_refresh_token_def sql_insert_def res_iffs is_refresh_token_valid_def list_ex_iff
      split: if_splits)

lemma refresh_token_deleted:
  "is_refresh_token_valid (delete_refresh_token t u h) v k \<longleftrightarrow> is_refresh_token_valid t v k \<and> (v, k) \<noteq> (u, h)"
  by (auto simp: delete_refresh_token_def sql_delete_def is_refresh_token_valid_def list_ex_iff)

definition api_tokens_inv :: "api_tokens \<Rightarrow> bool" where
  "api_tokens_inv t \<longleftrightarrow> distinct (map at_token t) \<and> distinct (map at_id t)"

lemma is_api_token_valid_iff:
  assumes "api_tokens_inv t"
  shows "is_api_token_valid t now tok = (case row_of at_token t tok of
      None \<Rightarrow> Inl (DatabaseConnectionError RowNotFound)
    | Some r \<Rightarrow> Inr (put_row at_token (r\<lparr>at_last_used_timestamp := Some now\<rparr>) t, at_user_id r))"
proof (cases "row_of at_token t tok")
  case None
  have "sql_update (\<lambda>r. sql_is (at_token r = tok)) (\<lambda>r. Inr (r\<lparr>at_last_used_timestamp := Some now\<rparr>)) Inr t
      = Inr (t, [])"
    by (rule sql_update_key_None [OF None, where c = "\<lambda>q. Inr True"]) (simp add: sql_is_alone [symmetric])
  with None show ?thesis by (simp add: is_api_token_valid_def)
next
  case (Some r)
  have "sql_update (\<lambda>r. sql_is (at_token r = tok)) (\<lambda>r. Inr (r\<lparr>at_last_used_timestamp := Some now\<rparr>)) Inr t =
      res_bind (Inr True) (\<lambda>hit. if hit
        then res_bind (res_bind (Inr (r\<lparr>at_last_used_timestamp := Some now\<rparr>)) Inr)
          (\<lambda>r'. Inr (put_row at_token r' t, [r']))
        else Inr (t, []))"
    by (rule sql_update_key [OF _ Some])
      (use assms in \<open>auto simp: api_tokens_inv_def sql_is_alone [symmetric]\<close>)
  with Some show ?thesis by (simp add: is_api_token_valid_def)
qed

lemma api_token_stored:
  assumes "store_api_token t i now u tok name = Inr t'" and "api_tokens_inv t"
  shows "api_tokens_inv t' \<and> (\<exists>t2. is_api_token_valid t' later tok = Inr (t2, u))"
proof -
  from assms(1) have t': "t' = t @ [\<lparr>at_id = i, at_token = tok, at_user_id = u, at_name = name,
        at_creation_timestamp = now, at_last_used_timestamp = None\<rparr>]"
    and fresh: "\<forall>q \<in> set t. at_id q \<noteq> i \<and> at_token q \<noteq> tok"
    by (auto simp: store_api_token_def sql_insert_def res_iffs list_ex_iff split: if_splits)
  then have inv: "api_tokens_inv t'" using assms(2) by (auto simp: api_tokens_inv_def)
  have "row_of at_token t tok = None" using fresh by (auto simp: row_of_None_iff)
  then have "row_of at_token t' tok = Some \<lparr>at_id = i, at_token = tok, at_user_id = u, at_name = name,
        at_creation_timestamp = now, at_last_used_timestamp = None\<rparr>" by (simp add: t' row_of_append)
  then show ?thesis using inv by (simp add: is_api_token_valid_iff)
qed

text \<open>A token is deleted by its owner alone; nobody else's request touches it.\<close>

lemma api_token_deleted:
  "r \<in> set (delete_api_token t u i) \<longleftrightarrow> r \<in> set t \<and> \<not> (at_user_id r = u \<and> at_id r = i)"
  by (auto simp: delete_api_token_def sql_delete_def)

subsection \<open>Properties\<close>

definition sample_users :: users where
  "sample_users = [\<lparr>u_id = 1, u_email = ''a@b'', u_password_hash = Some ''h'', u_password_salt = ''s'',
     u_sui_address = None, u_zk_salt = None\<rparr>]"

text \<open>
  A registered user can sign in: their email and password hash give their id and their salt
  is found, and a second registration with the same email gives no id and changes nothing.
\<close>

theorem registered_user_signs_in:
  assumes "register t new_id email hash salt = Inr (t1, Some uid)"
    and "register t1 later_id email hash2 salt2 = Inr (t2, r)"
  shows "get_user_id_by_email_password t2 email hash = Some uid \<and> get_password_salt t2 email = Some salt \<and>
    t2 = t1 \<and> r = None"
proof -
  from assms(1) have "\<exists>u \<in> set t1. u_email u = email"
    by (auto simp: register_def res_iffs user_store_Inr_iff split: if_splits)
  with assms(2) have "t2 = t1 \<and> r = None" by (auto dest: register_known)
  with register_login [OF assms(1)] show ?thesis by simp
qed

theorem registered_user_signs_in_witness:
  "get_user_id_by_email_password sample_users ''a@b'' ''h'' = Some 1"
proof -
  have "register [] 1 ''a@b'' ''h'' ''s'' = Inr (sample_users, Some 1)"
    and "register sample_users 2 ''a@b'' ''k'' ''r'' = Inr (sample_users, None)" by code_simp+
  from registered_user_signs_in [OF this] show ?thesis by simp
qed

text \<open>
  Signing in with OAuth keeps one account per email and one per id, returns the id of the
  account with that email, and changes nothing when the account exists.
\<close>

theorem oauth_keeps_one_account:
  assumes "users_inv t" and "oauth t new_id email salt = Inr (t', uid)"
  shows "users_inv t' \<and> (\<exists>u \<in> set t'. u_id u = uid \<and> u_email u = email) \<and>
    ((\<exists>u \<in> set t. u_email u = email) \<longrightarrow> t' = t)"
proof (cases "\<exists>u \<in> set t. u_email u = email")
  case True
  then obtain u where u: "u \<in> set t" "u_email u = email" by blast
  from oauth_known [OF assms(1) u assms(2)] u assms(1) show ?thesis by auto
next
  case False
  with oauth_new [OF _ assms(2,1)] show ?thesis by auto
qed

theorem oauth_keeps_one_account_witness:
  "\<exists>u \<in> set sample_users. u_id u = 1 \<and> u_email u = ''a@b''"
proof -
  have "users_inv sample_users" and "oauth sample_users 2 ''a@b'' ''z'' = Inr (sample_users, 1)" by code_simp+
  from oauth_keeps_one_account [OF this] show ?thesis by simp
qed

lemma refresh_token_life:
  assumes "store_refresh_token t new_id uid hash = Inr t'"
  shows "is_refresh_token_valid t' v k = (is_refresh_token_valid t v k \<or> v = uid \<and> k = hash) \<and>
    \<not> is_refresh_token_valid (delete_refresh_token t' uid hash) uid hash \<and>
    ((v, k) \<noteq> (uid, hash) \<longrightarrow>
      is_refresh_token_valid (delete_refresh_token t' uid hash) v k = is_refresh_token_valid t v k)"
  by (auto simp: refresh_token_stored [OF assms] refresh_token_deleted)

text \<open>
  A stored API token authenticates exactly the user it was stored for; revoking it by that
  user makes it invalid, and a revocation by any other user has no effect on it.
\<close>

theorem api_token_life:
  assumes "api_tokens_inv t" and "store_api_token t new_id now uid token name = Inr t1"
  shows "(\<exists>t2. is_api_token_valid t1 later token = Inr (t2, uid)) \<and>
    is_api_token_valid (delete_api_token t1 uid new_id) later token = Inl (DatabaseConnectionError RowNotFound) \<and>
    (other \<noteq> uid \<longrightarrow> (\<exists>t2. is_api_token_valid (delete_api_token t1 other new_id) later token = Inr (t2, uid)))"
proof -
  have inv: "api_tokens_inv t1" and valid: "\<exists>t2. is_api_token_valid t1 later token = Inr (t2, uid)"
    using api_token_stored [OF assms(2,1)] by auto
  have del: "api_tokens_inv (delete_api_token t1 u i)" for u i
    using inv by (auto simp: api_tokens_inv_def delete_api_token_def sql_delete_def distinct_map inj_on_def)
  from assms(2) have "\<lparr>at_id = new_id, at_token = token, at_user_id = uid, at_name = name,
      at_creation_timestamp = now, at_last_used_timestamp = None\<rparr> \<in> set t1"
    by (auto simp: store_api_token_def sql_insert_def res_iffs split: if_splits)
  then obtain r where r: "r \<in> set t1" "at_token r = token" "at_user_id r = uid" "at_id r = new_id" by force
  have uniq: "q = r" if "q \<in> set t1" "at_token q = token" for q
    using inv that r by (auto simp: api_tokens_inv_def dest: distinct_map_inj)
  have "row_of at_token (delete_api_token t1 uid new_id) token = None"
    unfolding row_of_None_iff
  proof
    assume "token \<in> at_token ` set (delete_api_token t1 uid new_id)"
    then obtain q where q: "q \<in> set (delete_api_token t1 uid new_id)" "at_token q = token" by auto
    then have "q = r" using uniq [of q] by (auto simp: api_token_deleted)
    with q(1) r(3,4) show False by (auto simp: api_token_deleted)
  qed
  then have gone: "is_api_token_valid (delete_api_token t1 uid new_id) later token = Inl (DatabaseConnectionError RowNotFound)"
    by (simp add: is_api_token_valid_iff [OF del])
  have "row_of at_token (delete_api_token t1 other new_id) token = Some r" if "other \<noteq> uid"
  proof -
    have "r \<in> set (delete_api_token t1 other new_id)" using that r by (auto simp: api_token_deleted)
    with find_key [of at_token "delete_api_token t1 other new_id" r] del r(2) show ?thesis
      by (simp add: row_of_def api_tokens_inv_def)
  qed
  then have "\<exists>t2. is_api_token_valid (delete_api_token t1 other new_id) later token = Inr (t2, uid)" if "other \<noteq> uid"
    using that r(3) by (simp add: is_api_token_valid_iff [OF del])
  with valid gone show ?thesis by blast
qed

theorem api_token_life_witness:
  "is_api_token_valid (delete_api_token [\<lparr>at_id = 1, at_token = ''tk'', at_user_id = 7, at_name = ''n'',
      at_creation_timestamp = 0, at_last_used_timestamp = None\<rparr>] 7 1) 9 ''tk'' = Inl (DatabaseConnectionError RowNotFound)"
proof -
  have "api_tokens_inv []" and "store_api_token [] 1 0 7 ''tk'' ''n'' = Inr [\<lparr>at_id = 1, at_token = ''tk'',
      at_user_id = 7, at_name = ''n'', at_creation_timestamp = 0, at_last_used_timestamp = None\<rparr>]" by code_simp+
  from api_token_life [OF this, of 9 8] show ?thesis by blast
qed

end
