(* ===== verification/Attestation.thy ===== *)
theory Attestation
  imports Registry
begin

text \<open>
  \<^verbatim>\<open>handle_node_key_rotation_event\<close> and the module \<^verbatim>\<open>remote_attestation_verification\<close> of
  \<^verbatim>\<open>atoma-state/src/handlers.rs\<close>. A node publishes a new encryption key with evidence of
  its hardware; the key is stored, and marked valid only if the evidence was accepted for
  a nonce that binds the key. Decompression, JSON, the hash, the verifier of NVIDIA's
  evidence and the topology checks are other crates: they are the fields of
  \<open>attestation_crates\<close>. The lemmas show that no other key is ever marked valid.
\<close>

subsection \<open>What the handler calls\<close>

type_synonym device_evidence = string
type_synonym nvswitch_evidence = string

datatype combined_evidence = Device device_evidence | NvSwitch nvswitch_evidence

datatype attestation_error =
    FailedToAttestRemote
  | FailedToRetrieveContractNonce
  | FailedToDecode string
  | TopologyCheckFailed string

text \<open>
  A verifier gives the verdict, or nothing when it fails. A topology check of the GPUs
  gives the set of switches they see.
\<close>

record attestation_crates =
  decompress_bytes :: "bytes \<Rightarrow> bytes option"
  parse_evidence :: "bytes \<Rightarrow> combined_evidence list option"
  blake3_hash :: "bytes \<Rightarrow> bytes"
  verify_gpu_attestation :: "device_evidence list \<Rightarrow> bytes \<Rightarrow> bool option"
  verify_nvswitch_attestation :: "nvswitch_evidence list \<Rightarrow> bytes \<Rightarrow> bool option"
  base64_decode :: "string \<Rightarrow> bytes option"
  gpu_topology_check :: "bytes list \<Rightarrow> bytes option"
  switch_topology_check :: "bytes list \<Rightarrow> nat \<Rightarrow> bytes \<Rightarrow> bool"

record node_public_key_commitment_event =
  nce_epoch :: u64
  nce_key_rotation_counter :: u64
  nce_node_id :: u64
  nce_new_public_key :: bytes
  nce_device_type :: "16 word"
  nce_evidence_bytes :: bytes

subsection \<open>Verification\<close>

text \<open>\<^verbatim>\<open>x.to_le_bytes()\<close> with \<open>n\<close> bytes.\<close>

fun to_le_bytes :: "nat \<Rightarrow> int \<Rightarrow> bytes" where
  "to_le_bytes 0 x = []"
| "to_le_bytes (Suc n) x = word_of_int (x mod 256) # to_le_bytes n (x div 256)"

definition expected_nonce :: "attestation_crates \<Rightarrow> int \<Rightarrow> bytes \<Rightarrow> 16 word \<Rightarrow> bytes" where
  "expected_nonce cr contract_nonce public_key device_type =
     blake3_hash cr (to_le_bytes 8 contract_nonce @ public_key @ to_le_bytes 2 (uint device_type))"

definition contract_nonce :: "key_rotation list \<Rightarrow> attestation_error + int" where
  "contract_nonce rots = map_err (\<lambda>_. FailedToRetrieveContractNonce) (get_contract_key_rotation_nonce rots)"

definition attest_nvidia_gpu_evidence_list ::
  "attestation_crates \<Rightarrow> key_rotation list \<Rightarrow> device_evidence list \<Rightarrow> bytes \<Rightarrow> 16 word
    \<Rightarrow> attestation_error + unit" where
  "attest_nvidia_gpu_evidence_list cr rots evidence public_key device_type =
     res_bind (contract_nonce rots) (\<lambda>nonce.
       case verify_gpu_attestation cr evidence (expected_nonce cr nonce public_key device_type) of
         None \<Rightarrow> Inl FailedToAttestRemote
       | Some result \<Rightarrow> if result then Inr () else Inl FailedToAttestRemote)"

definition attest_nvidia_nvswitch_evidence_list ::
  "attestation_crates \<Rightarrow> key_rotation list \<Rightarrow> nvswitch_evidence list \<Rightarrow> bytes \<Rightarrow> 16 word
    \<Rightarrow> attestation_error + unit" where
  "attest_nvidia_nvswitch_evidence_list cr rots evidence public_key device_type =
     res_bind (contract_nonce rots) (\<lambda>nonce.
     res_bind (ok_or FailedToAttestRemote
         (verify_nvswitch_attestation cr evidence (expected_nonce cr nonce public_key device_type))) (\<lambda>result.
       if result then Inr () else Inl FailedToAttestRemote))"

fun decode_evidence :: "attestation_crates \<Rightarrow> string list \<Rightarrow> string \<Rightarrow> attestation_error + bytes list" where
  "decode_evidence cr [] kind = Inr []"
| "decode_evidence cr (e # es) kind =
     res_bind (ok_or (FailedToDecode kind) (base64_decode cr e)) (\<lambda>b.
     res_bind (decode_evidence cr es kind) (\<lambda>bs. Inr (b # bs)))"

definition verify_topology ::
  "attestation_crates \<Rightarrow> device_evidence list \<Rightarrow> nvswitch_evidence list \<Rightarrow> attestation_error + unit" where
  "verify_topology cr gpus switches =
     res_bind (decode_evidence cr gpus ''GPU'') (\<lambda>gpu_refs.
     res_bind (decode_evidence cr switches ''NVSwitch'') (\<lambda>switch_refs.
     res_bind (ok_or (TopologyCheckFailed ''GPU topology check'') (gpu_topology_check cr gpu_refs)) (\<lambda>pdis.
       if switch_topology_check cr switch_refs (length gpus) pdis then Inr ()
       else Inl (TopologyCheckFailed ''NVSwitch topology check''))))"

subsection \<open>The handler\<close>

fun devices :: "combined_evidence list \<Rightarrow> device_evidence list" where
  "devices [] = []"
| "devices (Device e # es) = e # devices es"
| "devices (NvSwitch e # es) = devices es"

fun nvswitches :: "combined_evidence list \<Rightarrow> nvswitch_evidence list" where
  "nvswitches [] = []"
| "nvswitches (Device e # es) = nvswitches es"
| "nvswitches (NvSwitch e # es) = e # nvswitches es"

text \<open>
  With eight GPUs and four switches (PPCIE mode) every check must pass, or the event is
  refused; otherwise the verdict on the GPUs becomes the validity of the stored key.
\<close>

definition is_ppcie_mode :: "combined_evidence list \<Rightarrow> bool" where
  "is_ppcie_mode es \<longleftrightarrow> length (devices es) = 8 \<and> length (nvswitches es) = 4"

definition attest_evidence ::
  "attestation_crates \<Rightarrow> key_rotation list \<Rightarrow> combined_evidence list \<Rightarrow> bytes \<Rightarrow> 16 word
    \<Rightarrow> attestation_error + bool" where
  "attest_evidence cr rots es public_key device_type =
     (if is_ppcie_mode es then
        res_bind (attest_nvidia_gpu_evidence_list cr rots (devices es) public_key device_type) (\<lambda>_.
        res_bind (attest_nvidia_nvswitch_evidence_list cr rots (nvswitches es) public_key device_type) (\<lambda>_.
        res_bind (verify_topology cr (devices es) (nvswitches es)) (\<lambda>_. Inr True)))
      else Inr (\<not> isl (attest_nvidia_gpu_evidence_list cr rots (devices es) public_key device_type)))"

definition handle_node_key_rotation_event ::
  "attestation_crates \<Rightarrow> key_rotation list \<Rightarrow> node_key_row list \<Rightarrow> node_public_key_commitment_event
    \<Rightarrow> state_error + node_key_row list" where
  "handle_node_key_rotation_event cr rots keys event =
     res_bind (ok_or CompressionError (decompress_bytes cr (nce_evidence_bytes event))) (\<lambda>original.
     res_bind (ok_or JsonParseError (parse_evidence cr original)) (\<lambda>es.
     res_bind (map_err (\<lambda>_. RemoteAttestationError)
         (attest_evidence cr rots es (nce_new_public_key event) (nce_device_type event))) (\<lambda>is_valid.
       update_node_public_key keys (as_i64 (nce_node_id event)) (as_i64 (nce_epoch event))
         (as_i64 (nce_key_rotation_counter event)) (nce_new_public_key event) (nce_evidence_bytes event)
         (uint (nce_device_type event)) is_valid)))"

subsection \<open>Only attested keys are valid\<close>

lemma attest_gpu_Inr:
  "attest_nvidia_gpu_evidence_list cr rots es pk d = Inr () \<longleftrightarrow>
   (\<exists>nonce. get_contract_key_rotation_nonce rots = Inr nonce \<and>
      verify_gpu_attestation cr es (expected_nonce cr nonce pk d) = Some True)"
proof (cases "get_contract_key_rotation_nonce rots")
  case (Inr nonce)
  then show ?thesis
    by (cases "verify_gpu_attestation cr es (expected_nonce cr nonce pk d)")
      (simp_all add: attest_nvidia_gpu_evidence_list_def contract_nonce_def)
qed (simp add: attest_nvidia_gpu_evidence_list_def contract_nonce_def)

lemma not_isl_unit: "\<not> isl (m :: 'e + unit) \<longleftrightarrow> m = Inr ()"
  by (cases m) auto

lemma attest_evidence_True:
  "attest_evidence cr rots es pk d = Inr True \<Longrightarrow>
   \<exists>nonce. get_contract_key_rotation_nonce rots = Inr nonce \<and>
      verify_gpu_attestation cr (devices es) (expected_nonce cr nonce pk d) = Some True"
  by (auto simp: attest_evidence_def res_iffs attest_gpu_Inr not_isl_unit split: if_splits)

lemma update_node_public_key_rows:
  assumes "update_node_public_key keys n e c pk ev d v = Inr keys'" and "k \<in> set keys'"
  shows "k \<in> set keys \<or> nk_node_small_id k = n \<and> nk_public_key k = pk \<and> nk_device_type k = d \<and>
    nk_key_rotation_counter k = c \<and> nk_epoch k = e \<and> nk_evidence_bytes k = ev \<and> nk_is_valid k = v"
proof -
  let ?r = "\<lparr>nk_node_small_id = n, nk_epoch = e, nk_key_rotation_counter = c, nk_public_key = pk,
    nk_evidence_bytes = ev, nk_device_type = d, nk_is_valid = v\<rparr>"
  let ?clash = "\<lambda>r q. nk_node_small_id q = nk_node_small_id r \<and> nk_device_type q = nk_device_type r"
  let ?f = "\<lambda>new old. Inr (old\<lparr>nk_epoch := nk_epoch new, nk_key_rotation_counter := nk_key_rotation_counter new,
          nk_public_key := nk_public_key new, nk_evidence_bytes := nk_evidence_bytes new,
          nk_is_valid := nk_is_valid new\<rparr>)"
  have up: "sql_upsert ?clash key_store ?f ?r keys = Inr keys'"
    using assms(1) by (simp add: update_node_public_key_def)
  show ?thesis
  proof (cases "list_ex (?clash ?r) keys")
    case False
    then have "keys' = keys @ [?r]"
      using up by (auto simp: sql_upsert_def key_store_def res_bind_Inr_iff split: if_splits)
    with assms(2) show ?thesis by auto
  next
    case True
    with up obtain u where u: "sql_update (\<lambda>q. sql_is (?clash ?r q)) (?f ?r) key_store keys = Inr (keys', u)"
      by (auto simp: sql_upsert_def key_store_def res_bind_Inr_iff split: if_splits)
    from sql_update_rows [OF u] assms(2) obtain q where "q \<in> set keys"
      and "sql_is (?clash ?r q) = Inr True \<and> res_bind (?f ?r q) key_store = Inr k \<or> k = q"
      by (auto simp: list_all2_conv_all_nth in_set_conv_nth) metis
    then show ?thesis by (auto simp: sql_simps key_store_def res_bind_Inr_iff)
  qed
qed

lemma key_rotation_event_valid:
  assumes "handle_node_key_rotation_event cr rots keys event = Inr keys'"
    and "k \<in> set keys'" and "k \<notin> set keys" and "nk_is_valid k"
  shows "nk_public_key k = nce_new_public_key event \<and>
    (\<exists>original es nonce. decompress_bytes cr (nce_evidence_bytes event) = Some original \<and>
       parse_evidence cr original = Some es \<and> get_contract_key_rotation_nonce rots = Inr nonce \<and>
       verify_gpu_attestation cr (devices es)
         (expected_nonce cr nonce (nk_public_key k) (nce_device_type event)) = Some True)"
proof -
  from assms(1) obtain original es v where "decompress_bytes cr (nce_evidence_bytes event) = Some original"
    and "parse_evidence cr original = Some es"
    and v: "attest_evidence cr rots es (nce_new_public_key event) (nce_device_type event) = Inr v"
    and up: "update_node_public_key keys (as_i64 (nce_node_id event)) (as_i64 (nce_epoch event))
         (as_i64 (nce_key_rotation_counter event)) (nce_new_public_key event) (nce_evidence_bytes event)
         (uint (nce_device_type event)) v = Inr keys'"
    by (auto simp: handle_node_key_rotation_event_def res_bind_Inr_iff)
  moreover from update_node_public_key_rows [OF up assms(2)] assms(3,4)
  have "nk_public_key k = nce_new_public_key event" and v by auto
  ultimately show ?thesis using attest_evidence_True by auto
qed

text \<open>In PPCIE mode a failed check refuses the event and the table stays as it was.\<close>

lemma ppcie_failure:
  assumes "decompress_bytes cr (nce_evidence_bytes event) = Some original"
    and "parse_evidence cr original = Some es" and "is_ppcie_mode es"
    and "verify_topology cr (devices es) (nvswitches es) \<noteq> Inr ()"
  shows "handle_node_key_rotation_event cr rots keys event = Inl RemoteAttestationError"
  using assms
  by (cases "attest_nvidia_gpu_evidence_list cr rots (devices es) (nce_new_public_key event) (nce_device_type event)";
      cases "attest_nvidia_nvswitch_evidence_list cr rots (nvswitches es) (nce_new_public_key event) (nce_device_type event)";
      cases "verify_topology cr (devices es) (nvswitches es)")
    (simp_all add: handle_node_key_rotation_event_def attest_evidence_def)

subsection \<open>Properties\<close>


definition sample_crates :: attestation_crates where
  "sample_crates = \<lparr>decompress_bytes = Some, parse_evidence = (\<lambda>b. Some [Device ''e'']), blake3_hash = id,
     verify_gpu_attestation = (\<lambda>es n. Some (length n = 12)), verify_nvswitch_attestation = (\<lambda>es n. None),
     base64_decode = (\<lambda>s. None), gpu_topology_check = (\<lambda>bs. None), switch_topology_check = (\<lambda>bs n p. False)\<rparr>"

definition sample_commitment :: node_public_key_commitment_event where
  "sample_commitment = \<lparr>nce_epoch = 1, nce_key_rotation_counter = 4, nce_node_id = 8,
     nce_new_public_key = [1, 2], nce_device_type = 0, nce_evidence_bytes = []\<rparr>"


text \<open>
  For evidence of a node in protected PCIe mode the event is handled successfully only when
  the GPUs and the switches are both accepted for the expected nonce and the topology of the
  two fits.
\<close>

theorem protected_mode_needs_every_check:
  assumes "handle_node_key_rotation_event cr rots keys event = Inr keys'"
    and "decompress_bytes cr (nce_evidence_bytes event) = Some original"
    and "parse_evidence cr original = Some es" and "is_ppcie_mode es"
  shows "(\<exists>nonce. get_contract_key_rotation_nonce rots = Inr nonce \<and>
      verify_gpu_attestation cr (devices es)
        (expected_nonce cr nonce (nce_new_public_key event) (nce_device_type event)) = Some True \<and>
      verify_nvswitch_attestation cr (nvswitches es)
        (expected_nonce cr nonce (nce_new_public_key event) (nce_device_type event)) = Some True) \<and>
    verify_topology cr (devices es) (nvswitches es) = Inr ()"
  using assms
  by (auto simp: handle_node_key_rotation_event_def attest_evidence_def res_iffs attest_gpu_Inr
      attest_nvidia_nvswitch_evidence_list_def contract_nonce_def split: if_splits)

definition sample_protected_crates :: attestation_crates where
  "sample_protected_crates = sample_crates\<lparr>
     parse_evidence := (\<lambda>b. Some (replicate 8 (Device ''e'') @ replicate 4 (NvSwitch ''s''))),
     verify_nvswitch_attestation := (\<lambda>es n. Some (length es = 4)), base64_decode := (\<lambda>s. Some []),
     gpu_topology_check := (\<lambda>bs. Some []), switch_topology_check := (\<lambda>bs n p. n = 8)\<rparr>"

theorem protected_mode_needs_every_check_witness:
  "verify_topology sample_protected_crates (replicate 8 ''e'') (replicate 4 ''s'') = Inr ()"
proof -
  let ?es = "replicate 8 (Device ''e'') @ replicate 4 (NvSwitch ''s'')"
  have "handle_node_key_rotation_event sample_protected_crates sample_rotations [] sample_commitment =
      Inr [sample_key 8 4 True]"
    and "decompress_bytes sample_protected_crates (nce_evidence_bytes sample_commitment) = Some []"
    and "parse_evidence sample_protected_crates [] = Some ?es" and "is_ppcie_mode ?es"
    and d: "devices ?es = replicate 8 ''e''" "nvswitches ?es = replicate 4 ''s''"
    by code_simp+
  from protected_mode_needs_every_check [OF this(1-4)] show ?thesis by (simp only: d)
qed

end
