(* ===== verification/ProxyErrors.thy ===== *)
theory ProxyErrors
  imports Prelude
begin

text \<open>
  \<^verbatim>\<open>AtomaProxyError\<close> of \<^verbatim>\<open>atoma-proxy/src/server/error.rs\<close> with what a client sees of
  it, and \<^verbatim>\<open>handle_status_code_error\<close> of \<^verbatim>\<open>handlers/mod.rs\<close>, which turns a node's answer
  into one. The lemmas show that an internal message never reaches the client and which
  status a node's failure becomes.
\<close>

datatype atoma_proxy_error =
    RequestError string string
  | AuthError string string
  | InternalError string "string option" string
  | BalanceError string string
  | NotFound string string
  | NotImplemented string string
  | ServiceUnavailable string string
  | Locked string string
  | UnavailableStack string string
  | TooManyRequests string string
  | FiatPaymentsOnly string string

primrec error_code :: "atoma_proxy_error \<Rightarrow> string" where
  "error_code (RequestError m ep) = ''REQUEST_ERROR''"
| "error_code (AuthError m ep) = ''AUTH_ERROR''"
| "error_code (InternalError m cm ep) = ''INTERNAL_ERROR''"
| "error_code (NotFound m ep) = ''NOT_FOUND''"
| "error_code (NotImplemented m ep) = ''NOT_IMPLEMENTED''"
| "error_code (ServiceUnavailable m ep) = ''SERVICE_UNAVAILABLE''"
| "error_code (BalanceError m ep) = ''BALANCE_ERROR''"
| "error_code (Locked m ep) = ''LOCKED''"
| "error_code (UnavailableStack m ep) = ''UNAVAILABLE_STACK''"
| "error_code (TooManyRequests m ep) = ''TOO_MANY_REQUESTS''"
| "error_code (FiatPaymentsOnly m ep) = ''FIAT_PAYMENTS_ONLY''"

primrec client_message :: "atoma_proxy_error \<Rightarrow> string" where
  "client_message (RequestError m ep) = ''Request error: '' @ m"
| "client_message (AuthError m ep) = ''Authentication failed''"
| "client_message (InternalError m cm ep) =
     (case cm of None \<Rightarrow> ''Internal server error occurred'' | Some c \<Rightarrow> c)"
| "client_message (NotFound m ep) = ''Resource not found''"
| "client_message (NotImplemented m ep) = ''Endpoint not implemented''"
| "client_message (ServiceUnavailable m ep) = ''Service unavailable''"
| "client_message (BalanceError m ep) = ''Insufficient balance''"
| "client_message (Locked m ep) = ''Locked''"
| "client_message (UnavailableStack m ep) = ''Stack unavailable''"
| "client_message (TooManyRequests m ep) = ''Too many requests''"
| "client_message (FiatPaymentsOnly m ep) = ''Only fiat payments are supported''"

primrec status_code :: "atoma_proxy_error \<Rightarrow> nat" where
  "status_code (FiatPaymentsOnly m ep) = 400"
| "status_code (RequestError m ep) = 400"
| "status_code (AuthError m ep) = 401"
| "status_code (InternalError m cm ep) = 500"
| "status_code (NotFound m ep) = 404"
| "status_code (NotImplemented m ep) = 501"
| "status_code (ServiceUnavailable m ep) = 503"
| "status_code (BalanceError m ep) = 402"
| "status_code (Locked m ep) = 423"
| "status_code (UnavailableStack m ep) = 425"
| "status_code (TooManyRequests m ep) = 429"

primrec error_endpoint :: "atoma_proxy_error \<Rightarrow> string" where
  "error_endpoint (RequestError m ep) = ep"
| "error_endpoint (AuthError m ep) = ep"
| "error_endpoint (InternalError m cm ep) = ep"
| "error_endpoint (NotFound m ep) = ep"
| "error_endpoint (NotImplemented m ep) = ep"
| "error_endpoint (ServiceUnavailable m ep) = ep"
| "error_endpoint (BalanceError m ep) = ep"
| "error_endpoint (Locked m ep) = ep"
| "error_endpoint (UnavailableStack m ep) = ep"
| "error_endpoint (TooManyRequests m ep) = ep"
| "error_endpoint (FiatPaymentsOnly m ep) = ep"

primrec error_message :: "atoma_proxy_error \<Rightarrow> string" where
  "error_message (RequestError m ep) = ''Request error: '' @ m"
| "error_message (AuthError m ep) = ''Authentication error: '' @ m"
| "error_message (InternalError m cm ep) = ''Internal server error: '' @ m"
| "error_message (NotFound m ep) = ''Resource not found''"
| "error_message (NotImplemented m ep) = ''Endpoint not implemented''"
| "error_message (ServiceUnavailable m ep) = ''Service unavailable: '' @ m"
| "error_message (BalanceError m ep) = ''Insufficient balance: '' @ m"
| "error_message (Locked m ep) = ''Locked: '' @ m"
| "error_message (UnavailableStack m ep) = ''Stack unavailable: '' @ m"
| "error_message (TooManyRequests m ep) = ''Too many requests: '' @ m"
| "error_message (FiatPaymentsOnly m ep) = ''Only fiat payments are supported''"

text \<open>\<^verbatim>\<open>into_response\<close>: the status and the JSON body's code and message.\<close>

record error_response =
  er_status :: nat
  er_code :: string
  er_message :: string

definition into_response :: "atoma_proxy_error \<Rightarrow> error_response" where
  "into_response e = \<lparr>er_status = status_code e, er_code = error_code e, er_message = client_message e\<rparr>"

text \<open>\<open>show_status\<close> is how the crate \<^verbatim>\<open>http\<close> prints a status.\<close>

definition handle_status_code_error ::
  "(nat \<Rightarrow> string) \<Rightarrow> nat \<Rightarrow> string \<Rightarrow> string \<Rightarrow> atoma_proxy_error + unit" where
  "handle_status_code_error show_status status endpoint err =
     (if status = 401 then Inl (AuthError err endpoint)
      else if status = 500 then
        Inl (InternalError (''Inference service returned internal server error: '' @ err)
          (Some (''Inference service returned status code error '' @ show_status status)) endpoint)
      else if status = 400 then
        Inl (InternalError (''Inference service returned bad request error: '' @ err) (Some err) endpoint)
      else if status = 423 then
        Inl (Locked (''Inference service returned locked error: '' @ err) endpoint)
      else if status = 425 then
        Inl (UnavailableStack (''Inference service returned too early error: '' @ err) endpoint)
      else if status = 429 then
        Inl (TooManyRequests (''Inference service returned too many requests error: '' @ err) endpoint)
      else
        Inl (InternalError (''Inference service returned non-success error: '' @ err)
          (Some (''Inference service returned status code error '' @ show_status status)) endpoint))"

text \<open>A node's failure is passed on as it is for four statuses and as 500 otherwise.\<close>

lemma handle_status_code_error_status:
  "\<exists>e. handle_status_code_error show_status s ep err = Inl e \<and> error_endpoint e = ep \<and>
     status_code e = (if s \<in> {401, 423, 425, 429} then s else 500)"
  by (simp add: handle_status_code_error_def)

text \<open>What the client reads does not depend on the message meant for the log.\<close>

primrec with_message :: "string \<Rightarrow> atoma_proxy_error \<Rightarrow> atoma_proxy_error" where
  "with_message m' (RequestError m ep) = RequestError m' ep"
| "with_message m' (AuthError m ep) = AuthError m' ep"
| "with_message m' (InternalError m cm ep) = InternalError m' cm ep"
| "with_message m' (BalanceError m ep) = BalanceError m' ep"
| "with_message m' (NotFound m ep) = NotFound m' ep"
| "with_message m' (NotImplemented m ep) = NotImplemented m' ep"
| "with_message m' (ServiceUnavailable m ep) = ServiceUnavailable m' ep"
| "with_message m' (Locked m ep) = Locked m' ep"
| "with_message m' (UnavailableStack m ep) = UnavailableStack m' ep"
| "with_message m' (TooManyRequests m ep) = TooManyRequests m' ep"
| "with_message m' (FiatPaymentsOnly m ep) = FiatPaymentsOnly m' ep"

lemma into_response_with_message:
  "error_code e \<noteq> ''REQUEST_ERROR'' \<Longrightarrow> into_response (with_message m e) = into_response e"
  by (cases e) (simp_all add: into_response_def)

lemma status_of_code: "error_code e = error_code e' \<Longrightarrow> status_code e = status_code e'"
  by (cases e; cases e') simp_all

subsection \<open>Properties\<close>

lemma node_failure_reaches_client:
  "\<exists>e. handle_status_code_error show_status s ep err = Inl e \<and> error_endpoint e = ep \<and>
     er_status (into_response e) = (if s \<in> {401, 423, 425, 429} then s else 500) \<and>
     er_message (into_response e) =
       (if s = 400 then err
        else if s = 401 then ''Authentication failed''
        else if s = 423 then ''Locked''
        else if s = 425 then ''Stack unavailable''
        else if s = 429 then ''Too many requests''
        else ''Inference service returned status code error '' @ show_status s)"
  by (simp add: handle_status_code_error_def into_response_def)

end
