(* ===== verification/Pricing.thy ===== *)
theory Pricing
  imports Prelude
begin

text \<open>
  The arithmetic of prices per one million units: the amounts that
  \<^verbatim>\<open>authenticate_and_lock_compute_units\<close> locks (\<^verbatim>\<open>middleware.rs\<close>, on wrapping \<^verbatim>\<open>i64\<close>
  values), those that \<^verbatim>\<open>update_state_manager_fiat\<close> settles (\<^verbatim>\<open>handlers/mod.rs\<close>, on
  \<^verbatim>\<open>u128\<close> with a checked conversion) and the price of a new stack (on wrapping \<^verbatim>\<open>u64\<close>).
  The lemmas show when the two sides agree and that what is settled never exceeds the
  estimate.
\<close>

definition ONE_MILLION :: int where "ONE_MILLION = 1000000"
definition STACK_SIZE_TO_BUY :: int where "STACK_SIZE_TO_BUY = 1000000"

text \<open>\<^verbatim>\<open>tokens as i64 * price / ONE_MILLION as i64\<close>\<close>

definition fiat_locked_amount :: "u64 \<Rightarrow> int \<Rightarrow> int" where
  "fiat_locked_amount tokens price = i64_div (i64_mul (as_i64 tokens) price) ONE_MILLION"

text \<open>\<^verbatim>\<open>i64::try_from(tokens as u128 * price as u128 / u128::from(ONE_MILLION))\<close>\<close>

definition fiat_amount :: "int \<Rightarrow> int \<Rightarrow> int option" where
  "fiat_amount tokens price = try_i64 (as_u128 tokens * as_u128 price div as_u128 ONE_MILLION)"

text \<open>\<^verbatim>\<open>(price_per_one_million_compute_units * stack_size_to_buy / ONE_MILLION) as i64\<close>\<close>

definition stack_cost :: "u64 \<Rightarrow> u64 \<Rightarrow> int" where
  "stack_cost price stack_size = as_i64 (price * stack_size div word_of_int ONE_MILLION)"

subsection \<open>Agreement of the two sides\<close>

lemma as_u128_product:
  assumes "0 \<le> a" "a \<le> i64_max" "0 \<le> b" "b \<le> i64_max"
  shows "uint (as_u128 a * as_u128 b div as_u128 ONE_MILLION) = a * b div ONE_MILLION"
proof -
  have "a * b \<le> i64_max * i64_max" using assms by (intro mult_mono) (auto simp: i64_max_def)
  moreover have "0 \<le> a * b" using assms by simp
  ultimately have "uint (as_u128 a * as_u128 b) = a * b"
    using assms by (simp add: uint_mult_lem uint_word_ariths uint_as_u128 i64_max_def mod_pos_pos_trivial)
  moreover have "uint (as_u128 ONE_MILLION) = ONE_MILLION"
    by (rule uint_as_u128) (simp_all add: ONE_MILLION_def i64_max_def)
  ultimately show ?thesis by (simp add: uint_div_distrib)
qed

lemma fiat_amount_eq:
  assumes "0 \<le> tokens" "tokens \<le> i64_max" "0 \<le> price" "price \<le> i64_max"
  shows "fiat_amount tokens price =
    (if tokens * price div ONE_MILLION \<le> i64_max then Some (tokens * price div ONE_MILLION) else None)"
  using as_u128_product [OF assms] by (simp add: fiat_amount_def try_i64_def)

lemma fiat_locked_amount_eq:
  assumes "uint tokens \<le> i64_max" "0 \<le> price" "uint tokens * price \<le> i64_max"
  shows "fiat_locked_amount tokens price = uint tokens * price div ONE_MILLION"
proof -
  have "0 \<le> uint tokens * price" using assms by simp
  moreover from this have "uint tokens * price div ONE_MILLION \<le> i64_max"
    using assms(3) by (simp add: ONE_MILLION_def i64_max_def)
  ultimately show ?thesis using assms
    by (simp add: fiat_locked_amount_def i64_mul_def i64_div_def as_i64_small wrap_i64_id_nonneg
        sdiv_nonneg ONE_MILLION_def pos_imp_zdiv_nonneg_iff)
qed

text \<open>What is locked is what is settled as the estimate, unless the product overflows.\<close>

lemma locked_is_settled:
  assumes "uint tokens \<le> i64_max" "0 \<le> price" "price \<le> i64_max" "uint tokens * price \<le> i64_max"
  shows "fiat_amount (as_i64 tokens) price = Some (fiat_locked_amount tokens price)"
proof -
  have "0 \<le> uint tokens * price" using assms by simp
  then have "uint tokens * price div ONE_MILLION \<le> i64_max"
    using assms(4) by (simp add: ONE_MILLION_def i64_max_def)
  then show ?thesis
    using assms by (simp add: as_i64_small fiat_amount_eq fiat_locked_amount_eq)
qed

lemma fiat_amount_bounds:
  assumes "0 \<le> tokens" "tokens \<le> i64_max" "0 \<le> price" "price \<le> i64_max" "fiat_amount tokens price = Some a"
  shows "0 \<le> a \<and> a \<le> i64_max"
  using assms by (auto simp: fiat_amount_eq ONE_MILLION_def pos_imp_zdiv_nonneg_iff split: if_splits)

text \<open>Fewer tokens cost no more.\<close>

lemma fiat_amount_mono:
  assumes "0 \<le> n" "n \<le> m" "m \<le> i64_max" "0 \<le> price" "price \<le> i64_max" "fiat_amount m price = Some b"
  shows "\<exists>a. fiat_amount n price = Some a \<and> 0 \<le> a \<and> a \<le> b"
proof -
  have "n * price \<le> m * price" using assms by (intro mult_right_mono) auto
  then have "n * price div ONE_MILLION \<le> m * price div ONE_MILLION"
    by (intro zdiv_mono1) (auto simp: ONE_MILLION_def)
  with assms show ?thesis
    by (auto simp: fiat_amount_eq ONE_MILLION_def pos_imp_zdiv_nonneg_iff split: if_splits)
qed

lemma fiat_amount_0: "0 \<le> price \<Longrightarrow> price \<le> i64_max \<Longrightarrow> fiat_amount 0 price = Some 0"
  by (simp add: fiat_amount_eq i64_max_def)

text \<open>A million units cost the price of a million units.\<close>

lemma stack_cost_million:
  assumes "uint price * 1000000 < 2 ^ 64" "uint price \<le> i64_max"
  shows "stack_cost price (word_of_int STACK_SIZE_TO_BUY) = uint price"
proof -
  have m: "uint (word_of_int 1000000 :: u64) = 1000000" by (simp add: uint_word_of_int)
  have "uint (price * word_of_int 1000000) = uint price * 1000000"
    using assms(1) by (simp add: uint_word_ariths m mod_pos_pos_trivial)
  then have "uint (price * word_of_int 1000000 div word_of_int 1000000) = uint price"
    by (simp add: uint_div_distrib m)
  with assms(2) show ?thesis
    by (simp add: stack_cost_def STACK_SIZE_TO_BUY_def ONE_MILLION_def as_i64_small)
qed

lemma stack_cost_of_price:
  assumes "0 \<le> price" and "price * 1000000 < 2 ^ 64"
  shows "stack_cost (as_u64 price) (as_u64 STACK_SIZE_TO_BUY) = price"
proof -
  have "price \<le> i64_max" using assms(2) by (simp add: i64_max_def)
  then have u: "uint (as_u64 price) = price" by (rule as_u64_uint [OF assms(1)])
  with assms(2) stack_cost_million [of "as_u64 price"] \<open>price \<le> i64_max\<close> show ?thesis
    by (simp add: as_u64_def)
qed

subsection \<open>Properties\<close>

text \<open>
  C34. When the product of estimate and price fits an i64, the amount locked with wrapping
  i64 arithmetic in the middleware is the one that settlement computes with u128 arithmetic
  and a checked conversion, and the charge for any number of tokens up to the estimate can
  be computed, is not negative and does not exceed the locked amount.
\<close>

theorem charge_within_locked_amount:
  assumes "uint estimate \<le> i64_max" "0 \<le> price" "price \<le> i64_max" "uint estimate * price \<le> i64_max"
    and "0 \<le> tokens" "tokens \<le> uint estimate"
  shows "fiat_amount (as_i64 estimate) price = Some (fiat_locked_amount estimate price) \<and>
    (\<exists>charge. fiat_amount tokens price = Some charge \<and> 0 \<le> charge \<and> charge \<le> fiat_locked_amount estimate price)"
proof -
  have locked: "fiat_amount (as_i64 estimate) price = Some (fiat_locked_amount estimate price)"
    by (rule locked_is_settled [OF assms(1-4)])
  with fiat_amount_mono [of tokens "uint estimate" price] assms show ?thesis by (simp add: as_i64_small)
qed

theorem charge_within_locked_amount_witness:
  "\<exists>charge. fiat_amount 1500 3000000 = Some charge \<and> charge \<le> fiat_locked_amount 2000 3000000"
  using charge_within_locked_amount [of 2000 3000000 1500] by (auto simp: i64_max_def)

end
