(* ===== verification/Events.thy ===== *)
theory Events
  imports Types ProxyErrors Pricing
begin

text \<open>
  \<^verbatim>\<open>AtomaAtomaStateManagerEvent\<close> of \<^verbatim>\<open>atoma-state/src/types.rs\<close> and the two functions
  of \<^verbatim>\<open>atoma-proxy/src/server/handlers/mod.rs\<close> that report to the state manager what a
  request used. A message is sent unless the channel is closed: \<open>chan\<close> is \<open>None\<close> for an
  open channel and how the crate \<^verbatim>\<open>flume\<close> prints the error of a closed one otherwise.
\<close>

text \<open>\<^verbatim>\<open>AtomaAtomaStateManagerEvent\<close> of \<^verbatim>\<open>types.rs\<close>, without the senders.\<close>

datatype 'f state_manager_event =
    LockStack int
  | UpdateStackNumTokens int int int
  | GetAvailableStackWithComputeUnits int string int
  | GetStacksForModel string int int bool
  | GetStacksForTask int int int
  | LockComputeUnitsForStack int int
  | GetTasksForModel string
  | GetCheapestNodeForModel string bool
  | GetNodePublicUrlAndSmallId int
  | SelectNodePublicKeyForEncryption string int int
  | SelectNodePublicKeyForEncryptionForNode int
  | UpsertNodePublicAddress int string string
  | GetNodePublicAddress int
  | GetNodeSuiAddress int
  | NewStackAcquired stack_created_event int datetime int
  | UpdateNodeThroughputPerformance datetime string int int 'f
  | RegisterUserWithPassword string string string
  | GetPasswordSalt string
  | GetUserIdByEmailPassword string string
  | OAuth string string
  | IsRefreshTokenValid int string
  | StoreRefreshToken int string
  | RevokeRefreshToken int string
  | IsApiTokenValid string
  | RevokeApiToken int int
  | StoreNewApiToken int string string
  | GetApiTokensForUser int
  | UpdateSuiAddress int string
  | GetSuiAddress int
  | ConfirmUser string int
  | TopUpBalance int int
  | DeductFromUsdc int int
  | RefundUsdc int int
  | InsertNewUsdcPaymentDigest string
  | GetZkSalt int
  | SetSalt int string
  | LockUserFiatBalance int int int
  | UpdateStackNumTokensFiat int string int int int int int int
  | SetCustomPricing int string int int
  | GetCustomPricing int string
  | RetrieveNodesPublicAddresses

text \<open>Both functions give the event that is sent.\<close>

definition update_state_manager ::
  "string option \<Rightarrow> int \<Rightarrow> int \<Rightarrow> int \<Rightarrow> string \<Rightarrow> atoma_proxy_error + 'f state_manager_event" where
  "update_state_manager chan sid estimated_total_tokens total_tokens endpoint =
     (case chan of
        None \<Rightarrow> Inr (UpdateStackNumTokens sid estimated_total_tokens total_tokens)
      | Some e \<Rightarrow> Inl (InternalError (''Error updating stack num tokens: '' @ e) None endpoint))"

text \<open>What the standard library prints when \<^verbatim>\<open>i64::try_from\<close> fails.\<close>

definition try_from_int_error :: string where
  "try_from_int_error = ''out of range integral type conversion attempted''"

definition fiat_amount_or :: "string \<Rightarrow> string \<Rightarrow> int \<Rightarrow> int \<Rightarrow> atoma_proxy_error + int" where
  "fiat_amount_or what endpoint tokens price =
     ok_or (InternalError (what @ try_from_int_error) None endpoint) (fiat_amount tokens price)"

definition update_state_manager_fiat ::
  "string option \<Rightarrow> int \<Rightarrow> int \<Rightarrow> int \<Rightarrow> int \<Rightarrow> int \<Rightarrow> int \<Rightarrow> int \<Rightarrow> string \<Rightarrow> string
    \<Rightarrow> atoma_proxy_error + 'f state_manager_event" where
  "update_state_manager_fiat chan uid est_input_tokens input_tokens est_output_tokens output_tokens
     input_price output_price model endpoint =
     res_bind (fiat_amount_or ''Error converting estimated amount: '' endpoint est_input_tokens input_price) (\<lambda>est_input.
     res_bind (fiat_amount_or ''Error converting estimated amount: '' endpoint est_output_tokens output_price) (\<lambda>est_output.
     res_bind (fiat_amount_or ''Error converting amount: '' endpoint input_tokens input_price) (\<lambda>input.
     res_bind (fiat_amount_or ''Error converting amount: '' endpoint output_tokens output_price) (\<lambda>output.
       case chan of
         None \<Rightarrow> Inr (UpdateStackNumTokensFiat uid model est_input input input_tokens est_output output output_tokens)
       | Some e \<Rightarrow> Inl (InternalError (''Error updating fiat balance: '' @ e) None endpoint)))))"

lemma update_state_manager_fiat_Inr_iff:
  "update_state_manager_fiat chan uid ei i eo c pi po m ep = Inr ev \<longleftrightarrow> chan = None \<and>
   (\<exists>aei ai aeo ac. fiat_amount ei pi = Some aei \<and> fiat_amount i pi = Some ai \<and>
      fiat_amount eo po = Some aeo \<and> fiat_amount c po = Some ac \<and>
      ev = UpdateStackNumTokensFiat uid m aei ai i aeo ac c)"
  by (cases chan) (auto simp: update_state_manager_fiat_def fiat_amount_or_def res_bind_Inr_iff)

end
