(* ===== verification/Handlers.thy ===== *)
theory Handlers
  imports Registry Balances Settlement Accounts Attestation Events
begin

text \<open>
  \<^verbatim>\<open>atoma-state/src/handlers.rs\<close> and the loop \<^verbatim>\<open>AtomaStateManager::run\<close>. The database
  is the record of its tables. A handler takes an event and the database to the database
  it leaves and its result; an error does not undo the statements that ran before it. A
  request that asks for an answer carries the sender of a oneshot channel: the answer is
  delivered unless the receiver has been dropped, which is the error \<open>ChannelSendError\<close>.
\<close>

subsection \<open>The database and the environment of an event\<close>

record 'f db =
  db_tasks :: "task list"
  db_subscriptions :: "node_subscription list"
  db_nodes :: nodes
  db_rotations :: "key_rotation list"
  db_keys :: "node_key_row list"
  db_stacks :: stacks
  db_tickets :: tickets
  db_disputes :: disputes
  db_users :: users
  db_refresh_tokens :: "refresh_token list"
  db_api_tokens :: api_tokens
  db_crypto :: crypto_balances
  db_digests :: "string list"
  db_fiat :: fiat_balances
  db_usage_day :: "usage_day list"
  db_usage_model :: "usage_model list"
  db_prices :: "model_price list"
  db_stats_stacks :: "stats_stack list"
  db_stats_units :: "'f units_hour list"

text \<open>
  What one event meets: the clock (as a date and time, as the database's timestamp and as
  its date), the value of the sequence an insertion draws from, the database's addition of
  floating-point numbers, the crates of \<open>Attestation\<close> and of \<open>Settlement\<close>, whether the
  receiver of the answer still waits, and whether the metrics collector still runs.
\<close>

record 'f ctx =
  cx_now :: datetime
  cx_now_stamp :: int
  cx_today :: int
  cx_new_id :: int
  cx_fadd :: "'f \<Rightarrow> 'f \<Rightarrow> db_error + 'f"
  cx_crates :: attestation_crates
  cx_to_json :: "int list \<Rightarrow> string"
  cx_from_json :: "string \<Rightarrow> int list option"
  cx_append_json :: "string \<Rightarrow> int \<Rightarrow> string"
  cx_has_json_insert :: bool
  cx_receiver_waits :: bool
  cx_collector_runs :: bool

datatype reply =
    Done
  | StackReply "state_error + stack option"
  | TasksReply "task list"
  | CheapestReply "cheapest_node option"
  | UnitReply "state_error + unit"
  | KeyReply "node_public_key option"
  | AddressReply "state_error + string option"
  | AddressesReply "string list"
  | UrlReply "state_error + (string option \<times> int)"
  | IdReply "state_error + int"
  | OptIdReply "state_error + int option"
  | TextReply "string option"
  | BoolReply "state_error + bool"
  | TokensReply "(int \<times> string \<times> int option \<times> int \<times> string) list"
  | PricingReply "pricing option"

text \<open>\<^verbatim>\<open>result_sender.send(..).map_err(|_| ChannelSendError)?\<close>\<close>

definition send_reply :: "'f ctx \<Rightarrow> reply \<Rightarrow> state_error + reply" where
  "send_reply cx r = (if cx_receiver_waits cx then Inr r else Inl ChannelSendError)"

text \<open>A statement whose result is only an error or success: \<^verbatim>\<open>..await?\<close>.\<close>

fun execute :: "('t \<Rightarrow> 'd) \<Rightarrow> 'd \<Rightarrow> state_error + 't \<Rightarrow> 'd \<times> (state_error + reply)" where
  "execute put d (Inl e) = (d, Inl e)"
| "execute put d (Inr t) = (put t, Inr Done)"

text \<open>A statement whose result, error or not, is sent to the requester.\<close>

fun answer ::
  "'f ctx \<Rightarrow> (state_error + 'a \<Rightarrow> reply) \<Rightarrow> ('t \<Rightarrow> 'd) \<Rightarrow> 'd \<Rightarrow> state_error + ('t \<times> 'a)
    \<Rightarrow> 'd \<times> (state_error + reply)" where
  "answer cx mk put d (Inl e) = (d, send_reply cx (mk (Inl e)))"
| "answer cx mk put d (Inr (t, a)) = (put t, send_reply cx (mk (Inr a)))"

definition answer_unit ::
  "'f ctx \<Rightarrow> ('t \<Rightarrow> 'd) \<Rightarrow> 'd \<Rightarrow> state_error + 't \<Rightarrow> 'd \<times> (state_error + reply)" where
  "answer_unit cx put d m = answer cx UnitReply put d (res_bind m (\<lambda>t. Inr (t, ())))"

subsection \<open>Events of the chain\<close>

record task_registered_event =
  tre_task_id :: string
  tre_task_small_id :: u64
  tre_role :: "16 word"
  tre_model_name :: "string option"
  tre_security_level :: "16 word"
  tre_minimum_reputation_score :: "8 word option"

definition task_of_event :: "task_registered_event \<Rightarrow> task" where
  "task_of_event event = \<lparr>
     task_small_id = as_i64 (tre_task_small_id event),
     task_id = tre_task_id event,
     role = sint (tre_role event),
     model_name = tre_model_name event,
     is_deprecated = False,
     valid_until_epoch = None,
     deprecated_at_epoch = None,
     security_level = uint (tre_security_level event),
     minimum_reputation_score = map_option uint (tre_minimum_reputation_score event)\<rparr>"

datatype atoma_event =
    TaskRegisteredEvent task_registered_event
  | TaskDeprecationEvent u64 u64
  | NodeSubscribedToTaskEvent u64 u64 u64 u64
  | NodeSubscriptionUpdatedEvent u64 u64 u64 u64
  | NodeUnsubscribedFromTaskEvent u64 u64
  | StackCreatedEvent stack_created_event
  | StackCreateAndUpdateEvent
  | StackTrySettleEvent stack_try_settle_event
  | ClaimedStackEvent u64 u64
  | StackSettlementTicketEvent u64 u64
  | StackSettlementTicketClaimedEvent u64 u64
  | StackAttestationDisputeEvent stack_attestation_dispute_event
  | NewStackSettlementAttestationEvent u64 u64 bytes bytes
  | NewKeyRotationEvent u64 u64 u64
  | NodePublicKeyCommittmentEvent node_public_key_commitment_event
  | PublishedEvent
  | NodeRegisteredEvent u64 string string
  | NodeSubscribedToModelEvent
  | FirstSubmissionEvent
  | DisputeEvent
  | NewlySampledNodesEvent
  | SettledEvent
  | RetrySettlementEvent
  | TaskRemovedEvent
  | Text2ImagePromptEvent
  | Text2TextPromptEvent

text \<open>Arguments in the order the handlers pass them on: node, task, price, units.\<close>

definition handle_new_task_event :: "'f db \<Rightarrow> task_registered_event \<Rightarrow> 'f db \<times> (state_error + reply)" where
  "handle_new_task_event d event =
     execute (\<lambda>t. d\<lparr>db_tasks := t\<rparr>) d (insert_new_task (db_tasks d) (task_of_event event))"

definition handle_task_deprecation_event :: "'f db \<Rightarrow> u64 \<Rightarrow> u64 \<Rightarrow> 'f db \<times> (state_error + reply)" where
  "handle_task_deprecation_event d task epoch =
     execute (\<lambda>t. d\<lparr>db_tasks := t\<rparr>) d (deprecate_task (db_tasks d) (as_i64 task) (as_i64 epoch))"

definition handle_node_task_subscription_event ::
  "'f db \<Rightarrow> u64 \<Rightarrow> u64 \<Rightarrow> u64 \<Rightarrow> u64 \<Rightarrow> 'f db \<times> (state_error + reply)" where
  "handle_node_task_subscription_event d node task price units =
     execute (\<lambda>t. d\<lparr>db_subscriptions := t\<rparr>) d
       (subscribe_node_to_task (db_subscriptions d) (as_i64 node) (as_i64 task) (as_i64 price) (as_i64 units))"

definition handle_node_task_subscription_updated_event ::
  "'f db \<Rightarrow> u64 \<Rightarrow> u64 \<Rightarrow> u64 \<Rightarrow> u64 \<Rightarrow> 'f db \<times> (state_error + reply)" where
  "handle_node_task_subscription_updated_event d node task price units =
     execute (\<lambda>t. d\<lparr>db_subscriptions := t\<rparr>) d
       (update_node_subscription (db_subscriptions d) (as_i64 node) (as_i64 task) (as_i64 price) (as_i64 units))"

definition handle_node_task_unsubscription_event :: "'f db \<Rightarrow> u64 \<Rightarrow> u64 \<Rightarrow> 'f db \<times> (state_error + reply)" where
  "handle_node_task_unsubscription_event d node task =
     execute (\<lambda>t. d\<lparr>db_subscriptions := t\<rparr>) d
       (Inr (unsubscribe_node_from_task (db_subscriptions d) (as_i64 node) (as_i64 task)))"

definition handle_stack_created_event ::
  "'f db \<Rightarrow> stack_created_event \<Rightarrow> int \<Rightarrow> int \<Rightarrow> datetime \<Rightarrow> state_error + stacks" where
  "handle_stack_created_event d event locked uid acquired =
     insert_new_stack (db_stacks d) ((stack_of_event event)\<lparr>locked_compute_units := locked\<rparr>) uid acquired"

definition handle_create_stack_stats :: "'f ctx \<Rightarrow> 'f db \<Rightarrow> stack_created_event \<Rightarrow> 'f db \<times> (state_error + reply)" where
  "handle_create_stack_stats cx d event =
     execute (\<lambda>t. d\<lparr>db_stats_stacks := t\<rparr>) d
       (new_stats_stack (db_stats_stacks d) (cx_now cx) (stack_of_event event) (cx_now cx))"

definition handle_stack_try_settle_event ::
  "'f ctx \<Rightarrow> 'f db \<Rightarrow> stack_try_settle_event \<Rightarrow> 'f db \<times> (state_error + reply)" where
  "handle_stack_try_settle_event cx d event =
     execute (\<lambda>(t, s). d\<lparr>db_tickets := t, db_stats_stacks := s\<rparr>) d
       (insert_new_stack_settlement_ticket (db_tickets d) (db_stats_stacks d)
         (ticket_of_event (cx_to_json cx) event) (cx_now cx))"

definition handle_claimed_stack_event :: "'f db \<Rightarrow> u64 \<Rightarrow> u64 \<Rightarrow> 'f db \<times> (state_error + reply)" where
  "handle_claimed_stack_event d sid refund =
     execute (\<lambda>t. d\<lparr>db_stacks := t\<rparr>) d (update_stack_claimed (db_stacks d) (as_i64 sid) (as_i64 refund))"

definition handle_new_stack_settlement_attestation_event ::
  "'f ctx \<Rightarrow> 'f db \<Rightarrow> u64 \<Rightarrow> u64 \<Rightarrow> bytes \<Rightarrow> bytes \<Rightarrow> 'f db \<times> (state_error + reply)" where
  "handle_new_stack_settlement_attestation_event cx d sid node proof_bytes leaf =
     execute (\<lambda>t. d\<lparr>db_tickets := t\<rparr>) d
       (update_stack_settlement_ticket_with_attestation_commitments (cx_has_json_insert cx)
         (cx_append_json cx) (cx_from_json cx) (db_tickets d) (as_i64 sid) proof_bytes leaf (as_i64 node))"

definition handle_stack_settlement_ticket_event :: "'f db \<Rightarrow> u64 \<Rightarrow> u64 \<Rightarrow> 'f db \<times> (state_error + reply)" where
  "handle_stack_settlement_ticket_event d sid epoch =
     execute (\<lambda>t. d\<lparr>db_tickets := t\<rparr>) d (settle_stack_settlement_ticket (db_tickets d) (as_i64 sid) (as_i64 epoch))"

definition handle_stack_settlement_ticket_claimed_event ::
  "'f db \<Rightarrow> u64 \<Rightarrow> u64 \<Rightarrow> 'f db \<times> (state_error + reply)" where
  "handle_stack_settlement_ticket_claimed_event d sid refund =
     execute (\<lambda>t. d\<lparr>db_tickets := t\<rparr>) d
       (update_stack_settlement_ticket_with_claim (db_tickets d) (as_i64 sid) (as_i64 refund))"

definition handle_stack_attestation_dispute_event ::
  "'f db \<Rightarrow> stack_attestation_dispute_event \<Rightarrow> 'f db \<times> (state_error + reply)" where
  "handle_stack_attestation_dispute_event d event =
     execute (\<lambda>t. d\<lparr>db_disputes := t\<rparr>) d
       (insert_stack_attestation_dispute (db_disputes d) (dispute_of_event event))"

definition handle_new_key_rotation_event :: "'f db \<Rightarrow> u64 \<Rightarrow> u64 \<Rightarrow> u64 \<Rightarrow> 'f db \<times> (state_error + reply)" where
  "handle_new_key_rotation_event d epoch counter nonce =
     execute (\<lambda>t. d\<lparr>db_rotations := t\<rparr>) d
       (insert_new_key_rotation (db_rotations d) (as_i64 epoch) (as_i64 counter) (as_i64 nonce))"

definition handle_node_registration_event :: "'f db \<Rightarrow> u64 \<Rightarrow> string \<Rightarrow> string \<Rightarrow> 'f db \<times> (state_error + reply)" where
  "handle_node_registration_event d node badge_id address =
     execute (\<lambda>t. d\<lparr>db_nodes := t\<rparr>) d (insert_new_node (db_nodes d) (as_i64 node) badge_id address)"

text \<open>The events that are only logged change nothing.\<close>

primrec handle_atoma_event :: "'f ctx \<Rightarrow> atoma_event \<Rightarrow> 'f db \<Rightarrow> 'f db \<times> (state_error + reply)" where
  "handle_atoma_event cx (TaskRegisteredEvent ev) d = handle_new_task_event d ev"
| "handle_atoma_event cx (TaskDeprecationEvent task epoch) d = handle_task_deprecation_event d task epoch"
| "handle_atoma_event cx (NodeSubscribedToTaskEvent node task price units) d =
     handle_node_task_subscription_event d node task price units"
| "handle_atoma_event cx (NodeSubscriptionUpdatedEvent node task price units) d =
     handle_node_task_subscription_updated_event d node task price units"
| "handle_atoma_event cx (NodeUnsubscribedFromTaskEvent node task) d =
     handle_node_task_unsubscription_event d node task"
| "handle_atoma_event cx (StackCreatedEvent ev) d = handle_create_stack_stats cx d ev"
| "handle_atoma_event cx (StackTrySettleEvent ev) d = handle_stack_try_settle_event cx d ev"
| "handle_atoma_event cx (ClaimedStackEvent sid refund) d = handle_claimed_stack_event d sid refund"
| "handle_atoma_event cx (StackSettlementTicketEvent sid epoch) d = handle_stack_settlement_ticket_event d sid epoch"
| "handle_atoma_event cx (StackSettlementTicketClaimedEvent sid refund) d =
     handle_stack_settlement_ticket_claimed_event d sid refund"
| "handle_atoma_event cx (StackAttestationDisputeEvent ev) d = handle_stack_attestation_dispute_event d ev"
| "handle_atoma_event cx (NewStackSettlementAttestationEvent sid node proof_bytes leaf) d =
     handle_new_stack_settlement_attestation_event cx d sid node proof_bytes leaf"
| "handle_atoma_event cx (NewKeyRotationEvent epoch counter nonce) d =
     handle_new_key_rotation_event d epoch counter nonce"
| "handle_atoma_event cx (NodePublicKeyCommittmentEvent ev) d =
     execute (\<lambda>t. d\<lparr>db_keys := t\<rparr>) d (handle_node_key_rotation_event (cx_crates cx) (db_rotations d) (db_keys d) ev)"
| "handle_atoma_event cx (NodeRegisteredEvent node badge_id address) d =
     handle_node_registration_event d node badge_id address"
| "handle_atoma_event cx StackCreateAndUpdateEvent d = (d, Inr Done)"
| "handle_atoma_event cx PublishedEvent d = (d, Inr Done)"
| "handle_atoma_event cx NodeSubscribedToModelEvent d = (d, Inr Done)"
| "handle_atoma_event cx FirstSubmissionEvent d = (d, Inr Done)"
| "handle_atoma_event cx DisputeEvent d = (d, Inr Done)"
| "handle_atoma_event cx NewlySampledNodesEvent d = (d, Inr Done)"
| "handle_atoma_event cx SettledEvent d = (d, Inr Done)"
| "handle_atoma_event cx RetrySettlementEvent d = (d, Inr Done)"
| "handle_atoma_event cx TaskRemovedEvent d = (d, Inr Done)"
| "handle_atoma_event cx Text2ImagePromptEvent d = (d, Inr Done)"
| "handle_atoma_event cx Text2TextPromptEvent d = (d, Inr Done)"

subsection \<open>Events of the proxy\<close>

text \<open>
  \<^verbatim>\<open>UpdateStackNumTokensFiat\<close>: up to three statements, each in its own transaction. What
  the last one is given as numbers of tokens are the amounts.
\<close>

definition handle_fiat_update ::
  "'f ctx \<Rightarrow> int \<Rightarrow> string \<Rightarrow> int \<Rightarrow> int \<Rightarrow> int \<Rightarrow> int \<Rightarrow> int \<Rightarrow> int \<Rightarrow> 'f db \<Rightarrow> 'f db \<times> (state_error + reply)" where
  "handle_fiat_update cx uid model est_input input input_tokens est_output output output_tokens d =
     (case update_real_amount_fiat_balance (db_fiat d) uid est_input input est_output output of
        Inl e \<Rightarrow> (d, Inl e)
      | Inr fiat \<Rightarrow>
        let d1 = d\<lparr>db_fiat := fiat\<rparr> in
        if output_tokens > 0 then
          (case update_per_day_table (db_usage_day d1) (cx_today cx) uid model input input_tokens output output_tokens of
             Inl e \<Rightarrow> (d1, Inl e)
           | Inr day \<Rightarrow>
             let d2 = d1\<lparr>db_usage_day := day\<rparr> in
             execute (\<lambda>t. d2\<lparr>db_usage_model := t\<rparr>) d2
               (update_usage_per_model (db_usage_model d2) uid model input output))
        else (d1, Inr Done))"

primrec handle_state_manager_event :: "'f ctx \<Rightarrow> 'f state_manager_event \<Rightarrow> 'f db \<Rightarrow> 'f db \<times> (state_error + reply)" where
  "handle_state_manager_event cx (GetAvailableStackWithComputeUnits sid public_key n) d =
     answer cx StackReply (\<lambda>t. d\<lparr>db_stacks := t\<rparr>) d
       (get_available_stack_with_compute_units (db_stacks d) sid public_key n)"
| "handle_state_manager_event cx (LockStack sid) d =
     execute (\<lambda>t. d\<lparr>db_stacks := t\<rparr>) d (lock_stack (db_stacks d) sid)"
| "handle_state_manager_event cx (UpdateStackNumTokens sid est n) d =
     execute (\<lambda>t. d\<lparr>db_stacks := t\<rparr>) d (update_stack_num_tokens (db_stacks d) sid est n)"
| "handle_state_manager_event cx (GetStacksForModel model n uid conf) d =
     answer cx StackReply (\<lambda>t. d\<lparr>db_stacks := t\<rparr>) d
       (get_stacks_for_model (db_stacks d) (db_tasks d) (db_tickets d) model n uid conf)"
| "handle_state_manager_event cx (GetStacksForTask tid n uid) d =
     answer cx StackReply (\<lambda>t. d\<lparr>db_stacks := t\<rparr>) d (get_stacks_for_task (db_stacks d) tid n uid)"
| "handle_state_manager_event cx (GetTasksForModel model) d =
     (d, send_reply cx (TasksReply (get_tasks_for_model (db_tasks d) model)))"
| "handle_state_manager_event cx (GetCheapestNodeForModel model conf) d =
     (d, send_reply cx (CheapestReply
       (get_cheapest_node_for_model (db_tasks d) (db_subscriptions d) (db_rotations d) (db_keys d) model conf)))"
| "handle_state_manager_event cx (LockComputeUnitsForStack sid n) d =
     answer_unit cx (\<lambda>t. d\<lparr>db_stacks := t\<rparr>) d (lock_compute_units (db_stacks d) sid n)"
| "handle_state_manager_event cx (SelectNodePublicKeyForEncryption model n uid) d =
     (case select_node_public_key_for_encryption (db_stacks d) (db_tasks d) (db_rotations d) (db_keys d) model n uid of
        Inl e \<Rightarrow> (d, Inl e)
      | Inr (t, k) \<Rightarrow> (d\<lparr>db_stacks := t\<rparr>, send_reply cx (KeyReply k)))"
| "handle_state_manager_event cx (SelectNodePublicKeyForEncryptionForNode node) d =
     (d, send_reply cx (KeyReply (select_node_public_key_for_encryption_for_node (db_rotations d) (db_keys d) node)))"
| "handle_state_manager_event cx (UpsertNodePublicAddress node address country) d =
     execute (\<lambda>t. d\<lparr>db_nodes := t\<rparr>) d (update_node_public_address (db_nodes d) node address country)"
| "handle_state_manager_event cx (GetNodePublicAddress node) d =
     (d, send_reply cx (AddressReply (get_node_public_address (db_nodes d) node)))"
| "handle_state_manager_event cx (GetNodePublicUrlAndSmallId sid) d =
     (d, send_reply cx (UrlReply (get_node_public_url_and_small_id (db_stacks d) (db_nodes d) sid)))"
| "handle_state_manager_event cx (GetNodeSuiAddress node) d =
     (d, send_reply cx (AddressReply (Inr (get_node_sui_address (db_nodes d) node))))"
| "handle_state_manager_event cx (NewStackAcquired event locked timestamp uid) d =
     answer_unit cx (\<lambda>t. d\<lparr>db_stacks := t\<rparr>) d (handle_stack_created_event d event locked uid timestamp)"
| "handle_state_manager_event cx (UpdateNodeThroughputPerformance timestamp model input_tokens output_tokens time) d =
     execute (\<lambda>t. d\<lparr>db_stats_units := t\<rparr>) d
       (add_compute_units_processed (cx_fadd cx) (db_stats_units d) timestamp model
         (i64_add input_tokens output_tokens) time)"
| "handle_state_manager_event cx (GetUserIdByEmailPassword email password) d =
     (d, send_reply cx (OptIdReply (Inr (get_user_id_by_email_password (db_users d) email password))))"
| "handle_state_manager_event cx (OAuth email salt) d =
     answer cx IdReply (\<lambda>t. d\<lparr>db_users := t\<rparr>) d (oauth (db_users d) (cx_new_id cx) email salt)"
| "handle_state_manager_event cx (RegisterUserWithPassword email password salt) d =
     answer cx OptIdReply (\<lambda>t. d\<lparr>db_users := t\<rparr>) d (register (db_users d) (cx_new_id cx) email password salt)"
| "handle_state_manager_event cx (GetPasswordSalt email) d =
     (d, send_reply cx (TextReply (get_password_salt (db_users d) email)))"
| "handle_state_manager_event cx (IsRefreshTokenValid uid hash) d =
     (d, send_reply cx (BoolReply (Inr (is_refresh_token_valid (db_refresh_tokens d) uid hash))))"
| "handle_state_manager_event cx (StoreRefreshToken uid hash) d =
     execute (\<lambda>t. d\<lparr>db_refresh_tokens := t\<rparr>) d (store_refresh_token (db_refresh_tokens d) (cx_new_id cx) uid hash)"
| "handle_state_manager_event cx (RevokeRefreshToken uid hash) d =
     execute (\<lambda>t. d\<lparr>db_refresh_tokens := t\<rparr>) d (Inr (delete_refresh_token (db_refresh_tokens d) uid hash))"
| "handle_state_manager_event cx (IsApiTokenValid token) d =
     answer cx IdReply (\<lambda>t. d\<lparr>db_api_tokens := t\<rparr>) d (is_api_token_valid (db_api_tokens d) (cx_now_stamp cx) token)"
| "handle_state_manager_event cx (StoreNewApiToken uid token name) d =
     execute (\<lambda>t. d\<lparr>db_api_tokens := t\<rparr>) d
       (store_api_token (db_api_tokens d) (cx_new_id cx) (cx_now_stamp cx) uid token name)"
| "handle_state_manager_event cx (RevokeApiToken uid tid) d =
     execute (\<lambda>t. d\<lparr>db_api_tokens := t\<rparr>) d (Inr (delete_api_token (db_api_tokens d) uid tid))"
| "handle_state_manager_event cx (GetApiTokensForUser uid) d =
     (d, send_reply cx (TokensReply (get_api_tokens_for_user (db_api_tokens d) uid)))"
| "handle_state_manager_event cx (UpdateSuiAddress uid address) d =
     execute (\<lambda>t. d\<lparr>db_users := t\<rparr>) d (update_sui_address (db_users d) uid address)"
| "handle_state_manager_event cx (GetSuiAddress uid) d =
     (d, send_reply cx (TextReply (get_sui_address (db_users d) uid)))"
| "handle_state_manager_event cx (ConfirmUser address uid) d =
     (d, send_reply cx (BoolReply (Inr (confirm_user (db_users d) address uid))))"
| "handle_state_manager_event cx (TopUpBalance uid amount) d =
     execute (\<lambda>t. d\<lparr>db_crypto := t\<rparr>) d (top_up_crypto_balance (db_crypto d) uid amount)"
| "handle_state_manager_event cx (DeductFromUsdc uid amount) d =
     answer_unit cx (\<lambda>t. d\<lparr>db_crypto := t\<rparr>) d (deduct_from_usdc (db_crypto d) uid amount)"
| "handle_state_manager_event cx (RefundUsdc uid amount) d =
     answer_unit cx (\<lambda>t. d\<lparr>db_crypto := t\<rparr>) d (refund_usdc (db_crypto d) uid amount)"
| "handle_state_manager_event cx (InsertNewUsdcPaymentDigest digest) d =
     answer_unit cx (\<lambda>t. d\<lparr>db_digests := t\<rparr>) d (insert_new_usdc_payment_digest (db_digests d) digest)"
| "handle_state_manager_event cx (GetZkSalt uid) d =
     (d, send_reply cx (TextReply (get_zk_salt (db_users d) uid)))"
| "handle_state_manager_event cx (SetSalt uid salt) d =
     answer_unit cx (\<lambda>t. d\<lparr>db_users := t\<rparr>) d (set_zk_salt (db_users d) uid salt)"
| "handle_state_manager_event cx (LockUserFiatBalance uid input output) d =
     answer cx BoolReply (\<lambda>t. d\<lparr>db_fiat := t\<rparr>) d (lock_user_fiat_balance (db_fiat d) uid input output)"
| "handle_state_manager_event cx
     (UpdateStackNumTokensFiat uid model est_input input input_tokens est_output output output_tokens) d =
     handle_fiat_update cx uid model est_input input input_tokens est_output output output_tokens d"
| "handle_state_manager_event cx RetrieveNodesPublicAddresses d =
     (d, send_reply cx (AddressesReply (retrieve_node_public_addresses (db_nodes d))))"
| "handle_state_manager_event cx (GetCustomPricing uid model) d =
     (d, send_reply cx (PricingReply (get_custom_pricing (db_prices d) uid model)))"
| "handle_state_manager_event cx (SetCustomPricing uid model input_price output_price) d =
     execute (\<lambda>t. d\<lparr>db_prices := t\<rparr>) d
       (set_custom_pricing (db_prices d) (cx_now_stamp cx) uid model input_price output_price)"

subsection \<open>Events of the peer-to-peer network\<close>

text \<open>
  An event comes with the sender of a oneshot channel or without; \<open>Some w\<close> says whether
  its receiver still waits. The handler gives the database, the metrics it passed to the
  collector, the verdict it sent, and its result.
\<close>

datatype 'm p2p_event =
    NodeMetricsRegistrationEvent string u64 u64 string 'm
  | VerifyNodeSmallIdOwnership u64 string

definition handle_node_metrics_registration_event ::
  "bool \<Rightarrow> 'f db \<Rightarrow> string \<Rightarrow> int \<Rightarrow> string \<Rightarrow> 'm \<Rightarrow> 'f db \<times> (int \<times> 'm) list \<times> (state_error + reply)" where
  "handle_node_metrics_registration_event collector_runs d public_url node country metrics =
     (if \<not> collector_runs then (d, [], Inl ChannelSendError)
      else (case execute (\<lambda>t. d\<lparr>db_nodes := t\<rparr>) d
              (update_node_public_address (db_nodes d) node public_url country) of
         (d', r) \<Rightarrow> (d', [(node, metrics)], r)))"

definition handle_node_small_id_ownership_verification_event ::
  "'f db \<Rightarrow> int \<Rightarrow> string \<Rightarrow> state_error + unit" where
  "handle_node_small_id_ownership_verification_event d node sui_address =
     verify_node_small_id_ownership (db_nodes d) node sui_address"

fun handle_p2p_event ::
  "'f ctx \<Rightarrow> 'm p2p_event \<Rightarrow> bool option \<Rightarrow> 'f db
    \<Rightarrow> 'f db \<times> (int \<times> 'm) list \<times> bool option \<times> (state_error + reply)" where
  "handle_p2p_event cx (NodeMetricsRegistrationEvent url node ts country metrics) sender d =
     (case handle_node_metrics_registration_event (cx_collector_runs cx) d url (as_i64 node) country metrics of
        (d', out, r) \<Rightarrow> (d', out, None, r))"
| "handle_p2p_event cx (VerifyNodeSmallIdOwnership node address) sender d =
     (let result = handle_node_small_id_ownership_verification_event d (as_i64 node) address in
      case sender of
        Some waits \<Rightarrow>
          if waits then (d, [], Some (\<not> isl result), Inr Done)
          else (d, [], None, Inl ChannelSendError)
      | None \<Rightarrow> (d, [], None, Inl ChannelSendError))"

subsection \<open>The loop\<close>

text \<open>
  What the loop of \<^verbatim>\<open>AtomaStateManager::run\<close> can select, each event with what it
  meets. \<open>Stopped r\<close> is the state after the loop has ended with \<open>r\<close>.
\<close>

datatype ('f, 'm) message =
    ChainEvent "'f ctx" atoma_event
  | ChainClosed
  | ProxyEvent "'f ctx" "'f state_manager_event"
  | ProxyClosed
  | P2pEvent "'f ctx" "'m p2p_event" "bool option"
  | P2pClosed
  | ShutdownSignal bool
  | ShutdownClosed

datatype status = Running | Stopped "state_error + unit"

fun manager_step :: "('f, 'm) message \<Rightarrow> 'f db \<Rightarrow> 'f db \<times> status" where
  "manager_step (ChainEvent cx ev) d = (fst (handle_atoma_event cx ev d), Running)"
| "manager_step ChainClosed d = (d, Stopped (Inr ()))"
| "manager_step (ProxyEvent cx ev) d = (fst (handle_state_manager_event cx ev d), Running)"
| "manager_step ProxyClosed d = (d, Running)"
| "manager_step (P2pEvent cx ev sender) d =
     (case handle_p2p_event cx ev sender d of (d', out, verdict, r) \<Rightarrow>
        (d', case r of Inl e \<Rightarrow> Stopped (Inl e) | Inr _ \<Rightarrow> Running))"
| "manager_step P2pClosed d = (d, Running)"
| "manager_step (ShutdownSignal b) d = (d, if b then Stopped (Inr ()) else Running)"
| "manager_step ShutdownClosed d = (d, Stopped (Inr ()))"

fun manager_run :: "('f, 'm) message list \<Rightarrow> 'f db \<Rightarrow> 'f db \<times> status" where
  "manager_run [] d = (d, Running)"
| "manager_run (m # ms) d =
     (case manager_step m d of
        (d', Running) \<Rightarrow> manager_run ms d'
      | (d', Stopped r) \<Rightarrow> (d', Stopped r))"

end
