(* ===== verification/Manager.thy ===== *)
theory Manager
  imports Handlers
begin

text \<open>
  What holds of the database after any sequence of events, and what keeps the loop of
  \<open>Handlers\<close> running: the table invariants of \<open>Stacks\<close>, \<open>Balances\<close> and \<open>Accounts\<close> are
  kept by every handler, whatever it answers.
\<close>

definition db_inv :: "'f db \<Rightarrow> bool" where
  "db_inv d \<longleftrightarrow> stacks_inv (db_stacks d) \<and> crypto_inv (db_crypto d) \<and> fiat_inv (db_fiat d) \<and>
     users_inv (db_users d) \<and> api_tokens_inv (db_api_tokens d)"

lemma execute_fst:
  "P d \<Longrightarrow> (\<And>t. m = Inr t \<Longrightarrow> P (put t)) \<Longrightarrow> P (fst (execute put d m))"
  by (cases m) auto

lemma answer_fst:
  "P d \<Longrightarrow> (\<And>t a. m = Inr (t, a) \<Longrightarrow> P (put t)) \<Longrightarrow> P (fst (answer cx mk put d m))"
  by (cases m) auto

lemma answer_unit_fst:
  "P d \<Longrightarrow> (\<And>t. m = Inr t \<Longrightarrow> P (put t)) \<Longrightarrow> P (fst (answer_unit cx put d m))"
  unfolding answer_unit_def by (rule answer_fst) (auto simp: res_iffs)

lemmas handler_fst = execute_fst [of db_inv] answer_fst [of db_inv] answer_unit_fst [of db_inv]

lemma user_update_inv:
  assumes "sql_update w f user_store t = Inr (t', u)" and "users_inv t"
    and "\<And>r s. f r = Inr s \<Longrightarrow> u_id s = u_id r \<and> u_email s = u_email r"
  shows "users_inv t'"
proof -
  have "map u_id t' = map u_id t" "map u_email t' = map u_email t"
    using assms(3) by (auto intro!: sql_update_keys [OF assms(1)] simp: user_store_Inr_iff)
  with assms(2) show ?thesis by (simp add: users_inv_def)
qed

lemma update_sui_address_inv: "update_sui_address t i a = Inr t' \<Longrightarrow> users_inv t \<Longrightarrow> users_inv t'"
  by (auto simp: update_sui_address_def res_iffs elim!: user_update_inv)

lemma set_zk_salt_inv: "set_zk_salt t i a = Inr t' \<Longrightarrow> users_inv t \<Longrightarrow> users_inv t'"
  by (auto simp: set_zk_salt_def res_iffs elim!: user_update_inv)

lemma oauth_inv: "oauth t i e s = Inr (t', x) \<Longrightarrow> users_inv t \<Longrightarrow> users_inv t'"
  using oauth_known [of t _ e i s t' x] oauth_new [of t e i s t' x] by blast

lemma is_api_token_valid_inv:
  assumes "is_api_token_valid t now tok = Inr (t', u)" and "api_tokens_inv t"
  shows "api_tokens_inv t'"
proof -
  from assms(1) obtain v where
    v: "sql_update (\<lambda>r. sql_is (at_token r = tok)) (\<lambda>r. Inr (r\<lparr>at_last_used_timestamp := Some now\<rparr>)) Inr t = Inr (t', v)"
    by (auto simp: is_api_token_valid_def res_iffs)
  have "map at_token t' = map at_token t" "map at_id t' = map at_id t"
    by (auto intro!: sql_update_keys [OF v])
  with assms(2) show ?thesis by (simp add: api_tokens_inv_def)
qed

lemma delete_api_token_inv: "api_tokens_inv t \<Longrightarrow> api_tokens_inv (delete_api_token t u i)"
  by (auto simp: api_tokens_inv_def delete_api_token_def sql_delete_def distinct_map inj_on_def)

lemma store_api_token_inv:
  "store_api_token t i now u tok name = Inr t' \<Longrightarrow> api_tokens_inv t \<Longrightarrow> api_tokens_inv t'"
  using api_token_stored by blast

lemma handle_stack_created_event_inv:
  "handle_stack_created_event d ev l uid ts = Inr t \<Longrightarrow> in_i64 l \<Longrightarrow> stacks_inv (db_stacks d) \<Longrightarrow> stacks_inv t"
  unfolding handle_stack_created_event_def
  by (erule insert_new_stack_inv) (simp_all add: stack_in_range_def stack_of_event_def)

lemma db_inv_simps [simp]:
  "db_inv (d\<lparr>db_tasks := a1\<rparr>) = db_inv d" "db_inv (d\<lparr>db_subscriptions := a2\<rparr>) = db_inv d"
  "db_inv (d\<lparr>db_nodes := a3\<rparr>) = db_inv d" "db_inv (d\<lparr>db_rotations := a4\<rparr>) = db_inv d"
  "db_inv (d\<lparr>db_keys := a5\<rparr>) = db_inv d" "db_inv (d\<lparr>db_tickets := a6\<rparr>) = db_inv d"
  "db_inv (d\<lparr>db_disputes := a7\<rparr>) = db_inv d" "db_inv (d\<lparr>db_refresh_tokens := a8\<rparr>) = db_inv d"
  "db_inv (d\<lparr>db_digests := a9\<rparr>) = db_inv d" "db_inv (d\<lparr>db_usage_day := b1\<rparr>) = db_inv d"
  "db_inv (d\<lparr>db_usage_model := b2\<rparr>) = db_inv d" "db_inv (d\<lparr>db_prices := b3\<rparr>) = db_inv d"
  "db_inv (d\<lparr>db_stats_stacks := b4\<rparr>) = db_inv d" "db_inv (d\<lparr>db_stats_units := b5\<rparr>) = db_inv d"
  by (simp_all add: db_inv_def)

lemma db_inv_stacks: "db_inv d \<Longrightarrow> (stacks_inv (db_stacks d) \<Longrightarrow> stacks_inv t) \<Longrightarrow> db_inv (d\<lparr>db_stacks := t\<rparr>)"
  by (simp add: db_inv_def)

lemma db_inv_crypto: "db_inv d \<Longrightarrow> (crypto_inv (db_crypto d) \<Longrightarrow> crypto_inv t) \<Longrightarrow> db_inv (d\<lparr>db_crypto := t\<rparr>)"
  by (simp add: db_inv_def)

lemma db_inv_fiat: "db_inv d \<Longrightarrow> (fiat_inv (db_fiat d) \<Longrightarrow> fiat_inv t) \<Longrightarrow> db_inv (d\<lparr>db_fiat := t\<rparr>)"
  by (simp add: db_inv_def)

lemma db_inv_users: "db_inv d \<Longrightarrow> (users_inv (db_users d) \<Longrightarrow> users_inv t) \<Longrightarrow> db_inv (d\<lparr>db_users := t\<rparr>)"
  by (simp add: db_inv_def)

lemma db_inv_api_tokens:
  "db_inv d \<Longrightarrow> (api_tokens_inv (db_api_tokens d) \<Longrightarrow> api_tokens_inv t) \<Longrightarrow> db_inv (d\<lparr>db_api_tokens := t\<rparr>)"
  by (simp add: db_inv_def)

lemmas db_inv_puts = db_inv_stacks db_inv_crypto db_inv_fiat db_inv_users db_inv_api_tokens

lemmas statement_invs =
  get_available_stack_inv lock_stack_inv update_stack_num_tokens_inv get_stacks_for_model_inv
  get_stacks_for_task_inv lock_compute_units_inv select_node_public_key_inv update_stack_claimed_inv
  handle_stack_created_event_inv oauth_inv register_inv is_api_token_valid_inv store_api_token_inv
  delete_api_token_inv update_sui_address_inv set_zk_salt_inv top_up_crypto_balance_inv
  deduct_from_usdc_inv refund_usdc_inv lock_user_fiat_balance_inv update_real_amount_fiat_balance_inv

subsection \<open>Every handler keeps the invariant\<close>

lemma handle_atoma_event_inv: "db_inv d \<Longrightarrow> db_inv (fst (handle_atoma_event cx ev d))"
  by (cases ev)
    (auto simp: handle_new_task_event_def handle_task_deprecation_event_def
      handle_node_task_subscription_event_def handle_node_task_subscription_updated_event_def
      handle_node_task_unsubscription_event_def handle_create_stack_stats_def
      handle_stack_try_settle_event_def handle_claimed_stack_event_def
      handle_new_stack_settlement_attestation_event_def handle_stack_settlement_ticket_event_def
      handle_stack_settlement_ticket_claimed_event_def handle_stack_attestation_dispute_event_def
      handle_new_key_rotation_event_def handle_node_registration_event_def
      intro!: handler_fst db_inv_puts intro: statement_invs)

text \<open>The arguments of the two events that store a number as it comes are \<^verbatim>\<open>i64\<close> values.\<close>

fun event_in_range :: "'f state_manager_event \<Rightarrow> bool" where
  "event_in_range (TopUpBalance uid amount) = in_i64 amount"
| "event_in_range (NewStackAcquired ev locked ts uid) = in_i64 locked"
| "event_in_range ev = True"

lemma handle_fiat_update_inv: "db_inv d \<Longrightarrow> db_inv (fst (handle_fiat_update cx u m ei i it eo c ot d))"
  by (auto simp: handle_fiat_update_def Let_def split: sum.splits
      intro!: handler_fst db_inv_puts intro: statement_invs)

lemma handle_state_manager_event_inv:
  "db_inv d \<Longrightarrow> event_in_range ev \<Longrightarrow> db_inv (fst (handle_state_manager_event cx ev d))"
  by (cases ev)
    (auto intro!: handler_fst db_inv_puts handle_fiat_update_inv intro: statement_invs split: sum.splits)

lemma handle_p2p_event_inv:
  assumes "db_inv d" and "handle_p2p_event cx ev sender d = (d', rest)"
  shows "db_inv d'"
proof (cases ev)
  case (NodeMetricsRegistrationEvent url node ts country metrics)
  then show ?thesis using assms
    by (cases "update_node_public_address (db_nodes d) (as_i64 node) url country")
      (auto simp: handle_node_metrics_registration_event_def split: if_splits)
next
  case (VerifyNodeSmallIdOwnership node address)
  then show ?thesis using assms by (auto simp: Let_def split: option.splits if_splits)
qed

fun message_in_range :: "('f, 'm) message \<Rightarrow> bool" where
  "message_in_range (ProxyEvent cx ev) = event_in_range ev"
| "message_in_range m = True"

lemma manager_step_inv:
  assumes "db_inv d" and "message_in_range m"
  shows "db_inv (fst (manager_step m d))"
proof (cases m)
  case (P2pEvent cx ev sender)
  then show ?thesis using handle_p2p_event_inv [OF assms(1), of cx ev sender]
    by (auto split: prod.splits)
qed (use assms in \<open>auto simp: handle_atoma_event_inv handle_state_manager_event_inv\<close>)

lemma manager_run_inv: "db_inv d \<Longrightarrow> list_all message_in_range ms \<Longrightarrow> db_inv (fst (manager_run ms d))"
proof (induction ms arbitrary: d)
  case (Cons m ms)
  then have "db_inv (fst (manager_step m d))" by (auto intro: manager_step_inv)
  with Cons show ?case by (cases "manager_step m d") (auto split: status.splits)
qed simp

subsection \<open>What stops the loop\<close>

definition may_stop :: "('f, 'm) message \<Rightarrow> bool" where
  "may_stop m = (case m of ChainClosed \<Rightarrow> True | P2pEvent cx ev sender \<Rightarrow> True
     | ShutdownSignal b \<Rightarrow> b | ShutdownClosed \<Rightarrow> True | _ \<Rightarrow> False)"

lemma manager_step_running: "\<not> may_stop m \<Longrightarrow> snd (manager_step m d) = Running"
  by (cases m) (auto simp: may_stop_def)

lemma manager_run_running: "list_all (\<lambda>m. \<not> may_stop m) ms \<Longrightarrow> snd (manager_run ms d) = Running"
proof (induction ms arbitrary: d)
  case (Cons m ms)
  then have "snd (manager_step m d) = Running" by (auto intro: manager_step_running)
  with Cons show ?case by (cases "manager_step m d") auto
qed simp

subsection \<open>What the usage of a model counts\<close>

definition um_key :: "usage_model \<Rightarrow> int \<times> string" where
  "um_key r = (um_user_id r, um_model r)"

definition usage_totals :: "usage_model list \<Rightarrow> int \<times> string \<Rightarrow> int \<times> int" where
  "usage_totals t i = (case row_of um_key t i of None \<Rightarrow> (0, 0) | Some r \<Rightarrow> (total_input_tokens r, total_output_tokens r))"

lemma update_usage_per_model_totals:
  assumes "distinct (map um_key t)" and "update_usage_per_model t uid m i c = Inr t'"
  shows "usage_totals t' (uid, m) = (fst (usage_totals t (uid, m)) + i, snd (usage_totals t (uid, m)) + c)"
proof -
  let ?r = "\<lparr>um_user_id = uid, um_model = m, total_input_tokens = i, total_output_tokens = c\<rparr>"
  have key: "key_upsert um_key usage_clash Inr add_usage_model"
    by (auto simp: key_upsert_def um_key_def usage_clash_def add_usage_model_def res_iffs)
  have up: "sql_upsert usage_clash Inr add_usage_model ?r t = Inr t'"
    using assms(2) by (simp add: update_usage_per_model_def)
  show ?thesis
  proof (cases "row_of um_key t (uid, m)")
    case None
    with up have "t' = t @ [?r]" by (simp add: sql_upsert_key [OF assms(1) _ key] um_key_def)
    with None show ?thesis by (simp add: usage_totals_def row_of_append um_key_def)
  next
    case (Some old)
    with up obtain r' where "add_usage_model ?r old = Inr r'" and t': "t' = put_row um_key r' t"
      by (auto simp: sql_upsert_key [OF assms(1) _ key] um_key_def res_iffs)
    then have "um_key r' = um_key old" "total_input_tokens r' = total_input_tokens old + i"
      "total_output_tokens r' = total_output_tokens old + c"
      by (auto simp: add_usage_model_def res_iffs sql_simps um_key_def)
    moreover have "um_key old = (uid, m)" using Some by (auto dest: row_of_SomeD)
    ultimately show ?thesis using Some by (simp add: usage_totals_def t')
  qed
qed

subsection \<open>Properties\<close>

definition sample_ctx :: "bool \<Rightarrow> int ctx" where
  "sample_ctx waits = \<lparr>cx_now = sample_time 5, cx_now_stamp = 1000, cx_today = 20, cx_new_id = 1,
     cx_fadd = (\<lambda>a b. Inr (a + b)), cx_crates = sample_crates, cx_to_json = sample_to_json,
     cx_from_json = sample_from_json, cx_append_json = (\<lambda>s n. s), cx_has_json_insert = False,
     cx_receiver_waits = waits, cx_collector_runs = True\<rparr>"

definition sample_db :: "int db" where
  "sample_db = \<lparr>db_tasks = [sample_task], db_subscriptions = [sample_subscription 8 20],
     db_nodes = [], db_rotations = sample_rotations, db_keys = [sample_key 8 4 True], db_stacks = sample_stacks,
     db_tickets = [], db_disputes = [], db_users = sample_users, db_refresh_tokens = [],
     db_api_tokens = [\<lparr>at_id = 1, at_token = ''tk'', at_user_id = 1, at_name = ''n'',
       at_creation_timestamp = 0, at_last_used_timestamp = None\<rparr>],
     db_crypto = [\<lparr>cb_user_id = 1, usdc_balance = 100\<rparr>], db_digests = [], db_fiat = sample_fiat,
     db_usage_day = [], db_usage_model = [], db_prices = [], db_stats_stacks = [], db_stats_units = []\<rparr>"

lemma sample_db_inv: "db_inv sample_db"
  by code_simp



lemma manager_run_append:
  "list_all (\<lambda>m. \<not> may_stop m) before \<Longrightarrow> manager_run (before @ after) d = manager_run after (fst (manager_run before d))"
proof (induction before arbitrary: d)
  case (Cons m before)
  then have "snd (manager_step m d) = Running" by (auto intro: manager_step_running)
  with Cons show ?case by (cases "manager_step m d") auto
qed simp

text \<open>
  When the requester of an ownership check has gone before it is answered, the state
  manager's loop ends with ChannelSendError and handles none of the messages after it,
  however many it has handled before.
\<close>

theorem gone_peer_stops_manager:
  assumes "list_all (\<lambda>m. \<not> may_stop m) before"
  shows "manager_run (before @ P2pEvent cx (VerifyNodeSmallIdOwnership node address) (Some False) # after) d =
     (fst (manager_run before d), Stopped (Inl ChannelSendError))"
  by (simp add: manager_run_append [OF assms] Let_def)

theorem gone_peer_stops_manager_witness:
  "manager_run ([ProxyClosed] @ P2pEvent (sample_ctx True) (VerifyNodeSmallIdOwnership 8 ''0xa'') (Some False) #
     [ProxyEvent (sample_ctx True) (DeductFromUsdc 1 50) :: (int, unit) message]) sample_db =
   (sample_db, Stopped (Inl ChannelSendError))"
  by (subst gone_peer_stops_manager) (simp_all add: may_stop_def)

text \<open>
  A lock of the fiat balance stays in the database and the loop goes on when the requester
  has gone before it is answered: the amounts are held for a request that nobody will
  settle.
\<close>

theorem gone_client_leaves_money_locked:
  assumes "lock_user_fiat_balance (db_fiat d) uid input output = Inr (t, True)" and "\<not> cx_receiver_waits cx"
  shows "manager_run (ProxyEvent cx (LockUserFiatBalance uid input output) # messages) d =
     manager_run messages (d\<lparr>db_fiat := t\<rparr>)"
  using assms by (simp add: send_reply_def)

theorem gone_client_leaves_money_locked_witness:
  "fst (manager_run [ProxyEvent (sample_ctx False) (LockUserFiatBalance 1 60 40) :: (int, unit) message] sample_db) =
     sample_db\<lparr>db_fiat := [sample_fiat_row 7 50 0 0, sample_fiat_row 1 100 60 40]\<rparr>"
proof -
  have "lock_user_fiat_balance (db_fiat sample_db) 1 60 40 =
     Inr ([sample_fiat_row 7 50 0 0, sample_fiat_row 1 100 60 40], True)"
    and "\<not> cx_receiver_waits (sample_ctx False)" by code_simp+
  then show ?thesis by (subst gone_client_leaves_money_locked) simp_all
qed

text \<open>
  The handler of UpdateStackNumTokensFiat adds the charged amounts, not the numbers of
  tokens, to the token totals of usage_per_model, for every successful update with output
  tokens.
\<close>

theorem model_usage_counts_amounts:
  assumes "handle_fiat_update cx uid m est_input input input_tokens est_output output output_tokens d = (d', Inr r)"
    and "0 < output_tokens" and "distinct (map um_key (db_usage_model d))"
  shows "usage_totals (db_usage_model d') (uid, m) =
    (fst (usage_totals (db_usage_model d) (uid, m)) + input, snd (usage_totals (db_usage_model d) (uid, m)) + output)"
proof -
  from assms(1,2) obtain t where "update_usage_per_model (db_usage_model d) uid m input output = Inr t"
    and "db_usage_model d' = t"
    by (cases "update_usage_per_model (db_usage_model d) uid m input output")
      (auto simp: handle_fiat_update_def Let_def split: sum.splits)
  with update_usage_per_model_totals [OF assms(3)] show ?thesis by simp
qed

theorem model_usage_counts_amounts_witness:
  "usage_totals [\<lparr>um_user_id = 1, um_model = ''m'', total_input_tokens = 4, total_output_tokens = 6\<rparr>] (1, ''m'') = (4, 6)"
proof -
  have h: "snd (handle_fiat_update (sample_ctx True) 1 ''m'' 60 4 2000000 40 6 3000000
      (sample_db\<lparr>db_fiat := [sample_fiat_row 7 50 0 0, sample_fiat_row 1 100 60 40]\<rparr>)) = Inr Done"
    and u: "db_usage_model (fst (handle_fiat_update (sample_ctx True) 1 ''m'' 60 4 2000000 40 6 3000000
      (sample_db\<lparr>db_fiat := [sample_fiat_row 7 50 0 0, sample_fiat_row 1 100 60 40]\<rparr>))) =
      [\<lparr>um_user_id = 1, um_model = ''m'', total_input_tokens = 4, total_output_tokens = 6\<rparr>]"
    and e: "db_usage_model (sample_db\<lparr>db_fiat := [sample_fiat_row 7 50 0 0, sample_fiat_row 1 100 60 40]\<rparr>) = []"
    by code_simp+
  from h obtain d' where "handle_fiat_update (sample_ctx True) 1 ''m'' 60 4 2000000 40 6 3000000
      (sample_db\<lparr>db_fiat := [sample_fiat_row 7 50 0 0, sample_fiat_row 1 100 60 40]\<rparr>) = (d', Inr Done)"
    by (metis prod.collapse)
  from model_usage_counts_amounts [OF this] u e this show ?thesis by (simp add: usage_totals_def)
qed

end
