(* ===== verification/StackLocks.thy ===== *)
theory StackLocks
  imports Prelude "HOL-Library.Multiset"
begin

text \<open>
  Two maps of \<^verbatim>\<open>ProxyState\<close> (\<^verbatim>\<open>atoma-proxy/src/server/http_server.rs\<close>):
  \<^verbatim>\<open>users_buy_stack_lock_map\<close>, in which a request that buys a stack holds a
  \<^verbatim>\<open>LockGuard\<close>, and \<^verbatim>\<open>stack_locked_compute_units\<close>, in which \<^verbatim>\<open>/v1/nodes/lock\<close> keeps
  the compute units it locked until a confidential request claims them or they expire. The
  lemmas show that a guard is exclusive and leaves nothing behind, and that every entry of
  a heap is released or claimed exactly once.
\<close>

subsection \<open>An exclusive lock per key\<close>

text \<open>
  The contract of a lock map: who asks for a key gets it unless it is taken, and giving it
  back frees that key alone. What follows for any interleaving of tasks is proved here.
\<close>

inductive guard_run :: "('m \<Rightarrow> 'k \<Rightarrow> 'm option) \<Rightarrow> ('m \<Rightarrow> 'k \<Rightarrow> 'm) \<Rightarrow> 'm \<Rightarrow> ('task \<times> 'k) list \<Rightarrow> 'm \<Rightarrow> bool"
  for try_lock release m0 where
  none: "guard_run try_lock release m0 [] m0"
| taken: "guard_run try_lock release m0 hs m \<Longrightarrow> try_lock m k = Some m' \<Longrightarrow>
     guard_run try_lock release m0 ((x, k) # hs) m'"
| dropped: "guard_run try_lock release m0 hs m \<Longrightarrow> (x, k) \<in> set hs \<Longrightarrow>
     guard_run try_lock release m0 (remove1 (x, k) hs) (release m k)"

lemma map_snd_remove1:
  "distinct (map snd hs) \<Longrightarrow> (x, k) \<in> set hs \<Longrightarrow> map snd (remove1 (x, k) hs) = remove1 k (map snd hs)"
  by (induction hs) (force simp: image_iff)+

locale lock_map =
  fixes empty_map :: 'm
    and taken_keys :: "'m \<Rightarrow> 'k set"
    and try_lock :: "'m \<Rightarrow> 'k \<Rightarrow> 'm option"
    and release :: "'m \<Rightarrow> 'k \<Rightarrow> 'm"
  assumes taken_empty: "taken_keys empty_map = {}"
    and try_lock_None: "try_lock m k = None \<longleftrightarrow> k \<in> taken_keys m"
    and try_lock_Some: "try_lock m k = Some m' \<Longrightarrow> taken_keys m' = insert k (taken_keys m)"
    and release_taken: "taken_keys (release m k) = taken_keys m - {k}"
begin

text \<open>The keys taken are those of the guards alive, and no two guards have the same key.\<close>

lemma guards:
  "guard_run try_lock release empty_map hs m \<Longrightarrow> distinct (map snd hs) \<and> taken_keys m = snd ` set hs"
proof (induction rule: guard_run.induct)
  case none
  then show ?case by (simp add: taken_empty)
next
  case (taken hs m k m' x)
  from taken.hyps(2) have "k \<notin> taken_keys m" using try_lock_None [of m k] by auto
  with taken show ?case by (auto simp: try_lock_Some)
next
  case (dropped hs m x k)
  then have d: "distinct (map snd hs)" and t: "taken_keys m = snd ` set hs" by auto
  from map_snd_remove1 [OF d dropped.hyps(2)]
  have "distinct (map snd (remove1 (x, k) hs))" and "set (map snd (remove1 (x, k) hs)) = snd ` set hs - {k}"
    using d by (simp_all only: distinct_remove1 set_remove1_eq set_map)
  then show ?case by (simp only: release_taken t set_map simp_thms)
qed

lemma exclusive:
  "guard_run try_lock release empty_map hs m \<Longrightarrow> (x, k) \<in> set hs \<Longrightarrow> (y, k) \<in> set hs \<Longrightarrow> x = y"
  using guards [of hs m] by (force simp: distinct_map inj_on_def)

lemma refused_iff:
  "guard_run try_lock release empty_map hs m \<Longrightarrow> try_lock m k = None \<longleftrightarrow> k \<in> snd ` set hs"
  using guards [of hs m] by (simp add: try_lock_None)

lemma all_dropped: "guard_run try_lock release empty_map [] m \<Longrightarrow> taken_keys m = {}"
  using guards [of "[]" m] by simp

end

text \<open>
  \<^verbatim>\<open>acquire_stack_lock\<close> of \<^verbatim>\<open>middleware.rs\<close>: the map from (user, task) to a flag. A guard
  remembers its key and that it is locked; dropping it removes the entry.
\<close>

type_synonym buy_lock_map = "int \<times> int \<Rightarrow> bool option"

record lock_guard =
  lg_key :: "int \<times> int"
  lg_locked :: bool

definition try_lock :: "buy_lock_map \<Rightarrow> int \<times> int \<Rightarrow> (buy_lock_map \<times> lock_guard) option" where
  "try_lock m key =
     (case m key of
        Some _ \<Rightarrow> None
      | None \<Rightarrow> Some (m(key \<mapsto> True), \<lparr>lg_key = key, lg_locked = True\<rparr>))"

definition drop_guard :: "buy_lock_map \<Rightarrow> lock_guard \<Rightarrow> buy_lock_map" where
  "drop_guard m g = (if lg_locked g then m(lg_key g := None) else m)"

text \<open>\<^verbatim>\<open>state.users_buy_stack_lock_map.get(&key).is_some_and(|lock| *lock)\<close>\<close>

definition stack_is_locked :: "buy_lock_map \<Rightarrow> int \<times> int \<Rightarrow> bool" where
  "stack_is_locked m key = (case m key of None \<Rightarrow> False | Some lock \<Rightarrow> lock)"

definition lock_key :: "buy_lock_map \<Rightarrow> int \<times> int \<Rightarrow> buy_lock_map option" where
  "lock_key m key = map_option fst (try_lock m key)"

definition unlock_key :: "buy_lock_map \<Rightarrow> int \<times> int \<Rightarrow> buy_lock_map" where
  "unlock_key m key = drop_guard m \<lparr>lg_key = key, lg_locked = True\<rparr>"

interpretation buy_locks: lock_map "\<lambda>_. None" dom lock_key unlock_key
  by unfold_locales
    (auto simp: lock_key_def unlock_key_def try_lock_def drop_guard_def split: option.splits)

text \<open>A guard that was taken drops back to the map it was taken from.\<close>

lemma lock_unlock: "try_lock m key = Some (m', g) \<Longrightarrow> drop_guard m' g = m"
  by (auto simp: try_lock_def drop_guard_def fun_upd_idem split: option.splits)

subsection \<open>Locked compute units\<close>

text \<open>
  \<^verbatim>\<open>LockedDetails\<close> derives its order: by expiration, then by units. A \<^verbatim>\<open>BinaryHeap\<close> of
  \<^verbatim>\<open>Reverse\<close> is the list of its elements in the order the heap stores them; \<^verbatim>\<open>peek\<close> is a
  least element, \<^verbatim>\<open>pop\<close> removes it, and \<^verbatim>\<open>retain\<close> visits the elements in the order of the
  list, about which nothing is assumed.
\<close>

datatype locked_details = LockedDetails (expires_at: int) (max_num_tokens: int)

definition locked_details_le :: "locked_details \<Rightarrow> locked_details \<Rightarrow> bool" where
  "locked_details_le a b \<longleftrightarrow>
     expires_at a < expires_at b \<or> expires_at a = expires_at b \<and> max_num_tokens a \<le> max_num_tokens b"

definition locked_details_lt :: "locked_details \<Rightarrow> locked_details \<Rightarrow> bool" where
  "locked_details_lt a b \<longleftrightarrow>
     expires_at a < expires_at b \<or> expires_at a = expires_at b \<and> max_num_tokens a < max_num_tokens b"

instantiation locked_details :: linorder
begin

definition less_eq_locked_details :: "locked_details \<Rightarrow> locked_details \<Rightarrow> bool" where
  "less_eq_locked_details = locked_details_le"

definition less_locked_details :: "locked_details \<Rightarrow> locked_details \<Rightarrow> bool" where
  "less_locked_details = locked_details_lt"

instance
  by intro_classes
    (auto simp: less_eq_locked_details_def less_locked_details_def locked_details_le_def
      locked_details_lt_def locked_details.expand)

end

lemmas locked_details_order =
  less_eq_locked_details_def less_locked_details_def locked_details_le_def locked_details_lt_def

type_synonym lock_heap = "locked_details list"

fun heap_peek :: "lock_heap \<Rightarrow> locked_details option" where
  "heap_peek [] = None"
| "heap_peek (x # xs) = (case heap_peek xs of None \<Rightarrow> Some x | Some y \<Rightarrow> Some (min x y))"

definition heap_pop :: "lock_heap \<Rightarrow> lock_heap" where
  "heap_pop h = (case heap_peek h of None \<Rightarrow> h | Some x \<Rightarrow> remove1 x h)"

definition heap_push :: "locked_details \<Rightarrow> lock_heap \<Rightarrow> lock_heap" where
  "heap_push x h = x # h"

lemma heap_peek_None [simp]: "heap_peek h = None \<longleftrightarrow> h = []"
  by (cases h) (auto split: option.splits)

lemma heap_peek_SomeD: "heap_peek h = Some x \<Longrightarrow> x \<in> set h \<and> (\<forall>y \<in> set h. x \<le> y)"
  by (induction h arbitrary: x) (force simp: min_def split: option.splits if_splits)+

lemma heap_pop_length: "heap_peek h = Some x \<Longrightarrow> length (heap_pop h) < length h"
  using length_pos_if_in_set [of x h] by (auto simp: heap_pop_def length_remove1 dest: heap_peek_SomeD)

text \<open>
  The loop that both pruning functions share. \<open>send\<close> is whether the n-th message to the
  state manager can be sent; a failure returns at once. The result is the heap, the amounts
  released so far and whether a message failed.
\<close>

function release_expired ::
  "(nat \<Rightarrow> bool) \<Rightarrow> int \<Rightarrow> lock_heap \<Rightarrow> int list \<Rightarrow> lock_heap \<times> int list \<times> bool" where
  "release_expired send now h out =
     (case heap_peek h of
        None \<Rightarrow> (h, out, True)
      | Some lock \<Rightarrow>
          if expires_at lock \<ge> now then (h, out, True)
          else if \<not> send (length out) then (h, out, False)
          else release_expired send now (heap_pop h) (out @ [max_num_tokens lock]))"
  by auto
termination
  by (relation "measure (\<lambda>(send, now, h, out). length h)") (auto dest: heap_pop_length)

declare release_expired.simps [simp del]

text \<open>\<^verbatim>\<open>details.retain(..)\<close>: the first lock with enough units is taken out.\<close>

fun take_lock :: "int \<Rightarrow> lock_heap \<Rightarrow> locked_details option \<times> lock_heap" where
  "take_lock min_units [] = (None, [])"
| "take_lock min_units (x # xs) =
     (if max_num_tokens x \<ge> min_units then (Some x, xs)
      else (case take_lock min_units xs of (found, ys) \<Rightarrow> (found, x # ys)))"

text \<open>The map from stacks to heaps, and what the functions do to the entry of one stack.\<close>

type_synonym locked_units = "int \<Rightarrow> lock_heap option"

definition lock_compute_units_in_memory :: "locked_units \<Rightarrow> int \<Rightarrow> int \<Rightarrow> u64 \<Rightarrow> int \<Rightarrow> locked_units" where
  "lock_compute_units_in_memory m sid start timeout units =
     (let h = (case m sid of None \<Rightarrow> [] | Some h \<Rightarrow> h) in
      m(sid \<mapsto> heap_push (LockedDetails (start + uint timeout) units) h))"

text \<open>
  \<open>find_stacks_meeting_criteria_and_prune\<close>: the map, the amounts released, and the
  result, \<open>None\<close> for the error of a message that could not be sent.
\<close>

definition find_stacks_meeting_criteria_and_prune ::
  "(nat \<Rightarrow> bool) \<Rightarrow> locked_units \<Rightarrow> int \<Rightarrow> int \<Rightarrow> int \<Rightarrow> locked_units \<times> int list \<times> bool option" where
  "find_stacks_meeting_criteria_and_prune send m sid min_units now =
     (case m sid of
        None \<Rightarrow> (m, [], Some False)
      | Some details \<Rightarrow>
          (case release_expired send now details [] of (h, out, ok) \<Rightarrow>
             if \<not> ok then (m(sid \<mapsto> h), out, None)
             else if h = [] then (m(sid := None), out, Some False)
             else (case take_lock min_units h of
                     (None, h') \<Rightarrow> (m(sid \<mapsto> h'), out, Some False)
                   | (Some x, h') \<Rightarrow> (if h' = [] then m(sid := None) else m(sid \<mapsto> h'), out, Some True))))"

text \<open>
  \<open>prune_compute_units_in_memory\<close> over the entries of the map in the order of its
  iterator, with the releases as (stack, units) pairs.
\<close>

fun prune_compute_units_in_memory ::
  "(nat \<Rightarrow> bool) \<Rightarrow> int \<Rightarrow> int list \<Rightarrow> locked_units \<Rightarrow> (int \<times> int) list \<Rightarrow> locked_units \<times> (int \<times> int) list \<times> bool" where
  "prune_compute_units_in_memory send now [] m out = (m, out, True)"
| "prune_compute_units_in_memory send now (sid # sids) m out =
     (case m sid of
        None \<Rightarrow> prune_compute_units_in_memory send now sids m out
      | Some details \<Rightarrow>
          (case release_expired (\<lambda>i. send (length out + i)) now details [] of (h, rel, ok) \<Rightarrow>
             if ok then prune_compute_units_in_memory send now sids (m(sid \<mapsto> h)) (out @ map (Pair sid) rel)
             else (m(sid \<mapsto> h), out @ map (Pair sid) rel, False)))"

subsection \<open>Each entry leaves once\<close>

lemma release_expired_units:
  "release_expired send now h out = (h', out', ok) \<Longrightarrow>
   \<exists>gone. mset h = mset h' + mset gone \<and> out' = out @ map max_num_tokens gone \<and>
     (\<forall>x \<in> set gone. expires_at x < now) \<and> (ok \<longrightarrow> (\<forall>x \<in> set h'. now \<le> expires_at x))"
proof (induction send now h out arbitrary: h' out' ok rule: release_expired.induct)
  case (1 send now h out)
  show ?case
  proof (cases "heap_peek h")
    case None
    with "1.prems" show ?thesis by (simp add: release_expired.simps [of send now h out])
  next
    case (Some x)
    then have x: "x \<in> set h" "\<And>y. y \<in> set h \<Longrightarrow> x \<le> y" by (auto dest: heap_peek_SomeD)
    show ?thesis
    proof (cases "now \<le> expires_at x \<or> \<not> send (length out)")
      case True
      then have "\<forall>y \<in> set h. now \<le> expires_at y" if "now \<le> expires_at x"
        using x(2) that by (force simp: locked_details_order)
      with True Some "1.prems" show ?thesis
        by (intro exI [of _ "[]"])
          (auto simp: release_expired.simps [of send now h out] split: if_splits)
    next
      case False
      with Some "1.prems" have "release_expired send now (heap_pop h) (out @ [max_num_tokens x]) = (h', out', ok)"
        by (simp add: release_expired.simps [of send now h out])
      with "1.IH" [OF Some] False obtain gone where "mset (heap_pop h) = mset h' + mset gone"
        and "out' = (out @ [max_num_tokens x]) @ map max_num_tokens gone"
        and "\<forall>y \<in> set gone. expires_at y < now" and "ok \<longrightarrow> (\<forall>y \<in> set h'. now \<le> expires_at y)"
        by (meson linorder_not_less)
      moreover have "mset h = add_mset x (mset (heap_pop h))"
        using Some x(1) by (simp add: heap_pop_def)
      ultimately show ?thesis using False by (intro exI [of _ "x # gone"]) auto
    qed
  qed
qed

lemma take_lock_spec:
  "take_lock n h = (r, h') \<Longrightarrow>
   (case r of
      None \<Rightarrow> h' = h \<and> (\<forall>x \<in> set h. max_num_tokens x < n)
    | Some x \<Rightarrow> x \<in> set h \<and> n \<le> max_num_tokens x \<and> mset h = add_mset x (mset h'))"
  by (induction h arbitrary: r h') (force split: if_splits prod.splits option.splits)+

text \<open>The units of an entry, released, claimed or kept.\<close>

definition entry :: "locked_units \<Rightarrow> int \<Rightarrow> lock_heap" where
  "entry m sid = (case m sid of None \<Rightarrow> [] | Some h \<Rightarrow> h)"

lemma find_stacks_accounts:
  assumes "find_stacks_meeting_criteria_and_prune send m sid n now = (m', out, r)"
  shows "\<exists>gone claimed. mset (entry m sid) = mset (entry m' sid) + mset gone + mset claimed \<and>
      out = map max_num_tokens gone \<and> (\<forall>x \<in> set gone. expires_at x < now) \<and>
      length claimed = (if r = Some True then 1 else 0) \<and>
      (\<forall>x \<in> set claimed. n \<le> max_num_tokens x \<and> now \<le> expires_at x) \<and>
      (r = Some False \<longrightarrow> (\<forall>x \<in> set (entry m' sid). max_num_tokens x < n \<and> now \<le> expires_at x)) \<and>
      (\<forall>j. j \<noteq> sid \<longrightarrow> m' j = m j)"
proof (cases "m sid")
  case None
  with assms show ?thesis
    by (auto simp: find_stacks_meeting_criteria_and_prune_def entry_def)
next
  case (Some details)
  obtain h out1 ok where rel: "release_expired send now details [] = (h, out1, ok)" by (metis prod_cases3)
  from release_expired_units [OF rel] obtain gone where g: "mset details = mset h + mset gone"
    "out1 = map max_num_tokens gone" "\<forall>x \<in> set gone. expires_at x < now"
    "ok \<longrightarrow> (\<forall>x \<in> set h. now \<le> expires_at x)" by auto
  show ?thesis
  proof (cases "\<not> ok \<or> h = []")
    case True
    with assms Some rel g show ?thesis
      by (intro exI [of _ gone] exI [of _ "[]"])
        (auto simp: find_stacks_meeting_criteria_and_prune_def entry_def split: if_splits)
  next
    case False
    obtain x h' where t: "take_lock n h = (x, h')" by (metis prod.exhaust)
    from take_lock_spec [OF t] show ?thesis
    proof (cases x)
      case None
      with assms Some rel g False t take_lock_spec [OF t] show ?thesis
        by (intro exI [of _ gone] exI [of _ "[]"])
          (auto simp: find_stacks_meeting_criteria_and_prune_def entry_def)
    next
      case (Some y)
      with assms \<open>m sid = Some details\<close> rel g False t take_lock_spec [OF t] show ?thesis
        by (intro exI [of _ gone] exI [of _ "[y]"])
          (auto simp: find_stacks_meeting_criteria_and_prune_def entry_def split: if_splits)
    qed
  qed
qed

text \<open>Pruning all entries: what leaves an entry has expired and is released, once.\<close>

definition pruned :: "int \<Rightarrow> bool \<Rightarrow> lock_heap \<Rightarrow> lock_heap \<Rightarrow> int list \<Rightarrow> bool" where
  "pruned now complete h h' released \<longleftrightarrow>
     (\<exists>gone. mset h = mset h' + mset gone \<and> released = map max_num_tokens gone \<and>
        (\<forall>x \<in> set gone. expires_at x < now) \<and> (complete \<longrightarrow> (\<forall>x \<in> set h'. now \<le> expires_at x)))"

definition released_of :: "(int \<times> int) list \<Rightarrow> int \<Rightarrow> int list" where
  "released_of rel sid = map snd (filter (\<lambda>p. fst p = sid) rel)"

lemma released_of_append [simp]: "released_of (xs @ ys) j = released_of xs j @ released_of ys j"
  by (simp add: released_of_def)

lemma released_of_pairs [simp]: "released_of (map (Pair i) xs) j = (if j = i then xs else [])"
  by (induction xs) (auto simp: released_of_def)

lemma pruned_same: "pruned now False h h []"
  by (simp add: pruned_def)

lemma entry_simps [simp]:
  "entry (m(i \<mapsto> h)) j = (if j = i then h else entry m j)" "m i = None \<Longrightarrow> entry m i = []"
  "m i = Some h \<Longrightarrow> entry m i = h"
  by (simp_all add: entry_def)

lemma prune_accounts:
  "prune_compute_units_in_memory send now sids m out = (m', out', ok) \<Longrightarrow> distinct sids \<Longrightarrow>
   \<exists>rel. out' = out @ rel \<and>
     (\<forall>j \<in> set sids. pruned now ok (entry m j) (entry m' j) (released_of rel j)) \<and>
     (\<forall>j. j \<notin> set sids \<longrightarrow> m' j = m j \<and> released_of rel j = [])"
proof (induction sids arbitrary: m out)
  case Nil
  then show ?case by (auto simp: released_of_def)
next
  case (Cons sid sids)
  have fresh: "sid \<notin> set sids" "distinct sids" using Cons.prems(2) by auto
  show ?case
  proof (cases "m sid")
    case None
    with Cons.prems(1) have "prune_compute_units_in_memory send now sids m out = (m', out', ok)" by simp
    from Cons.IH [OF this fresh(2)] obtain rel where rel: "out' = out @ rel"
      "\<forall>j \<in> set sids. pruned now ok (entry m j) (entry m' j) (released_of rel j)"
      "\<forall>j. j \<notin> set sids \<longrightarrow> m' j = m j \<and> released_of rel j = []" by blast
    have "m' sid = None" "released_of rel sid = []" using rel(3) fresh(1) None by auto
    then have "pruned now ok (entry m sid) (entry m' sid) (released_of rel sid)"
      using None by (simp add: pruned_def)
    with rel show ?thesis by (intro exI [of _ rel]) auto
  next
    case (Some details)
    obtain h r k where run: "release_expired (\<lambda>i. send (length out + i)) now details [] = (h, r, k)"
      by (metis prod_cases3)
    have here: "pruned now k details h r"
      using release_expired_units [OF run] by (auto simp: pruned_def)
    show ?thesis
    proof (cases k)
      case False
      with Cons.prems(1) Some run have m': "m' = m(sid \<mapsto> h)" "out' = out @ map (Pair sid) r" "ok = k" by auto
      have "pruned now ok (entry m j) (entry m' j) (released_of (map (Pair sid) r) j)" if "j \<in> set (sid # sids)" for j
        using here Some m' False by (cases "j = sid") (simp_all add: pruned_same)
      moreover have "m' j = m j \<and> released_of (map (Pair sid) r) j = []" if "j \<notin> set (sid # sids)" for j
        using that m'(1) by auto
      ultimately show ?thesis using m'(2) by (intro exI [of _ "map (Pair sid) r"]) blast
    next
      case True
      with Cons.prems(1) Some run have
        "prune_compute_units_in_memory send now sids (m(sid \<mapsto> h)) (out @ map (Pair sid) r) = (m', out', ok)" by simp
      from Cons.IH [OF this fresh(2)] obtain rel where rel: "out' = (out @ map (Pair sid) r) @ rel"
        "\<forall>j \<in> set sids. pruned now ok (entry (m(sid \<mapsto> h)) j) (entry m' j) (released_of rel j)"
        "\<forall>j. j \<notin> set sids \<longrightarrow> m' j = (m(sid \<mapsto> h)) j \<and> released_of rel j = []" by blast
      have at: "m' sid = Some h" "released_of rel sid = []" using rel(3) fresh(1) by auto
      have "pruned now ok (entry m j) (entry m' j) (released_of (map (Pair sid) r @ rel) j)"
        if "j \<in> set (sid # sids)" for j
      proof (cases "j = sid")
        case j: True
        have "pruned now ok details h r" using here True by (auto simp: pruned_def)
        with j Some at show ?thesis by simp
      next
        case False
        with that rel(2) have "pruned now ok (entry (m(sid \<mapsto> h)) j) (entry m' j) (released_of rel j)" by auto
        with False show ?thesis by simp
      qed
      moreover have "m' j = m j \<and> released_of (map (Pair sid) r @ rel) j = []" if "j \<notin> set (sid # sids)" for j
        using that rel(3) by auto
      ultimately show ?thesis using rel(1) by (intro exI [of _ "map (Pair sid) r @ rel"]) auto
    qed
  qed
qed

subsection \<open>Properties\<close>



text \<open>
  find_stacks_meeting_criteria_and_prune splits the in-memory locks of a stack into those
  that stay, expired ones whose units are each released at the state manager once, and at
  most one live lock with enough units that is claimed (exactly when the answer is true); an
  answer of false means no live lock is large enough and no expired one is left, and other
  stacks are untouched.
\<close>

theorem locked_units_leave_once:
  assumes "find_stacks_meeting_criteria_and_prune send m sid n now = (m', released, r)"
  shows "\<exists>gone claimed. mset (entry m sid) = mset (entry m' sid) + mset gone + mset claimed \<and>
      released = map max_num_tokens gone \<and> (\<forall>x \<in> set gone. expires_at x < now) \<and>
      length claimed = (if r = Some True then 1 else 0) \<and>
      (\<forall>x \<in> set claimed. n \<le> max_num_tokens x \<and> now \<le> expires_at x) \<and>
      (r = Some False \<longrightarrow> (\<forall>x \<in> set (entry m' sid). max_num_tokens x < n \<and> now \<le> expires_at x)) \<and>
      (\<forall>j. j \<noteq> sid \<longrightarrow> m' j = m j)"
  by (rule find_stacks_accounts [OF assms])

definition sample_locked :: locked_units where
  "sample_locked = (\<lambda>_. None)(2 \<mapsto> [LockedDetails 90 40, LockedDetails 50 10, LockedDetails 80 30])"

lemma sample_locked_run:
  "find_stacks_meeting_criteria_and_prune (\<lambda>_. True) sample_locked 2 35 60 =
     (sample_locked(2 \<mapsto> [LockedDetails 80 30]), [10], Some True)"
  by (simp add: find_stacks_meeting_criteria_and_prune_def sample_locked_def release_expired.simps heap_pop_def
      min_def locked_details_order)

theorem locked_units_leave_once_witness:
  "\<exists>gone claimed. mset (entry sample_locked 2) =
     mset (entry (sample_locked(2 \<mapsto> [LockedDetails 80 30])) 2) + mset gone + mset claimed \<and>
     [10] = map max_num_tokens gone \<and> length claimed = 1"
  using locked_units_leave_once [OF sample_locked_run]
  by (elim exE conjE, intro exI conjI) (assumption | simp)+

text \<open>
  prune_compute_units_in_memory releases, for every stack of the map, only expired locks,
  each exactly once and with its own units, and leaves no expired lock behind when it
  succeeds; stacks outside the map are untouched.
\<close>

theorem pruning_releases_expired:
  assumes "prune_compute_units_in_memory send now sids m [] = (m', released, ok)" and "distinct sids"
  shows "(\<forall>j \<in> set sids. \<exists>gone. mset (entry m j) = mset (entry m' j) + mset gone \<and>
       map snd (filter (\<lambda>p. fst p = j) released) = map max_num_tokens gone \<and>
       (\<forall>x \<in> set gone. expires_at x < now) \<and> (ok \<longrightarrow> (\<forall>x \<in> set (entry m' j). now \<le> expires_at x))) \<and>
    (\<forall>j. j \<notin> set sids \<longrightarrow> m' j = m j \<and> filter (\<lambda>p. fst p = j) released = [])"
  using prune_accounts [OF assms] by (simp add: pruned_def released_of_def)

theorem pruning_releases_expired_witness:
  "list_all (\<lambda>x. 60 \<le> expires_at x) (entry (sample_locked(2 \<mapsto> [LockedDetails 90 40, LockedDetails 80 30])) 2)"
proof -
  have "prune_compute_units_in_memory (\<lambda>_. True) 60 [2] sample_locked [] =
     (sample_locked(2 \<mapsto> [LockedDetails 90 40, LockedDetails 80 30]), [(2, 10)], True)"
    by (simp add: sample_locked_def release_expired.simps heap_pop_def min_def locked_details_order)
  from pruning_releases_expired [OF this] show ?thesis by auto
qed

end
