(* ===== verification/Sui.thy ===== *)
theory Sui
  imports Types
begin

text \<open>
  \<^verbatim>\<open>Sui::get_coins_of_value\<close> and \<^verbatim>\<open>Sui::acquire_new_stack_entry\<close> of
  \<^verbatim>\<open>atoma-auth/src/sui/mod.rs\<close>. The Sui client is another crate: \<open>sui_client\<close> holds what
  its calls answer, where a call that panics is told from one that returns an error. The
  lemmas show that the coins chosen are a shortest prefix of the wallet that covers the
  value and that a transaction always has a coin to pay with.
\<close>

datatype 'a outcome = Returned 'a | Failure string | Panic string

primrec outcome_bind :: "'a outcome \<Rightarrow> ('a \<Rightarrow> 'b outcome) \<Rightarrow> 'b outcome" where
  "outcome_bind (Returned a) f = f a"
| "outcome_bind (Failure e) f = Failure e"
| "outcome_bind (Panic e) f = Panic e"

definition outcome_of :: "string + 'a \<Rightarrow> 'a outcome" where
  "outcome_of r = (case r of Inl e \<Rightarrow> Failure e | Inr a \<Rightarrow> Returned a)"

record coin =
  c_object_ref :: string
  c_balance :: u64

text \<open>The answers to the requests for one page after the other.\<close>

datatype coin_pages = PageError string | LastPage "coin list" | MorePages "coin list" coin_pages

definition GAS_BUDGET :: u64 where "GAS_BUDGET = 5000000"
definition SUI_ONE_MILLION :: u64 where "SUI_ONE_MILLION = 1000000"

text \<open>The loop over the coins of a page: the coins chosen, or the balance after the page.\<close>

fun take_coins :: "u64 \<Rightarrow> coin list \<Rightarrow> u64 \<Rightarrow> coin list \<Rightarrow> coin list + (u64 \<times> coin list)" where
  "take_coins value [] sum_so_far selected = Inr (sum_so_far, selected)"
| "take_coins value (c # cs) sum_so_far selected =
     (let sum_so_far' = sum_so_far + c_balance c; selected' = selected @ [c] in
      if sum_so_far' \<ge> value then Inl selected' else take_coins value cs sum_so_far' selected')"

fun coins_from :: "u64 \<Rightarrow> coin_pages \<Rightarrow> u64 \<Rightarrow> coin list \<Rightarrow> string + coin list" where
  "coins_from value (PageError e) sum_so_far selected = Inl e"
| "coins_from value (LastPage cs) sum_so_far selected =
     (case take_coins value cs sum_so_far selected of
        Inl chosen \<Rightarrow> Inr chosen
      | Inr _ \<Rightarrow> Inl ''Not enough coins to cover the value'')"
| "coins_from value (MorePages cs pages) sum_so_far selected =
     (case take_coins value cs sum_so_far selected of
        Inl chosen \<Rightarrow> Inr chosen
      | Inr (sum_so_far', selected') \<Rightarrow> coins_from value pages sum_so_far' selected')"

definition get_coins_of_value :: "string + unit \<Rightarrow> string + string \<Rightarrow> coin_pages \<Rightarrow> u64 \<Rightarrow> string + coin list" where
  "get_coins_of_value client address pages value =
     res_bind client (\<lambda>_. res_bind address (\<lambda>_. coins_from value pages 0 []))"

subsection \<open>The transaction\<close>

record stack_tx =
  tx_sender :: string
  tx_primary_coin :: coin
  tx_merged_coins :: "coin list"
  tx_db_version :: int
  tx_task :: u64
  tx_units :: u64
  tx_price :: u64
  tx_randomness_version :: int
  tx_gas_coins :: "coin list"
  tx_gas_price :: u64

record 'j tx_response =
  txr_digest :: string
  txr_events :: "'j list option"
  txr_timestamp_ms :: "u64 option"

record 'j sui_client =
  sx_client :: "string + unit"
  sx_address :: "string + string"
  sx_usdc_pages :: coin_pages
  sx_gas_pages :: coin_pages
  sx_db_version :: "string + int option"
  sx_randomness_version :: "string + int option"
  sx_build :: "string + unit"
  sx_gas_price :: "string + u64"
  sx_execute :: "stack_tx \<Rightarrow> string + 'j tx_response"
  sx_parse_event :: "'j \<Rightarrow> string + stack_created_event"

record sui =
  si_atoma_db_initial_version :: "int option"
  si_randomness_state_object_initial_version :: "int option"

record stack_entry_response =
  ser_transaction_digest :: string
  ser_stack_created_event :: stack_created_event
  ser_timestamp_ms :: "u64 option"

text \<open>\<open>None\<close> as the version is an object that is not shared.\<close>

definition get_initial_version :: "'j sui_client \<Rightarrow> string + int option \<Rightarrow> string + int" where
  "get_initial_version cl obj =
     res_bind (sx_client cl) (\<lambda>_. res_bind obj (\<lambda>owner. ok_or ''Object is not shared'' owner))"

definition get_or_load_atoma_db_initial_version :: "'j sui_client \<Rightarrow> sui \<Rightarrow> string + (sui \<times> int)" where
  "get_or_load_atoma_db_initial_version cl s =
     (case si_atoma_db_initial_version s of
        Some v \<Rightarrow> Inr (s, v)
      | None \<Rightarrow> res_bind (get_initial_version cl (sx_db_version cl)) (\<lambda>v.
          Inr (s\<lparr>si_atoma_db_initial_version := Some v\<rparr>, v)))"

definition get_or_load_randomness_state_object_initial_version :: "'j sui_client \<Rightarrow> sui \<Rightarrow> string + (sui \<times> int)" where
  "get_or_load_randomness_state_object_initial_version cl s =
     (case si_randomness_state_object_initial_version s of
        Some v \<Rightarrow> Inr (s, v)
      | None \<Rightarrow> res_bind (get_initial_version cl (sx_randomness_version cl)) (\<lambda>v.
          Inr (s\<lparr>si_randomness_state_object_initial_version := Some v\<rparr>, v)))"

text \<open>
  \<^verbatim>\<open>usdc_coins.remove(0)\<close> panics on an empty vector, and
  \<^verbatim>\<open>execute_transaction_must_succeed\<close> when the transaction does not.
\<close>

definition first_event :: "'j tx_response \<Rightarrow> 'j option" where
  "first_event r = (case txr_events r of Some (e # es) \<Rightarrow> Some e | _ \<Rightarrow> None)"

definition submit_stack_tx :: "'j sui_client \<Rightarrow> stack_tx \<Rightarrow> stack_entry_response outcome" where
  "submit_stack_tx cl tx =
     (case sx_execute cl tx of
        Inl e \<Rightarrow> Panic e
      | Inr response \<Rightarrow>
          outcome_of (res_bind (ok_or ''No stack created event'' (first_event response)) (\<lambda>j.
            res_bind (sx_parse_event cl j) (\<lambda>event.
              Inr \<lparr>ser_transaction_digest = txr_digest response, ser_stack_created_event = event,
                   ser_timestamp_ms = txr_timestamp_ms response\<rparr>))))"

definition pay_for_stack ::
  "'j sui_client \<Rightarrow> string \<Rightarrow> int \<Rightarrow> int \<Rightarrow> u64 \<Rightarrow> u64 \<Rightarrow> u64 \<Rightarrow> stack_entry_response outcome" where
  "pay_for_stack cl address db_version random_version task units price =
     (let total_usdc_value_required = units * price div SUI_ONE_MILLION in
      outcome_bind (outcome_of (get_coins_of_value (sx_client cl) (sx_address cl) (sx_usdc_pages cl)
         total_usdc_value_required)) (\<lambda>usdc_coins.
      case usdc_coins of
        [] \<Rightarrow> Panic ''removal index (is 0) should be < len (is 0)''
      | primary # others \<Rightarrow>
        outcome_bind (outcome_of (sx_build cl)) (\<lambda>_.
        outcome_bind (outcome_of (sx_gas_price cl)) (\<lambda>gas_price.
        outcome_bind (outcome_of (get_coins_of_value (sx_client cl) (sx_address cl) (sx_gas_pages cl) GAS_BUDGET)) (\<lambda>gas.
          submit_stack_tx cl \<lparr>tx_sender = address, tx_primary_coin = primary, tx_merged_coins = others,
            tx_db_version = db_version, tx_task = task, tx_units = units, tx_price = price,
            tx_randomness_version = random_version, tx_gas_coins = gas, tx_gas_price = gas_price\<rparr>)))))"

definition acquire_new_stack_entry ::
  "'j sui_client \<Rightarrow> sui \<Rightarrow> u64 \<Rightarrow> u64 \<Rightarrow> u64 \<Rightarrow> sui \<times> stack_entry_response outcome" where
  "acquire_new_stack_entry cl s task units price =
     (case res_bind (sx_client cl) (\<lambda>_. sx_address cl) of
        Inl e \<Rightarrow> (s, Failure e)
      | Inr address \<Rightarrow>
          (case get_or_load_atoma_db_initial_version cl s of
             Inl e \<Rightarrow> (s, Failure e)
           | Inr (s1, db_version) \<Rightarrow>
               (case get_or_load_randomness_state_object_initial_version cl s1 of
                  Inl e \<Rightarrow> (s1, Failure e)
                | Inr (s2, random_version) \<Rightarrow>
                    (s2, pay_for_stack cl address db_version random_version task units price))))"

subsection \<open>The coins chosen\<close>

fun pages_coins :: "coin_pages \<Rightarrow> coin list" where
  "pages_coins (PageError e) = []"
| "pages_coins (LastPage cs) = cs"
| "pages_coins (MorePages cs pages) = cs @ pages_coins pages"

definition coins_total :: "coin list \<Rightarrow> int" where
  "coins_total cs = (\<Sum>c\<leftarrow>cs. uint (c_balance c))"

lemma coins_total_simps [simp]:
  "coins_total [] = 0" "coins_total (c # cs) = uint (c_balance c) + coins_total cs"
  "coins_total (cs @ ds) = coins_total cs + coins_total ds"
  by (simp_all add: coins_total_def)

lemma coins_total_nonneg [simp]: "0 \<le> coins_total cs"
  by (induction cs) simp_all

lemma total_step:
  assumes "uint (sum_so_far :: u64) = coins_total selected" and "coins_total selected + uint (c_balance c) < 2 ^ 64"
  shows "uint (sum_so_far + c_balance c) = coins_total (selected @ [c])"
  using assms by (simp add: uint_word_ariths mod_pos_pos_trivial)

lemma take_coins_Inl:
  "take_coins value cs sum_so_far selected = Inl chosen \<Longrightarrow> uint sum_so_far = coins_total selected \<Longrightarrow>
   coins_total (selected @ cs) < 2 ^ 64 \<Longrightarrow>
   \<exists>m c. chosen = selected @ m @ [c] \<and> (\<exists>r. cs = m @ c # r) \<and>
     uint value \<le> coins_total chosen \<and> (m \<noteq> [] \<longrightarrow> coins_total (selected @ m) < uint value)"
proof (induction cs arbitrary: sum_so_far selected)
  case (Cons c cs)
  have bound: "coins_total selected + uint (c_balance c) < 2 ^ 64"
    using Cons.prems(3) coins_total_nonneg [of cs] unfolding coins_total_simps by linarith
  note step = total_step [OF Cons.prems(2) bound]
  show ?case
  proof (cases "value \<le> sum_so_far + c_balance c")
    case True
    with Cons.prems(1) step show ?thesis
      by (intro exI [of _ "[]"] exI [of _ c]) (auto simp: word_le_def)
  next
    case False
    with Cons.prems(1) have "take_coins value cs (sum_so_far + c_balance c) (selected @ [c]) = Inl chosen" by simp
    moreover have "coins_total ((selected @ [c]) @ cs) < 2 ^ 64" using Cons.prems(3) by simp
    ultimately obtain m d r where
      m: "chosen = (selected @ [c]) @ m @ [d]" "cs = m @ d # r" "uint value \<le> coins_total chosen"
        "m \<noteq> [] \<longrightarrow> coins_total ((selected @ [c]) @ m) < uint value"
      using Cons.IH [OF _ step] by blast
    have "coins_total (selected @ [c]) < uint value" using False step by (simp add: word_le_def)
    with m show ?thesis by (intro exI [of _ "c # m"] exI [of _ d]) (cases m; simp)
  qed
qed simp

lemma take_coins_Inr:
  "take_coins value cs sum_so_far selected = Inr (sum_so_far', selected') \<Longrightarrow> uint sum_so_far = coins_total selected \<Longrightarrow>
   coins_total (selected @ cs) < 2 ^ 64 \<Longrightarrow>
   selected' = selected @ cs \<and> uint sum_so_far' = coins_total selected' \<and>
   (cs \<noteq> [] \<longrightarrow> coins_total selected' < uint value)"
proof (induction cs arbitrary: sum_so_far selected)
  case (Cons c cs)
  have bound: "coins_total selected + uint (c_balance c) < 2 ^ 64"
    using Cons.prems(3) coins_total_nonneg [of cs] unfolding coins_total_simps by linarith
  note step = total_step [OF Cons.prems(2) bound]
  from Cons.prems(1) have less: "\<not> value \<le> sum_so_far + c_balance c" and
    rest: "take_coins value cs (sum_so_far + c_balance c) (selected @ [c]) = Inr (sum_so_far', selected')"
    by (auto simp: Let_def split: if_splits)
  have "coins_total (selected @ [c]) < uint value" using less step by (simp add: word_le_def)
  with Cons.IH [OF rest step] Cons.prems(3) show ?case by (cases cs) auto
qed simp

lemma coins_from_Inr:
  "coins_from value pages sum_so_far selected = Inr chosen \<Longrightarrow> uint sum_so_far = coins_total selected \<Longrightarrow>
   coins_total (selected @ pages_coins pages) < 2 ^ 64 \<Longrightarrow> (selected \<noteq> [] \<Longrightarrow> coins_total selected < uint value) \<Longrightarrow>
   \<exists>m c r. chosen = m @ [c] \<and> selected @ pages_coins pages = m @ c # r \<and>
     uint value \<le> coins_total chosen \<and> (m \<noteq> [] \<longrightarrow> coins_total m < uint value)"
proof (induction pages arbitrary: sum_so_far selected)
  case (LastPage cs)
  then have "take_coins value cs sum_so_far selected = Inl chosen" by (simp split: sum.splits)
  from take_coins_Inl [OF this LastPage.prems(2)] LastPage.prems(3,4) show ?case by force
next
  case (MorePages cs pages)
  have bound: "coins_total (selected @ cs) < 2 ^ 64"
    using MorePages.prems(3) coins_total_nonneg [of "pages_coins pages"] unfolding pages_coins.simps coins_total_simps by linarith
  show ?case
  proof (cases "take_coins value cs sum_so_far selected")
    case (Inl found)
    with MorePages.prems(1) have "take_coins value cs sum_so_far selected = Inl chosen" by simp
    from take_coins_Inl [OF this MorePages.prems(2) bound] MorePages.prems(4) show ?thesis by force
  next
    case (Inr more)
    then obtain total' selected' where
      t: "take_coins value cs sum_so_far selected = Inr (total', selected')" by (cases more) auto
    note spent = take_coins_Inr [OF t MorePages.prems(2) bound]
    from t MorePages.prems(1) have rest: "coins_from value pages total' selected' = Inr chosen" by simp
    have less: "coins_total selected' < uint value" if "selected' \<noteq> []"
      using spent MorePages.prems(4) that by (cases "cs = []") auto
    from MorePages.IH [OF rest] spent MorePages.prems(3) less show ?thesis by simp
  qed
qed simp

text \<open>The coins are a shortest prefix of the wallet's, never none, that covers the value.\<close>

lemma get_coins_of_value_shortest:
  assumes "get_coins_of_value client address pages value = Inr chosen"
    and "coins_total (pages_coins pages) < 2 ^ 64"
  shows "\<exists>m c r. chosen = m @ [c] \<and> pages_coins pages = m @ c # r \<and>
     uint value \<le> coins_total chosen \<and> (m \<noteq> [] \<longrightarrow> coins_total m < uint value)"
  using assms coins_from_Inr [of "value" pages 0 "[]" chosen]
  by (auto simp: get_coins_of_value_def res_iffs)

subsection \<open>Properties\<close>

theorem coins_cover_value:
  assumes "get_coins_of_value client address pages amount = Inr chosen"
    and "coins_total (pages_coins pages) < 2 ^ 64"
  shows "\<exists>m c r. chosen = m @ [c] \<and> pages_coins pages = m @ c # r \<and>
     uint amount \<le> coins_total chosen \<and> (m \<noteq> [] \<longrightarrow> coins_total m < uint amount)"
  by (rule get_coins_of_value_shortest [OF assms])

definition sample_coin :: "u64 \<Rightarrow> coin" where
  "sample_coin n = \<lparr>c_object_ref = ''0x1'', c_balance = n\<rparr>"

theorem coins_cover_value_witness:
  "25 \<le> coins_total [sample_coin 10, sample_coin 20]"
proof -
  have "get_coins_of_value (Inr ()) (Inr ''0xa'') (MorePages [sample_coin 10] (LastPage [sample_coin 20, sample_coin 5])) 25
      = Inr [sample_coin 10, sample_coin 20]"
    and "coins_total (pages_coins (MorePages [sample_coin 10] (LastPage [sample_coin 20, sample_coin 5]))) < 2 ^ 64"
    by code_simp+
  from coins_cover_value [OF this] show ?thesis by simp
qed

end
