(* ===== verification/Endpoints.thy ===== *)
theory Endpoints
  imports Prelude
begin

text \<open>
  The paths that \<^verbatim>\<open>atoma-proxy/src/server/handlers\<close> names and the functions that
  classify a request by its path or by the prefix of a text.
\<close>

definition CHAT_COMPLETIONS_PATH :: string where "CHAT_COMPLETIONS_PATH = ''/v1/chat/completions''"
definition COMPLETIONS_PATH :: string where "COMPLETIONS_PATH = ''/v1/completions''"
definition EMBEDDINGS_PATH :: string where "EMBEDDINGS_PATH = ''/v1/embeddings''"
definition IMAGE_GENERATIONS_PATH :: string where "IMAGE_GENERATIONS_PATH = ''/v1/images/generations''"
definition NODES_CREATE_LOCK_PATH :: string where "NODES_CREATE_LOCK_PATH = ''/v1/nodes/lock''"

definition CONFIDENTIAL_CHAT_COMPLETIONS_PATH :: string where
  "CONFIDENTIAL_CHAT_COMPLETIONS_PATH = ''/v1/confidential/chat/completions''"

definition CONFIDENTIAL_COMPLETIONS_PATH :: string where
  "CONFIDENTIAL_COMPLETIONS_PATH = ''/v1/confidential/completions''"

definition CONFIDENTIAL_EMBEDDINGS_PATH :: string where
  "CONFIDENTIAL_EMBEDDINGS_PATH = ''/v1/confidential/embeddings''"

definition CONFIDENTIAL_IMAGE_GENERATIONS_PATH :: string where
  "CONFIDENTIAL_IMAGE_GENERATIONS_PATH = ''/v1/confidential/images/generations''"

lemmas path_defs = CHAT_COMPLETIONS_PATH_def COMPLETIONS_PATH_def EMBEDDINGS_PATH_def
  IMAGE_GENERATIONS_PATH_def NODES_CREATE_LOCK_PATH_def CONFIDENTIAL_CHAT_COMPLETIONS_PATH_def
  CONFIDENTIAL_COMPLETIONS_PATH_def CONFIDENTIAL_EMBEDDINGS_PATH_def CONFIDENTIAL_IMAGE_GENERATIONS_PATH_def

definition is_confidential_compute_endpoint :: "string \<Rightarrow> bool" where
  "is_confidential_compute_endpoint endpoint \<longleftrightarrow>
     endpoint \<in> set [CONFIDENTIAL_CHAT_COMPLETIONS_PATH, CONFIDENTIAL_EMBEDDINGS_PATH,
       CONFIDENTIAL_IMAGE_GENERATIONS_PATH, CONFIDENTIAL_COMPLETIONS_PATH]"

text \<open>\<^verbatim>\<open>str::starts_with\<close> and \<^verbatim>\<open>str::strip_prefix\<close>\<close>

fun is_prefix :: "string \<Rightarrow> string \<Rightarrow> bool" where
  "is_prefix [] t = True"
| "is_prefix (a # s) [] = False"
| "is_prefix (a # s) (b # t) = (a = b \<and> is_prefix s t)"

definition strip_prefix :: "string \<Rightarrow> string \<Rightarrow> string option" where
  "strip_prefix p s = (if is_prefix p s then Some (drop (length p) s) else None)"

lemma is_prefix_iff: "is_prefix p s \<longleftrightarrow> (\<exists>r. s = p @ r)"
  by (induction p s rule: is_prefix.induct) auto

lemma strip_prefix_Some: "strip_prefix p s = Some r \<longleftrightarrow> s = p @ r"
  by (auto simp: strip_prefix_def is_prefix_iff)

lemma strip_prefix_None: "strip_prefix p s = None \<longleftrightarrow> \<not> is_prefix p s"
  by (simp add: strip_prefix_def)

text \<open>How a number prints.\<close>

fun decimal :: "nat \<Rightarrow> string" where
  "decimal n = (if n < 10 then [char_of (48 + n)] else decimal (n div 10) @ [char_of (48 + n mod 10)])"

declare decimal.simps [simp del]

definition decimal_int :: "int \<Rightarrow> string" where
  "decimal_int i = (if i < 0 then ''-'' @ decimal (nat (- i)) else decimal (nat i))"

end
