(* ===== verification/Billing.thy ===== *)
theory Billing
  imports Manager StackLocks Sui Endpoints
begin

text \<open>
  The module \<^verbatim>\<open>auth\<close> of \<^verbatim>\<open>atoma-proxy/src/server/middleware.rs\<close> and \<^verbatim>\<open>check_auth\<close>
  of \<^verbatim>\<open>server/mod.rs\<close>. A request talks to the state manager by messages: it is taken to
  the manager of \<open>Handlers\<close>, which handles other tasks' messages before it and may have
  stopped. The lemmas show what a request that is let through has reserved, that buying a
  stack pays for it once or gives the money back, and that it always frees its lock.
\<close>

subsection \<open>The proxy and its messages to the state manager\<close>

text \<open>
  What one message meets: the messages handled before it is sent, those ahead of it in the
  queue, and the environment of its handler.
\<close>

record ('f, 'm) meet =
  mt_earlier :: "('f, 'm) message list"
  mt_ahead :: "('f, 'm) message list"
  mt_ctx :: "'f ctx"

text \<open>
  The part of \<^verbatim>\<open>ProxyState\<close> that requests share, with the state manager behind its
  channel. \<open>px_meet n\<close> is what the n-th message of this request meets.
\<close>

record ('f, 'm) proxy =
  px_db :: "'f db"
  px_status :: status
  px_meet :: "nat \<Rightarrow> ('f, 'm) meet"
  px_messages :: nat
  px_buy_locks :: buy_lock_map
  px_sui :: sui

text \<open>How the crates print the errors that go into messages.\<close>

record texts =
  tx_state_error :: "state_error \<Rightarrow> string"
  tx_send_error :: string
  tx_receive_error :: string
  tx_join_error :: "string \<Rightarrow> string"

fun manager_after :: "status \<Rightarrow> ('f, 'm) message list \<Rightarrow> 'f db \<Rightarrow> 'f db \<times> status" where
  "manager_after Running ms d = manager_run ms d"
| "manager_after (Stopped r) ms d = (d, Stopped r)"

text \<open>The message was not sent, its answer never came, or what the handler gave.\<close>

datatype delivery = NotSent | Unanswered | Handled "state_error + reply"

definition send_message :: "'f state_manager_event \<Rightarrow> ('f, 'm) proxy \<Rightarrow> ('f, 'm) proxy \<times> delivery" where
  "send_message ev p =
     (let mt = px_meet p (px_messages p); q = p\<lparr>px_messages := px_messages p + 1\<rparr> in
      case manager_after (px_status p) (mt_earlier mt) (px_db p) of
        (d, Stopped r) \<Rightarrow> (q\<lparr>px_db := d, px_status := Stopped r\<rparr>, NotSent)
      | (d, Running) \<Rightarrow>
          (case manager_run (mt_ahead mt) d of
             (d', Stopped r) \<Rightarrow> (q\<lparr>px_db := d', px_status := Stopped r\<rparr>, Unanswered)
           | (d', Running) \<Rightarrow>
               (case handle_state_manager_event ((mt_ctx mt)\<lparr>cx_receiver_waits := True\<rparr>) ev d' of
                  (d'', r) \<Rightarrow> (q\<lparr>px_db := d''\<rparr>, Handled r))))"

definition send_event ::
  "texts \<Rightarrow> 'f state_manager_event \<Rightarrow> string \<Rightarrow> string \<Rightarrow> ('f, 'm) proxy \<Rightarrow> ('f, 'm) proxy \<times> (atoma_proxy_error + unit)" where
  "send_event tx ev event_name endpoint p =
     (case send_message ev p of
        (q, NotSent) \<Rightarrow> (q, Inl (InternalError (''Failed to send '' @ event_name @ '' event: '' @ tx_send_error tx) None endpoint))
      | (q, _) \<Rightarrow> (q, Inr ()))"

text \<open>
  \<open>answer_of\<close> reads the answer of the expected type. A handler that fails before it
  answers drops the sender, which the receiver sees as an error.
\<close>

definition state_failure :: "texts \<Rightarrow> string \<Rightarrow> string \<Rightarrow> state_error \<Rightarrow> atoma_proxy_error" where
  "state_failure tx event_name endpoint e =
     (case e of
        InsufficientBalance \<Rightarrow> BalanceError ''Insufficient balance to lock compute units'' endpoint
      | _ \<Rightarrow> InternalError (''Failed to get '' @ event_name @ '' result: '' @ tx_state_error tx e) None endpoint)"

definition received :: "(reply \<Rightarrow> (state_error + 'a) option) \<Rightarrow> delivery \<Rightarrow> (state_error + 'a) option" where
  "received answer_of m = (case m of Handled (Inr r) \<Rightarrow> answer_of r | _ \<Rightarrow> None)"

definition send_event_with_response ::
  "texts \<Rightarrow> (reply \<Rightarrow> (state_error + 'a) option) \<Rightarrow> 'f state_manager_event \<Rightarrow> string \<Rightarrow> string
    \<Rightarrow> ('f, 'm) proxy \<Rightarrow> ('f, 'm) proxy \<times> (atoma_proxy_error + 'a)" where
  "send_event_with_response tx answer_of ev event_name endpoint p =
     (case send_message ev p of (q, m) \<Rightarrow>
        (q, if m = NotSent
            then Inl (InternalError (''Failed to send '' @ event_name @ '' event: '' @ tx_send_error tx) None endpoint)
            else
              res_bind (ok_or (InternalError (''Failed to receive '' @ event_name @ '' result: '' @ tx_receive_error tx)
                  None endpoint) (received answer_of m))
                (map_err (state_failure tx event_name endpoint))))"

text \<open>The answers that are expected.\<close>

fun stack_answer :: "reply \<Rightarrow> (state_error + stack option) option" where
  "stack_answer (StackReply r) = Some r" | "stack_answer _ = None"

fun cheapest_answer :: "reply \<Rightarrow> (state_error + cheapest_node option) option" where
  "cheapest_answer (CheapestReply n) = Some (Inr n)" | "cheapest_answer _ = None"

fun unit_answer :: "reply \<Rightarrow> (state_error + unit) option" where
  "unit_answer (UnitReply r) = Some r" | "unit_answer _ = None"

fun bool_answer :: "reply \<Rightarrow> (state_error + bool) option" where
  "bool_answer (BoolReply r) = Some r" | "bool_answer _ = None"

fun id_answer :: "reply \<Rightarrow> (state_error + int) option" where
  "id_answer (IdReply r) = Some r" | "id_answer _ = None"

fun pricing_answer :: "reply \<Rightarrow> (state_error + pricing option) option" where
  "pricing_answer (PricingReply r) = Some (Inr r)" | "pricing_answer _ = None"

fun address_answer :: "reply \<Rightarrow> (state_error + string option) option" where
  "address_answer (AddressReply r) = Some r" | "address_answer _ = None"

fun url_answer :: "reply \<Rightarrow> (state_error + (string option \<times> int)) option" where
  "url_answer (UrlReply r) = Some r" | "url_answer _ = None"

text \<open>\<^verbatim>\<open>f().await?; ..\<close> on the shared state.\<close>

fun and_then :: "'p \<times> ('e + 'a) \<Rightarrow> ('a \<Rightarrow> 'p \<Rightarrow> 'p \<times> ('e + 'b)) \<Rightarrow> 'p \<times> ('e + 'b)" where
  "and_then (p, Inl e) f = (p, Inl e)"
| "and_then (p, Inr a) f = f a p"

lemma and_then_Inr_iff:
  "and_then m f = (q, Inr b) \<longleftrightarrow> (\<exists>p a. m = (p, Inr a) \<and> f a p = (q, Inr b))"
  by (cases "(m, f)" rule: and_then.cases) auto

subsection \<open>Authentication\<close>

text \<open>The headers by their lower-case names; a value that is not visible ASCII is \<open>None\<close>.\<close>

type_synonym header_map = "string \<Rightarrow> string option option"

definition check_auth ::
  "texts \<Rightarrow> header_map \<Rightarrow> string \<Rightarrow> ('f, 'm) proxy \<Rightarrow> ('f, 'm) proxy \<times> (atoma_proxy_error + int)" where
  "check_auth tx headers endpoint p =
     (case Option.bind (Option.bind (headers ''authorization'') id) (strip_prefix ''Bearer '') of
        None \<Rightarrow> (p, Inl (AuthError ''Invalid or missing api token for request'' endpoint))
      | Some token \<Rightarrow>
          (case send_message (IsApiTokenValid token) p of (q, m) \<Rightarrow>
             (q, if m = NotSent
                 then Inl (InternalError (''Failed to send IsApiTokenValid event: '' @ tx_send_error tx) None endpoint)
                 else
                   res_bind (ok_or (InternalError (''Failed to receive IsApiTokenValid result: '' @ tx_receive_error tx)
                       None endpoint) (received id_answer m))
                     (map_err (\<lambda>e. AuthError (''Invalid or missing api token for request: '' @ tx_state_error tx e) endpoint)))))"

subsection \<open>Reserving the user's balance\<close>

definition get_cheapest_node ::
  "texts \<Rightarrow> string \<Rightarrow> string \<Rightarrow> ('f, 'm) proxy \<Rightarrow> ('f, 'm) proxy \<times> (atoma_proxy_error + cheapest_node)" where
  "get_cheapest_node tx model endpoint p =
     and_then (send_event_with_response tx cheapest_answer (GetCheapestNodeForModel model False)
       ''GetCheapestNodeForModel'' endpoint p)
       (\<lambda>node q. (q, ok_or (RequestError (''No node found for model '' @ model) endpoint) node))"

text \<open>
  What the handlers of the four kinds of request know of a request: its model and how many
  units it may need, which for text takes a tokenizer.
\<close>

record 'tok request_model =
  rm_model :: string
  rm_compute_units_estimate :: "'tok option \<Rightarrow> atoma_proxy_error + (u64 \<times> u64)"

record stack_metadata =
  sm_optional_stack :: "stack option"
  sm_num_input_tokens :: u64
  sm_max_output_tokens :: u64
  sm_model :: string
  sm_user_id :: int
  sm_selected_node_id :: int
  sm_price_per_one_million_input_compute_units :: int
  sm_price_per_one_million_output_compute_units :: int
  sm_is_fiat_request :: bool

text \<open>The models the proxy serves with their tokenizers, \<^verbatim>\<open>state.models\<close> and \<^verbatim>\<open>state.tokenizers\<close>.\<close>

definition estimate_request ::
  "(string \<times> 'tok) list \<Rightarrow> 'tok request_model \<Rightarrow> string \<Rightarrow> atoma_proxy_error + (u64 \<times> u64)" where
  "estimate_request models rm endpoint =
     (if endpoint \<in> set [IMAGE_GENERATIONS_PATH, CONFIDENTIAL_IMAGE_GENERATIONS_PATH]
      then rm_compute_units_estimate rm None
      else
        res_bind (ok_or (RequestError ''Model not supported'' CHAT_COMPLETIONS_PATH) (map_of models (rm_model rm)))
          (\<lambda>tokenizer. rm_compute_units_estimate rm (Some tokenizer)))"

definition prices_of :: "cheapest_node \<Rightarrow> pricing option \<Rightarrow> int \<times> int" where
  "prices_of node custom_pricing =
     (case custom_pricing of
        None \<Rightarrow> (cn_price_per_one_million_compute_units node, cn_price_per_one_million_compute_units node)
      | Some pr \<Rightarrow> (price_per_one_million_input_compute_units pr, price_per_one_million_output_compute_units pr))"

definition lock_request ::
  "texts \<Rightarrow> string \<Rightarrow> int \<Rightarrow> string \<Rightarrow> u64 \<Rightarrow> u64 \<Rightarrow> ('f, 'm) proxy \<Rightarrow> ('f, 'm) proxy \<times> (atoma_proxy_error + stack_metadata)" where
  "lock_request tx endpoint uid model num_input_tokens max_output_tokens p =
     and_then (get_cheapest_node tx model endpoint p) (\<lambda>node p.
     and_then (send_event_with_response tx pricing_answer (GetCustomPricing uid model) ''GetCustomPricing'' endpoint p)
       (\<lambda>custom_pricing p.
       case prices_of node custom_pricing of (input_price, output_price) \<Rightarrow>
       and_then (send_event_with_response tx bool_answer
           (LockUserFiatBalance uid (fiat_locked_amount num_input_tokens input_price)
             (fiat_locked_amount max_output_tokens output_price)) ''LockUserFiatBalance'' endpoint p)
         (\<lambda>locked_fiat p.
           (p, if locked_fiat
               then Inr \<lparr>sm_optional_stack = None, sm_num_input_tokens = num_input_tokens,
                 sm_max_output_tokens = max_output_tokens, sm_model = model, sm_user_id = uid,
                 sm_selected_node_id = cn_node_small_id node,
                 sm_price_per_one_million_input_compute_units = input_price,
                 sm_price_per_one_million_output_compute_units = output_price, sm_is_fiat_request = True\<rparr>
               else Inl (FiatPaymentsOnly ''Fiat payments only, no stacks available'' endpoint)))))"

definition authenticate_and_lock_compute_units ::
  "texts \<Rightarrow> (string \<times> 'tok) list \<Rightarrow> header_map \<Rightarrow> 'tok request_model \<Rightarrow> string \<Rightarrow> ('f, 'm) proxy
    \<Rightarrow> ('f, 'm) proxy \<times> (atoma_proxy_error + stack_metadata)" where
  "authenticate_and_lock_compute_units tx models headers rm endpoint p =
     and_then (check_auth tx headers endpoint p) (\<lambda>uid p.
       case estimate_request models rm endpoint of
         Inl e \<Rightarrow> (p, Inl e)
       | Inr (num_input_tokens, max_output_tokens) \<Rightarrow>
           lock_request tx endpoint uid (rm_model rm) num_input_tokens max_output_tokens p)"

subsection \<open>Selecting a node\<close>

record selected_node_metadata =
  sn_stack_small_id :: "int option"
  sn_selected_node_id :: int
  sn_tx_digest :: "string option"
  sn_price_per_one_million_input_compute_units :: int
  sn_price_per_one_million_output_compute_units :: int

definition metadata_of_stack :: "stack \<Rightarrow> selected_node_metadata" where
  "metadata_of_stack s = \<lparr>
     sn_stack_small_id = Some (stack_small_id s),
     sn_selected_node_id = selected_node_id s,
     sn_tx_digest = None,
     sn_price_per_one_million_input_compute_units = price_per_one_million_compute_units s,
     sn_price_per_one_million_output_compute_units = price_per_one_million_compute_units s\<rparr>"

definition try_get_stack_for_user_id ::
  "texts \<Rightarrow> int \<Rightarrow> int \<Rightarrow> string \<Rightarrow> u64 \<Rightarrow> ('f, 'm) proxy \<Rightarrow> ('f, 'm) proxy \<times> (atoma_proxy_error + selected_node_metadata option)" where
  "try_get_stack_for_user_id tx uid tid endpoint total_tokens p =
     and_then (send_event_with_response tx stack_answer (GetStacksForTask tid (as_i64 total_tokens) uid)
       ''GetStacksForTask'' endpoint p) (\<lambda>s q. (q, Inr (map_option metadata_of_stack s)))"

definition get_node_metadata_from_state_manager ::
  "texts \<Rightarrow> string \<Rightarrow> int \<Rightarrow> int \<Rightarrow> bool \<Rightarrow> string \<Rightarrow> ('f, 'm) proxy
    \<Rightarrow> ('f, 'm) proxy \<times> (atoma_proxy_error + selected_node_metadata option)" where
  "get_node_metadata_from_state_manager tx model uid units confidential endpoint p =
     and_then (send_event_with_response tx stack_answer (GetStacksForModel model units uid confidential)
       ''GetStacksForModel'' endpoint p) (\<lambda>s q. (q, Inr (map_option metadata_of_stack s)))"

definition MAX_STACK_WAIT_ATTEMPTS :: nat where "MAX_STACK_WAIT_ATTEMPTS = 10"

primrec wait_for_stack ::
  "nat \<Rightarrow> texts \<Rightarrow> int \<Rightarrow> int \<Rightarrow> string \<Rightarrow> u64 \<Rightarrow> ('f, 'm) proxy
    \<Rightarrow> ('f, 'm) proxy \<times> (atoma_proxy_error + selected_node_metadata option)" where
  "wait_for_stack 0 tx uid tid endpoint total_tokens p = (p, Inr None)"
| "wait_for_stack (Suc n) tx uid tid endpoint total_tokens p =
     and_then (try_get_stack_for_user_id tx uid tid endpoint total_tokens p) (\<lambda>found q.
       case found of
         Some md \<Rightarrow> (q, Inr (Some md))
       | None \<Rightarrow> wait_for_stack n tx uid tid endpoint total_tokens q)"

definition get_stack_if_locked_with_request_model ::
  "texts \<Rightarrow> int \<Rightarrow> int \<Rightarrow> string \<Rightarrow> u64 \<Rightarrow> ('f, 'm) proxy \<Rightarrow> ('f, 'm) proxy \<times> (atoma_proxy_error + selected_node_metadata)" where
  "get_stack_if_locked_with_request_model tx uid tid endpoint total_tokens p =
     and_then
       (if stack_is_locked (px_buy_locks p) (uid, tid)
        then wait_for_stack MAX_STACK_WAIT_ATTEMPTS tx uid tid endpoint total_tokens p
        else (p, Inr None))
       (\<lambda>found q. (q, ok_or (RequestError
          ''Many concurrent requests, a stack is being bought, but its internal state is not yet updated. Please retry.''
          endpoint) found))"

definition get_stack_if_locked ::
  "texts \<Rightarrow> int \<Rightarrow> int \<Rightarrow> string \<Rightarrow> u64 \<Rightarrow> ('f, 'm) proxy \<Rightarrow> ('f, 'm) proxy \<times> (atoma_proxy_error + selected_node_metadata)" where
  "get_stack_if_locked tx uid tid endpoint total_tokens p =
     (if endpoint \<in> set [CHAT_COMPLETIONS_PATH, COMPLETIONS_PATH, EMBEDDINGS_PATH, IMAGE_GENERATIONS_PATH]
      then get_stack_if_locked_with_request_model tx uid tid endpoint total_tokens p
      else (p, Inl (RequestError (''Unsupported endpoint: '' @ endpoint) endpoint)))"

subsection \<open>Buying a stack\<close>

definition deduct_usdc ::
  "texts \<Rightarrow> int \<Rightarrow> u64 \<Rightarrow> u64 \<Rightarrow> string \<Rightarrow> ('f, 'm) proxy \<Rightarrow> ('f, 'm) proxy \<times> (atoma_proxy_error + unit)" where
  "deduct_usdc tx uid price stack_size endpoint p =
     send_event_with_response tx unit_answer (DeductFromUsdc uid (stack_cost price stack_size))
       ''DeductFromUsdc'' endpoint p"

definition refund_usdc_of ::
  "texts \<Rightarrow> int \<Rightarrow> u64 \<Rightarrow> u64 \<Rightarrow> string \<Rightarrow> ('f, 'm) proxy \<Rightarrow> ('f, 'm) proxy \<times> (atoma_proxy_error + unit)" where
  "refund_usdc_of tx uid price stack_size endpoint p =
     send_event_with_response tx unit_answer (RefundUsdc uid (stack_cost price stack_size))
       ''RefundUsdc'' endpoint p"

text \<open>
  The result of a task: it returns or it panics. \<open>to_datetime\<close> is
  \<^verbatim>\<open>DateTime::from_timestamp_millis\<close>, and \<open>now\<close> the clock.
\<close>

datatype 'a task_result = TaskReturned "atoma_proxy_error + 'a" | TaskPanicked string

record args =
  aa_user_id :: int
  aa_task_small_id :: u64
  aa_stack_size_to_buy :: u64
  aa_price_per_million_compute_units :: u64
  aa_endpoint :: string
  aa_total_tokens :: u64

definition timestamp_to_datetime_or_now :: "(int \<Rightarrow> datetime option) \<Rightarrow> datetime \<Rightarrow> u64 option \<Rightarrow> datetime" where
  "timestamp_to_datetime_or_now to_datetime now timestamp_ms =
     (case Option.bind timestamp_ms (\<lambda>ts. to_datetime (as_i64 ts)) of None \<Rightarrow> now | Some dt \<Rightarrow> dt)"

definition acquire_new_stack_on_usdc_deduction ::
  "texts \<Rightarrow> 'j sui_client \<Rightarrow> (int \<Rightarrow> datetime option) \<Rightarrow> datetime \<Rightarrow> args \<Rightarrow> ('f, 'm) proxy
    \<Rightarrow> ('f, 'm) proxy \<times> selected_node_metadata task_result" where
  "acquire_new_stack_on_usdc_deduction tx cl to_datetime now a p =
     (case acquire_new_stack_entry cl (px_sui p) (aa_task_small_id a) (aa_stack_size_to_buy a)
         (aa_price_per_million_compute_units a) of
        (sui, bought) \<Rightarrow>
          let q = p\<lparr>px_sui := sui\<rparr> in
          case bought of
            Panic e \<Rightarrow> (q, TaskPanicked e)
          | Failure e \<Rightarrow>
              (q, TaskReturned (Inl (InternalError (''Failed to acquire new stack entry: '' @ e) None (aa_endpoint a))))
          | Returned response \<Rightarrow>
              (case send_event_with_response tx unit_answer
                  (NewStackAcquired (ser_stack_created_event response) (as_i64 (aa_total_tokens a))
                    (timestamp_to_datetime_or_now to_datetime now (ser_timestamp_ms response)) (aa_user_id a))
                  ''NewStackAcquired'' (aa_endpoint a) q of
                 (q', r) \<Rightarrow>
                   (q', TaskReturned (res_bind r (\<lambda>_. Inr \<lparr>
                     sn_stack_small_id = Some (as_i64 (sce_stack_small_id (ser_stack_created_event response))),
                     sn_selected_node_id = as_i64 (sce_selected_node_id (ser_stack_created_event response)),
                     sn_tx_digest = Some (ser_transaction_digest response),
                     sn_price_per_one_million_input_compute_units = as_i64 (aa_price_per_million_compute_units a),
                     sn_price_per_one_million_output_compute_units = as_i64 (aa_price_per_million_compute_units a)\<rparr>)))))"

text \<open>An error is followed by the refund, whose own error is only logged.\<close>

definition acquire_new_stack_on_usdc_deduction_wrapper ::
  "texts \<Rightarrow> 'j sui_client \<Rightarrow> (int \<Rightarrow> datetime option) \<Rightarrow> datetime \<Rightarrow> args \<Rightarrow> ('f, 'm) proxy
    \<Rightarrow> ('f, 'm) proxy \<times> selected_node_metadata task_result" where
  "acquire_new_stack_on_usdc_deduction_wrapper tx cl to_datetime now a p =
     (case acquire_new_stack_on_usdc_deduction tx cl to_datetime now a p of
        (q, TaskReturned (Inl e)) \<Rightarrow>
          (fst (refund_usdc_of tx (aa_user_id a) (aa_price_per_million_compute_units a)
             (as_u64 STACK_SIZE_TO_BUY) (aa_endpoint a) q), TaskReturned (Inl e))
      | (q, r) \<Rightarrow> (q, r))"

text \<open>The spawned task, which owns the guard: it is dropped when the task ends, by a panic too.\<close>

definition acquire_task ::
  "texts \<Rightarrow> 'j sui_client \<Rightarrow> (int \<Rightarrow> datetime option) \<Rightarrow> datetime \<Rightarrow> int \<Rightarrow> string \<Rightarrow> u64 \<Rightarrow> cheapest_node
    \<Rightarrow> ('f, 'm) proxy \<Rightarrow> ('f, 'm) proxy \<times> selected_node_metadata task_result" where
  "acquire_task tx cl to_datetime now uid endpoint total_tokens node p =
     (let price = as_u64 (cn_price_per_one_million_compute_units node) in
      case deduct_usdc tx uid price (as_u64 STACK_SIZE_TO_BUY) endpoint p of
        (q, Inl e) \<Rightarrow> (q, TaskReturned (Inl e))
      | (q, Inr _) \<Rightarrow>
          acquire_new_stack_on_usdc_deduction_wrapper tx cl to_datetime now
            \<lparr>aa_user_id = uid, aa_task_small_id = as_u64 (cn_task_small_id node),
             aa_stack_size_to_buy = as_u64 STACK_SIZE_TO_BUY, aa_price_per_million_compute_units = price,
             aa_endpoint = endpoint, aa_total_tokens = total_tokens\<rparr> q)"

definition acquire_new_stack ::
  "texts \<Rightarrow> 'j sui_client \<Rightarrow> (int \<Rightarrow> datetime option) \<Rightarrow> datetime \<Rightarrow> int \<Rightarrow> lock_guard \<Rightarrow> string \<Rightarrow> u64 \<Rightarrow> cheapest_node
    \<Rightarrow> ('f, 'm) proxy \<Rightarrow> ('f, 'm) proxy \<times> (atoma_proxy_error + selected_node_metadata)" where
  "acquire_new_stack tx cl to_datetime now uid guard endpoint total_tokens node p =
     (case acquire_task tx cl to_datetime now uid endpoint total_tokens node p of (q, r) \<Rightarrow>
        (q\<lparr>px_buy_locks := drop_guard (px_buy_locks q) guard\<rparr>,
         case r of
           TaskReturned s \<Rightarrow> s
         | TaskPanicked e \<Rightarrow>
             let m = ''Failed to acquire new stack: '' @ tx_join_error tx e in Inl (InternalError m (Some m) endpoint)))"

definition get_cheapest_node_and_acquire_new_stack ::
  "texts \<Rightarrow> 'j sui_client \<Rightarrow> (int \<Rightarrow> datetime option) \<Rightarrow> datetime \<Rightarrow> int \<Rightarrow> string \<Rightarrow> string \<Rightarrow> u64
    \<Rightarrow> ('f, 'm) proxy \<Rightarrow> ('f, 'm) proxy \<times> (atoma_proxy_error + selected_node_metadata)" where
  "get_cheapest_node_and_acquire_new_stack tx cl to_datetime now uid model endpoint total_tokens p =
     and_then (get_cheapest_node tx model endpoint p) (\<lambda>node q.
       case try_lock (px_buy_locks q) (uid, cn_task_small_id node) of
         None \<Rightarrow> get_stack_if_locked tx uid (cn_task_small_id node) endpoint total_tokens q
       | Some (locks, guard) \<Rightarrow>
           acquire_new_stack tx cl to_datetime now uid guard endpoint total_tokens node (q\<lparr>px_buy_locks := locks\<rparr>))"

definition get_selected_node ::
  "texts \<Rightarrow> 'j sui_client \<Rightarrow> (int \<Rightarrow> datetime option) \<Rightarrow> datetime \<Rightarrow> stack option \<Rightarrow> int \<Rightarrow> string \<Rightarrow> string \<Rightarrow> u64
    \<Rightarrow> ('f, 'm) proxy \<Rightarrow> ('f, 'm) proxy \<times> (atoma_proxy_error + selected_node_metadata)" where
  "get_selected_node tx cl to_datetime now optional_stack uid model endpoint total_tokens p =
     (case optional_stack of
        Some s \<Rightarrow> (p, Inr (metadata_of_stack s))
      | None \<Rightarrow>
          if total_tokens > as_u64 STACK_SIZE_TO_BUY
          then (p, Inl (RequestError (''Total tokens '' @ decimal_int (uint total_tokens) @
            '' exceed the maximum stack size of '' @ decimal_int STACK_SIZE_TO_BUY) endpoint))
          else get_cheapest_node_and_acquire_new_stack tx cl to_datetime now uid model endpoint total_tokens p)"

subsection \<open>The selected node\<close>

definition process_selected_stack ::
  "texts \<Rightarrow> string + string \<Rightarrow> int \<Rightarrow> string \<Rightarrow> ('f, 'm) proxy \<Rightarrow> ('f, 'm) proxy \<times> (atoma_proxy_error + (string \<times> string))" where
  "process_selected_stack tx sui_signature node endpoint p =
     and_then (send_event_with_response tx address_answer (GetNodePublicAddress node) ''GetNodePublicAddress'' endpoint p)
       (\<lambda>found q. (q,
         res_bind (ok_or (NotFound (''No node address found for node '' @ decimal_int node) endpoint) found) (\<lambda>node_address.
         res_bind (map_err (\<lambda>e. InternalError (''Failed to get Sui signature: '' @ e) None endpoint) sui_signature)
           (\<lambda>signature. Inr (node_address, signature)))))"

definition get_node_address ::
  "texts \<Rightarrow> int \<Rightarrow> string \<Rightarrow> ('f, 'm) proxy \<Rightarrow> ('f, 'm) proxy \<times> (atoma_proxy_error + (string \<times> int))" where
  "get_node_address tx sid endpoint p =
     and_then (send_event_with_response tx url_answer (GetNodePublicUrlAndSmallId sid) ''GetNodePublicUrlAndSmallId'' endpoint p)
       (\<lambda>(address, node) q. (q,
         case address of Some a \<Rightarrow> Inr (a, node) | None \<Rightarrow> Inl (NotFound ''Node doesn't have public address'' endpoint)))"

text \<open>\<open>lock_stack\<close> takes the header out of the request; the value may fail to print or to parse.\<close>

definition lock_stack_of_request ::
  "texts \<Rightarrow> (string \<Rightarrow> int option) \<Rightarrow> string \<Rightarrow> header_map \<Rightarrow> string \<Rightarrow> ('f, 'm) proxy
    \<Rightarrow> header_map \<times> ('f, 'm) proxy \<times> (atoma_proxy_error + unit)" where
  "lock_stack_of_request tx parse_i64 header_name headers endpoint p =
     (let rest = headers(header_name := None) in
      case headers header_name of
        None \<Rightarrow> (rest, p, Inl (InternalError ''Stack small id not found'' None endpoint))
      | Some None \<Rightarrow> (rest, p, Inl (RequestError ''Stack small id not found'' endpoint))
      | Some (Some v) \<Rightarrow>
          (case parse_i64 v of
             None \<Rightarrow> (rest, p, Inl (RequestError
               ''handle_locked_stack_middleware: Could not parse stack small id'' endpoint))
           | Some sid \<Rightarrow> (rest, send_event tx (LockStack sid) ''LockStack'' endpoint p)))"

subsection \<open>What messages keep\<close>

text \<open>
  A property of the shared state that every message to the state manager keeps is kept by
  everything a request does before it takes or drops a lock; with the second locale, by
  all of it.
\<close>

locale message_invariant =
  fixes I :: "('f, 'm) proxy \<Rightarrow> bool"
  assumes send_keeps: "I p \<Longrightarrow> event_in_range ev \<Longrightarrow> I (fst (send_message ev p))"
    and sui_keeps: "I p \<Longrightarrow> I (p\<lparr>px_sui := s\<rparr>)"
begin

lemma and_then_keeps:
  "I (fst m) \<Longrightarrow> (\<And>a p. I p \<Longrightarrow> I (fst (f a p))) \<Longrightarrow> I (fst (and_then m f))"
  by (cases "(m, f)" rule: and_then.cases) auto

lemma response_keeps:
  "I p \<Longrightarrow> event_in_range ev \<Longrightarrow> I (fst (send_event_with_response tx ans ev name ep p))"
  using send_keeps [of p ev] by (auto simp: send_event_with_response_def split: prod.split)

lemma sent_keeps: "send_message ev p = (q, m) \<Longrightarrow> I p \<Longrightarrow> event_in_range ev \<Longrightarrow> I q"
  using send_keeps [of p ev] by simp

lemma responded_keeps:
  "send_event_with_response tx ans ev name ep p = (q, r) \<Longrightarrow> I p \<Longrightarrow> event_in_range ev \<Longrightarrow> I q"
  using response_keeps [of p ev tx ans name ep] by simp

lemma check_auth_keeps: "I p \<Longrightarrow> I (fst (check_auth tx headers ep p))"
  by (auto simp: check_auth_def split: option.split prod.split elim!: sent_keeps)

lemma cheapest_keeps: "I p \<Longrightarrow> I (fst (get_cheapest_node tx model ep p))"
  unfolding get_cheapest_node_def by (intro and_then_keeps response_keeps) auto

lemma lock_request_keeps: "I p \<Longrightarrow> I (fst (lock_request tx ep uid model n m p))"
  unfolding lock_request_def
  by (intro and_then_keeps cheapest_keeps response_keeps)
    (auto split: prod.split intro!: and_then_keeps response_keeps)

lemma authenticate_keeps: "I p \<Longrightarrow> I (fst (authenticate_and_lock_compute_units tx models headers rm ep p))"
  unfolding authenticate_and_lock_compute_units_def
  by (intro and_then_keeps check_auth_keeps) (auto split: sum.split prod.split intro!: lock_request_keeps)

lemma try_get_stack_keeps: "I p \<Longrightarrow> I (fst (try_get_stack_for_user_id tx uid tid ep n p))"
  unfolding try_get_stack_for_user_id_def by (intro and_then_keeps response_keeps) auto

lemma wait_keeps: "I p \<Longrightarrow> I (fst (wait_for_stack k tx uid tid ep n p))"
proof (induction k arbitrary: p)
  case (Suc k)
  show ?case
    unfolding wait_for_stack.simps
    by (intro and_then_keeps try_get_stack_keeps Suc.prems) (simp add: Suc.IH split: option.split)
qed simp

lemma get_stack_if_locked_keeps: "I p \<Longrightarrow> I (fst (get_stack_if_locked tx uid tid ep n p))"
  by (auto simp: get_stack_if_locked_def get_stack_if_locked_with_request_model_def
      intro!: and_then_keeps wait_keeps)

lemma deduct_keeps: "I p \<Longrightarrow> I (fst (deduct_usdc tx uid price units ep p))"
  unfolding deduct_usdc_def by (rule response_keeps) auto

lemma refund_keeps: "I p \<Longrightarrow> I (fst (refund_usdc_of tx uid price units ep p))"
  unfolding refund_usdc_of_def by (rule response_keeps) auto

lemma on_deduction_keeps: "I p \<Longrightarrow> I (fst (acquire_new_stack_on_usdc_deduction tx cl td now a p))"
  by (auto simp: acquire_new_stack_on_usdc_deduction_def Let_def intro: sui_keeps
      split: prod.split outcome.split elim!: responded_keeps)

lemma wrapper_keeps: "I p \<Longrightarrow> I (fst (acquire_new_stack_on_usdc_deduction_wrapper tx cl td now a p))"
  using on_deduction_keeps [of p tx cl td now a]
  by (auto simp: acquire_new_stack_on_usdc_deduction_wrapper_def intro: refund_keeps
      split: prod.split task_result.split sum.split)

lemma acquire_task_keeps: "I p \<Longrightarrow> I (fst (acquire_task tx cl td now uid ep n node p))"
  using deduct_keeps [of p tx uid "as_u64 (cn_price_per_one_million_compute_units node)" "as_u64 STACK_SIZE_TO_BUY" ep]
  by (auto simp: acquire_task_def Let_def intro: wrapper_keeps split: prod.split sum.split)

end

locale proxy_invariant = message_invariant +
  assumes locks_keep: "I p \<Longrightarrow> I (p\<lparr>px_buy_locks := l\<rparr>)"
begin

lemma acquire_keeps: "I p \<Longrightarrow> I (fst (acquire_new_stack tx cl td now uid g ep n node p))"
  using acquire_task_keeps [of p tx cl td now uid ep n node]
  by (auto simp: acquire_new_stack_def intro: locks_keep split: prod.split)

lemma cheapest_and_acquire_keeps:
  "I p \<Longrightarrow> I (fst (get_cheapest_node_and_acquire_new_stack tx cl td now uid model ep n p))"
  unfolding get_cheapest_node_and_acquire_new_stack_def
  by (intro and_then_keeps cheapest_keeps)
    (auto split: option.split prod.split intro!: get_stack_if_locked_keeps acquire_keeps locks_keep)

lemma get_selected_node_keeps: "I p \<Longrightarrow> I (fst (get_selected_node tx cl td now st uid model ep n p))"
  by (auto simp: get_selected_node_def split: option.split intro!: cheapest_and_acquire_keeps)

end

lemma send_message_frame:
  "px_buy_locks (fst (send_message ev p)) = px_buy_locks p \<and> px_meet (fst (send_message ev p)) = px_meet p"
  by (simp add: send_message_def Let_def split: prod.split status.split)

interpretation locks_held: message_invariant "\<lambda>p. px_buy_locks p = l" for l
  by unfold_locales (simp_all add: send_message_frame)

text \<open>The invariants of the database, when the other tasks' messages are in range.\<close>

definition meet_in_range :: "('f, 'm) meet \<Rightarrow> bool" where
  "meet_in_range mt \<longleftrightarrow> list_all message_in_range (mt_earlier mt) \<and> list_all message_in_range (mt_ahead mt)"

definition proxy_inv :: "('f, 'm) proxy \<Rightarrow> bool" where
  "proxy_inv p \<longleftrightarrow> db_inv (px_db p) \<and> (\<forall>n. meet_in_range (px_meet p n))"

lemma manager_after_inv: "db_inv d \<Longrightarrow> list_all message_in_range ms \<Longrightarrow> db_inv (fst (manager_after st ms d))"
  by (cases st) (simp_all add: manager_run_inv)

lemma send_message_inv:
  assumes "proxy_inv p" and "event_in_range ev"
  shows "proxy_inv (fst (send_message ev p))"
proof -
  define mt where "mt = px_meet p (px_messages p)"
  have mt: "list_all message_in_range (mt_earlier mt)" "list_all message_in_range (mt_ahead mt)"
    using assms(1) by (auto simp: proxy_inv_def meet_in_range_def mt_def)
  obtain d st where d: "manager_after (px_status p) (mt_earlier mt) (px_db p) = (d, st)" by fastforce
  obtain d' st' where d': "manager_run (mt_ahead mt) d = (d', st')" by fastforce
  have inv: "db_inv d" using manager_after_inv [OF _ mt(1), of "px_db p" "px_status p"] assms(1) d
    by (simp add: proxy_inv_def)
  then have inv': "db_inv d'" using manager_run_inv [OF _ mt(2), of d] d' by simp
  then have "db_inv (fst (handle_state_manager_event c ev d'))" for c
    by (rule handle_state_manager_event_inv) (rule assms(2))
  then have "db_inv (px_db (fst (send_message ev p)))"
    unfolding send_message_def Let_def mt_def [symmetric] d using inv inv' d'
    by (auto split: prod.split status.split) (metis fst_conv)
  then show ?thesis using assms(1) by (simp add: proxy_inv_def send_message_frame)
qed

interpretation inv_kept: proxy_invariant proxy_inv
  by unfold_locales (simp add: send_message_inv, simp_all add: proxy_inv_def)

text \<open>A request alone with the state manager: no other message comes and it runs.\<close>

definition alone :: "('f, 'm) proxy \<Rightarrow> bool" where
  "alone p \<longleftrightarrow> px_status p = Running \<and> (\<forall>n. mt_earlier (px_meet p n) = [] \<and> mt_ahead (px_meet p n) = [])"

definition event_ctx :: "('f, 'm) proxy \<Rightarrow> 'f ctx" where
  "event_ctx p = (mt_ctx (px_meet p (px_messages p)))\<lparr>cx_receiver_waits := True\<rparr>"

lemma send_message_alone:
  "alone p \<Longrightarrow> send_message ev p =
     (p\<lparr>px_messages := px_messages p + 1, px_db := fst (handle_state_manager_event (event_ctx p) ev (px_db p))\<rparr>,
      Handled (snd (handle_state_manager_event (event_ctx p) ev (px_db p))))"
  by (simp add: send_message_def alone_def event_ctx_def Let_def split: prod.split)

interpretation alone_kept: proxy_invariant alone
  by unfold_locales (auto simp: send_message_alone, simp_all add: alone_def)

lemma event_ctx_waits [simp]: "cx_receiver_waits (event_ctx p)"
  by (simp add: event_ctx_def)

subsection \<open>A lock is always freed\<close>

text \<open>Whatever other tasks do and whatever fails, the lock of a purchase is given back.\<close>

lemma acquire_task_locks: "px_buy_locks (fst (acquire_task tx cl td now uid ep n node p)) = px_buy_locks p"
  by (rule locks_held.acquire_task_keeps) (rule refl)

lemma acquire_frees:
  "try_lock (px_buy_locks q) key = Some (locks, g) \<Longrightarrow>
   px_buy_locks (fst (acquire_new_stack tx cl td now uid g ep n node (q\<lparr>px_buy_locks := locks\<rparr>))) = px_buy_locks q"
  using acquire_task_locks [of tx cl td now uid ep n node "q\<lparr>px_buy_locks := locks\<rparr>"]
  by (auto simp: acquire_new_stack_def lock_unlock split: prod.split)

lemma get_selected_node_locks:
  "px_buy_locks (fst (get_selected_node tx cl td now st uid model ep n p)) = px_buy_locks p"
proof -
  have "px_buy_locks (fst (get_cheapest_node_and_acquire_new_stack tx cl td now uid model ep n p)) = px_buy_locks p"
    unfolding get_cheapest_node_and_acquire_new_stack_def
    by (intro locks_held.and_then_keeps locks_held.cheapest_keeps refl)
      (auto split: option.split prod.split simp: acquire_frees intro!: locks_held.get_stack_if_locked_keeps)
  then show ?thesis by (simp add: get_selected_node_def split: option.split)
qed

subsection \<open>Messages of a request that is alone\<close>

definition after :: "('f, 'm) proxy \<Rightarrow> 'f db \<Rightarrow> ('f, 'm) proxy" where
  "after p d = p\<lparr>px_messages := px_messages p + 1, px_db := d\<rparr>"

lemma after_simps [simp]:
  "px_db (after p d) = d" "px_sui (after p d) = px_sui p" "px_buy_locks (after p d) = px_buy_locks p"
  "px_meet (after p d) = px_meet p" "alone (after p d) = alone p"
  by (simp_all add: after_def alone_def)

lemma alone_updates [simp]:
  "alone (p\<lparr>px_sui := s\<rparr>) = alone p" "alone (p\<lparr>px_buy_locks := l\<rparr>) = alone p"
  "alone (p\<lparr>px_messages := k\<rparr>) = alone p" "alone (p\<lparr>px_db := d\<rparr>) = alone p"
  by (simp_all add: alone_def)

lemma respond_alone:
  assumes "alone p" and "handle_state_manager_event (event_ctx p) ev (px_db p) = (d, Inr rep)"
    and "ans rep = Some r"
  shows "send_event_with_response tx ans ev name ep p = (after p d, map_err (state_failure tx name ep) r)"
  using assms by (simp add: send_event_with_response_def send_message_alone received_def after_def)

lemma deduct_alone:
  assumes "alone p"
  shows "deduct_usdc tx uid price units ep p =
    (case deduct_from_usdc (db_crypto (px_db p)) uid (stack_cost price units) of
       Inl e \<Rightarrow> (after p (px_db p), Inl (state_failure tx ''DeductFromUsdc'' ep e))
     | Inr t \<Rightarrow> (after p ((px_db p)\<lparr>db_crypto := t\<rparr>), Inr ()))"
  unfolding deduct_usdc_def
  by (cases "deduct_from_usdc (db_crypto (px_db p)) uid (stack_cost price units)")
    (simp_all add: respond_alone [OF assms] answer_unit_def send_reply_def)

lemma refund_alone:
  assumes "alone p"
  shows "refund_usdc_of tx uid price units ep p =
    (case refund_usdc (db_crypto (px_db p)) uid (stack_cost price units) of
       Inl e \<Rightarrow> (after p (px_db p), Inl (state_failure tx ''RefundUsdc'' ep e))
     | Inr t \<Rightarrow> (after p ((px_db p)\<lparr>db_crypto := t\<rparr>), Inr ()))"
  unfolding refund_usdc_of_def
  by (cases "refund_usdc (db_crypto (px_db p)) uid (stack_cost price units)")
    (simp_all add: respond_alone [OF assms] answer_unit_def send_reply_def)

lemma acquired_alone:
  assumes "alone p"
  shows "send_event_with_response tx unit_answer (NewStackAcquired ev n ts uid) name ep p =
    (case handle_stack_created_event (px_db p) ev n uid ts of
       Inl e \<Rightarrow> (after p (px_db p), Inl (state_failure tx name ep e))
     | Inr t \<Rightarrow> (after p ((px_db p)\<lparr>db_stacks := t\<rparr>), Inr ()))"
  by (cases "handle_stack_created_event (px_db p) ev n uid ts")
    (simp_all add: respond_alone [OF assms] answer_unit_def send_reply_def)

lemma cheapest_alone:
  assumes "alone p"
  shows "get_cheapest_node tx model ep p =
    (after p (px_db p),
     ok_or (RequestError (''No node found for model '' @ model) ep)
       (get_cheapest_node_for_model (db_tasks (px_db p)) (db_subscriptions (px_db p)) (db_rotations (px_db p))
         (db_keys (px_db p)) model False))"
  unfolding get_cheapest_node_def by (simp add: respond_alone [OF assms] send_reply_def)

lemma pricing_alone:
  assumes "alone p"
  shows "send_event_with_response tx pricing_answer (GetCustomPricing uid model) name ep p =
    (after p (px_db p), Inr (get_custom_pricing (db_prices (px_db p)) uid model))"
  by (simp add: respond_alone [OF assms] send_reply_def)

lemma lock_fiat_alone:
  assumes "alone p"
  shows "send_event_with_response tx bool_answer (LockUserFiatBalance uid a b) name ep p =
    (case lock_user_fiat_balance (db_fiat (px_db p)) uid a b of
       Inl e \<Rightarrow> (after p (px_db p), Inl (state_failure tx name ep e))
     | Inr (t, ok) \<Rightarrow> (after p ((px_db p)\<lparr>db_fiat := t\<rparr>), Inr ok))"
  by (cases "lock_user_fiat_balance (db_fiat (px_db p)) uid a b")
    (auto simp: respond_alone [OF assms] send_reply_def)

subsection \<open>Money is taken for a stack or given back\<close>

lemma on_deduction_alone:
  assumes "alone p"
    and "acquire_new_stack_on_usdc_deduction tx cl td now a p = (q, r)"
  shows "alone q \<and> px_buy_locks q = px_buy_locks p \<and>
    (case r of
       TaskReturned (Inr md) \<Rightarrow> (\<exists>ev ts t. px_db q = (px_db p)\<lparr>db_stacks := t\<rparr> \<and>
         handle_stack_created_event (px_db p) ev (as_i64 (aa_total_tokens a)) (aa_user_id a) ts = Inr t \<and>
         sn_stack_small_id md = Some (as_i64 (sce_stack_small_id ev)))
     | _ \<Rightarrow> px_db q = px_db p)"
  using assms
  by (auto simp: acquire_new_stack_on_usdc_deduction_def Let_def acquired_alone
      split: prod.splits outcome.splits sum.splits) blast+

lemma created_crypto [simp]:
  "handle_stack_created_event (d\<lparr>db_crypto := t\<rparr>) ev n uid ts = handle_stack_created_event d ev n uid ts"
  by (simp add: handle_stack_created_event_def)

definition node_cost :: "cheapest_node \<Rightarrow> int" where
  "node_cost node = stack_cost (as_u64 (cn_price_per_one_million_compute_units node)) (as_u64 STACK_SIZE_TO_BUY)"

lemma node_cost_nonneg: "0 \<le> node_cost node"
proof -
  let ?w = "as_u64 (cn_price_per_one_million_compute_units node) * as_u64 STACK_SIZE_TO_BUY"
  have m: "uint (word_of_int ONE_MILLION :: u64) = 1000000" by (simp add: ONE_MILLION_def uint_word_of_int)
  have "uint ?w < 2 ^ 64" by (rule less_le_trans [OF uint_lt2p]) simp
  then have "uint (?w div word_of_int ONE_MILLION) \<le> i64_max" by (simp only: uint_div m) (simp add: i64_max_def)
  then show ?thesis by (simp add: node_cost_def stack_cost_def as_i64_small)
qed

text \<open>
  An error leaves the database as it was: what was deducted has been refunded. A panic
  (a transaction that the chain rejects is one) leaves the deduction.
\<close>

definition bought :: "'f db \<Rightarrow> int \<Rightarrow> int \<Rightarrow> u64 \<Rightarrow> 'f db \<Rightarrow> selected_node_metadata \<Rightarrow> bool" where
  "bought d uid cost total_tokens d' md \<longleftrightarrow>
     (\<exists>ev ts t1 t. deduct_from_usdc (db_crypto d) uid cost = Inr t1 \<and>
        handle_stack_created_event d ev (as_i64 total_tokens) uid ts = Inr t \<and>
        sn_stack_small_id md = Some (as_i64 (sce_stack_small_id ev)) \<and>
        d' = d\<lparr>db_crypto := t1, db_stacks := t\<rparr>)"

lemma acquire_task_alone:
  assumes "alone p" and inv: "crypto_inv (db_crypto (px_db p))"
    and "acquire_task tx cl td now uid ep n node p = (q, r)"
  shows "case r of
      TaskReturned (Inl e) \<Rightarrow> px_db q = px_db p
    | TaskReturned (Inr md) \<Rightarrow> bought (px_db p) uid (node_cost node) n (px_db q) md
    | TaskPanicked e \<Rightarrow> (\<exists>t1. deduct_from_usdc (db_crypto (px_db p)) uid (node_cost node) = Inr t1 \<and>
        px_db q = (px_db p)\<lparr>db_crypto := t1\<rparr>)"
proof (cases "deduct_from_usdc (db_crypto (px_db p)) uid (node_cost node)")
  case (Inl e)
  with assms show ?thesis by (auto simp: acquire_task_def Let_def deduct_alone node_cost_def)
next
  case (Inr t1)
  define p1 where "p1 = after p ((px_db p)\<lparr>db_crypto := t1\<rparr>)"
  define a where "a = \<lparr>aa_user_id = uid, aa_task_small_id = as_u64 (cn_task_small_id node),
    aa_stack_size_to_buy = as_u64 STACK_SIZE_TO_BUY,
    aa_price_per_million_compute_units = as_u64 (cn_price_per_one_million_compute_units node),
    aa_endpoint = ep, aa_total_tokens = n\<rparr>"
  from Inr assms(1,3) have w: "acquire_new_stack_on_usdc_deduction_wrapper tx cl td now a p1 = (q, r)"
    by (simp add: acquire_task_def Let_def deduct_alone node_cost_def a_def p1_def)
  obtain q2 r2 where o: "acquire_new_stack_on_usdc_deduction tx cl td now a p1 = (q2, r2)" by fastforce
  have "alone p1" using assms(1) by (simp add: p1_def)
  note od = on_deduction_alone [OF this o]
  have refund: "refund_usdc t1 uid (node_cost node) = Inr (db_crypto (px_db p))"
    by (rule deduct_refund [OF inv node_cost_nonneg Inr])
  show ?thesis
  proof (cases r2)
    case (TaskPanicked e)
    with w o od Inr show ?thesis by (auto simp: acquire_new_stack_on_usdc_deduction_wrapper_def p1_def)
  next
    case (TaskReturned res)
    show ?thesis
    proof (cases res)
      case (Inl e)
      with TaskReturned w o od refund show ?thesis
        by (auto simp: acquire_new_stack_on_usdc_deduction_wrapper_def refund_alone p1_def a_def
            node_cost_def [symmetric])
    next
      case (Inr md)
      with TaskReturned w o have [simp]: "q = q2" "r = TaskReturned (Inr md)"
        by (auto simp: acquire_new_stack_on_usdc_deduction_wrapper_def)
      from Inr TaskReturned od obtain ev ts t where
        "px_db q2 = (px_db p)\<lparr>db_crypto := t1, db_stacks := t\<rparr>"
        "handle_stack_created_event (px_db p) ev (as_i64 n) uid ts = Inr t"
        "sn_stack_small_id md = Some (as_i64 (sce_stack_small_id ev))"
        by (auto simp: p1_def a_def)
      with \<open>deduct_from_usdc (db_crypto (px_db p)) uid (node_cost node) = Inr t1\<close>
      show ?thesis by (auto simp: bought_def)
    qed
  qed
qed

subsection \<open>What a request has reserved\<close>

definition node_for :: "'f db \<Rightarrow> string \<Rightarrow> cheapest_node option" where
  "node_for d model = get_cheapest_node_for_model (db_tasks d) (db_subscriptions d) (db_rotations d) (db_keys d) model False"

definition reserved :: "'f db \<Rightarrow> int \<Rightarrow> u64 \<Rightarrow> u64 \<Rightarrow> 'f db \<Rightarrow> stack_metadata \<Rightarrow> bool" where
  "reserved d uid n m d' md \<longleftrightarrow>
     (\<exists>node t. node_for d (sm_model md) = Some node \<and> sm_selected_node_id md = cn_node_small_id node \<and>
        (sm_price_per_one_million_input_compute_units md, sm_price_per_one_million_output_compute_units md) =
          prices_of node (get_custom_pricing (db_prices d) uid (sm_model md)) \<and>
        lock_user_fiat_balance (db_fiat d) uid
          (fiat_locked_amount n (sm_price_per_one_million_input_compute_units md))
          (fiat_locked_amount m (sm_price_per_one_million_output_compute_units md)) = Inr (t, True) \<and>
        d' = d\<lparr>db_fiat := t\<rparr> \<and> sm_user_id md = uid \<and> sm_num_input_tokens md = n \<and>
        sm_max_output_tokens md = m \<and> sm_is_fiat_request md)"

lemma lock_request_alone:
  assumes "alone p" and "fiat_inv (db_fiat (px_db p))" and "lock_request tx ep uid model n m p = (q, r)"
  shows "case r of Inl e \<Rightarrow> px_db q = px_db p
    | Inr md \<Rightarrow> sm_model md = model \<and> reserved (px_db p) uid n m (px_db q) md"
proof (cases "node_for (px_db p) model")
  case None
  then show ?thesis using assms by (auto simp: lock_request_def cheapest_alone node_for_def)
next
  case (Some node)
  obtain a b where prices: "prices_of node (get_custom_pricing (db_prices (px_db p)) uid model) = (a, b)" by fastforce
  define lock where "lock = lock_user_fiat_balance (db_fiat (px_db p)) uid (fiat_locked_amount n a) (fiat_locked_amount m b)"
  have run: "lock_request tx ep uid model n m p = and_then
      (send_event_with_response tx bool_answer (LockUserFiatBalance uid (fiat_locked_amount n a) (fiat_locked_amount m b))
        ''LockUserFiatBalance'' ep (after (after p (px_db p)) (px_db p)))
      (\<lambda>locked_fiat p. (p, if locked_fiat
         then Inr \<lparr>sm_optional_stack = None, sm_num_input_tokens = n, sm_max_output_tokens = m, sm_model = model,
           sm_user_id = uid, sm_selected_node_id = cn_node_small_id node,
           sm_price_per_one_million_input_compute_units = a,
           sm_price_per_one_million_output_compute_units = b, sm_is_fiat_request = True\<rparr>
         else Inl (FiatPaymentsOnly ''Fiat payments only, no stacks available'' ep)))"
    using Some prices assms(1) by (simp add: lock_request_def cheapest_alone pricing_alone node_for_def)
  show ?thesis
  proof (cases lock)
    case (Inl e)
    with assms run show ?thesis by (auto simp: lock_fiat_alone lock_def)
  next
    case (Inr res)
    then obtain t ok where lock: "lock = Inr (t, ok)" by (cases res) auto
    show ?thesis
    proof (cases ok)
      case True
      with lock assms run Some prices show ?thesis by (auto simp: lock_fiat_alone lock_def reserved_def)
    next
      case False
      with lock have "t = db_fiat (px_db p)"
        using lock_user_fiat_balance_refused [OF assms(2)] by (auto simp: lock_def)
      with False lock assms run show ?thesis by (auto simp: lock_fiat_alone lock_def)
    qed
  qed
qed

text \<open>The token of a request: what follows the scheme in its header.\<close>

definition bearer_token :: "header_map \<Rightarrow> string option" where
  "bearer_token headers =
     Option.bind (Option.bind (headers ''authorization'') id) (strip_prefix ''Bearer '')"

lemma bearer_token_Some: "bearer_token headers = Some tok \<longleftrightarrow> headers ''authorization'' = Some (Some (''Bearer '' @ tok))"
  by (auto simp: bearer_token_def bind_eq_Some_conv strip_prefix_Some)

definition token_used :: "api_token \<Rightarrow> int \<Rightarrow> 'f db \<Rightarrow> 'f db" where
  "token_used row now d =
     d\<lparr>db_api_tokens := put_row at_token (row\<lparr>at_last_used_timestamp := Some now\<rparr>) (db_api_tokens d)\<rparr>"

lemma check_auth_alone:
  assumes "alone p" and inv: "api_tokens_inv (db_api_tokens (px_db p))" and "check_auth tx headers ep p = (q, r)"
  shows "alone q \<and> (case r of Inl e \<Rightarrow> px_db q = px_db p
    | Inr uid \<Rightarrow> (\<exists>tok row now. bearer_token headers = Some tok \<and>
        row_of at_token (db_api_tokens (px_db p)) tok = Some row \<and> at_user_id row = uid \<and>
        px_db q = token_used row now (px_db p)))"
proof (cases "bearer_token headers")
  case None
  with assms show ?thesis by (auto simp: check_auth_def bearer_token_def)
next
  case (Some tok)
  have "handle_state_manager_event (event_ctx p) (IsApiTokenValid tok) (px_db p) =
    (case row_of at_token (db_api_tokens (px_db p)) tok of
       None \<Rightarrow> (px_db p, Inr (IdReply (Inl (DatabaseConnectionError RowNotFound))))
     | Some row \<Rightarrow> (token_used row (cx_now_stamp (event_ctx p)) (px_db p), Inr (IdReply (Inr (at_user_id row)))))"
    by (simp add: is_api_token_valid_iff [OF inv] token_used_def send_reply_def split: option.split)
  with Some assms(1,3) show ?thesis
    by (cases "row_of at_token (db_api_tokens (px_db p)) tok")
      (auto simp: check_auth_def bearer_token_def send_message_alone received_def)
qed

lemma token_used_tables [simp]:
  "db_fiat (token_used row now d) = db_fiat d" "db_crypto (token_used row now d) = db_crypto d"
  "db_stacks (token_used row now d) = db_stacks d"
  by (simp_all add: token_used_def)

lemma authenticate_alone:
  assumes "alone p" and "db_inv (px_db p)"
    and "authenticate_and_lock_compute_units tx models headers rm ep p = (q, r)"
  shows "case r of
      Inl e \<Rightarrow> db_fiat (px_db q) = db_fiat (px_db p)
    | Inr md \<Rightarrow> (\<exists>tok row now n m. bearer_token headers = Some tok \<and>
        row_of at_token (db_api_tokens (px_db p)) tok = Some row \<and> at_user_id row = sm_user_id md \<and>
        sm_model md = rm_model rm \<and> estimate_request models rm ep = Inr (n, m) \<and>
        reserved (token_used row now (px_db p)) (sm_user_id md) n m (px_db q) md)"
proof -
  obtain p1 a where auth: "check_auth tx headers ep p = (p1, a)" by fastforce
  have tokens: "api_tokens_inv (db_api_tokens (px_db p))" using assms(2) by (simp add: db_inv_def)
  note ca = check_auth_alone [OF assms(1) tokens auth]
  show ?thesis
  proof (cases a)
    case (Inl e)
    with ca auth assms(3) show ?thesis by (auto simp: authenticate_and_lock_compute_units_def)
  next
    case (Inr uid)
    with ca obtain tok row now where t: "bearer_token headers = Some tok"
      "row_of at_token (db_api_tokens (px_db p)) tok = Some row" "at_user_id row = uid"
      and d1: "px_db p1 = token_used row now (px_db p)" by auto
    have alone1: "alone p1" using ca by simp
    have fiat: "fiat_inv (db_fiat (px_db p1))" using assms(2) d1 by (simp add: db_inv_def)
    show ?thesis
    proof (cases "estimate_request models rm ep")
      case Inl: (Inl e)
      with Inr auth assms(3) d1 show ?thesis by (auto simp: authenticate_and_lock_compute_units_def)
    next
      case est: (Inr nm)
      obtain n m where nm: "nm = (n, m)" by fastforce
      with est Inr auth assms(3) have "lock_request tx ep uid (rm_model rm) n m p1 = (q, r)"
        by (simp add: authenticate_and_lock_compute_units_def)
      from lock_request_alone [OF alone1 fiat this] show ?thesis
      proof (cases r)
        case (Inr md)
        with lock_request_alone [OF alone1 fiat \<open>lock_request _ _ _ _ _ _ _ = _\<close>] d1
        have res: "sm_model md = rm_model rm" "reserved (token_used row now (px_db p)) uid n m (px_db q) md"
          by auto
        then have "sm_user_id md = uid" by (auto simp: reserved_def)
        with res t est nm Inr show ?thesis by auto
      qed (use d1 in auto)
    qed
  qed
qed

text \<open>A task panics only if buying on the chain does.\<close>

lemma acquire_task_panic:
  assumes "acquire_task tx cl td now uid ep n node p = (q, TaskPanicked e)"
  shows "snd (acquire_new_stack_entry cl (px_sui p) (as_u64 (cn_task_small_id node)) (as_u64 STACK_SIZE_TO_BUY)
    (as_u64 (cn_price_per_one_million_compute_units node))) = Panic e"
proof -
  obtain p1 r where d: "deduct_usdc tx uid (as_u64 (cn_price_per_one_million_compute_units node))
    (as_u64 STACK_SIZE_TO_BUY) ep p = (p1, r)" by fastforce
  have frame: "px_sui (fst (send_message ev p)) = px_sui p" for ev
    by (simp add: send_message_def Let_def split: prod.split status.split)
  have "px_sui p1 = px_sui p"
    using d frame by (auto simp: deduct_usdc_def send_event_with_response_def split: prod.splits) (metis fst_conv)
  with assms d show ?thesis
    by (auto simp: acquire_task_def acquire_new_stack_on_usdc_deduction_wrapper_def
        acquire_new_stack_on_usdc_deduction_def Let_def split: prod.splits sum.splits outcome.splits task_result.splits)
qed

definition chain_outcome :: "'j sui_client \<Rightarrow> ('f, 'm) proxy \<Rightarrow> cheapest_node \<Rightarrow> stack_entry_response outcome" where
  "chain_outcome cl p node = snd (acquire_new_stack_entry cl (px_sui p) (as_u64 (cn_task_small_id node))
     (as_u64 STACK_SIZE_TO_BUY) (as_u64 (cn_price_per_one_million_compute_units node)))"

subsection \<open>Properties\<close>

definition sample_proxy :: "(int, unit) proxy" where
  "sample_proxy = \<lparr>px_db = sample_db, px_status = Running,
     px_meet = (\<lambda>_. \<lparr>mt_earlier = [], mt_ahead = [], mt_ctx = sample_ctx True\<rparr>), px_messages = 0,
     px_buy_locks = (\<lambda>_. None),
     px_sui = \<lparr>si_atoma_db_initial_version = Some 1, si_randomness_state_object_initial_version = Some 1\<rparr>\<rparr>"

definition sample_texts :: texts where
  "sample_texts = \<lparr>tx_state_error = (\<lambda>e. ''''), tx_send_error = '''', tx_receive_error = '''', tx_join_error = (\<lambda>e. e)\<rparr>"

definition sample_headers :: header_map where
  "sample_headers = (\<lambda>_. None)(''authorization'' := Some (Some ''Bearer tk''))"

definition sample_request :: "unit request_model" where
  "sample_request = \<lparr>rm_model = ''m'', rm_compute_units_estimate = (\<lambda>t. Inr (2000000, 1000000))\<rparr>"

lemma sample_proxy_alone: "alone sample_proxy"
  by (simp add: alone_def sample_proxy_def)

lemma sample_proxy_db: "px_db sample_proxy = sample_db"
  by (simp add: sample_proxy_def)

lemma sample_request_granted: "\<not> isl (snd (authenticate_and_lock_compute_units sample_texts [(''m'', ())] sample_headers
     sample_request CHAT_COMPLETIONS_PATH sample_proxy))"
  by code_simp

text \<open>
  C4. authenticate_and_lock_compute_units lets a request through only when its bearer token
  is an API token of the user it then acts for, and when it has reserved, on that user's
  fiat balance, the price of the estimated input and output units at the custom price of
  that user and model, or else at the price of the cheapest node; on every error the fiat
  balances are as before, so a refused request never holds money. No message of another task
  is handled in between.
\<close>

theorem authenticated_request_has_reserved:
  assumes "alone p" and "db_inv (px_db p)"
    and "authenticate_and_lock_compute_units tx models headers rm ep p = (q, r)"
  shows "case r of
      Inl e \<Rightarrow> db_fiat (px_db q) = db_fiat (px_db p)
    | Inr md \<Rightarrow> (\<exists>tok row now n m. bearer_token headers = Some tok \<and>
        row_of at_token (db_api_tokens (px_db p)) tok = Some row \<and> at_user_id row = sm_user_id md \<and>
        sm_model md = rm_model rm \<and> estimate_request models rm ep = Inr (n, m) \<and>
        reserved (token_used row now (px_db p)) (sm_user_id md) n m (px_db q) md)"
  by (rule authenticate_alone [OF assms])

theorem authenticated_request_has_reserved_witness:
  "\<exists>md row now. snd (authenticate_and_lock_compute_units sample_texts [(''m'', ())] sample_headers
      sample_request CHAT_COMPLETIONS_PATH sample_proxy) = Inr md \<and> sm_user_id md = 1 \<and>
    reserved (token_used row now sample_db) 1 2000000 1000000
      (px_db (fst (authenticate_and_lock_compute_units sample_texts [(''m'', ())] sample_headers
        sample_request CHAT_COMPLETIONS_PATH sample_proxy))) md"
proof -
  obtain q r where run: "authenticate_and_lock_compute_units sample_texts [(''m'', ())] sample_headers
     sample_request CHAT_COMPLETIONS_PATH sample_proxy = (q, r)" by fastforce
  have inv: "db_inv (px_db sample_proxy)" by (simp add: sample_proxy_db sample_db_inv)
  obtain md where md: "r = Inr md" using sample_request_granted run by (cases r) auto
  have est: "estimate_request [(''m'', ())] sample_request CHAT_COMPLETIONS_PATH = Inr (2000000, 1000000)"
    by code_simp
  have tok: "row_of at_token (db_api_tokens sample_db) tok = Some row \<Longrightarrow> at_user_id row = 1" for tok row
    by (auto simp: sample_db_def row_of_def split: if_splits)
  from authenticated_request_has_reserved [OF sample_proxy_alone inv run] show ?thesis
    using md run est by (auto simp: sample_proxy_db dest!: tok) blast
qed

text \<open>
  C10. Buying a stack on the chain either fails and leaves the database exactly as before
  (what was deducted from the USDC balance is refunded), or succeeds with the balance
  reduced by exactly the price and the bought stack inserted with the request's units locked
  on it; this holds for every outcome of the chain except a transaction that makes the
  client library panic, when no message of another task is handled in between.
\<close>

theorem failed_purchase_is_refunded:
  assumes "alone p" and "crypto_inv (db_crypto (px_db p))"
    and "\<forall>e. chain_outcome cl p node \<noteq> Panic e"
    and "acquire_new_stack tx cl td now uid guard ep n node p = (q, r)"
  shows "case r of Inl e \<Rightarrow> px_db q = px_db p
    | Inr md \<Rightarrow> bought (px_db p) uid (node_cost node) n (px_db q) md"
proof -
  obtain q' t where run: "acquire_task tx cl td now uid ep n node p = (q', t)" by fastforce
  from acquire_task_alone [OF assms(1,2) run] assms(3,4) run show ?thesis
    by (cases t) (auto simp: acquire_new_stack_def chain_outcome_def dest: acquire_task_panic split: sum.splits)
qed

definition sample_node :: cheapest_node where
  "sample_node = \<lparr>cn_task_small_id = 3, cn_price_per_one_million_compute_units = 20,
     cn_max_num_compute_units = 1000, cn_node_small_id = 8\<rparr>"

definition sample_client :: "string + unit \<Rightarrow> unit sui_client" where
  "sample_client client = \<lparr>sx_client = client, sx_address = Inr ''0xa'',
     sx_usdc_pages = LastPage [sample_coin 50], sx_gas_pages = LastPage [sample_coin 6000000],
     sx_db_version = Inr (Some 1), sx_randomness_version = Inr (Some 1), sx_build = Inr (), sx_gas_price = Inr 1,
     sx_execute = (\<lambda>t. Inl ''rejected''), sx_parse_event = (\<lambda>j. Inl ''no event'')\<rparr>"

lemma sample_node_cost: "node_cost sample_node = 20"
  unfolding node_cost_def by (simp add: sample_node_def stack_cost_of_price)

lemma sample_outcomes:
  "chain_outcome (sample_client (Inl ''down'')) sample_proxy sample_node = Failure ''down''"
  "chain_outcome (sample_client (Inr ())) sample_proxy sample_node = Panic ''rejected''"
  by code_simp+

lemma sample_crypto_inv: "crypto_inv (db_crypto (px_db sample_proxy))"
  by code_simp

definition sample_selling_client :: "unit sui_client" where
  "sample_selling_client = (sample_client (Inr ()))\<lparr>
     sx_execute := (\<lambda>t. Inr \<lparr>txr_digest = ''dg'', txr_events = Some [()], txr_timestamp_ms = None\<rparr>),
     sx_parse_event := (\<lambda>j. Inr \<lparr>sce_owner = ''0xa'', sce_stack_id = ''s9'', sce_stack_small_id = 9,
       sce_task_small_id = 3, sce_selected_node_id = 8, sce_num_compute_units = 1000000,
       sce_price_per_one_million_compute_units = 20\<rparr>)\<rparr>"

definition sample_purchase ::
  "unit sui_client \<Rightarrow> (int, unit) proxy \<times> (atoma_proxy_error + selected_node_metadata)" where
  "sample_purchase cl = acquire_new_stack sample_texts cl (\<lambda>_. None) (sample_time 5) 1
     \<lparr>lg_key = (1, 3), lg_locked = True\<rparr> CHAT_COMPLETIONS_PATH 10 sample_node sample_proxy"

lemma sample_purchases:
  "isl (snd (sample_purchase (sample_client (Inl ''down''))))"
  "\<not> isl (snd (sample_purchase sample_selling_client))"
  "(case chain_outcome sample_selling_client sample_proxy sample_node of Returned _ \<Rightarrow> True | _ \<Rightarrow> False)"
  by code_simp+

theorem failed_purchase_is_refunded_witness:
  "px_db (fst (sample_purchase (sample_client (Inl ''down'')))) = sample_db \<and>
   (\<exists>md. bought sample_db 1 20 10 (px_db (fst (sample_purchase sample_selling_client))) md)"
proof -
  note purchase = failed_purchase_is_refunded [OF sample_proxy_alone sample_crypto_inv]
  have no_panic: "\<forall>e. chain_outcome sample_selling_client sample_proxy sample_node \<noteq> Panic e"
    using sample_purchases(3) by (auto split: outcome.splits)
  obtain q e where failed: "sample_purchase (sample_client (Inl ''down'')) = (q, Inl e)"
    using sample_purchases(1) by (cases "sample_purchase (sample_client (Inl ''down''))") (auto simp: isl_def)
  obtain q' md where sold: "sample_purchase sample_selling_client = (q', Inr md)"
    using sample_purchases(2) by (cases "sample_purchase sample_selling_client"; cases "snd (sample_purchase sample_selling_client)") auto
  have "px_db q = px_db sample_proxy"
    using purchase [OF _ failed [unfolded sample_purchase_def]] sample_outcomes(1) by simp
  moreover have "bought sample_db 1 20 10 (px_db q') md"
    using purchase [OF no_panic sold [unfolded sample_purchase_def]]
    by (simp add: sample_proxy_db sample_node_cost)
  ultimately show ?thesis using failed sold by (auto simp: sample_proxy_db)
qed

text \<open>
  When the chain rejects the transaction of a purchase, the client library panics in the
  spawned task, the request fails, and the price that was deducted from the user's USDC
  balance is not refunded.
\<close>

theorem rejected_transaction_keeps_payment:
  assumes "alone p" and "crypto_inv (db_crypto (px_db p))"
    and "chain_outcome cl p node = Panic e"
    and "deduct_from_usdc (db_crypto (px_db p)) uid (node_cost node) = Inr t"
    and "acquire_new_stack tx cl td now uid guard ep n node p = (q, r)"
  shows "isl r \<and> px_db q = (px_db p)\<lparr>db_crypto := t\<rparr>"
proof -
  have d: "deduct_usdc tx uid (as_u64 (cn_price_per_one_million_compute_units node)) (as_u64 STACK_SIZE_TO_BUY) ep p =
      (after p ((px_db p)\<lparr>db_crypto := t\<rparr>), Inr ())"
    using assms(4) by (simp add: deduct_alone [OF assms(1)] node_cost_def)
  obtain s o' where c: "acquire_new_stack_entry cl (px_sui p) (as_u64 (cn_task_small_id node)) (as_u64 STACK_SIZE_TO_BUY)
      (as_u64 (cn_price_per_one_million_compute_units node)) = (s, o')" by fastforce
  with assms(3) have "o' = Panic e" by (simp add: chain_outcome_def)
  with d c have "acquire_task tx cl td now uid ep n node p =
      ((after p ((px_db p)\<lparr>db_crypto := t\<rparr>))\<lparr>px_sui := s\<rparr>, TaskPanicked e)"
    by (simp add: acquire_task_def acquire_new_stack_on_usdc_deduction_wrapper_def
        acquire_new_stack_on_usdc_deduction_def Let_def)
  with assms(5) show ?thesis by (auto simp: acquire_new_stack_def Let_def)
qed

theorem rejected_transaction_keeps_payment_witness:
  "db_crypto (px_db (fst (acquire_new_stack sample_texts (sample_client (Inr ())) (\<lambda>_. None) (sample_time 5) 1
     \<lparr>lg_key = (1, 3), lg_locked = True\<rparr> CHAT_COMPLETIONS_PATH 10 sample_node sample_proxy))) =
   [\<lparr>cb_user_id = 1, usdc_balance = 80\<rparr>]"
proof -
  obtain q r where run: "acquire_new_stack sample_texts (sample_client (Inr ())) (\<lambda>_. None) (sample_time 5) 1
     \<lparr>lg_key = (1, 3), lg_locked = True\<rparr> CHAT_COMPLETIONS_PATH 10 sample_node sample_proxy = (q, r)" by fastforce
  have d: "deduct_from_usdc (db_crypto (px_db sample_proxy)) 1 20 = Inr [\<lparr>cb_user_id = 1, usdc_balance = 80\<rparr>]"
    by code_simp
  from rejected_transaction_keeps_payment [OF sample_proxy_alone sample_crypto_inv sample_outcomes(2) _ run] d run
  show ?thesis by (simp add: sample_node_cost)
qed

text \<open>
  Selecting a node leaves the map of buying locks as it was on every path: success, error,
  refusal and a panic in the spawned task, so that no user is locked out of buying.
\<close>

theorem purchase_frees_its_lock:
  "px_buy_locks (fst (get_selected_node tx cl td now st uid model ep n p)) = px_buy_locks p"
  by (rule get_selected_node_locks)



lemma stacks_for_task_alone:
  assumes "alone p"
  shows "try_get_stack_for_user_id tx uid tid ep n p =
    (case get_stacks_for_task (db_stacks (px_db p)) tid (as_i64 n) uid of
       Inl e \<Rightarrow> (after p (px_db p), Inl (state_failure tx ''GetStacksForTask'' ep e))
     | Inr (t, s) \<Rightarrow> (after p ((px_db p)\<lparr>db_stacks := t\<rparr>), Inr (map_option metadata_of_stack s)))"
  unfolding try_get_stack_for_user_id_def
  by (cases "get_stacks_for_task (db_stacks (px_db p)) tid (as_i64 n) uid")
    (auto simp: respond_alone [OF assms] send_reply_def)

lemma wait_finds:
  assumes "try_get_stack_for_user_id tx uid tid ep n p = (q, Inr (Some md))"
  shows "wait_for_stack MAX_STACK_WAIT_ATTEMPTS tx uid tid ep n p = (q, Inr (Some md))"
proof -
  have "MAX_STACK_WAIT_ATTEMPTS = Suc 9" by (simp add: MAX_STACK_WAIT_ATTEMPTS_def)
  show ?thesis unfolding \<open>MAX_STACK_WAIT_ATTEMPTS = Suc 9\<close> wait_for_stack.simps by (simp add: assms)
qed

text \<open>
  While another request of the same user is buying a stack for the same task, a request for
  a text, embedding or image endpoint does not buy a second one: when the user has an open
  stack for that task with enough free units, it gets the first such stack with its units
  locked on it; for every other endpoint, the lock endpoint included, it is refused with an
  error and nothing changes.
\<close>

theorem second_buyer_gets_the_stack:
  assumes "alone p" and "stacks_inv (db_stacks (px_db p))" and "units_nonneg (db_stacks (px_db p))"
    and "node_for (px_db p) model = Some node" and "px_buy_locks p (uid, cn_task_small_id node) = Some True"
    and "0 \<le> as_i64 n"
    and "List.find (\<lambda>r. stk_task_small_id r = cn_task_small_id node \<and> as_i64 n \<le> free_units r \<and> user_id r = uid \<and>
      stack_open r) (db_stacks (px_db p)) = Some s"
    and "get_cheapest_node_and_acquire_new_stack tx cl td now uid model ep n p = (q, r)"
  shows "if ep \<in> {CHAT_COMPLETIONS_PATH, COMPLETIONS_PATH, EMBEDDINGS_PATH, IMAGE_GENERATIONS_PATH}
    then r = Inr (metadata_of_stack (stack.truncate (with_locked (as_i64 n) s))) \<and>
      px_db q = (px_db p)\<lparr>db_stacks := put_row stack_small_id (with_locked (as_i64 n) s) (db_stacks (px_db p))\<rparr>
    else r = Inl (RequestError (''Unsupported endpoint: '' @ ep) ep) \<and> px_db q = px_db p"
proof -
  let ?p = "after p (px_db p)"
  have cheap: "get_cheapest_node tx model ep p = (?p, Inr node)"
    using assms(4) by (simp add: cheapest_alone [OF assms(1)] node_for_def)
  have "try_lock (px_buy_locks ?p) (uid, cn_task_small_id node) = None" using assms(5) by (simp add: try_lock_def)
  with cheap assms(8) have run: "get_stack_if_locked tx uid (cn_task_small_id node) ep n ?p = (q, r)"
    by (simp add: get_cheapest_node_and_acquire_new_stack_def)
  have alone: "alone ?p" using assms(1) by simp
  have "get_stacks_for_task (db_stacks (px_db ?p)) (cn_task_small_id node) (as_i64 n) uid =
      Inr (grant (as_i64 n) (db_stacks (px_db p)) (Some s))"
    using get_stacks_for_task_find [OF assms(2,3,6)] assms(7) by simp
  then have found: "try_get_stack_for_user_id tx uid (cn_task_small_id node) ep n ?p =
      (after ?p ((px_db p)\<lparr>db_stacks := put_row stack_small_id (with_locked (as_i64 n) s) (db_stacks (px_db p))\<rparr>),
       Inr (Some (metadata_of_stack (stack.truncate (with_locked (as_i64 n) s)))))"
    by (simp add: stacks_for_task_alone [OF alone] grant_def)
  note wait = wait_finds [OF found]
  have held: "stack_is_locked (px_buy_locks ?p) (uid, cn_task_small_id node)"
    using assms(5) by (simp add: stack_is_locked_def)
  show ?thesis
  proof (cases "ep \<in> {CHAT_COMPLETIONS_PATH, COMPLETIONS_PATH, EMBEDDINGS_PATH, IMAGE_GENERATIONS_PATH}")
    case True
    then have "get_stack_if_locked tx uid (cn_task_small_id node) ep n ?p =
        get_stack_if_locked_with_request_model tx uid (cn_task_small_id node) ep n ?p"
      by (simp add: get_stack_if_locked_def)
    with run held wait have "r = Inr (metadata_of_stack (stack.truncate (with_locked (as_i64 n) s)))"
      "px_db q = (px_db p)\<lparr>db_stacks := put_row stack_small_id (with_locked (as_i64 n) s) (db_stacks (px_db p))\<rparr>"
      by (auto simp: get_stack_if_locked_with_request_model_def)
    with True show ?thesis by simp
  next
    case False
    with run show ?thesis by (auto simp: get_stack_if_locked_def)
  qed
qed

theorem second_buyer_gets_the_stack_witness:
  "snd (get_cheapest_node_and_acquire_new_stack sample_texts (sample_client (Inr ())) (\<lambda>_. None) (sample_time 5) 5
     ''m'' NODES_CREATE_LOCK_PATH 60 (sample_proxy\<lparr>px_buy_locks := (\<lambda>_. None)((5, 3) \<mapsto> True)\<rparr>)) =
   Inl (RequestError (''Unsupported endpoint: '' @ NODES_CREATE_LOCK_PATH) NODES_CREATE_LOCK_PATH)"
proof -
  let ?p = "sample_proxy\<lparr>px_buy_locks := (\<lambda>_. None)((5, 3) \<mapsto> True)\<rparr>"
  obtain q r where run: "get_cheapest_node_and_acquire_new_stack sample_texts (sample_client (Inr ())) (\<lambda>_. None)
     (sample_time 5) 5 ''m'' NODES_CREATE_LOCK_PATH 60 ?p = (q, r)" by fastforce
  have alone: "alone ?p" by (simp add: sample_proxy_alone)
  have db: "db_stacks (px_db ?p) = sample_stacks" by (simp add: sample_proxy_db sample_db_def)
  have node: "node_for (px_db ?p) ''m'' = Some sample_node" by code_simp
  have lock: "px_buy_locks ?p (5, cn_task_small_id sample_node) = Some True" by (simp add: sample_node_def)
  have units: "as_i64 60 = 60" by (simp add: as_i64_small i64_max_def)
  have "List.find (\<lambda>r. stk_task_small_id r = cn_task_small_id sample_node \<and> 60 \<le> free_units r \<and> user_id r = 5 \<and>
      stack_open r) sample_stacks = Some (sample_stack 2 100 0)" by code_simp
  then have find: "List.find (\<lambda>r. stk_task_small_id r = cn_task_small_id sample_node \<and> as_i64 60 \<le> free_units r \<and>
      user_id r = 5 \<and> stack_open r) (db_stacks (px_db ?p)) = Some (sample_stack 2 100 0)"
    by (simp only: db units)
  have ok: "stacks_inv (db_stacks (px_db ?p))" "units_nonneg (db_stacks (px_db ?p))" "0 \<le> as_i64 60"
    by (simp_all only: db units sample_stacks_ok zero_le_numeral)
  have path: "NODES_CREATE_LOCK_PATH \<notin> {CHAT_COMPLETIONS_PATH, COMPLETIONS_PATH, EMBEDDINGS_PATH, IMAGE_GENERATIONS_PATH}"
    by (simp add: path_defs)
  show ?thesis
    using second_buyer_gets_the_stack [OF alone ok(1,2) node lock ok(3) find run]
    unfolding if_not_P [OF path] using run by simp
qed

end
