(* ===== verification/Responses.thy ===== *)
theory Responses
  imports Types ProxyErrors
begin

text \<open>
  JSON values as \<^verbatim>\<open>serde_json::Value\<close> has them and the check of a node's response,
  \<^verbatim>\<open>verify_response_hash_and_signature\<close> of \<^verbatim>\<open>atoma-proxy/src/server/handlers/mod.rs\<close>.
  Base64, the hash and the signature schemes are other crates, the fields of
  \<open>response_crates\<close>. The lemmas show what an accepted response guarantees.
\<close>

subsection \<open>JSON values\<close>

text \<open>A number is an integer or, as its text, another one.\<close>

datatype json =
    JNull
  | JBool bool
  | JInt int
  | JFloat string
  | JString string
  | JArray "json list"
  | JObject "(string \<times> json) list"

text \<open>\<^verbatim>\<open>value.get(key)\<close> and \<^verbatim>\<open>value[key]\<close>, which gives null when there is none.\<close>

fun json_get :: "json \<Rightarrow> string \<Rightarrow> json option" where
  "json_get (JObject kvs) key = map_of kvs key"
| "json_get _ key = None"

definition json_index :: "json \<Rightarrow> string \<Rightarrow> json" where
  "json_index v key = (case json_get v key of None \<Rightarrow> JNull | Some x \<Rightarrow> x)"

fun json_str :: "json \<Rightarrow> string option" where
  "json_str (JString s) = Some s"
| "json_str _ = None"

fun json_i64 :: "json \<Rightarrow> int option" where
  "json_i64 (JInt n) = (if in_i64 n then Some n else None)"
| "json_i64 _ = None"

fun json_array :: "json \<Rightarrow> json list option" where
  "json_array (JArray xs) = Some xs"
| "json_array _ = None"

fun json_remove :: "string \<Rightarrow> json \<Rightarrow> json" where
  "json_remove key (JObject kvs) = JObject (filter (\<lambda>(k, v). k \<noteq> key) kvs)"
| "json_remove key v = v"

lemma json_get_remove [simp]:
  "json_get (json_remove key v) k = (if k = key then None else json_get v k)"
  by (cases v) (auto simp: map_of_eq_None_iff, induct_tac x7, auto)

subsection \<open>The check\<close>

datatype signature_scheme = ED25519 | Secp256k1 | Secp256r1 | OtherScheme

text \<open>
  \<open>parse_signature\<close> gives the scheme, the key and the signature proper of the text;
  \<open>public_key\<close>, \<open>curve_key\<close> and \<open>curve_signature\<close> say whether bytes are well formed.
\<close>

record response_crates =
  rc_base64_decode :: "string \<Rightarrow> bytes option"
  rc_blake2b :: "string \<Rightarrow> bytes"
  rc_to_string :: "json \<Rightarrow> string"
  rc_parse_signature :: "string \<Rightarrow> string + (signature_scheme \<times> bytes \<times> bytes)"
  rc_public_key :: "signature_scheme \<Rightarrow> bytes \<Rightarrow> string + bytes"
  rc_curve_key :: "signature_scheme \<Rightarrow> bytes \<Rightarrow> string + bytes"
  rc_curve_signature :: "signature_scheme \<Rightarrow> bytes \<Rightarrow> string + bytes"
  rc_verify :: "signature_scheme \<Rightarrow> bytes \<Rightarrow> bytes \<Rightarrow> bytes \<Rightarrow> string + unit"

datatype check = Verified | Rejected atoma_proxy_error | CheckPanicked

definition bad_response :: "string \<Rightarrow> atoma_proxy_error" where
  "bad_response m = InternalError m (Some ''Invalid response from inference service'') ''verify_signature''"

definition verify_response_hash :: "response_crates \<Rightarrow> json \<Rightarrow> bytes \<Rightarrow> atoma_proxy_error + unit" where
  "verify_response_hash rc v response_hash =
     (let tmp = json_remove ''signature'' (json_remove ''response_hash'' v) in
      if rc_blake2b rc (rc_to_string rc tmp) \<noteq> response_hash
      then Inl (bad_response ''Response hash does not match'') else Inr ())"

text \<open>How each scheme words its failures.\<close>

fun verify_failure :: "signature_scheme \<Rightarrow> string \<Rightarrow> string" where
  "verify_failure ED25519 e = ''Failed to verify ed25519 signature: '' @ e"
| "verify_failure Secp256k1 e = ''Failed to verify secp256k1 signature''"
| "verify_failure Secp256r1 e = ''Failed to verify secp256r1 signature''"
| "verify_failure OtherScheme e = e"

fun scheme_name :: "signature_scheme \<Rightarrow> string" where
  "scheme_name ED25519 = ''ed25519''"
| "scheme_name Secp256k1 = ''secp256k1''"
| "scheme_name Secp256r1 = ''secp256r1''"
| "scheme_name OtherScheme = ''''"

fun curve_key_failure :: "signature_scheme \<Rightarrow> string \<Rightarrow> string" where
  "curve_key_failure ED25519 e = ''Failed to create public key: '' @ e"
| "curve_key_failure s e = ''Failed to create '' @ scheme_name s @ '' public key: '' @ e"

definition verify_with_scheme ::
  "response_crates \<Rightarrow> signature_scheme \<Rightarrow> bytes \<Rightarrow> bytes \<Rightarrow> bytes \<Rightarrow> atoma_proxy_error + unit" where
  "verify_with_scheme rc scheme public_key sig response_hash =
     (if scheme = OtherScheme then Inl (bad_response ''Currently unsupported signature scheme'')
      else
        res_bind (map_err (\<lambda>e. bad_response (curve_key_failure scheme e)) (rc_curve_key rc scheme public_key)) (\<lambda>k.
        res_bind (map_err (\<lambda>e. bad_response (''Failed to create '' @ scheme_name scheme @ '' signature: '' @ e))
          (rc_curve_signature rc scheme sig)) (\<lambda>g.
          map_err (\<lambda>e. bad_response (verify_failure scheme e)) (rc_verify rc scheme k response_hash g))))"

definition verify_signature_of ::
  "response_crates \<Rightarrow> json \<Rightarrow> bytes \<Rightarrow> atoma_proxy_error + unit" where
  "verify_signature_of rc payload response_hash =
     res_bind (ok_or (bad_response ''Missing signature in payload'') (json_str (json_index payload ''signature''))) (\<lambda>node_signature.
     res_bind (map_err (\<lambda>e. bad_response (''Failed to create signature: '' @ e)) (rc_parse_signature rc node_signature))
       (\<lambda>(scheme, key_bytes, sig).
     res_bind (map_err (\<lambda>e. bad_response (''Failed to create public key: '' @ e)) (rc_public_key rc scheme key_bytes)) (\<lambda>public_key.
       verify_with_scheme rc scheme public_key sig response_hash)))"

text \<open>A response hash that is not base64 panics: \<^verbatim>\<open>STANDARD.decode(response_hash).unwrap()\<close>.\<close>

definition verify_response_hash_and_signature :: "response_crates \<Rightarrow> json \<Rightarrow> bool \<Rightarrow> check" where
  "verify_response_hash_and_signature rc payload verify_hash =
     (case json_str (json_index payload ''response_hash'') of
        None \<Rightarrow> Rejected (bad_response ''Missing response_hash in payload'')
      | Some text \<Rightarrow>
          (case rc_base64_decode rc text of
             None \<Rightarrow> CheckPanicked
           | Some response_hash \<Rightarrow>
               (case res_bind (if verify_hash then verify_response_hash rc payload response_hash else Inr ())
                       (\<lambda>_. verify_signature_of rc payload response_hash) of
                  Inl e \<Rightarrow> Rejected e | Inr _ \<Rightarrow> Verified)))"

subsection \<open>What an accepted response guarantees\<close>

lemma verified_response:
  assumes "verify_response_hash_and_signature rc payload verify_hash = Verified"
  shows "\<exists>txt64 response_hash sig scheme key_bytes sig_bytes pk k g.
    json_get payload ''response_hash'' = Some (JString txt64) \<and>
    rc_base64_decode rc txt64 = Some response_hash \<and>
    json_get payload ''signature'' = Some (JString sig) \<and>
    rc_parse_signature rc sig = Inr (scheme, key_bytes, sig_bytes) \<and> scheme \<noteq> OtherScheme \<and>
    rc_public_key rc scheme key_bytes = Inr pk \<and> rc_curve_key rc scheme pk = Inr k \<and>
    rc_curve_signature rc scheme sig_bytes = Inr g \<and> rc_verify rc scheme k response_hash g = Inr () \<and>
    (verify_hash \<longrightarrow> rc_blake2b rc (rc_to_string rc
       (json_remove ''signature'' (json_remove ''response_hash'' payload))) = response_hash)"
proof -
  have str: "json_str (json_index payload key) = Some t \<longleftrightarrow> json_get payload key = Some (JString t)" for key t
    by (cases "json_get payload key"; cases "the (json_get payload key)") (auto simp: json_index_def)
  from assms obtain txt64 where t: "json_get payload ''response_hash'' = Some (JString txt64)"
    by (auto simp: verify_response_hash_and_signature_def str split: option.splits)
  with assms obtain h where h: "rc_base64_decode rc txt64 = Some h"
    and ok: "res_bind (if verify_hash then verify_response_hash rc payload h else Inr ())
              (\<lambda>_. verify_signature_of rc payload h) = Inr ()"
    by (auto simp: verify_response_hash_and_signature_def json_index_def split: option.splits sum.splits)
  from ok have hash: "verify_hash \<Longrightarrow> rc_blake2b rc (rc_to_string rc
       (json_remove ''signature'' (json_remove ''response_hash'' payload))) = h"
    by (auto simp: res_bind_Inr_iff verify_response_hash_def Let_def split: if_splits)
  from ok have "verify_signature_of rc payload h = Inr ()" by (auto simp: res_bind_Inr_iff)
  then obtain sig scheme kb sb pk where s: "json_get payload ''signature'' = Some (JString sig)"
    "rc_parse_signature rc sig = Inr (scheme, kb, sb)" "rc_public_key rc scheme kb = Inr pk"
    and w: "verify_with_scheme rc scheme pk sb h = Inr ()"
    by (auto simp: verify_signature_of_def res_bind_Inr_iff str)
  from w obtain k g where "scheme \<noteq> OtherScheme" "rc_curve_key rc scheme pk = Inr k"
    "rc_curve_signature rc scheme sb = Inr g" "rc_verify rc scheme k h g = Inr ()"
    by (auto simp: verify_with_scheme_def res_bind_Inr_iff split: if_splits)
  with t h s hash show ?thesis by blast
qed

subsection \<open>Properties\<close>

text \<open>
  C40. A node's response is accepted only when it carries a base64 response_hash and a
  signature under one of the supported schemes that verifies for that hash with the key the
  signature carries, and, for endpoints that are not confidential, the hash is the Blake2b
  hash of the payload without its two fields.
\<close>

theorem accepted_response_is_signed:
  assumes "verify_response_hash_and_signature rc payload verify_hash = Verified"
  shows "\<exists>txt64 response_hash sig scheme key_bytes sig_bytes pk k g.
    json_get payload ''response_hash'' = Some (JString txt64) \<and>
    rc_base64_decode rc txt64 = Some response_hash \<and>
    json_get payload ''signature'' = Some (JString sig) \<and>
    rc_parse_signature rc sig = Inr (scheme, key_bytes, sig_bytes) \<and> scheme \<noteq> OtherScheme \<and>
    rc_public_key rc scheme key_bytes = Inr pk \<and> rc_curve_key rc scheme pk = Inr k \<and>
    rc_curve_signature rc scheme sig_bytes = Inr g \<and> rc_verify rc scheme k response_hash g = Inr () \<and>
    (verify_hash \<longrightarrow> rc_blake2b rc (rc_to_string rc
       (json_remove ''signature'' (json_remove ''response_hash'' payload))) = response_hash)"
  by (rule verified_response [OF assms])

definition sample_response_crates :: response_crates where
  "sample_response_crates = \<lparr>rc_base64_decode = (\<lambda>s. Some [of_nat (length s)]),
     rc_blake2b = (\<lambda>s. [of_nat (length s)]), rc_to_string = (\<lambda>v. ''{}''),
     rc_parse_signature = (\<lambda>s. Inr (ED25519, [1], [2])), rc_public_key = (\<lambda>s b. Inr b),
     rc_curve_key = (\<lambda>s b. Inr b), rc_curve_signature = (\<lambda>s b. Inr b),
     rc_verify = (\<lambda>s k h g. if h = [2] then Inr () else Inl ''no'')\<rparr>"

definition sample_response :: json where
  "sample_response = JObject [(''response_hash'', JString ''ab''), (''signature'', JString ''s'')]"

theorem accepted_response_is_signed_witness:
  "\<exists>txt64 response_hash. json_get sample_response ''response_hash'' = Some (JString txt64) \<and>
     rc_base64_decode sample_response_crates txt64 = Some response_hash"
proof -
  have "verify_response_hash_and_signature sample_response_crates sample_response True = Verified" by code_simp
  from accepted_response_is_signed [OF this] show ?thesis by blast
qed

end
