(* ===== verification/Requests.thy ===== *)
theory Requests
  imports Billing Responses
begin

text \<open>
  The request models of \<^verbatim>\<open>atoma-proxy/src/server/handlers\<close> (\<^verbatim>\<open>chat_completions.rs\<close>,
  \<^verbatim>\<open>completions.rs\<close>, \<^verbatim>\<open>embeddings.rs\<close>, \<^verbatim>\<open>image_generations.rs\<close>): what is read from
  the JSON body of a request, and the numbers of units it may need. They are the instances
  of \<open>request_model\<close>, which \<open>Billing\<close> reserves for. The tokenizer is the crate
  \<^verbatim>\<open>tokenizers\<close>: \<open>encode tok s\<close> is its error, as it prints, or the number of ids it
  gives for \<open>s\<close>. Tokens are counted on wrapping \<^verbatim>\<open>u64\<close> values.
\<close>

subsection \<open>Reading JSON\<close>

fun json_u64 :: "json \<Rightarrow> u64 option" where
  "json_u64 (JInt n) = (if 0 \<le> n \<and> n < 2 ^ 64 then Some (word_of_int n) else None)"
| "json_u64 _ = None"

fun json_bool :: "json \<Rightarrow> bool option" where
  "json_bool (JBool b) = Some b"
| "json_bool _ = None"

definition get_str :: "json \<Rightarrow> string \<Rightarrow> string option" where
  "get_str v key = Option.bind (json_get v key) json_str"

text \<open>An option of each element, or none at all: \<^verbatim>\<open>collect::<Result<Vec<_>, _>>()\<close>.\<close>

fun all_some :: "('a \<Rightarrow> 'b option) \<Rightarrow> 'a list \<Rightarrow> 'b list option" where
  "all_some f [] = Some []"
| "all_some f (x # xs) =
     (case f x of None \<Rightarrow> None | Some y \<Rightarrow> map_option (\<lambda>ys. y # ys) (all_some f xs))"

definition DEFAULT_MAX_TOKENS :: u64 where "DEFAULT_MAX_TOKENS = 8192"

text \<open>
  \<^verbatim>\<open>authenticate_middleware\<close> writes the default into a body that is an object and names
  no limit.
\<close>

fun with_default_max_tokens :: "json \<Rightarrow> json" where
  "with_default_max_tokens (JObject kvs) =
     (if map_of kvs ''max_tokens'' = None \<and> map_of kvs ''max_completion_tokens'' = None
      then JObject (kvs @ [(''max_completion_tokens'', JInt (uint DEFAULT_MAX_TOKENS))])
      else JObject kvs)"
| "with_default_max_tokens v = v"

text \<open>
  \<^verbatim>\<open>request.get(MAX_COMPLETION_TOKENS).or_else(|| request.get(MAX_TOKENS))\<close>, as \<^verbatim>\<open>u64\<close>,
  or the default.
\<close>

definition max_tokens_of :: "json \<Rightarrow> u64" where
  "max_tokens_of request =
     (case Option.bind (case json_get request ''max_completion_tokens'' of
                          Some v \<Rightarrow> Some v | None \<Rightarrow> json_get request ''max_tokens'') json_u64 of
        Some n \<Rightarrow> n | None \<Rightarrow> DEFAULT_MAX_TOKENS)"

subsection \<open>Chat completions\<close>

text \<open>
  \<^verbatim>\<open>MessageContent\<close> and \<^verbatim>\<open>MessageContentPart\<close>. The derived deserialiser of a part tries
  its variants in order on an object; the nested struct \<^verbatim>\<open>image_url\<close> may also be a
  sequence of its fields.
\<close>

datatype content_part = TextPart string | ImagePart

datatype message_content = TextContent string | ArrayContent "content_part list"

fun optional_text :: "json \<Rightarrow> bool" where
  "optional_text JNull = True"
| "optional_text (JString s) = True"
| "optional_text _ = False"

fun image_url_ok :: "json \<Rightarrow> bool" where
  "image_url_ok (JObject kvs) =
     (get_str (JObject kvs) ''url'' \<noteq> None \<and>
      (case map_of kvs ''detail'' of None \<Rightarrow> True | Some v \<Rightarrow> optional_text v))"
| "image_url_ok (JArray [url, detail]) = (json_str url \<noteq> None \<and> optional_text detail)"
| "image_url_ok _ = False"

definition content_part_of :: "json \<Rightarrow> content_part option" where
  "content_part_of v =
     (case get_str v ''type'' of
        None \<Rightarrow> None
      | Some _ \<Rightarrow>
          (case get_str v ''text'' of
             Some t \<Rightarrow> Some (TextPart t)
           | None \<Rightarrow>
               (case json_get v ''image_url'' of
                  Some u \<Rightarrow> if image_url_ok u then Some ImagePart else None
                | None \<Rightarrow> None)))"

fun message_content_of :: "json \<Rightarrow> message_content option" where
  "message_content_of (JString s) = Some (TextContent s)"
| "message_content_of (JArray xs) = map_option ArrayContent (all_some content_part_of xs)"
| "message_content_of _ = None"

definition MESSAGE_OVERHEAD_TOKENS :: u64 where "MESSAGE_OVERHEAD_TOKENS = 3"

definition encode_failure :: "string \<Rightarrow> string \<Rightarrow> atoma_proxy_error" where
  "encode_failure endpoint e = InternalError (''Failed to encode message: '' @ e)
     (Some ''Failed to encode message using the model's tokenizer'') endpoint"

definition no_tokenizer :: "string \<Rightarrow> atoma_proxy_error" where
  "no_tokenizer endpoint = InternalError ''Tokenizer not found for current model''
     (Some ''No available tokenizer found for current model, try again later or open a ticket'') endpoint"

definition invalid_content :: atoma_proxy_error where
  "invalid_content = RequestError ''Missing or invalid message content'' CHAT_COMPLETIONS_PATH"

definition count_text_tokens ::
  "('tok \<Rightarrow> string \<Rightarrow> string + nat) \<Rightarrow> 'tok \<Rightarrow> string \<Rightarrow> string \<Rightarrow> atoma_proxy_error + u64" where
  "count_text_tokens encode tok endpoint s =
     res_bind (map_err (encode_failure endpoint) (encode tok s)) (\<lambda>n. Inr (of_nat n))"

text \<open>The loops over the parts of a message and over the messages, with the sum so far.\<close>

fun count_parts ::
  "('tok \<Rightarrow> string \<Rightarrow> string + nat) \<Rightarrow> 'tok \<Rightarrow> content_part list \<Rightarrow> u64 \<Rightarrow> atoma_proxy_error + u64" where
  "count_parts encode tok [] sum_so_far = Inr sum_so_far"
| "count_parts encode tok (TextPart s # ps) sum_so_far =
     res_bind (count_text_tokens encode tok CHAT_COMPLETIONS_PATH s)
       (\<lambda>n. count_parts encode tok ps (sum_so_far + (n + MESSAGE_OVERHEAD_TOKENS)))"
| "count_parts encode tok (ImagePart # ps) sum_so_far = count_parts encode tok ps sum_so_far"

definition count_content ::
  "('tok \<Rightarrow> string \<Rightarrow> string + nat) \<Rightarrow> 'tok \<Rightarrow> message_content \<Rightarrow> u64 \<Rightarrow> atoma_proxy_error + u64" where
  "count_content encode tok c sum_so_far =
     (case c of
        TextContent s \<Rightarrow> count_parts encode tok [TextPart s] sum_so_far
      | ArrayContent ps \<Rightarrow> if ps = [] then Inl invalid_content else count_parts encode tok ps sum_so_far)"

fun count_messages ::
  "('tok \<Rightarrow> string \<Rightarrow> string + nat) \<Rightarrow> 'tok \<Rightarrow> json list \<Rightarrow> u64 \<Rightarrow> atoma_proxy_error + u64" where
  "count_messages encode tok [] sum_so_far = Inr sum_so_far"
| "count_messages encode tok (m # ms) sum_so_far =
     res_bind (ok_or invalid_content (Option.bind (json_get m ''content'') message_content_of)) (\<lambda>c.
     res_bind (count_content encode tok c sum_so_far) (count_messages encode tok ms))"

definition chat_completions_request ::
  "('tok \<Rightarrow> string \<Rightarrow> string + nat) \<Rightarrow> json \<Rightarrow> atoma_proxy_error + 'tok request_model" where
  "chat_completions_request encode request =
     res_bind (ok_or (RequestError ''Missing or invalid 'model' field'' CHAT_COMPLETIONS_PATH)
       (get_str request ''model'')) (\<lambda>model.
     res_bind (ok_or (RequestError ''Missing or invalid 'messages' field'' CHAT_COMPLETIONS_PATH)
       (Option.bind (json_get request ''messages'') json_array)) (\<lambda>messages.
       Inr \<lparr>rm_model = model,
         rm_compute_units_estimate = (\<lambda>tokenizer.
           case tokenizer of
             None \<Rightarrow> Inl (no_tokenizer CHAT_COMPLETIONS_PATH)
           | Some tok \<Rightarrow> res_bind (count_messages encode tok messages 0)
               (\<lambda>n. Inr (n, max_tokens_of request)))\<rparr>))"

subsection \<open>Completions\<close>

text \<open>\<^verbatim>\<open>CompletionsPrompt\<close>: the first variant that fits.\<close>

datatype completions_prompt =
    SinglePrompt string
  | PromptList "string list"
  | PromptTokens "int list"
  | PromptTokenArrays "int list list"

fun json_u32 :: "json \<Rightarrow> int option" where
  "json_u32 (JInt n) = (if 0 \<le> n \<and> n < 2 ^ 32 then Some n else None)"
| "json_u32 _ = None"

fun completions_prompt_of :: "json \<Rightarrow> completions_prompt option" where
  "completions_prompt_of (JString s) = Some (SinglePrompt s)"
| "completions_prompt_of (JArray xs) =
     (case all_some json_str xs of
        Some ss \<Rightarrow> Some (PromptList ss)
      | None \<Rightarrow>
          (case all_some json_u32 xs of
             Some ns \<Rightarrow> Some (PromptTokens ns)
           | None \<Rightarrow> map_option PromptTokenArrays
               (all_some (\<lambda>v. Option.bind (json_array v) (all_some json_u32)) xs)))"
| "completions_prompt_of _ = None"

text \<open>A prompt of a list that cannot be encoded counts nothing.\<close>

definition tokens_or_0 ::
  "('tok \<Rightarrow> string \<Rightarrow> string + nat) \<Rightarrow> 'tok \<Rightarrow> string \<Rightarrow> u64" where
  "tokens_or_0 encode tok s =
     (case count_text_tokens encode tok COMPLETIONS_PATH s of Inl e \<Rightarrow> 0 | Inr n \<Rightarrow> n)"

definition tokenizer_required :: atoma_proxy_error where
  "tokenizer_required = RequestError ''Tokenizer is required for `RequestModelCompletions`'' COMPLETIONS_PATH"

fun count_prompt ::
  "(atoma_proxy_error \<Rightarrow> string) \<Rightarrow> ('tok \<Rightarrow> string \<Rightarrow> string + nat) \<Rightarrow> 'tok option \<Rightarrow> completions_prompt
    \<Rightarrow> atoma_proxy_error + u64" where
  "count_prompt show_debug encode tokenizer (SinglePrompt s) =
     res_bind (ok_or tokenizer_required tokenizer) (\<lambda>tok.
       map_err (\<lambda>e. RequestError (''Failed to count text tokens: '' @ show_debug e) COMPLETIONS_PATH)
         (count_text_tokens encode tok COMPLETIONS_PATH s))"
| "count_prompt show_debug encode tokenizer (PromptList ss) =
     res_bind (ok_or tokenizer_required tokenizer) (\<lambda>tok. Inr (sum_list (map (tokens_or_0 encode tok) ss)))"
| "count_prompt show_debug encode tokenizer (PromptTokens ns) = Inr (of_nat (length ns))"
| "count_prompt show_debug encode tokenizer (PromptTokenArrays nss) =
     Inr (sum_list (map (\<lambda>ns. of_nat (length ns)) nss))"

text \<open>\<open>show_untagged\<close> is what the deserialiser says of a prompt that fits no variant.\<close>

definition completions_request ::
  "(atoma_proxy_error \<Rightarrow> string) \<Rightarrow> string \<Rightarrow> ('tok \<Rightarrow> string \<Rightarrow> string + nat) \<Rightarrow> json
    \<Rightarrow> atoma_proxy_error + 'tok request_model" where
  "completions_request show_debug show_untagged encode request =
     res_bind (ok_or (RequestError ''Missing or invalid 'model' field for `RequestModelCompletions`'' COMPLETIONS_PATH)
       (get_str request ''model'')) (\<lambda>model.
     res_bind
       (case json_get request ''prompt'' of
          None \<Rightarrow> Inl (RequestError ''Missing or invalid 'prompt' field for `RequestModelCompletions`'' COMPLETIONS_PATH)
        | Some v \<Rightarrow> ok_or (RequestError (''Invalid 'prompt' field for `RequestModelCompletions`: '' @ show_untagged)
            COMPLETIONS_PATH) (completions_prompt_of v)) (\<lambda>prompt.
       Inr \<lparr>rm_model = model,
         rm_compute_units_estimate = (\<lambda>tokenizer.
           res_bind (count_prompt show_debug encode tokenizer prompt) (\<lambda>n. Inr (n, max_tokens_of request)))\<rparr>))"

subsection \<open>Embeddings\<close>

definition embeddings_request ::
  "('tok \<Rightarrow> string \<Rightarrow> string + nat) \<Rightarrow> json \<Rightarrow> atoma_proxy_error + 'tok request_model" where
  "embeddings_request encode request =
     res_bind (ok_or (RequestError ''Model field is required'' EMBEDDINGS_PATH) (get_str request ''model'')) (\<lambda>model.
     res_bind (ok_or (RequestError ''Input field is required'' EMBEDDINGS_PATH) (get_str request ''input'')) (\<lambda>input.
       Inr \<lparr>rm_model = model,
         rm_compute_units_estimate = (\<lambda>tokenizer.
           case tokenizer of
             None \<Rightarrow> Inl (no_tokenizer EMBEDDINGS_PATH)
           | Some tok \<Rightarrow> res_bind (map_err (\<lambda>e. InternalError (''Failed to encode input: '' @ e)
               (Some ''Failed to encode message using the model's tokenizer'') EMBEDDINGS_PATH) (encode tok input))
               (\<lambda>n. Inr (of_nat n, 0)))\<rparr>))"

subsection \<open>Images\<close>

text \<open>\<^verbatim>\<open>str::parse::<u64>\<close>: an optional plus sign and digits.\<close>

fun decimal_value :: "string \<Rightarrow> nat \<Rightarrow> nat option" where
  "decimal_value [] acc = Some acc"
| "decimal_value (c # cs) acc =
     (let d = of_char c :: nat in
      if 48 \<le> d \<and> d \<le> 57 then decimal_value cs (acc * 10 + (d - 48)) else None)"

definition parse_u64 :: "string \<Rightarrow> u64 option" where
  "parse_u64 s =
     (let digits = (case s of CHR ''+'' # t \<Rightarrow> t | _ \<Rightarrow> s) in
      if digits = [] then None
      else (case decimal_value digits 0 of
              Some n \<Rightarrow> if n < 2 ^ 64 then Some (of_nat n) else None
            | None \<Rightarrow> None))"

text \<open>\<^verbatim>\<open>size.split('x')\<close>\<close>

fun split_at :: "char \<Rightarrow> string \<Rightarrow> string list" where
  "split_at c [] = [[]]"
| "split_at c (a # s) =
     (if a = c then [] # split_at c s
      else (case split_at c s of p # ps \<Rightarrow> (a # p) # ps | [] \<Rightarrow> [[a]]))"

definition image_units :: "u64 \<Rightarrow> string \<Rightarrow> atoma_proxy_error + u64" where
  "image_units n dims =
     (case List.map_filter parse_u64 (split_at (CHR ''x'') dims) of
        [width, height] \<Rightarrow> Inr (n * width * height)
      | _ \<Rightarrow> Inl (RequestError (''Invalid size format: '' @ dims) IMAGE_GENERATIONS_PATH))"

definition image_generations_request :: "json \<Rightarrow> atoma_proxy_error + 'tok request_model" where
  "image_generations_request request =
     res_bind (ok_or (RequestError ''Model field   is required'' IMAGE_GENERATIONS_PATH) (get_str request ''model'')) (\<lambda>model.
     res_bind (ok_or (RequestError ''N field is required'' IMAGE_GENERATIONS_PATH)
       (Option.bind (json_get request ''n'') json_u64)) (\<lambda>n.
     res_bind (ok_or (RequestError ''Size field is required'' IMAGE_GENERATIONS_PATH) (get_str request ''size'')) (\<lambda>dims.
       Inr \<lparr>rm_model = model,
         rm_compute_units_estimate = (\<lambda>tokenizer. res_bind (image_units n dims) (\<lambda>m. Inr (0, m)))\<rparr>)))"

subsection \<open>The request of an endpoint\<close>

text \<open>
  What the models take from the crates: the tokenizer, and how the errors print with
  \<^verbatim>\<open>{}\<close> and \<^verbatim>\<open>{:?}\<close>.
\<close>

record 'tok request_crates =
  rq_encode :: "'tok \<Rightarrow> string \<Rightarrow> string + nat"
  rq_show_error :: "atoma_proxy_error \<Rightarrow> string"
  rq_show_debug :: "atoma_proxy_error \<Rightarrow> string"
  rq_show_untagged :: string

definition bad_body :: "'tok request_crates \<Rightarrow> string \<Rightarrow> string \<Rightarrow> atoma_proxy_error \<Rightarrow> atoma_proxy_error" where
  "bad_body rc what endpoint e =
     RequestError (''Failed to parse body as '' @ what @ '' request model: '' @ rq_show_error rc e) endpoint"

definition request_model_of ::
  "'tok request_crates \<Rightarrow> json \<Rightarrow> string \<Rightarrow> atoma_proxy_error + 'tok request_model" where
  "request_model_of rc body endpoint =
     (if endpoint = COMPLETIONS_PATH then
        map_err (bad_body rc ''completions'' endpoint)
          (completions_request (rq_show_debug rc) (rq_show_untagged rc) (rq_encode rc) body)
      else if endpoint = CHAT_COMPLETIONS_PATH then
        map_err (bad_body rc ''chat completions'' endpoint) (chat_completions_request (rq_encode rc) body)
      else if endpoint = EMBEDDINGS_PATH then
        map_err (bad_body rc ''embeddings'' endpoint) (embeddings_request (rq_encode rc) body)
      else if endpoint = IMAGE_GENERATIONS_PATH then
        map_err (bad_body rc ''image generations'' endpoint) (image_generations_request body)
      else Inl (InternalError (''Invalid endpoint for current middleware, this should never happen: '' @ endpoint)
        None endpoint))"

definition handle_authenticate_and_lock_compute_units ::
  "texts \<Rightarrow> 'tok request_crates \<Rightarrow> (string \<times> 'tok) list \<Rightarrow> header_map \<Rightarrow> json \<Rightarrow> string \<Rightarrow> ('f, 'm) proxy
    \<Rightarrow> ('f, 'm) proxy \<times> (atoma_proxy_error + stack_metadata)" where
  "handle_authenticate_and_lock_compute_units tx rc models headers body endpoint p =
     (case request_model_of rc body endpoint of
        Inl e \<Rightarrow> (p, Inl e)
      | Inr rm \<Rightarrow> authenticate_and_lock_compute_units tx models headers rm endpoint p)"

subsection \<open>What the estimates are\<close>

lemma all_some_iff: "all_some f xs = Some ys \<longleftrightarrow> map f xs = map Some ys"
  by (induction xs arbitrary: ys) (auto split: option.splits simp: map_eq_Cons_conv)

text \<open>The texts of a content, and what one of them counts.\<close>

fun part_texts :: "content_part \<Rightarrow> string list" where
  "part_texts (TextPart s) = [s]"
| "part_texts ImagePart = []"

fun content_texts :: "message_content \<Rightarrow> string list" where
  "content_texts (TextContent s) = [s]"
| "content_texts (ArrayContent ps) = concat (map part_texts ps)"

definition text_units :: "('tok \<Rightarrow> string \<Rightarrow> string + nat) \<Rightarrow> 'tok \<Rightarrow> string list \<Rightarrow> nat" where
  "text_units encode tok ss = sum_list (map (\<lambda>s. projr (encode tok s) + 3) ss)"

lemma text_units_append [simp]:
  "text_units encode tok (ss @ ts) = text_units encode tok ss + text_units encode tok ts"
  by (simp add: text_units_def)

lemma count_parts_Inr:
  "count_parts encode tok ps a = Inr b \<Longrightarrow>
   list_all (\<lambda>s. \<not> isl (encode tok s)) (concat (map part_texts ps)) \<and>
   b = a + of_nat (text_units encode tok (concat (map part_texts ps)))"
  by (induction encode tok ps a rule: count_parts.induct)
    (auto simp: res_bind_Inr_iff count_text_tokens_def text_units_def MESSAGE_OVERHEAD_TOKENS_def add.assoc)

lemma count_content_Inr:
  assumes "count_content encode tok c a = Inr b"
  shows "c \<noteq> ArrayContent [] \<and> list_all (\<lambda>s. \<not> isl (encode tok s)) (content_texts c) \<and>
    b = a + of_nat (text_units encode tok (content_texts c))"
  using assms count_parts_Inr [of encode tok "[TextPart s]" a b for s] count_parts_Inr [of encode tok _ a b]
  by (cases c) (auto simp: count_content_def split: if_splits)

lemma count_messages_Inr:
  "count_messages encode tok ms a = Inr b \<Longrightarrow>
   \<exists>cs. map (\<lambda>m. Option.bind (json_get m ''content'') message_content_of) ms = map Some cs \<and>
     ArrayContent [] \<notin> set cs \<and>
     list_all (\<lambda>s. \<not> isl (encode tok s)) (concat (map content_texts cs)) \<and>
     b = a + of_nat (text_units encode tok (concat (map content_texts cs)))"
proof (induction ms arbitrary: a)
  case Nil
  then show ?case by (simp add: text_units_def)
next
  case (Cons m ms)
  then obtain c b' where c: "Option.bind (json_get m ''content'') message_content_of = Some c"
    and first: "count_content encode tok c a = Inr b'" and rest: "count_messages encode tok ms b' = Inr b"
    by (auto simp: res_bind_Inr_iff)
  from Cons.IH [OF rest] obtain cs where "map (\<lambda>m. Option.bind (json_get m ''content'') message_content_of) ms = map Some cs"
    "ArrayContent [] \<notin> set cs" "list_all (\<lambda>s. \<not> isl (encode tok s)) (concat (map content_texts cs))"
    "b = b' + of_nat (text_units encode tok (concat (map content_texts cs)))" by blast
  with c count_content_Inr [OF first] show ?case by (intro exI [of _ "c # cs"]) auto
qed

text \<open>A decimal number is read back.\<close>

lemma decimal_value_append:
  "decimal_value (s @ t) a = Option.bind (decimal_value s a) (decimal_value t)"
  by (induction s arbitrary: a) (auto simp: Let_def)

lemma decimal_value_digit: "d < 10 \<Longrightarrow> decimal_value [char_of (48 + d)] a = Some (a * 10 + d)"
  by simp

lemma decimal_value_decimal: "\<exists>k. decimal_value (decimal n) a = Some (a * 10 ^ k + n) \<and> 0 < k"
proof (induction n arbitrary: a rule: decimal.induct)
  case (1 n)
  show ?case
  proof (cases "n < 10")
    case True
    then show ?thesis by (intro exI [of _ 1]) (subst decimal.simps, simp add: decimal_value_digit)
  next
    case False
    from "1.IH" [OF False, of a] obtain k where "decimal_value (decimal (n div 10)) a = Some (a * 10 ^ k + n div 10)"
      by blast
    then have "decimal_value (decimal n) a = Some ((a * 10 ^ k + n div 10) * 10 + n mod 10)"
      using False by (subst decimal.simps) (simp add: decimal_value_append decimal_value_digit)
    then show ?thesis by (intro exI [of _ "Suc k"]) (simp add: algebra_simps)
  qed
qed

lemma decimal_digits: "c \<in> set (decimal n) \<Longrightarrow> \<exists>d::nat. d < 10 \<and> c = char_of (48 + d)"
proof (induction n rule: decimal.induct)
  case (1 n)
  show ?case
  proof (cases "n < 10")
    case True
    then show ?thesis using "1.prems" by (subst (asm) decimal.simps) auto
  next
    case False
    then have "c \<in> set (decimal (n div 10)) \<or> c = char_of (48 + n mod 10)"
      using "1.prems" by (subst (asm) decimal.simps) auto
    with "1.IH" [OF False] show ?thesis by (auto intro: exI [of _ "n mod 10"])
  qed
qed

lemma decimal_not_Nil: "decimal n \<noteq> []"
  by (subst decimal.simps) simp

lemma decimal_no_sign:
  assumes "c \<in> set (decimal n)"
  shows "c \<noteq> CHR ''+'' \<and> c \<noteq> CHR ''x''"
proof -
  obtain d :: nat where "d < 10" and c: "c = char_of (48 + d)" using decimal_digits [OF assms] by blast
  then have "of_char c = (48 + d :: nat)" by simp
  with \<open>d < 10\<close> have "of_char c \<noteq> (43 :: nat)" "of_char c \<noteq> (120 :: nat)" by simp_all
  then show ?thesis by auto
qed

lemma parse_u64_decimal: "n < 2 ^ 64 \<Longrightarrow> parse_u64 (decimal n) = Some (of_nat n)"
proof -
  assume n: "n < 2 ^ 64"
  obtain c s where d: "decimal n = c # s" using decimal_not_Nil by (cases "decimal n") auto
  then have "c \<noteq> CHR ''+''" using decimal_no_sign [of c n] by simp
  then have "(case decimal n of CHR ''+'' # t \<Rightarrow> t | _ \<Rightarrow> decimal n) = decimal n"
    unfolding d by (auto split: char.splits bool.splits)
  moreover have "decimal_value (decimal n) 0 = Some n" using decimal_value_decimal [of n 0] by auto
  ultimately show ?thesis using n by (simp add: parse_u64_def decimal_not_Nil Let_def del: of_nat_mult)
qed

lemma split_at_absent: "c \<notin> set s \<Longrightarrow> split_at c s = [s]"
  by (induction s) auto

lemma split_at_present: "c \<notin> set s \<Longrightarrow> split_at c (s @ c # t) = s # split_at c t"
  by (induction s) auto

lemma image_units_of_size:
  assumes "w < 2 ^ 64" and "h < 2 ^ 64"
  shows "image_units n (decimal w @ ''x'' @ decimal h) = Inr (n * of_nat w * of_nat h)"
proof -
  have "CHR ''x'' \<notin> set (decimal k)" for k using decimal_no_sign by blast
  then have "split_at (CHR ''x'') (decimal w @ ''x'' @ decimal h) = [decimal w, decimal h]"
    by (simp add: split_at_present split_at_absent)
  then show ?thesis using assms by (simp add: image_units_def map_filter_simps parse_u64_decimal)
qed

subsection \<open>A limit that is too large\<close>

text \<open>A limit near 2 ^ 64 is a negative number of units for the reservation.\<close>

lemma uint_word64: "0 \<le> x \<Longrightarrow> x < 2 ^ 64 \<Longrightarrow> uint (word_of_int x :: u64) = x"
  by (simp add: uint_word_of_int mod_pos_pos_trivial)

lemma as_i64_high: "0 < k \<Longrightarrow> k \<le> 2 ^ 63 \<Longrightarrow> as_i64 (word_of_int (2 ^ 64 - k)) = - k"
proof -
  assume k: "0 < k" "k \<le> 2 ^ 63"
  then have "uint (word_of_int (2 ^ 64 - k) :: u64) = 2 ^ 64 - k"
    by (intro uint_word64) simp_all
  moreover have "wrap_i64 (2 ^ 64 - k) = - k"
  proof -
    have "2 ^ 64 - k + 9223372036854775808 = (9223372036854775808 - k) + 18446744073709551616" by simp
    then have "(2 ^ 64 - k + 9223372036854775808) mod 18446744073709551616 = 9223372036854775808 - k"
      using k by (simp only: mod_add_self2) (simp add: mod_pos_pos_trivial)
    then show ?thesis by (simp add: wrap_i64_def)
  qed
  ultimately show ?thesis by (simp add: as_i64_def)
qed

lemma fiat_locked_amount_negative:
  assumes "as_i64 n = - k" and "0 < k" and "0 < price" and "k * price \<le> i64_max"
  shows "fiat_locked_amount n price = - (k * price div ONE_MILLION)"
proof -
  have "0 \<le> k * price" using assms by simp
  then have "in_i64 (- (k * price))" using assms(4) by (simp add: i64_bounds)
  then have "i64_mul (- k) price = - (k * price)" by (simp add: i64_mul_def wrap_i64_id)
  moreover have "- (k * price) sdiv ONE_MILLION = - (k * price div ONE_MILLION)"
    using assms(2,3) by (simp add: signed_divide_int_def ONE_MILLION_def)
  moreover have "in_i64 (- (k * price div ONE_MILLION))"
  proof -
    have "0 \<le> k * price div ONE_MILLION" "k * price div ONE_MILLION \<le> k * price"
      using \<open>0 \<le> k * price\<close> by (simp_all add: ONE_MILLION_def)
    with assms(4) show ?thesis by (simp add: i64_bounds)
  qed
  ultimately show ?thesis using assms(1) by (simp add: fiat_locked_amount_def i64_div_def wrap_i64_id)
qed

lemma uint_word128: "uint (word_of_int x :: u128) = x mod 2 ^ 128"
  by (simp add: uint_word_of_int)

lemma fiat_amount_negative:
  assumes "0 < k" and "0 < price" and "k * price \<le> i64_max"
  shows "fiat_amount (- k) price = None"
proof -
  have kp: "0 < k * price" using assms by simp
  have "as_u128 (- k) * as_u128 price = word_of_int (- (k * price))"
    by (simp add: as_u128_def)
  moreover have "uint (word_of_int (- (k * price)) :: u128) = 2 ^ 128 - k * price"
  proof -
    have "(- (k * price)) mod 2 ^ 128 = 2 ^ 128 - k * price"
      using kp assms by (subst zmod_zminus1_eq_if) (simp add: mod_pos_pos_trivial i64_max_def)
    then show ?thesis by (simp only: uint_word128)
  qed
  moreover have "uint (as_u128 ONE_MILLION) = ONE_MILLION"
    by (rule uint_as_u128) (simp_all add: ONE_MILLION_def i64_max_def)
  ultimately have "uint (as_u128 (- k) * as_u128 price div as_u128 ONE_MILLION) = (2 ^ 128 - k * price) div ONE_MILLION"
    by (simp add: uint_div_distrib)
  moreover have "(2 ^ 128 - i64_max) div ONE_MILLION \<le> (2 ^ 128 - k * price) div ONE_MILLION"
    using assms(3) by (intro zdiv_mono1) (simp_all add: ONE_MILLION_def)
  ultimately show ?thesis by (simp add: fiat_amount_def try_i64_def i64_max_def ONE_MILLION_def)
qed

lemma chat_request_limit:
  "chat_completions_request encode body = Inr rm \<Longrightarrow> rm_compute_units_estimate rm tok = Inr (n, m) \<Longrightarrow>
   m = max_tokens_of body"
  by (auto simp: chat_completions_request_def res_bind_Inr_iff split: option.splits)

lemma reserved_held:
  assumes "fiat_inv (db_fiat d)" and "reserved d uid n m d' md"
  shows "fiat_num fiat_held (db_fiat d') uid = fiat_num fiat_held (db_fiat d) uid +
    fiat_locked_amount n (sm_price_per_one_million_input_compute_units md) +
    fiat_locked_amount m (sm_price_per_one_million_output_compute_units md)"
proof -
  have "reserve_fiat uid (fiat_locked_amount n (sm_price_per_one_million_input_compute_units md),
      fiat_locked_amount m (sm_price_per_one_million_output_compute_units md)) (db_fiat d) = Some (db_fiat d')"
    using assms(2) by (auto simp: reserved_def reserve_fiat_iff)
  from fiat_ledger.reserve_held [OF assms(1) this, of uid] show ?thesis by simp
qed

subsection \<open>Properties\<close>

theorem chat_estimate_is_sum_of_texts:
  assumes "chat_completions_request encode body = Inr rm"
    and "rm_compute_units_estimate rm (Some tok) = Inr (n, m)"
  shows "\<exists>messages cs. json_get body ''messages'' = Some (JArray messages) \<and>
    map (\<lambda>v. Option.bind (json_get v ''content'') message_content_of) messages = map Some cs \<and>
    ArrayContent [] \<notin> set cs \<and>
    list_all (\<lambda>s. \<not> isl (encode tok s)) (concat (map content_texts cs)) \<and>
    n = of_nat (text_units encode tok (concat (map content_texts cs))) \<and> m = max_tokens_of body"
proof -
  have array: "json_array v = Some xs \<longleftrightarrow> v = JArray xs" for v xs by (cases v) auto
  from assms obtain messages where ms: "json_get body ''messages'' = Some (JArray messages)"
    and count: "count_messages encode tok messages 0 = Inr n"
    by (auto simp: chat_completions_request_def res_bind_Inr_iff bind_eq_Some_conv array)
  from count_messages_Inr [OF count] ms chat_request_limit [OF assms] show ?thesis by auto
qed

definition sample_chat_body :: "int \<Rightarrow> json" where
  "sample_chat_body limit = JObject [(''model'', JString ''m''),
     (''messages'', JArray [JObject [(''content'', JString ''hi'')],
        JObject [(''content'', JArray [JObject [(''type'', JString ''text''), (''text'', JString ''you'')]])]]),
     (''max_completion_tokens'', JInt limit)]"

definition sample_request_crates :: "unit request_crates" where
  "sample_request_crates = \<lparr>rq_encode = (\<lambda>t s. Inr (length s)), rq_show_error = (\<lambda>e. ''''),
     rq_show_debug = (\<lambda>e. ''''), rq_show_untagged = ''''\<rparr>"

theorem chat_estimate_is_sum_of_texts_witness:
  "\<exists>messages cs. json_get (sample_chat_body 7) ''messages'' = Some (JArray messages) \<and>
    map (\<lambda>v. Option.bind (json_get v ''content'') message_content_of) messages = map Some cs \<and>
    11 = (of_nat (text_units (rq_encode sample_request_crates) () (concat (map content_texts cs))) :: u64)"
proof -
  let ?rm = "chat_completions_request (rq_encode sample_request_crates) (sample_chat_body 7)"
  have "\<not> isl ?rm" by code_simp
  then obtain rm where rm: "?rm = Inr rm" by (cases ?rm) auto
  have "rm_compute_units_estimate (projr ?rm) (Some ()) = Inr (11, 7)" by code_simp
  then have "rm_compute_units_estimate rm (Some ()) = Inr (11, 7)" by (simp add: rm)
  from chat_estimate_is_sum_of_texts [OF rm this] show ?thesis by blast
qed

text \<open>
  The size that is written as width, x and height is read back: n images of that size are
  estimated at n times width times height units, which wraps around at 2^64.
\<close>

theorem image_size_is_read_back:
  assumes "w < 2 ^ 64" and "h < 2 ^ 64"
  shows "image_units n (decimal w @ ''x'' @ decimal h) = Inr (n * of_nat w * of_nat h) \<and>
    uint (n * of_nat w * of_nat h) = (uint n * int w * int h) mod 2 ^ 64"
proof -
  have "uint (of_nat w :: u64) = int w" "uint (of_nat h :: u64) = int h"
    using uint_word64 [of "int w"] uint_word64 [of "int h"] assms by simp_all
  then show ?thesis
    using image_units_of_size [OF assms, of n] by (simp add: uint_word_ariths mod_simps)
qed

theorem image_size_is_read_back_witness:
  "image_units 2 (decimal 1024 @ ''x'' @ decimal 768) = Inr (2 * of_nat 1024 * of_nat 768)"
  using image_size_is_read_back [of 1024 768 2] by simp

theorem default_limit_is_the_estimate:
  "max_tokens_of (with_default_max_tokens body) = max_tokens_of body"
  by (cases body) (auto simp: max_tokens_of_def uint_word64 DEFAULT_MAX_TOKENS_def split: option.splits)

text \<open>
  C28. A chat request with max_completion_tokens of 2^64 - k is let through and reserves a
  negative amount for its output, so that the user's held amount falls by the price of k
  units, and no later message to settle or release this reservation can be computed.
\<close>

theorem huge_limit_grants_credit:
  assumes "alone p" and "db_inv (px_db p)"
    and "handle_authenticate_and_lock_compute_units tx rc models headers body CHAT_COMPLETIONS_PATH p = (q, Inr md)"
    and "json_get body ''max_completion_tokens'' = Some (JInt (2 ^ 64 - k))"
    and "0 < k" and "k \<le> 2 ^ 63" and "op = sm_price_per_one_million_output_compute_units md"
    and "0 < op" and "k * op \<le> i64_max"
  shows "fiat_num fiat_held (db_fiat (px_db q)) (sm_user_id md) =
      fiat_num fiat_held (db_fiat (px_db p)) (sm_user_id md) +
      fiat_locked_amount (sm_num_input_tokens md) (sm_price_per_one_million_input_compute_units md) -
      k * op div ONE_MILLION \<and>
    (\<forall>chan ei i output ip model ep. isl (update_state_manager_fiat chan (sm_user_id md) ei i
       (as_i64 (sm_max_output_tokens md)) output ip op model ep))"
proof -
  obtain rm where rm: "chat_completions_request (rq_encode rc) body = Inr rm"
    and auth: "authenticate_and_lock_compute_units tx models headers rm CHAT_COMPLETIONS_PATH p = (q, Inr md)"
    using assms(3) by (auto simp: handle_authenticate_and_lock_compute_units_def request_model_of_def
        path_defs split: sum.splits)
  from authenticate_alone [OF assms(1,2) auth] obtain row now n m where
    est: "estimate_request models rm CHAT_COMPLETIONS_PATH = Inr (n, m)"
    and res: "reserved (token_used row now (px_db p)) (sm_user_id md) n m (px_db q) md" by auto
  from est chat_request_limit [OF rm] have "m = max_tokens_of body"
    by (auto simp: estimate_request_def path_defs res_bind_Inr_iff)
  then have "m = word_of_int (2 ^ 64 - k)" using assms(4-6) by (simp add: max_tokens_of_def)
  with as_i64_high [OF assms(5,6)] have m: "as_i64 m = - k" by (simp only:)
  have "fiat_inv (db_fiat (token_used row now (px_db p)))" using assms(2) by (simp add: db_inv_def)
  from reserved_held [OF this res] fiat_locked_amount_negative [OF m assms(5,8,9)] assms(7) res
  show ?thesis using fiat_amount_negative [OF assms(5,8,9)] m
    by (auto simp: reserved_def update_state_manager_fiat_def fiat_amount_or_def isl_def
        res_bind_Inl_iff split: sum.split)
qed

definition sample_credit :: "(int, unit) proxy \<times> (atoma_proxy_error + stack_metadata)" where
  "sample_credit = handle_authenticate_and_lock_compute_units sample_texts sample_request_crates [(''m'', ())]
     sample_headers (sample_chat_body (2 ^ 64 - 2000000)) CHAT_COMPLETIONS_PATH sample_proxy"

lemma sample_credit_granted:
  "\<not> isl (snd sample_credit)" "sm_user_id (projr (snd sample_credit)) = 1"
  "sm_price_per_one_million_output_compute_units (projr (snd sample_credit)) = 20"
  "fiat_locked_amount (sm_num_input_tokens (projr (snd sample_credit)))
     (sm_price_per_one_million_input_compute_units (projr (snd sample_credit))) = 0"
  by code_simp+

theorem huge_limit_grants_credit_witness:
  "fiat_num fiat_held (db_fiat (px_db (fst sample_credit))) 1 = fiat_num fiat_held sample_fiat 1 - 40"
proof -
  obtain md where "snd sample_credit = Inr md" using sample_credit_granted(1) by (cases "snd sample_credit") auto
  then have run: "sample_credit = (fst sample_credit, Inr md)" by (metis prod.collapse)
  have body: "json_get (sample_chat_body (2 ^ 64 - 2000000)) ''max_completion_tokens'' = Some (JInt (2 ^ 64 - 2000000))"
    by (simp add: sample_chat_body_def)
  have "db_inv (px_db sample_proxy)" by (simp add: sample_proxy_db sample_db_inv)
  from huge_limit_grants_credit [OF sample_proxy_alone this run [unfolded sample_credit_def] body, of 20,
      folded sample_credit_def, THEN conjunct1]
  have "fiat_num fiat_held (db_fiat (px_db (fst sample_credit))) 1 = fiat_num fiat_held (db_fiat (px_db sample_proxy)) 1 - 40"
    using sample_credit_granted(2-4) \<open>snd sample_credit = Inr md\<close>
    by (simp add: i64_max_def ONE_MILLION_def)
  then show ?thesis by (simp add: sample_proxy_db sample_db_def)
qed

end
