(* ===== verification/Streamer.thy ===== *)
theory Streamer
  imports Events Responses Endpoints
begin

text \<open>
  \<^verbatim>\<open>atoma-proxy/src/server/streamer.rs\<close>. A \<open>streamer\<close> turns the byte chunks of a node
  into events for the client, remembers the usage the node reports and settles the request
  with the state manager: in \<open>handle_final_chunk\<close> when the node says it is done, in
  \<open>drop_streamer\<close> otherwise. Timers and metrics only observe and are left out; the stream
  from the node is the sequence of the results of polling it. The lemmas show that a
  request is settled exactly once and for what was reserved, and what happens to chunks
  that are cut in the middle.
\<close>

subsection \<open>State\<close>

datatype stream_status = NotStarted | Started | Completed | Failed string

record streamer =
  st_status :: stream_status
  st_estimated_input_tokens :: int
  st_estimated_output_tokens :: int
  st_input_price :: int
  st_output_price :: int
  st_stack_small_id :: "int option"
  st_user_id :: int
  st_model_name :: string
  st_endpoint :: string
  st_chunk_buffer :: string
  st_keep_alive_pos :: nat
  st_is_final_chunk_handled :: bool
  st_num_generated_tokens :: int
  st_usage :: "json option"

definition new_streamer ::
  "int option \<Rightarrow> int \<Rightarrow> int \<Rightarrow> int \<Rightarrow> int \<Rightarrow> int \<Rightarrow> string \<Rightarrow> string \<Rightarrow> streamer" where
  "new_streamer sid est_input est_output input_price output_price uid model endpoint = \<lparr>
     st_status = NotStarted,
     st_estimated_input_tokens = est_input,
     st_estimated_output_tokens = est_output,
     st_input_price = input_price,
     st_output_price = output_price,
     st_stack_small_id = sid,
     st_user_id = uid,
     st_model_name = model,
     st_endpoint = endpoint,
     st_chunk_buffer = [],
     st_keep_alive_pos = 0,
     st_is_final_chunk_handled = False,
     st_num_generated_tokens = 0,
     st_usage = None\<rparr>"

text \<open>The result of polling the node's stream, and of polling the streamer.\<close>

datatype upstream = UpPending | UpChunk string | UpError string | UpEnd

datatype poll = Pending | Item json | StreamError string | End | PollPanicked

text \<open>
  What the streamer calls: the JSON parser, which says of an error whether the text ended
  too early and how the error prints; the check of \<open>Responses\<close>; whether a value can be
  written as the data of an event; and how errors print. \<open>se_chan\<close> is the channel to the state manager.
\<close>

record stream_env =
  se_parse :: "string \<Rightarrow> (bool \<times> string) + json"
  se_verify :: "json \<Rightarrow> bool \<Rightarrow> check"
  se_event_ok :: "json \<Rightarrow> string + unit"
  se_show_error :: "atoma_proxy_error \<Rightarrow> string"
  se_show_utf8_error :: "string \<Rightarrow> string"
  se_chan :: "string option"

subsection \<open>UTF-8\<close>

text \<open>A chunk is a sequence of bytes. \<^verbatim>\<open>std::str::from_utf8\<close> accepts well-formed UTF-8.\<close>

definition continuation :: "nat \<Rightarrow> bool" where
  "continuation b \<longleftrightarrow> 128 \<le> b \<and> b < 192"

fun utf8_ok :: "nat list \<Rightarrow> bool" where
  "utf8_ok [] = True"
| "utf8_ok (a # bs) =
     (if a < 128 then utf8_ok bs
      else if 194 \<le> a \<and> a < 224 then
        (case bs of b # cs \<Rightarrow> continuation b \<and> utf8_ok cs | [] \<Rightarrow> False)
      else if 224 \<le> a \<and> a < 240 then
        (case bs of b # c # ds \<Rightarrow> continuation b \<and> (a = 224 \<longrightarrow> 160 \<le> b) \<and> (a = 237 \<longrightarrow> b < 160) \<and>
            continuation c \<and> utf8_ok ds | _ \<Rightarrow> False)
      else if 240 \<le> a \<and> a < 245 then
        (case bs of b # c # d # es \<Rightarrow> continuation b \<and> (a = 240 \<longrightarrow> 144 \<le> b) \<and> (a = 244 \<longrightarrow> b < 144) \<and>
            continuation c \<and> continuation d \<and> utf8_ok es | _ \<Rightarrow> False)
      else False)"

definition from_utf8_ok :: "string \<Rightarrow> bool" where
  "from_utf8_ok s = utf8_ok (map of_char s)"

subsection \<open>Settling a request\<close>

definition settle_request ::
  "stream_env \<Rightarrow> streamer \<Rightarrow> int \<Rightarrow> int \<Rightarrow> int \<Rightarrow> atoma_proxy_error + 'f state_manager_event" where
  "settle_request env s total_tokens input_tokens output_tokens =
     (case st_stack_small_id s of
        Some sid \<Rightarrow>
          update_state_manager (se_chan env) sid
            (i64_add (st_estimated_input_tokens s) (st_estimated_output_tokens s)) total_tokens (st_endpoint s)
      | None \<Rightarrow>
          update_state_manager_fiat (se_chan env) (st_user_id s) (st_estimated_input_tokens s) input_tokens
            (st_estimated_output_tokens s) output_tokens (st_input_price s) (st_output_price s)
            (st_model_name s) (st_endpoint s))"

definition usage_field :: "streamer \<Rightarrow> string \<Rightarrow> string \<Rightarrow> string + int" where
  "usage_field s key what =
     ok_or (''Error getting '' @ what @ '' tokens from usage'')
       (Option.bind (Option.bind (st_usage s) (\<lambda>u. json_get u key)) json_i64)"

definition settle_error :: "stream_env \<Rightarrow> streamer \<Rightarrow> atoma_proxy_error \<Rightarrow> string" where
  "settle_error env s e =
     (case st_stack_small_id s of
        Some _ \<Rightarrow> ''Error updating stack num tokens: '' @ se_show_error env e
      | None \<Rightarrow> ''Error updating fiat num tokens: '' @ se_show_error env e)"

text \<open>The streamer after the final chunk, what it sent, and an error.\<close>

definition handle_final_chunk ::
  "stream_env \<Rightarrow> streamer \<Rightarrow> streamer \<times> 'f state_manager_event list \<times> (string + unit)" where
  "handle_final_chunk env s =
     (case res_bind (usage_field s ''prompt_tokens'' ''prompt'') (\<lambda>input.
            res_bind (usage_field s ''completion_tokens'' ''completion'') (\<lambda>output.
            res_bind (usage_field s ''total_tokens'' ''total'') (\<lambda>total.
              map_err (settle_error env s) (settle_request env s total input output)))) of
        Inl e \<Rightarrow> (s, [], Inl e)
      | Inr ev \<Rightarrow> (s\<lparr>st_is_final_chunk_handled := True\<rparr>, [ev], Inr ()))"

definition drop_streamer :: "stream_env \<Rightarrow> streamer \<Rightarrow> 'f state_manager_event list" where
  "drop_streamer env s =
     (if st_is_final_chunk_handled s then []
      else (case settle_request env s
              (i64_add (st_estimated_input_tokens s) (st_num_generated_tokens s))
              (st_estimated_input_tokens s) (st_num_generated_tokens s) of
              Inl e \<Rightarrow> [] | Inr ev \<Rightarrow> [ev]))"

subsection \<open>Polling\<close>

definition DONE_CHUNK :: string where "DONE_CHUNK = ''[DONE]''"
definition DATA_PREFIX :: string where "DATA_PREFIX = ''data: ''"

definition KEEP_ALIVE_CHUNK :: string where
  "KEEP_ALIVE_CHUNK = '': keep-alive'' @ [CHR 0x0A, CHR 0x0A]"

text \<open>\<^verbatim>\<open>chunk_str.strip_prefix(DATA_PREFIX).unwrap_or(chunk_str)\<close>\<close>

definition strip_data :: "string \<Rightarrow> string" where
  "strip_data s = (case strip_prefix DATA_PREFIX s of None \<Rightarrow> s | Some r \<Rightarrow> r)"

text \<open>
  A chunk that continues the keep-alive comment moves the position (the new one), and one
  that does not while a comment was begun is an error; \<open>NoKeepAlive\<close> otherwise.
\<close>

datatype keep_alive = Continued nat | Interrupted | NoKeepAlive

definition keep_alive_step :: "nat \<Rightarrow> string \<Rightarrow> keep_alive" where
  "keep_alive_step pos chunk =
     (if pos \<le> length KEEP_ALIVE_CHUNK then
        (if is_prefix chunk (drop pos KEEP_ALIVE_CHUNK) then
           (let pos' = pos + length chunk in
            Continued (if pos' \<ge> length KEEP_ALIVE_CHUNK then 0 else pos'))
         else if pos > 0 then Interrupted
         else NoKeepAlive)
      else NoKeepAlive)"

text \<open>The buffer after a chunk and the value it completes, if any.\<close>

datatype parsed = Value json | Incomplete | ParseError string

definition parse_chunk :: "stream_env \<Rightarrow> string \<Rightarrow> string \<Rightarrow> string \<times> parsed" where
  "parse_chunk env buffer chunk =
     (case se_parse env chunk of
        Inr v \<Rightarrow> ([], Value v)
      | Inl (eof, e) \<Rightarrow>
          if eof then (buffer @ chunk, Incomplete)
          else if buffer = [] then (buffer, ParseError (''Error parsing chunk: '' @ e))
          else
            (case se_parse env (buffer @ chunk) of
               Inr v \<Rightarrow> ([], Value v)
             | Inl (eof', e') \<Rightarrow>
                 if eof' then (buffer @ chunk, Incomplete)
                 else ([], ParseError (''Error parsing chunk: '' @ e'))))"

text \<open>
  The three branches on the endpoint. The second can only be reached for an endpoint that
  the first one already takes.
\<close>

definition new_usage :: "json \<Rightarrow> json option" where
  "new_usage v = (case json_get v ''usage'' of None \<Rightarrow> None | Some u \<Rightarrow> if u = JNull then None else Some u)"

definition keep_usage :: "json \<Rightarrow> streamer \<Rightarrow> streamer" where
  "keep_usage v s = (case new_usage v of None \<Rightarrow> s | Some u \<Rightarrow> s\<lparr>st_usage := Some u\<rparr>)"

definition record_usage :: "json \<Rightarrow> streamer \<Rightarrow> streamer \<times> bool" where
  "record_usage v s =
     (if st_endpoint s = CHAT_COMPLETIONS_PATH \<or> st_endpoint s = COMPLETIONS_PATH then (keep_usage v s, True)
      else if st_endpoint s = COMPLETIONS_PATH then
        (case Option.bind (json_get v ''choices'') json_array of
           None \<Rightarrow> (s, False) | Some choices \<Rightarrow> (keep_usage v s, True))
      else (keep_usage v s, True))"

text \<open>What is done with a value: check, usage, count, event.\<close>

definition deliver :: "stream_env \<Rightarrow> json \<Rightarrow> streamer \<Rightarrow> streamer \<times> poll" where
  "deliver env v s =
     (case se_verify env v (st_endpoint s \<noteq> CONFIDENTIAL_CHAT_COMPLETIONS_PATH) of
        Rejected e \<Rightarrow> (s, StreamError (''Error verifying and signing response: '' @ se_show_error env e))
      | CheckPanicked \<Rightarrow> (s, PollPanicked)
      | Verified \<Rightarrow>
          (case record_usage v s of
             (s', False) \<Rightarrow> (s', StreamError ''Error getting choices from chunk'')
           | (s', True) \<Rightarrow>
               (s'\<lparr>st_num_generated_tokens := i64_add (st_num_generated_tokens s') 1\<rparr>,
                case se_event_ok env v of Inl e \<Rightarrow> StreamError e | Inr _ \<Rightarrow> Item v)))"

definition poll_chunk ::
  "stream_env \<Rightarrow> string \<Rightarrow> streamer \<Rightarrow> streamer \<times> 'f state_manager_event list \<times> poll" where
  "poll_chunk env chunk s0 =
     (let s = s0\<lparr>st_status := Started\<rparr> in
      if chunk = KEEP_ALIVE_CHUNK then (s, [], Pending)
      else if \<not> from_utf8_ok chunk then (s, [], StreamError (''Invalid UTF-8 sequence: '' @ se_show_utf8_error env chunk))
      else
        (case keep_alive_step (st_keep_alive_pos s) chunk of
           Continued pos \<Rightarrow> (s\<lparr>st_keep_alive_pos := pos\<rparr>, [], Pending)
         | Interrupted \<Rightarrow> (s, [], StreamError (''Keep-alive chunk interrupted by non-matching chunk, '' @ chunk))
         | NoKeepAlive \<Rightarrow>
             let text_chunk = strip_data chunk in
             if is_prefix DONE_CHUNK text_chunk then
               (case handle_final_chunk env (s\<lparr>st_status := Completed\<rparr>) of
                  (s', evs, Inl e) \<Rightarrow> (s', evs, StreamError e)
                | (s', evs, Inr _) \<Rightarrow> (s', evs, End))
             else
               (case parse_chunk env (st_chunk_buffer s) text_chunk of
                  (buffer, Incomplete) \<Rightarrow> (s\<lparr>st_chunk_buffer := buffer\<rparr>, [], Pending)
                | (buffer, ParseError e) \<Rightarrow> (s\<lparr>st_chunk_buffer := buffer\<rparr>, [], StreamError e)
                | (buffer, Value v) \<Rightarrow>
                    (case deliver env v (s\<lparr>st_chunk_buffer := buffer\<rparr>) of (s', p) \<Rightarrow> (s', [], p)))))"

definition poll_next ::
  "stream_env \<Rightarrow> upstream \<Rightarrow> streamer \<Rightarrow> streamer \<times> 'f state_manager_event list \<times> poll" where
  "poll_next env up s =
     (if st_status s = Completed then (s, [], End)
      else (case up of
          UpChunk chunk \<Rightarrow> poll_chunk env chunk s
        | UpError e \<Rightarrow> (s\<lparr>st_status := Failed e\<rparr>, [], End)
        | UpEnd \<Rightarrow> (s\<lparr>st_status := Completed\<rparr>, [], End)
        | UpPending \<Rightarrow> (s, [], Pending)))"

text \<open>
  The task of \<^verbatim>\<open>handle_streaming_response\<close> (\<^verbatim>\<open>chat_completions.rs\<close>) polls until the
  streamer ends or panics and then drops it. The list is what the node's stream gives;
  where it stops the task is cancelled.
\<close>

fun stream_run :: "stream_env \<Rightarrow> upstream list \<Rightarrow> streamer \<Rightarrow> poll list \<times> 'f state_manager_event list" where
  "stream_run env [] s = ([], drop_streamer env s)"
| "stream_run env (up # ups) s =
     (case poll_next env up s of (s', evs, p) \<Rightarrow>
        if p = End \<or> p = PollPanicked then ([p], evs @ drop_streamer env s')
        else (case stream_run env ups s' of (ps, evs') \<Rightarrow> (p # ps, evs @ evs')))"

subsection \<open>A request is settled once\<close>

text \<open>What a poll never changes: the request the streamer works for.\<close>

definition request_of :: "streamer \<Rightarrow> int option \<times> int \<times> int \<times> int \<times> int \<times> int \<times> string \<times> string" where
  "request_of s = (st_stack_small_id s, st_estimated_input_tokens s, st_estimated_output_tokens s,
     st_input_price s, st_output_price s, st_user_id s, st_model_name s, st_endpoint s)"

lemma request_of_simps [simp]:
  "request_of (s\<lparr>st_status := a\<rparr>) = request_of s"
  "request_of (s\<lparr>st_chunk_buffer := b\<rparr>) = request_of s"
  "request_of (s\<lparr>st_keep_alive_pos := c\<rparr>) = request_of s"
  "request_of (s\<lparr>st_is_final_chunk_handled := d\<rparr>) = request_of s"
  "request_of (s\<lparr>st_num_generated_tokens := e\<rparr>) = request_of s"
  "request_of (s\<lparr>st_usage := u\<rparr>) = request_of s"
  by (simp_all add: request_of_def)

lemma keep_usage_frame [simp]:
  "request_of (keep_usage v s) = request_of s"
  "st_is_final_chunk_handled (keep_usage v s) = st_is_final_chunk_handled s"
  "st_num_generated_tokens (keep_usage v s) = st_num_generated_tokens s"
  by (simp_all add: keep_usage_def split: option.splits)

lemma record_usage_frame:
  "record_usage v s = (s', ok) \<Longrightarrow> request_of s' = request_of s \<and>
     st_is_final_chunk_handled s' = st_is_final_chunk_handled s \<and>
     st_num_generated_tokens s' = st_num_generated_tokens s"
  by (auto simp: record_usage_def split: if_splits option.splits)

lemma deliver_frame:
  "deliver env v s = (s', p) \<Longrightarrow> request_of s' = request_of s \<and>
     st_is_final_chunk_handled s' = st_is_final_chunk_handled s \<and> p \<noteq> End \<and>
     st_num_generated_tokens s' \<in> {st_num_generated_tokens s, i64_add (st_num_generated_tokens s) 1}"
  by (auto simp: deliver_def dest!: record_usage_frame split: check.splits prod.splits bool.splits sum.splits)

lemma settle_request_cong:
  "request_of s' = request_of s \<Longrightarrow> settle_request env s' t i c = settle_request env s t i c"
  by (simp add: settle_request_def request_of_def split: option.split)

text \<open>A poll settles nothing, or settles the request and ends.\<close>

lemma handle_final_chunk_cases:
  assumes "handle_final_chunk env s = (s', evs, r)"
  obtains (failed) e where "r = Inl e" "s' = s" "evs = []"
    | (settled) t i c ev where "r = Inr ()" "s' = s\<lparr>st_is_final_chunk_handled := True\<rparr>"
        "settle_request env s t i c = Inr ev" "evs = [ev]"
  using assms by (auto simp: handle_final_chunk_def res_bind_Inr_iff split: sum.splits)

definition settles_once :: "stream_env \<Rightarrow> streamer \<Rightarrow> streamer \<times> 'f state_manager_event list \<times> poll \<Rightarrow> bool" where
  "settles_once env s = (\<lambda>(s', evs, p). request_of s' = request_of s \<and>
    st_num_generated_tokens s' \<in> {st_num_generated_tokens s, i64_add (st_num_generated_tokens s) 1} \<and>
    (evs = [] \<and> \<not> st_is_final_chunk_handled s' \<or>
     (\<exists>t i c ev. evs = [ev] \<and> settle_request env s t i c = Inr ev \<and> st_is_final_chunk_handled s' \<and> p = End)))"

lemma done_settles_once:
  assumes "\<not> st_is_final_chunk_handled s" and "request_of s1 = request_of s"
    and "st_is_final_chunk_handled s1 = st_is_final_chunk_handled s"
    and "st_num_generated_tokens s1 = st_num_generated_tokens s"
    and "handle_final_chunk env s1 = (s2, evs, r)"
  shows "settles_once env s (s2, evs, case r of Inl e \<Rightarrow> StreamError e | Inr _ \<Rightarrow> End)"
  using assms(5)
proof (cases rule: handle_final_chunk_cases)
  case (failed e)
  with assms show ?thesis by (simp add: settles_once_def)
next
  case (settled t i c ev)
  have "settle_request env s t i c = Inr ev"
    using settled(3) by (simp add: settle_request_cong [OF assms(2)])
  with settled assms show ?thesis unfolding settles_once_def by auto
qed

lemma deliver_settles_once:
  assumes "\<not> st_is_final_chunk_handled s" and "request_of s1 = request_of s"
    and "st_is_final_chunk_handled s1 = st_is_final_chunk_handled s"
    and "st_num_generated_tokens s1 = st_num_generated_tokens s"
    and "deliver env v s1 = (s2, p)"
  shows "settles_once env s (s2, [], p)"
  using deliver_frame [OF assms(5)] assms by (simp add: settles_once_def)

lemma idle_settles_once:
  "\<not> st_is_final_chunk_handled s \<Longrightarrow> request_of s1 = request_of s \<Longrightarrow>
   st_is_final_chunk_handled s1 = st_is_final_chunk_handled s \<Longrightarrow>
   st_num_generated_tokens s1 = st_num_generated_tokens s \<Longrightarrow> settles_once env s (s1, [], p)"
  by (simp add: settles_once_def)

lemma poll_chunk_settles_once:
  assumes "\<not> st_is_final_chunk_handled s"
  shows "settles_once env s (poll_chunk env chunk s :: streamer \<times> 'f state_manager_event list \<times> poll)"
proof -
  define s1 where "s1 = s\<lparr>st_status := Started\<rparr>"
  obtain s2 r and evs :: "'f state_manager_event list" where h: "handle_final_chunk env (s1\<lparr>st_status := Completed\<rparr>) = (s2, evs, r)"
    by (metis prod_cases3)
  have final: "settles_once env s (s2, evs, case r of Inl e \<Rightarrow> StreamError e | Inr _ \<Rightarrow> End)"
    by (rule done_settles_once [OF assms _ _ _ h]) (simp_all add: s1_def)
  obtain b q where q: "parse_chunk env (st_chunk_buffer s1) (strip_data chunk) = (b, q)" by (metis prod.exhaust)
  define s3 p3 where "s3 v = fst (deliver env v (s1\<lparr>st_chunk_buffer := b\<rparr>))"
    and "p3 v = snd (deliver env v (s1\<lparr>st_chunk_buffer := b\<rparr>))" for v
  have d: "deliver env v (s1\<lparr>st_chunk_buffer := b\<rparr>) = (s3 v, p3 v)" for v
    by (simp add: s3_def p3_def)
  have val: "settles_once env s (s3 v, [] :: 'f state_manager_event list, p3 v)" for v
    by (rule deliver_settles_once [OF assms _ _ _ d]) (simp_all add: s1_def)
  have buf: "settles_once env s (s1\<lparr>st_chunk_buffer := b\<rparr>, [] :: 'f state_manager_event list, p)" for p
    by (rule idle_settles_once [OF assms]) (simp_all add: s1_def)
  have pos: "settles_once env s (s1\<lparr>st_keep_alive_pos := n\<rparr>, [] :: 'f state_manager_event list, p)" for n p
    by (rule idle_settles_once [OF assms]) (simp_all add: s1_def)
  have idle: "settles_once env s (s1, [] :: 'f state_manager_event list, p)" for p
    by (rule idle_settles_once [OF assms]) (simp_all add: s1_def)
  show ?thesis
    unfolding poll_chunk_def Let_def s1_def [symmetric] h q
    using final val buf pos idle d
    by (cases "keep_alive_step (st_keep_alive_pos s1) chunk"; cases q; cases r) simp_all
qed

lemma poll_next_settles_once:
  assumes "\<not> st_is_final_chunk_handled s"
  shows "settles_once env s (poll_next env up s)"
proof (cases "st_status s = Completed")
  case True
  then show ?thesis by (simp add: poll_next_def idle_settles_once assms)
next
  case False
  then show ?thesis
    by (cases up) (simp_all add: poll_next_def idle_settles_once poll_chunk_settles_once assms)
qed

lemma poll_next_cases:
  assumes "poll_next env up s = (s', evs, p)" and "\<not> st_is_final_chunk_handled s"
  shows "request_of s' = request_of s \<and>
    st_num_generated_tokens s' \<in> {st_num_generated_tokens s, i64_add (st_num_generated_tokens s) 1} \<and>
    (evs = [] \<and> \<not> st_is_final_chunk_handled s' \<or>
     (\<exists>t i c ev. evs = [ev] \<and> settle_request env s t i c = Inr ev \<and> st_is_final_chunk_handled s' \<and> p = End))"
proof -
  have "settles_once env s (s', evs, p)" unfolding assms(1) [symmetric] by (rule poll_next_settles_once [OF assms(2)])
  then show ?thesis by (simp add: settles_once_def)
qed

lemma drop_handled: "st_is_final_chunk_handled s \<Longrightarrow> drop_streamer env s = []"
  by (simp add: drop_streamer_def)

lemma drop_settles:
  "drop_streamer env s = evs \<Longrightarrow> evs = [] \<or> (\<exists>t i c ev. evs = [ev] \<and> settle_request env s t i c = Inr ev)"
  by (auto simp: drop_streamer_def split: sum.splits if_splits)

text \<open>Whatever the node sends, at most one event is sent, and it settles this request.\<close>

lemma stream_run_settles:
  "stream_run env ups s = (ps, evs :: 'f state_manager_event list) \<Longrightarrow> \<not> st_is_final_chunk_handled s \<Longrightarrow>
   evs = [] \<or> (\<exists>t i c ev. evs = [ev] \<and> settle_request env s t i c = Inr ev)"
proof (induction ups arbitrary: s ps evs)
  case Nil
  then show ?case using drop_settles [of env s evs] by simp
next
  case (Cons up ups)
  obtain s' p and evs1 :: "'f state_manager_event list" where poll: "poll_next env up s = (s', evs1, p)" by (metis prod_cases3)
  from poll_next_cases [OF poll Cons.prems(2)]
  have req: "request_of s' = request_of s" and
    c: "evs1 = [] \<and> \<not> st_is_final_chunk_handled s' \<or>
     (\<exists>t i c ev. evs1 = [ev] \<and> settle_request env s t i c = Inr ev \<and> st_is_final_chunk_handled s' \<and> p = End)"
    by auto
  note cong = settle_request_cong [OF req, of env]
  from c show ?case
  proof
    assume none: "evs1 = [] \<and> \<not> st_is_final_chunk_handled s'"
    show ?thesis
    proof (cases "p = End \<or> p = PollPanicked")
      case True
      with none poll Cons.prems(1) have "evs = drop_streamer env s'" by auto
      with drop_settles [of env s' evs] show ?thesis by (simp add: cong)
    next
      case False
      with none poll Cons.prems(1) obtain ps' where "stream_run env ups s' = (ps', evs)"
        by (auto split: prod.splits)
      from Cons.IH [OF this] none show ?thesis by (simp add: cong)
    qed
  next
    assume "\<exists>t i c ev. evs1 = [ev] \<and> settle_request env s t i c = Inr ev \<and> st_is_final_chunk_handled s' \<and> p = End"
    with poll Cons.prems(1) show ?thesis by (auto simp: drop_handled)
  qed
qed

subsection \<open>And it is settled\<close>

lemma settle_request_after:
  assumes "request_of s' = request_of s" and "settle_request env s t i c = Inr ev"
  shows "settle_request env s' t i c = Inr ev"
  using assms(2) by (simp add: settle_request_cong [OF assms(1)])

text \<open>
  The channel is open and, for a request that pays in fiat, every amount that may have to be
  reported when the streamer is dropped after up to \<open>n\<close> more chunks is an \<^verbatim>\<open>i64\<close>.
\<close>

definition can_settle :: "stream_env \<Rightarrow> streamer \<Rightarrow> nat \<Rightarrow> bool" where
  "can_settle env s n \<longleftrightarrow> se_chan env = None \<and> 0 \<le> st_num_generated_tokens s \<and>
     st_num_generated_tokens s + int n \<le> i64_max \<and>
     (st_stack_small_id s = None \<longrightarrow>
        fiat_amount (st_estimated_input_tokens s) (st_input_price s) \<noteq> None \<and>
        fiat_amount (st_estimated_output_tokens s) (st_output_price s) \<noteq> None \<and>
        (\<forall>k. st_num_generated_tokens s \<le> k \<longrightarrow> k \<le> st_num_generated_tokens s + int n \<longrightarrow>
           fiat_amount k (st_output_price s) \<noteq> None))"

lemma can_settle_step:
  assumes "can_settle env s (Suc n)" and req: "request_of s' = request_of s"
    and num: "st_num_generated_tokens s' \<in> {st_num_generated_tokens s, i64_add (st_num_generated_tokens s) 1}"
  shows "can_settle env s' n"
proof -
  have "i64_add (st_num_generated_tokens s) 1 = st_num_generated_tokens s + 1"
    using assms(1) by (simp add: can_settle_def i64_add_def wrap_i64_id_nonneg)
  then have "st_num_generated_tokens s \<le> st_num_generated_tokens s'"
    "st_num_generated_tokens s' \<le> st_num_generated_tokens s + 1" using num by auto
  with assms(1) req show ?thesis by (auto simp: can_settle_def request_of_def)
qed

lemma can_settle_drop:
  assumes "can_settle env s n" and "\<not> st_is_final_chunk_handled s"
  shows "drop_streamer env s \<noteq> []"
proof (cases "st_stack_small_id s")
  case None
  have "fiat_amount (st_num_generated_tokens s) (st_output_price s) \<noteq> None"
    using assms(1) None by (simp add: can_settle_def)
  with None assms show ?thesis
    by (auto simp: drop_streamer_def settle_request_def update_state_manager_fiat_def fiat_amount_or_def
        can_settle_def)
next
  case (Some sid)
  with assms show ?thesis
    by (simp add: drop_streamer_def settle_request_def update_state_manager_def can_settle_def)
qed

lemma stream_run_not_empty:
  "stream_run env ups s = (ps, evs :: 'f state_manager_event list) \<Longrightarrow> \<not> st_is_final_chunk_handled s \<Longrightarrow>
   can_settle env s (length ups) \<Longrightarrow> evs \<noteq> []"
proof (induction ups arbitrary: s ps evs)
  case Nil
  then show ?case using can_settle_drop [OF Nil.prems(3,2)] by auto
next
  case (Cons up ups)
  obtain s' p and evs1 :: "'f state_manager_event list" where poll: "poll_next env up s = (s', evs1, p)"
    by (metis prod_cases3)
  note cases = poll_next_cases [OF poll Cons.prems(2)]
  have later: "can_settle env s' (length ups)"
    using can_settle_step [OF _ conjunct1 [OF cases] conjunct1 [OF conjunct2 [OF cases]]] Cons.prems(3) by simp
  show ?case
  proof (cases "evs1 = []")
    case True
    then have open': "\<not> st_is_final_chunk_handled s'" using cases by auto
    show ?thesis
    proof (cases "p = End \<or> p = PollPanicked")
      case True
      then show ?thesis using poll Cons.prems(1) can_settle_drop [OF later open'] by auto
    next
      case False
      with poll Cons.prems(1) obtain ps' evs' where "stream_run env ups s' = (ps', evs')" "evs = evs1 @ evs'"
        by (auto split: prod.splits)
      with Cons.IH [OF _ open' later] show ?thesis by simp
    qed
  next
    case False
    with poll Cons.prems(1) show ?thesis by (auto split: if_splits prod.splits)
  qed
qed

subsection \<open>Chunks in pieces\<close>

text \<open>A chunk that is not part of a keep-alive comment, with the text it carries.\<close>

definition carries :: "nat \<Rightarrow> string \<Rightarrow> string \<Rightarrow> bool" where
  "carries pos chunk t \<longleftrightarrow> chunk \<noteq> KEEP_ALIVE_CHUNK \<and> from_utf8_ok chunk \<and>
     keep_alive_step pos chunk = NoKeepAlive \<and> strip_data chunk = t \<and> \<not> is_prefix DONE_CHUNK t"

lemma poll_carried:
  assumes "carries (st_keep_alive_pos s) chunk t" and "st_status s \<noteq> Completed"
  shows "poll_next env (UpChunk chunk) s =
    (let s1 = s\<lparr>st_status := Started\<rparr> in
     case parse_chunk env (st_chunk_buffer s) t of
       (buffer, Incomplete) \<Rightarrow> (s1\<lparr>st_chunk_buffer := buffer\<rparr>, [], Pending)
     | (buffer, ParseError e) \<Rightarrow> (s1\<lparr>st_chunk_buffer := buffer\<rparr>, [], StreamError e)
     | (buffer, Value v) \<Rightarrow> (case deliver env v (s1\<lparr>st_chunk_buffer := buffer\<rparr>) of (s', p) \<Rightarrow> (s', [], p)))"
  using assms by (simp add: poll_next_def poll_chunk_def carries_def Let_def)

subsection \<open>Properties\<close>

lemma new_streamer_simps [simp]:
  "st_is_final_chunk_handled (new_streamer sid ei eo ip op uid m ep) = False"
  "st_num_generated_tokens (new_streamer sid ei eo ip op uid m ep) = 0"
  "st_stack_small_id (new_streamer sid ei eo ip op uid m ep) = sid"
  "st_estimated_input_tokens (new_streamer sid ei eo ip op uid m ep) = ei"
  "st_estimated_output_tokens (new_streamer sid ei eo ip op uid m ep) = eo"
  "st_input_price (new_streamer sid ei eo ip op uid m ep) = ip"
  "st_output_price (new_streamer sid ei eo ip op uid m ep) = op"
  "st_user_id (new_streamer sid ei eo ip op uid m ep) = uid"
  "st_model_name (new_streamer sid ei eo ip op uid m ep) = m"
  "st_keep_alive_pos (new_streamer sid ei eo ip op uid m ep) = 0"
  "st_chunk_buffer (new_streamer sid ei eo ip op uid m ep) = []"
  "st_status (new_streamer sid ei eo ip op uid m ep) = NotStarted"
  by (simp_all add: new_streamer_def)

text \<open>
  C9. For a request on a stack the Streamer sends exactly one UpdateStackNumTokens message
  over its whole life, for every behaviour of the node's stream and wherever the task stops,
  and that message releases exactly the estimated units that were locked on that stack. The
  channel is open and the number of chunks fits an i64.
\<close>

theorem streamed_stack_request_settled_once:
  assumes "se_chan env = None" and "int (length ups) \<le> i64_max"
    and "stream_run env ups (new_streamer (Some sid) ei eo ip op uid m ep) = (ps, evs)"
  shows "\<exists>tokens. evs = [UpdateStackNumTokens sid (i64_add ei eo) tokens]"
proof -
  let ?s = "new_streamer (Some sid) ei eo ip op uid m ep"
  have "can_settle env ?s (length ups)" using assms(1,2) by (simp add: can_settle_def)
  then have "evs \<noteq> []" using stream_run_not_empty [OF assms(3)] by simp
  with stream_run_settles [OF assms(3)] show ?thesis
    by (auto simp: settle_request_def update_state_manager_def split: option.splits)
qed

definition sample_json :: "string \<Rightarrow> json" where
  "sample_json t = JObject [(''usage'', JObject [(''prompt_tokens'', JInt 3),
     (''completion_tokens'', JInt (int (length t))), (''total_tokens'', JInt (3 + int (length t)))])]"

definition sample_stream_env :: stream_env where
  "sample_stream_env = \<lparr>
     se_parse = (\<lambda>t. if t = ''ab'' \<or> t = ''zz'' then Inr (sample_json t) else Inl (length t < 2, ''eof'')),
     se_verify = (\<lambda>v h. Verified), se_event_ok = (\<lambda>v. Inr ()), se_show_error = (\<lambda>e. ''''),
     se_show_utf8_error = (\<lambda>s. ''''), se_chan = None\<rparr>"

theorem streamed_stack_request_settled_once_witness:
  "\<exists>tokens. snd (stream_run sample_stream_env [UpChunk ''data: ab'', UpChunk ''data: [DONE]'']
     (new_streamer (Some 4) 10 20 0 0 1 ''m'' ''/v1/chat/completions'')) =
   [UpdateStackNumTokens 4 (i64_add 10 20) tokens :: unit state_manager_event]"
proof -
  obtain ps and evs :: "unit state_manager_event list" where
    run: "stream_run sample_stream_env [UpChunk ''data: ab'', UpChunk ''data: [DONE]'']
      (new_streamer (Some 4) 10 20 0 0 1 ''m'' ''/v1/chat/completions'') = (ps, evs)" by fastforce
  from streamed_stack_request_settled_once [OF _ _ run] run show ?thesis
    by (simp add: sample_stream_env_def i64_max_def)
qed

text \<open>
  C8. For a fiat request the Streamer sends exactly one UpdateStackNumTokensFiat message
  over its whole life, in handle_final_chunk or when it is dropped, for every behaviour of
  the node's stream and wherever the task stops; its estimated amounts are the prices of the
  estimated tokens and its charges the prices of the token numbers it reports. The channel
  is open and the prices of the estimates and of the number of chunks fit an i64.
\<close>

theorem streamed_fiat_request_settled_once:
  assumes "se_chan env = None" and "int (length ups) \<le> i64_max"
    and "fiat_amount ei ip = Some a" and "fiat_amount eo op = Some b"
    and "0 \<le> op" and "op \<le> i64_max" and "fiat_amount (int (length ups)) op = Some most"
    and "stream_run env ups (new_streamer None ei eo ip op uid m ep) = (ps, evs)"
  shows "\<exists>input ci output co. evs = [UpdateStackNumTokensFiat uid m a ci input b co output] \<and>
    fiat_amount input ip = Some ci \<and> fiat_amount output op = Some co"
proof -
  let ?s = "new_streamer None ei eo ip op uid m ep"
  have "fiat_amount k op \<noteq> None" if "0 \<le> k" "k \<le> int (length ups)" for k
    using fiat_amount_mono [OF that assms(2,5,6,7)] by auto
  then have "can_settle env ?s (length ups)" using assms(1-4) by (simp add: can_settle_def)
  then have "evs \<noteq> []" using stream_run_not_empty [OF assms(8)] by simp
  with stream_run_settles [OF assms(8)] assms(3,4) show ?thesis
    by (auto simp: settle_request_def update_state_manager_fiat_Inr_iff)
qed

theorem streamed_fiat_request_settled_once_witness:
  "\<exists>input ci output co. snd (stream_run sample_stream_env [UpChunk ''data: ab'', UpError ''reset'']
     (new_streamer None 10 20 2000000 3000000 1 ''m'' ''/v1/chat/completions'')) =
   [UpdateStackNumTokensFiat 1 ''m'' 20 ci input 60 co output :: unit state_manager_event]"
proof -
  obtain ps and evs :: "unit state_manager_event list" where
    run: "stream_run sample_stream_env [UpChunk ''data: ab'', UpError ''reset'']
      (new_streamer None 10 20 2000000 3000000 1 ''m'' ''/v1/chat/completions'') = (ps, evs)" by fastforce
  have "fiat_amount 10 2000000 = Some 20" "fiat_amount 20 3000000 = Some 60"
    "fiat_amount (int (length [UpChunk ''data: ab'', UpError ''reset''])) 3000000 = Some 6"
    by (simp_all add: fiat_amount_eq i64_max_def ONE_MILLION_def)
  from streamed_fiat_request_settled_once [OF _ _ this(1,2) _ _ this(3) run] run show ?thesis
    by (fastforce simp: sample_stream_env_def i64_max_def)
qed

lemma drop_started [simp]: "drop_streamer env (s\<lparr>st_status := x\<rparr>) = drop_streamer env s"
  by (simp add: drop_streamer_def settle_request_cong [OF request_of_simps(1)])

text \<open>
  After a keep-alive comment that was begun and not continued, every further chunk that does
  not continue it is answered with an error: the position is never reset, so that no data
  and no final chunk gets through and the request is settled by the drop only.
\<close>

theorem interrupted_keep_alive_blocks_stream:
  assumes "0 < st_keep_alive_pos s" and "st_keep_alive_pos s \<le> length KEEP_ALIVE_CHUNK"
    and "st_status s \<noteq> Completed"
    and "\<forall>c \<in> set cs. c \<noteq> KEEP_ALIVE_CHUNK \<and> from_utf8_ok c \<and>
      \<not> is_prefix c (drop (st_keep_alive_pos s) KEEP_ALIVE_CHUNK)"
  shows "stream_run env (map UpChunk cs) s =
    (map (\<lambda>c. StreamError (''Keep-alive chunk interrupted by non-matching chunk, '' @ c)) cs, drop_streamer env s)"
  using assms
proof (induction cs arbitrary: s)
  case (Cons c cs)
  have "keep_alive_step (st_keep_alive_pos s) c = Interrupted"
    using Cons.prems by (simp add: keep_alive_step_def)
  then have poll: "poll_next env (UpChunk c) s = (s\<lparr>st_status := Started\<rparr>, [],
      StreamError (''Keep-alive chunk interrupted by non-matching chunk, '' @ c))"
    using Cons.prems by (simp add: poll_next_def poll_chunk_def Let_def)
  show ?case
    using Cons.IH [of "s\<lparr>st_status := Started\<rparr>"] Cons.prems by (simp add: poll)
qed simp

theorem interrupted_keep_alive_blocks_stream_witness:
  "fst (stream_run sample_stream_env (map UpChunk [''data: ab'', ''data: [DONE]''])
     ((new_streamer (Some 4) 10 20 0 0 1 ''m'' ''/v1/chat/completions'')\<lparr>st_keep_alive_pos := 5\<rparr>)) =
   [StreamError ''Keep-alive chunk interrupted by non-matching chunk, data: ab'',
    StreamError ''Keep-alive chunk interrupted by non-matching chunk, data: [DONE]'']"
proof -
  let ?s = "(new_streamer (Some 4) 10 20 0 0 1 ''m'' ''/v1/chat/completions'')\<lparr>st_keep_alive_pos := 5\<rparr>"
  have h: "0 < st_keep_alive_pos ?s" "st_keep_alive_pos ?s \<le> length KEEP_ALIVE_CHUNK" "st_status ?s \<noteq> Completed"
    "\<forall>c \<in> set [''data: ab'', ''data: [DONE]'']. c \<noteq> KEEP_ALIVE_CHUNK \<and> from_utf8_ok c \<and>
      \<not> is_prefix c (drop (st_keep_alive_pos ?s) KEEP_ALIVE_CHUNK)"
    by code_simp+
  show ?thesis unfolding interrupted_keep_alive_blocks_stream [OF h] by simp
qed

text \<open>
  A JSON value that the node's stream cuts into two chunks, the first an incomplete text and
  the second not JSON of its own, is put together and delivered to the client with the
  second chunk.
\<close>

theorem split_chunk_is_delivered:
  assumes "carries (st_keep_alive_pos s) first t1" and "carries (st_keep_alive_pos s) second t2"
    and "st_status s \<noteq> Completed" and "st_chunk_buffer s = []" and "t1 \<noteq> []"
    and "se_parse env t1 = Inl (True, e1)" and "se_parse env t2 = Inl (False, e2)"
    and "se_parse env (t1 @ t2) = Inr v"
  shows "poll_next env (UpChunk second) (fst (poll_next env (UpChunk first) s)) =
    (case deliver env v (s\<lparr>st_status := Started\<rparr>) of (s', p) \<Rightarrow> (s', [], p))"
proof -
  let ?s1 = "s\<lparr>st_status := Started, st_chunk_buffer := t1\<rparr>"
  have p1: "fst (poll_next env (UpChunk first) s) = ?s1"
    using assms by (simp add: poll_carried [OF assms(1,3)] parse_chunk_def)
  have c2: "carries (st_keep_alive_pos ?s1) second t2" and st: "st_status ?s1 \<noteq> Completed" using assms(2) by simp_all
  have "s\<lparr>st_status := Started, st_chunk_buffer := []\<rparr> = s\<lparr>st_status := Started\<rparr>" using assms(4) by simp
  then show ?thesis
    using assms(5-8) by (simp add: p1 poll_carried [OF c2 st] parse_chunk_def)
qed

lemma sample_carries: "carries 0 ''data: a'' ''a''" "carries 0 ''bcd'' ''bcd''" "carries 0 ''data: zz'' ''zz''" "carries 0 ''b'' ''b''"
  by code_simp+

theorem split_chunk_is_delivered_witness:
  "\<exists>s'. poll_next (sample_stream_env\<lparr>se_parse := (\<lambda>t. if t = ''abcd'' then Inr (JInt 1) else Inl (t = ''a'', ''''))\<rparr>)
      (UpChunk ''bcd'') (fst (poll_next (sample_stream_env\<lparr>se_parse := (\<lambda>t. if t = ''abcd'' then Inr (JInt 1) else Inl (t = ''a'', ''''))\<rparr>)
      (UpChunk ''data: a'') (new_streamer (Some 4) 10 20 0 0 1 ''m'' ''/v1/chat/completions''))) = (s', [], Item (JInt 1))"
  by (subst split_chunk_is_delivered [where ?t1.0 = "''a''" and ?t2.0 = "''bcd''" and ?e1.0 = "''''" and ?e2.0 = "''''" and v = "JInt 1"])
    (simp_all add: sample_carries deliver_def sample_stream_env_def record_usage_def keep_usage_def new_usage_def)

text \<open>
  When a JSON value comes in two pieces that are each incomplete JSON, the value is not
  delivered although the two pieces together parse: the second piece only grows the buffer
  and the next complete chunk discards it, so that the usage in such a value is lost.
\<close>

theorem buffered_pieces_are_lost:
  assumes "carries (st_keep_alive_pos s) first t1" and "carries (st_keep_alive_pos s) second t2"
    and "carries (st_keep_alive_pos s) third t3"
    and "st_status s \<noteq> Completed" and "st_chunk_buffer s = []"
    and "se_parse env t1 = Inl (True, e1)" and "se_parse env t2 = Inl (True, e2)"
    and "se_parse env t3 = Inr w" and "se_parse env (t1 @ t2) = Inr v"
  shows "snd (snd (poll_next env (UpChunk second) (fst (poll_next env (UpChunk first) s)))) = Pending \<and>
    poll_next env (UpChunk third) (fst (poll_next env (UpChunk second) (fst (poll_next env (UpChunk first) s)))) =
    (case deliver env w (s\<lparr>st_status := Started\<rparr>) of (s', p) \<Rightarrow> (s', [], p))"
proof -
  let ?s1 = "s\<lparr>st_status := Started, st_chunk_buffer := t1\<rparr>"
  let ?s2 = "s\<lparr>st_status := Started, st_chunk_buffer := t1 @ t2\<rparr>"
  have p1: "fst (poll_next env (UpChunk first) s) = ?s1"
    using assms by (simp add: poll_carried [OF assms(1,4)] parse_chunk_def)
  have c: "carries (st_keep_alive_pos ?s1) second t2" "st_status ?s1 \<noteq> Completed"
    "carries (st_keep_alive_pos ?s2) third t3" "st_status ?s2 \<noteq> Completed" using assms(2,3) by simp_all
  have p2: "poll_next env (UpChunk second) ?s1 = (?s2, [], Pending)"
    using assms(7) by (simp add: poll_carried [OF c(1,2)] parse_chunk_def)
  have "s\<lparr>st_status := Started, st_chunk_buffer := []\<rparr> = s\<lparr>st_status := Started\<rparr>" using assms(5) by simp
  then show ?thesis
    using assms(8) by (simp add: p1 p2 poll_carried [OF c(3,4)] parse_chunk_def)
qed

theorem buffered_pieces_are_lost_witness:
  "snd (snd (poll_next sample_stream_env (UpChunk ''b'') (fst (poll_next sample_stream_env (UpChunk ''data: a'')
     (new_streamer (Some 4) 10 20 0 0 1 ''m'' ''/v1/chat/completions''))))) = Pending"
  by (rule buffered_pieces_are_lost [where third = "''data: zz''" and ?t1.0 = "''a''" and ?t2.0 = "''b''" and
      ?t3.0 = "''zz''" and ?e1.0 = "''eof''" and ?e2.0 = "''eof''" and v = "sample_json ''ab''" and w = "sample_json ''zz''", THEN conjunct1])
    (simp_all add: sample_carries sample_stream_env_def)

end
