(* ===== verification/Inference.thy ===== *)
theory Inference
  imports Requests Streamer
begin

text \<open>
  The handlers of the inference endpoints in \<^verbatim>\<open>atoma-proxy/src/server/handlers\<close>
  (\<^verbatim>\<open>chat_completions.rs\<close>, \<^verbatim>\<open>completions.rs\<close>, \<^verbatim>\<open>embeddings.rs\<close>,
  \<^verbatim>\<open>image_generations.rs\<close>): each posts the request to the node, checks the answer and
  tells the state manager what the request used, or gives back its whole reservation when
  it fails. A handler runs as a task of its own, which may panic. The HTTP client is the
  parameter \<open>ne_post\<close>. Counters for telemetry are left out. The lemmas show for every
  handler what becomes of the reservation of its request.
\<close>

subsection \<open>The request's metadata and the node\<close>

text \<open>\<^verbatim>\<open>RequestMetadataExtension\<close>, with the default of every field.\<close>

record request_metadata =
  rx_node_address :: string
  rx_node_id :: int
  rx_num_input_tokens :: "u64 option"
  rx_max_output_tokens :: u64
  rx_user_id :: int
  rx_selected_stack_small_id :: "int option"
  rx_price_per_one_million_input_compute_units :: int
  rx_price_per_one_million_output_compute_units :: int
  rx_endpoint :: string
  rx_model_name :: string

definition default_metadata :: request_metadata where
  "default_metadata = \<lparr>rx_node_address = [], rx_node_id = 0, rx_num_input_tokens = None, rx_max_output_tokens = 0,
     rx_user_id = 0, rx_selected_stack_small_id = None, rx_price_per_one_million_input_compute_units = 0,
     rx_price_per_one_million_output_compute_units = 0, rx_endpoint = [], rx_model_name = []\<rparr>"

definition metadata_input_tokens :: "request_metadata \<Rightarrow> u64" where
  "metadata_input_tokens md = (case rx_num_input_tokens md of None \<Rightarrow> 0 | Some n \<Rightarrow> n)"

text \<open>
  What a request meets outside the program. \<open>ne_post\<close> gives the error of \<^verbatim>\<open>send\<close> as it
  prints, or the node's answer, whose body is not JSON or a value; \<open>ne_panic\<close> is what a
  failed \<^verbatim>\<open>unwrap\<close> says.
\<close>

record node_response =
  nr_status :: nat
  nr_body :: "string + json"

record 'f node_env =
  ne_post :: "string \<Rightarrow> header_map \<Rightarrow> json \<Rightarrow> string + node_response"
  ne_canonical_reason :: "nat \<Rightarrow> string option"
  ne_show_status :: "nat \<Rightarrow> string"
  ne_show_debug :: "atoma_proxy_error \<Rightarrow> string"
  ne_crates :: response_crates
  ne_panic :: string
  ne_show_join :: "string \<Rightarrow> string"
  ne_now :: datetime
  ne_elapsed :: 'f
  ne_request_id_header :: string
  ne_request_id :: string

text \<open>
  A body of JSON, or the events of a streamer that runs on in a task of its own. Axum's
  \<^verbatim>\<open>Sse\<close> response forwards what that task sends.
\<close>

datatype answer_body = JsonBody json | SseBody streamer

subsection \<open>Steps of a task\<close>

fun task_then ::
  "'p \<times> 'a task_result \<Rightarrow> ('a \<Rightarrow> 'p \<Rightarrow> 'p \<times> 'b task_result) \<Rightarrow> 'p \<times> 'b task_result" where
  "task_then (p, TaskPanicked m) f = (p, TaskPanicked m)"
| "task_then (p, TaskReturned (Inl e)) f = (p, TaskReturned (Inl e))"
| "task_then (p, TaskReturned (Inr a)) f = f a p"

definition step_result :: "'p \<times> (atoma_proxy_error + 'a) \<Rightarrow> 'p \<times> 'a task_result" where
  "step_result m = (case m of (p, r) \<Rightarrow> (p, TaskReturned r))"

lemma task_then_returned:
  "task_then m f = (q, TaskReturned (Inr b)) \<longleftrightarrow>
   (\<exists>p a. m = (p, TaskReturned (Inr a)) \<and> f a p = (q, TaskReturned (Inr b)))"
  by (cases "(m, f)" rule: task_then.cases) auto

text \<open>\<^verbatim>\<open>tokio::spawn(task).await.map_err(...)?\<close>\<close>

fun join_task ::
  "(string \<Rightarrow> atoma_proxy_error) \<Rightarrow> 'p \<times> 'a task_result \<Rightarrow> 'p \<times> (atoma_proxy_error + 'a)" where
  "join_task failed (p, TaskReturned r) = (p, r)"
| "join_task failed (p, TaskPanicked m) = (p, Inl (failed m))"

text \<open>The copied message of all handlers; \<^verbatim>\<open>{e:?}\<close> of the join error is \<open>ne_show_join\<close>.\<close>

definition handler_failed :: "'f node_env \<Rightarrow> request_metadata \<Rightarrow> string \<Rightarrow> atoma_proxy_error" where
  "handler_failed ne md m =
     InternalError (''Failed to spawn image generation task: '' @ ne_show_join ne m) None (rx_endpoint md)"

text \<open>
  A message to the state manager: \<open>f\<close> gives it, or fails, for an open channel, and words
  the error of a closed one.
\<close>

definition report ::
  "texts \<Rightarrow> (string option \<Rightarrow> atoma_proxy_error + 'f state_manager_event) \<Rightarrow> ('f, 'm) proxy
    \<Rightarrow> ('f, 'm) proxy \<times> (atoma_proxy_error + unit)" where
  "report tx f p =
     (case f None of
        Inl e \<Rightarrow> (p, Inl e)
      | Inr ev \<Rightarrow>
          (case send_message ev p of
             (q, NotSent) \<Rightarrow> (q, res_bind (f (Some (tx_send_error tx))) (\<lambda>_. Inr ()))
           | (q, _) \<Rightarrow> (q, Inr ())))"

subsection \<open>Settling\<close>

text \<open>
  The choice between \<^verbatim>\<open>update_state_manager\<close> and \<^verbatim>\<open>update_state_manager_fiat\<close> that
  every handler makes: each argument pairs an estimate with what was used.
\<close>

definition settle_reported ::
  "request_metadata \<Rightarrow> int \<times> int \<Rightarrow> int \<times> int \<Rightarrow> int \<times> int \<Rightarrow> string option
    \<Rightarrow> atoma_proxy_error + 'f state_manager_event" where
  "settle_reported md total_units input_units output_units chan =
     (case rx_selected_stack_small_id md of
        Some sid \<Rightarrow> update_state_manager chan sid (fst total_units) (snd total_units) (rx_endpoint md)
      | None \<Rightarrow> update_state_manager_fiat chan (rx_user_id md) (fst input_units) (snd input_units)
          (fst output_units) (snd output_units) (rx_price_per_one_million_input_compute_units md)
          (rx_price_per_one_million_output_compute_units md) (rx_model_name md) (rx_endpoint md))"

text \<open>What most handlers do with the error of the request: nothing was used.\<close>

definition give_back :: "request_metadata \<Rightarrow> string option \<Rightarrow> atoma_proxy_error + 'f state_manager_event" where
  "give_back md =
     settle_reported md (as_i64 (metadata_input_tokens md + rx_max_output_tokens md), 0)
       (as_i64 (metadata_input_tokens md), 0) (as_i64 (rx_max_output_tokens md), 0)"

definition on_failure ::
  "texts \<Rightarrow> (string option \<Rightarrow> atoma_proxy_error + 'f state_manager_event)
    \<Rightarrow> ('f, 'm) proxy \<times> 'a task_result \<Rightarrow> ('f, 'm) proxy \<times> 'a task_result" where
  "on_failure tx f m =
     (case m of
        (p, TaskReturned (Inl e)) \<Rightarrow>
          (case report tx f p of (q, r) \<Rightarrow> (q, TaskReturned (res_bind r (\<lambda>_. Inl e))))
      | _ \<Rightarrow> m)"

definition throughput_event ::
  "'f node_env \<Rightarrow> request_metadata \<Rightarrow> string \<Rightarrow> int \<Rightarrow> int \<Rightarrow> string option
    \<Rightarrow> atoma_proxy_error + 'f state_manager_event" where
  "throughput_event ne md what input_tokens output_tokens chan =
     (case chan of
        None \<Rightarrow> Inr (UpdateNodeThroughputPerformance (ne_now ne) (rx_model_name md) input_tokens output_tokens
          (ne_elapsed ne))
      | Some e \<Rightarrow> Inl (InternalError (what @ e) None (rx_endpoint md)))"

subsection \<open>The node's answer\<close>

definition post_to_node ::
  "'f node_env \<Rightarrow> request_metadata \<Rightarrow> header_map \<Rightarrow> json \<Rightarrow> (string \<Rightarrow> atoma_proxy_error)
    \<Rightarrow> atoma_proxy_error + node_response" where
  "post_to_node ne md headers payload not_sent =
     res_bind (map_err not_sent (ne_post ne (rx_node_address md @ rx_endpoint md) headers payload)) (\<lambda>response.
       if 200 \<le> nr_status response \<and> nr_status response < 300 then Inr response
       else res_bind (handle_status_code_error (ne_show_status ne) (nr_status response) (rx_endpoint md)
              (case ne_canonical_reason ne (nr_status response) of None \<Rightarrow> ''Unknown error'' | Some s \<Rightarrow> s))
            (\<lambda>_. Inr response))"

definition node_json ::
  "'f node_env \<Rightarrow> request_metadata \<Rightarrow> header_map \<Rightarrow> json \<Rightarrow> (string \<Rightarrow> atoma_proxy_error)
    \<Rightarrow> (string \<Rightarrow> atoma_proxy_error) \<Rightarrow> atoma_proxy_error + json" where
  "node_json ne md headers payload not_sent not_json =
     res_bind (post_to_node ne md headers payload not_sent) (\<lambda>response. map_err not_json (nr_body response))"

definition check_answer :: "'f node_env \<Rightarrow> json \<Rightarrow> bool \<Rightarrow> 'p \<Rightarrow> 'p \<times> unit task_result" where
  "check_answer ne v verify_hash p =
     (p, case verify_response_hash_and_signature (ne_crates ne) v verify_hash of
           Verified \<Rightarrow> TaskReturned (Inr ())
         | Rejected e \<Rightarrow> TaskReturned (Inl e)
         | CheckPanicked \<Rightarrow> TaskPanicked (ne_panic ne))"

text \<open>\<^verbatim>\<open>response.get(USAGE).and_then(|usage| usage.get(key)).and_then(as_u64).map_or(0, |n| n as i64)\<close>\<close>

definition usage_tokens :: "json \<Rightarrow> string \<Rightarrow> int" where
  "usage_tokens v key =
     (case Option.bind (Option.bind (json_get v ''usage'') (\<lambda>u. json_get u key)) json_u64 of
        None \<Rightarrow> 0 | Some n \<Rightarrow> as_i64 n)"

subsection \<open>Chat completions and completions\<close>

text \<open>
  \<^verbatim>\<open>handle_non_streaming_response\<close> is written twice, with two differences: the path
  that is not hashed, and what is charged of the input and output on a fiat balance.
\<close>

definition settle_answer ::
  "'f node_env \<Rightarrow> request_metadata \<Rightarrow> int \<Rightarrow> int \<times> int \<Rightarrow> string option \<Rightarrow> atoma_proxy_error + 'f state_manager_event" where
  "settle_answer ne md total_tokens charged chan =
     map_err (\<lambda>e. InternalError
         ((case rx_selected_stack_small_id md of Some _ \<Rightarrow> ''Error updating state manager: ''
           | None \<Rightarrow> ''Error updating fiat state manager: '') @ ne_show_debug ne e) None (rx_endpoint md))
       (settle_reported md
          (i64_add (as_i64 (metadata_input_tokens md)) (as_i64 (rx_max_output_tokens md)), total_tokens)
          (as_i64 (metadata_input_tokens md), fst charged) (as_i64 (rx_max_output_tokens md), snd charged) chan)"

definition non_streaming_response ::
  "string \<Rightarrow> (json \<Rightarrow> int \<times> int) \<Rightarrow> texts \<Rightarrow> 'f node_env \<Rightarrow> request_metadata \<Rightarrow> header_map \<Rightarrow> json
    \<Rightarrow> ('f, 'm) proxy \<Rightarrow> ('f, 'm) proxy \<times> answer_body task_result" where
  "non_streaming_response confidential_path charge tx ne md headers payload p =
     (case node_json ne md headers payload
         (\<lambda>e. TooManyRequests (''Failed to send OpenAI API request: '' @ e) (rx_endpoint md))
         (\<lambda>e. InternalError (''Failed to parse OpenAI API response: '' @ e) None (rx_endpoint md)) of
        Inl e \<Rightarrow> (p, TaskReturned (Inl e))
      | Inr v \<Rightarrow>
          task_then (check_answer ne v (rx_endpoint md \<noteq> confidential_path) p) (\<lambda>_ p.
          task_then (step_result (report tx
            (throughput_event ne md ''Error updating node throughput performance: ''
               (usage_tokens v ''prompt_tokens'') (usage_tokens v ''completion_tokens'')) p)) (\<lambda>_ p.
          task_then (step_result (report tx (settle_answer ne md (usage_tokens v ''total_tokens'') (charge v)) p)) (\<lambda>_ p.
            (p, TaskReturned (Inr (JsonBody v)))))))"

definition chat_non_streaming_response ::
  "texts \<Rightarrow> 'f node_env \<Rightarrow> request_metadata \<Rightarrow> header_map \<Rightarrow> json \<Rightarrow> ('f, 'm) proxy
    \<Rightarrow> ('f, 'm) proxy \<times> answer_body task_result" where
  "chat_non_streaming_response =
     non_streaming_response CONFIDENTIAL_CHAT_COMPLETIONS_PATH
       (\<lambda>v. (usage_tokens v ''prompt_tokens'', usage_tokens v ''completion_tokens''))"

definition completions_non_streaming_response ::
  "texts \<Rightarrow> 'f node_env \<Rightarrow> request_metadata \<Rightarrow> header_map \<Rightarrow> json \<Rightarrow> ('f, 'm) proxy
    \<Rightarrow> ('f, 'm) proxy \<times> answer_body task_result" where
  "completions_non_streaming_response =
     non_streaming_response CONFIDENTIAL_COMPLETIONS_PATH (\<lambda>v. (0, usage_tokens v ''total_tokens''))"

definition metadata_streamer :: "request_metadata \<Rightarrow> streamer" where
  "metadata_streamer md =
     new_streamer (rx_selected_stack_small_id md) (as_i64 (metadata_input_tokens md))
       (as_i64 (rx_max_output_tokens md)) (rx_price_per_one_million_input_compute_units md)
       (rx_price_per_one_million_output_compute_units md) (rx_user_id md) (rx_model_name md) (rx_endpoint md)"

text \<open>
  \<^verbatim>\<open>handle_streaming_response\<close> starts a \<open>streamer\<close>, which settles by itself; the request
  gets an id of its own for the node's stop endpoint.
\<close>

definition handle_streaming_response ::
  "'f node_env \<Rightarrow> request_metadata \<Rightarrow> header_map \<Rightarrow> json \<Rightarrow> ('f, 'm) proxy \<Rightarrow> ('f, 'm) proxy \<times> answer_body task_result" where
  "handle_streaming_response ne md headers payload p =
     (p, TaskReturned (res_bind
       (post_to_node ne md (headers(ne_request_id_header ne \<mapsto> Some (ne_request_id ne))) payload
          (\<lambda>e. TooManyRequests (''Error sending request to inference service: '' @ e) (rx_endpoint md)))
       (\<lambda>response. Inr (SseBody (metadata_streamer md)))))"

text \<open>\<^verbatim>\<open>completions.rs\<close> has the same function again.\<close>

definition completions_streaming_response ::
  "'f node_env \<Rightarrow> request_metadata \<Rightarrow> header_map \<Rightarrow> json \<Rightarrow> ('f, 'm) proxy \<Rightarrow> ('f, 'm) proxy \<times> answer_body task_result" where
  "completions_streaming_response = handle_streaming_response"

definition is_streaming :: "json \<Rightarrow> bool" where
  "is_streaming payload = (case Option.bind (json_get payload ''stream'') json_bool of None \<Rightarrow> False | Some b \<Rightarrow> b)"

definition handle_chat_completions_request ::
  "texts \<Rightarrow> 'f node_env \<Rightarrow> request_metadata \<Rightarrow> header_map \<Rightarrow> json \<Rightarrow> bool \<Rightarrow> ('f, 'm) proxy
    \<Rightarrow> ('f, 'm) proxy \<times> answer_body task_result" where
  "handle_chat_completions_request tx ne md headers payload streaming p =
     (if streaming then handle_streaming_response ne md headers payload p
      else chat_non_streaming_response tx ne md headers payload p)"

definition handle_completions_request ::
  "texts \<Rightarrow> 'f node_env \<Rightarrow> request_metadata \<Rightarrow> header_map \<Rightarrow> json \<Rightarrow> bool \<Rightarrow> ('f, 'm) proxy
    \<Rightarrow> ('f, 'm) proxy \<times> answer_body task_result" where
  "handle_completions_request tx ne md headers payload streaming p =
     (if streaming then completions_streaming_response ne md headers payload p
      else completions_non_streaming_response tx ne md headers payload p)"

definition chat_completions_create ::
  "texts \<Rightarrow> 'f node_env \<Rightarrow> request_metadata \<Rightarrow> header_map \<Rightarrow> json \<Rightarrow> ('f, 'm) proxy
    \<Rightarrow> ('f, 'm) proxy \<times> (atoma_proxy_error + answer_body)" where
  "chat_completions_create tx ne md headers payload p =
     join_task (handler_failed ne md) (on_failure tx (give_back md)
       (handle_chat_completions_request tx ne md headers payload (is_streaming payload) p))"

definition completions_create ::
  "texts \<Rightarrow> 'f node_env \<Rightarrow> request_metadata \<Rightarrow> header_map \<Rightarrow> json \<Rightarrow> ('f, 'm) proxy
    \<Rightarrow> ('f, 'm) proxy \<times> (atoma_proxy_error + answer_body)" where
  "completions_create tx ne md headers payload p =
     join_task (handler_failed ne md) (on_failure tx (give_back md)
       (handle_completions_request tx ne md headers payload (is_streaming payload) p))"

text \<open>The confidential variants differ in the counters only.\<close>

definition confidential_chat_completions_create ::
  "texts \<Rightarrow> 'f node_env \<Rightarrow> request_metadata \<Rightarrow> header_map \<Rightarrow> json \<Rightarrow> ('f, 'm) proxy
    \<Rightarrow> ('f, 'm) proxy \<times> (atoma_proxy_error + answer_body)" where
  "confidential_chat_completions_create = chat_completions_create"

definition confidential_completions_create ::
  "texts \<Rightarrow> 'f node_env \<Rightarrow> request_metadata \<Rightarrow> header_map \<Rightarrow> json \<Rightarrow> ('f, 'm) proxy
    \<Rightarrow> ('f, 'm) proxy \<times> (atoma_proxy_error + answer_body)" where
  "confidential_completions_create = completions_create"

subsection \<open>Embeddings\<close>

definition handle_embeddings_response ::
  "texts \<Rightarrow> 'f node_env \<Rightarrow> request_metadata \<Rightarrow> header_map \<Rightarrow> json \<Rightarrow> int \<Rightarrow> ('f, 'm) proxy
    \<Rightarrow> ('f, 'm) proxy \<times> json task_result" where
  "handle_embeddings_response tx ne md headers payload num_input_compute_units p =
     (case node_json ne md headers payload
         (\<lambda>e. InternalError (''Failed to send embeddings request: '' @ e) (Some ''Failed to connect to the node'')
            (rx_endpoint md))
         (\<lambda>e. InternalError (''Failed to parse embeddings response: '' @ e) (Some ''Failed to parse the node response'')
            (rx_endpoint md)) of
        Inl e \<Rightarrow> (p, TaskReturned (Inl e))
      | Inr v \<Rightarrow>
          task_then (check_answer ne v (rx_endpoint md \<noteq> CONFIDENTIAL_EMBEDDINGS_PATH) p) (\<lambda>_ p.
          task_then (step_result (report tx
            (throughput_event ne md ''Failed to update node throughput performance: ''
               (if rx_endpoint md = CONFIDENTIAL_EMBEDDINGS_PATH
                then (case Option.bind (json_get v ''total_tokens'') json_u64 of None \<Rightarrow> 0 | Some n \<Rightarrow> as_i64 n)
                else num_input_compute_units) 0) p)) (\<lambda>_ p.
            (p, TaskReturned (Inr v)))))"

text \<open>
  The answer is settled by the caller: with the estimate, or, when it is confidential, with
  the number of tokens the node reports.
\<close>

definition embeddings_task ::
  "(json \<Rightarrow> int) \<Rightarrow> texts \<Rightarrow> 'f node_env \<Rightarrow> request_metadata \<Rightarrow> header_map \<Rightarrow> json \<Rightarrow> ('f, 'm) proxy
    \<Rightarrow> ('f, 'm) proxy \<times> answer_body task_result" where
  "embeddings_task used_tokens tx ne md headers payload p =
     (let num_input_tokens = as_i64 (metadata_input_tokens md) in
      case handle_embeddings_response tx ne md headers payload num_input_tokens p of
        (q, TaskReturned (Inr v)) \<Rightarrow>
          task_then (step_result (report tx
            (settle_reported md (num_input_tokens, used_tokens v) (num_input_tokens, used_tokens v) (0, 0)) q)) (\<lambda>_ q.
            (q, TaskReturned (Inr (JsonBody v))))
      | (q, TaskReturned (Inl e)) \<Rightarrow>
          on_failure tx (settle_reported md (num_input_tokens, 0) (num_input_tokens, 0) (0, 0)) (q, TaskReturned (Inl e))
      | (q, TaskPanicked m) \<Rightarrow> (q, TaskPanicked m))"

definition embeddings_create ::
  "texts \<Rightarrow> 'f node_env \<Rightarrow> request_metadata \<Rightarrow> header_map \<Rightarrow> json \<Rightarrow> ('f, 'm) proxy
    \<Rightarrow> ('f, 'm) proxy \<times> (atoma_proxy_error + answer_body)" where
  "embeddings_create tx ne md headers payload p =
     join_task (handler_failed ne md)
       (embeddings_task (\<lambda>v. as_i64 (metadata_input_tokens md)) tx ne md headers payload p)"

definition confidential_embeddings_create ::
  "texts \<Rightarrow> 'f node_env \<Rightarrow> request_metadata \<Rightarrow> header_map \<Rightarrow> json \<Rightarrow> ('f, 'm) proxy
    \<Rightarrow> ('f, 'm) proxy \<times> (atoma_proxy_error + answer_body)" where
  "confidential_embeddings_create tx ne md headers payload p =
     join_task (handler_failed ne md)
       (embeddings_task (\<lambda>v. usage_tokens v ''total_tokens'') tx ne md headers payload p)"

subsection \<open>Images\<close>

definition handle_image_generation_response ::
  "texts \<Rightarrow> 'f node_env \<Rightarrow> request_metadata \<Rightarrow> header_map \<Rightarrow> json \<Rightarrow> ('f, 'm) proxy
    \<Rightarrow> ('f, 'm) proxy \<times> answer_body task_result" where
  "handle_image_generation_response tx ne md headers payload p =
     (case node_json ne md headers payload
         (\<lambda>e. InternalError (''Failed to send image generation request: '' @ e) (Some ''Failed to connect to the node'')
            (rx_endpoint md))
         (\<lambda>e. InternalError (''Failed to parse image generation response: '' @ e)
            (Some ''Failed to parse node's response'') (rx_endpoint md)) of
        Inl e \<Rightarrow> (p, TaskReturned (Inl e))
      | Inr v \<Rightarrow>
          task_then (check_answer ne v (rx_endpoint md \<noteq> CONFIDENTIAL_IMAGE_GENERATIONS_PATH) p) (\<lambda>_ p.
          task_then (step_result (report tx
            (throughput_event ne md ''Failed to update node throughput performance: '' 0
               (as_i64 (rx_max_output_tokens md))) p)) (\<lambda>_ p.
            (p, TaskReturned (Inr (JsonBody v))))))"

text \<open>An image is charged what was estimated.\<close>

definition image_generations_create ::
  "texts \<Rightarrow> 'f node_env \<Rightarrow> request_metadata \<Rightarrow> header_map \<Rightarrow> json \<Rightarrow> ('f, 'm) proxy
    \<Rightarrow> ('f, 'm) proxy \<times> (atoma_proxy_error + answer_body)" where
  "image_generations_create tx ne md headers payload p =
     join_task (handler_failed ne md)
       (case handle_image_generation_response tx ne md headers payload p of
          (q, TaskReturned (Inr r)) \<Rightarrow>
            (let units = as_i64 (metadata_input_tokens md + rx_max_output_tokens md);
                 input = as_i64 (metadata_input_tokens md); outp = as_i64 (rx_max_output_tokens md) in
             task_then (step_result (report tx (settle_reported md (units, units) (input, input) (outp, outp)) q)) (\<lambda>_ q.
               (q, TaskReturned (Inr r))))
        | failed \<Rightarrow> on_failure tx (give_back md) failed)"

text \<open>
  A confidential image is not settled when it succeeds. Its payload has been parsed into
  \<^verbatim>\<open>ConfidentialComputeRequest\<close> and is written out again, which cannot fail.
\<close>

definition confidential_image_generations_create ::
  "texts \<Rightarrow> 'f node_env \<Rightarrow> request_metadata \<Rightarrow> header_map \<Rightarrow> json \<Rightarrow> ('f, 'm) proxy
    \<Rightarrow> ('f, 'm) proxy \<times> (atoma_proxy_error + answer_body)" where
  "confidential_image_generations_create tx ne md headers payload p =
     join_task (handler_failed ne md)
       (on_failure tx (give_back md) (handle_image_generation_response tx ne md headers payload p))"

subsection \<open>The handler of a path\<close>

text \<open>\<^verbatim>\<open>create_router\<close> of \<^verbatim>\<open>http_server.rs\<close>, as far as it serves inference.\<close>

definition inference_handler ::
  "string \<Rightarrow> (texts \<Rightarrow> 'f node_env \<Rightarrow> request_metadata \<Rightarrow> header_map \<Rightarrow> json \<Rightarrow> ('f, 'm) proxy
    \<Rightarrow> ('f, 'm) proxy \<times> (atoma_proxy_error + answer_body)) option" where
  "inference_handler path =
     (if path = COMPLETIONS_PATH then Some completions_create
      else if path = CHAT_COMPLETIONS_PATH then Some chat_completions_create
      else if path = CONFIDENTIAL_COMPLETIONS_PATH then Some confidential_completions_create
      else if path = CONFIDENTIAL_CHAT_COMPLETIONS_PATH then Some confidential_chat_completions_create
      else if path = EMBEDDINGS_PATH then Some embeddings_create
      else if path = CONFIDENTIAL_EMBEDDINGS_PATH then Some confidential_embeddings_create
      else if path = IMAGE_GENERATIONS_PATH then Some image_generations_create
      else if path = CONFIDENTIAL_IMAGE_GENERATIONS_PATH then Some confidential_image_generations_create
      else None)"

subsection \<open>What a handler leaves behind\<close>

lemma report_alone:
  assumes "alone p"
  shows "report tx f p = (case f None of Inl e \<Rightarrow> (p, Inl e)
    | Inr ev \<Rightarrow> (after p (fst (handle_state_manager_event (event_ctx p) ev (px_db p))), Inr ()))"
  using assms by (simp add: report_def send_message_alone after_def split: sum.split)

text \<open>The database without the statistics, which the throughput of a node changes.\<close>

definition same_but_stats :: "'f db \<Rightarrow> 'f db \<Rightarrow> bool" where
  "same_but_stats d d' \<longleftrightarrow> d\<lparr>db_stats_units := []\<rparr> = d'\<lparr>db_stats_units := []\<rparr>"

lemma same_but_stats_refl [simp]: "same_but_stats d d"
  by (simp add: same_but_stats_def)

lemma same_but_stats_update [simp]: "same_but_stats d (d\<lparr>db_stats_units := s\<rparr>)"
  by (simp add: same_but_stats_def)

lemma same_but_statsD:
  assumes "same_but_stats d d'"
  shows "db_fiat d' = db_fiat d" "db_stacks d' = db_stacks d" "db_crypto d' = db_crypto d"
proof -
  from assms have e: "d\<lparr>db_stats_units := []\<rparr> = d'\<lparr>db_stats_units := []\<rparr>" by (simp add: same_but_stats_def)
  from arg_cong [OF e, of db_fiat] show "db_fiat d' = db_fiat d" by simp
  from arg_cong [OF e, of db_stacks] show "db_stacks d' = db_stacks d" by simp
  from arg_cong [OF e, of db_crypto] show "db_crypto d' = db_crypto d" by simp
qed

lemma throughput_stats:
  "same_but_stats d (fst (handle_state_manager_event cx (UpdateNodeThroughputPerformance ts model i j t) d))"
  by (cases "add_compute_units_processed (cx_fadd cx) (db_stats_units d) ts model (i64_add i j) t") simp_all

lemma throughput_alone:
  assumes "alone p"
  shows "\<exists>q. report tx (throughput_event ne md what i j) p = (q, Inr ()) \<and> alone q \<and> same_but_stats (px_db p) (px_db q)"
  using assms throughput_stats by (simp add: report_alone throughput_event_def)

text \<open>The message of \<open>f\<close> has been handled, on a database that differs by its statistics.\<close>

definition message_handled ::
  "(string option \<Rightarrow> atoma_proxy_error + 'f state_manager_event) \<Rightarrow> 'f db \<Rightarrow> 'f db \<Rightarrow> bool" where
  "message_handled f d d' \<longleftrightarrow>
     (\<exists>ev cx d1. f None = Inr ev \<and> same_but_stats d d1 \<and> d' = fst (handle_state_manager_event cx ev d1))"

lemma report_handled:
  assumes "alone p" and "same_but_stats d (px_db p)" and "report tx f p = (q, r)"
  shows "alone q \<and> (case r of Inr u \<Rightarrow> message_handled f d (px_db q)
    | Inl e \<Rightarrow> f None = Inl e \<and> same_but_stats d (px_db q))"
  using assms by (cases "f None") (auto simp: report_alone message_handled_def, blast)

lemma non_streaming_outcome:
  assumes "alone p" and "non_streaming_response cp charge tx ne md headers payload p = (q, r)"
  shows "alone q \<and> (case r of
      TaskPanicked m \<Rightarrow> q = p \<and>
        (\<exists>v. verify_response_hash_and_signature (ne_crates ne) v (rx_endpoint md \<noteq> cp) = CheckPanicked)
    | TaskReturned (Inl e) \<Rightarrow> same_but_stats (px_db p) (px_db q)
    | TaskReturned (Inr b) \<Rightarrow> \<exists>v. b = JsonBody v \<and>
        message_handled (settle_answer ne md (usage_tokens v ''total_tokens'') (charge v)) (px_db p) (px_db q))"
proof -
  let ?json = "node_json ne md headers payload
         (\<lambda>e. TooManyRequests (''Failed to send OpenAI API request: '' @ e) (rx_endpoint md))
         (\<lambda>e. InternalError (''Failed to parse OpenAI API response: '' @ e) None (rx_endpoint md))"
  show ?thesis
  proof (cases ?json)
    case (Inl e)
    with assms show ?thesis by (auto simp: non_streaming_response_def)
  next
    case (Inr v)
    obtain p1 where t: "report tx (throughput_event ne md ''Error updating node throughput performance: ''
               (usage_tokens v ''prompt_tokens'') (usage_tokens v ''completion_tokens'')) p = (p1, Inr ())"
      "alone p1" "same_but_stats (px_db p) (px_db p1)" using throughput_alone [OF assms(1)] by metis
    obtain p2 u where s: "report tx (settle_answer ne md (usage_tokens v ''total_tokens'') (charge v)) p1 = (p2, u)"
      by fastforce
    from report_handled [OF t(2,3) s] assms Inr t(1) s show ?thesis
      by (cases "verify_response_hash_and_signature (ne_crates ne) v (rx_endpoint md \<noteq> cp)"; cases u)
        (auto simp: non_streaming_response_def check_answer_def step_result_def)
  qed
qed

lemma give_back_outcome:
  assumes "alone p" and "m = (p1, r1)" and "r1 = TaskReturned (Inl e) \<Longrightarrow> alone p1 \<and> same_but_stats d (px_db p1)"
    and "on_failure tx f m = (q, r)"
  shows "r1 = TaskReturned (Inl e) \<Longrightarrow> alone q \<and> (\<exists>e'. r = TaskReturned (Inl e')) \<and>
      (message_handled f d (px_db q) \<or> (\<exists>e. f None = Inl e) \<and> same_but_stats d (px_db q))"
    and "(\<And>e. r1 \<noteq> TaskReturned (Inl e)) \<Longrightarrow> (q, r) = m"
proof -
  assume r1: "r1 = TaskReturned (Inl e)"
  obtain q' u where rep: "report tx f p1 = (q', u)" by fastforce
  from report_handled [OF _ _ rep] assms r1 rep
  show "alone q \<and> (\<exists>e'. r = TaskReturned (Inl e')) \<and>
      (message_handled f d (px_db q) \<or> (\<exists>e. f None = Inl e) \<and> same_but_stats d (px_db q))"
    by (cases u) (auto simp: on_failure_def)
next
  assume "\<And>e. r1 \<noteq> TaskReturned (Inl e)"
  with assms show "(q, r) = m" by (cases r1) (auto simp: on_failure_def split: sum.splits)
qed

text \<open>
  A handler has done its accounting: an error has given back what \<open>released\<close> asks for (or
  its amounts could not be computed), a JSON answer has settled what \<open>charged\<close> gives, and
  a stream has left it to its streamer.
\<close>

definition accounted ::
  "(string option \<Rightarrow> atoma_proxy_error + 'f state_manager_event)
    \<Rightarrow> (json \<Rightarrow> string option \<Rightarrow> atoma_proxy_error + 'f state_manager_event) \<Rightarrow> request_metadata \<Rightarrow> ('f, 'm) proxy
    \<Rightarrow> ('f, 'm) proxy \<times> (atoma_proxy_error + answer_body) \<Rightarrow> bool" where
  "accounted released charged md p = (\<lambda>(q, r). alone q \<and>
     (case r of
        Inl e \<Rightarrow> message_handled released (px_db p) (px_db q) \<or>
          (\<exists>e. released None = Inl e) \<and> same_but_stats (px_db p) (px_db q)
      | Inr (JsonBody v) \<Rightarrow> message_handled (charged v) (px_db p) (px_db q)
      | Inr (SseBody s) \<Rightarrow> q = p \<and> s = metadata_streamer md))"

definition never_panics :: "'f node_env \<Rightarrow> bool" where
  "never_panics ne \<longleftrightarrow> (\<forall>s. rc_base64_decode (ne_crates ne) s \<noteq> None)"

lemma never_panics_check:
  "never_panics ne \<Longrightarrow> verify_response_hash_and_signature (ne_crates ne) v b \<noteq> CheckPanicked"
  by (auto simp: never_panics_def verify_response_hash_and_signature_def split: option.split sum.split)
    (metis option.distinct(1))

lemma non_streaming_accounted:
  assumes "alone p" and "never_panics ne"
  shows "accounted (give_back md)
     (\<lambda>v. settle_answer ne md (usage_tokens v ''total_tokens'') (charge v)) md p
     (join_task failed (on_failure tx (give_back md) (non_streaming_response cp charge tx ne md headers payload p)))"
proof -
  obtain p1 r1 where m: "non_streaming_response cp charge tx ne md headers payload p = (p1, r1)" by fastforce
  obtain q r where f: "on_failure tx (give_back md) (p1, r1) = (q, r)" by fastforce
  note out = non_streaming_outcome [OF assms(1) m]
  show ?thesis
  proof (cases r1)
    case (TaskPanicked x)
    with out never_panics_check [OF assms(2)] show ?thesis by auto
  next
    case (TaskReturned res)
    show ?thesis
    proof (cases res)
      case (Inl e)
      with TaskReturned give_back_outcome(1) [OF assms(1) refl _ f, of e "px_db p"] out m f show ?thesis
        by (auto simp: accounted_def)
    next
      case (Inr b)
      with TaskReturned give_back_outcome(2) [OF assms(1) refl _ f] out m f show ?thesis
        by (auto simp: accounted_def)
    qed
  qed
qed

lemma embeddings_response_outcome:
  assumes "alone p" and "never_panics ne"
    and "handle_embeddings_response tx ne md headers payload n p = (q, r)"
  shows "alone q \<and> same_but_stats (px_db p) (px_db q) \<and> (\<exists>res. r = TaskReturned res)"
proof -
  let ?json = "node_json ne md headers payload
         (\<lambda>e. InternalError (''Failed to send embeddings request: '' @ e) (Some ''Failed to connect to the node'')
            (rx_endpoint md))
         (\<lambda>e. InternalError (''Failed to parse embeddings response: '' @ e) (Some ''Failed to parse the node response'')
            (rx_endpoint md))"
  show ?thesis
  proof (cases ?json)
    case (Inl e)
    with assms show ?thesis by (auto simp: handle_embeddings_response_def)
  next
    case (Inr v)
    obtain p1 where t: "report tx (throughput_event ne md ''Failed to update node throughput performance: ''
        (if rx_endpoint md = CONFIDENTIAL_EMBEDDINGS_PATH
         then (case Option.bind (json_get v ''total_tokens'') json_u64 of None \<Rightarrow> 0 | Some n \<Rightarrow> as_i64 n)
         else n) 0) p = (p1, Inr ())"
      "alone p1" "same_but_stats (px_db p) (px_db p1)" using throughput_alone [OF assms(1)] by metis
    with assms Inr never_panics_check [OF assms(2), of v "rx_endpoint md \<noteq> CONFIDENTIAL_EMBEDDINGS_PATH"]
    show ?thesis
      by (cases "verify_response_hash_and_signature (ne_crates ne) v (rx_endpoint md \<noteq> CONFIDENTIAL_EMBEDDINGS_PATH)")
        (auto simp: handle_embeddings_response_def check_answer_def step_result_def)
  qed
qed

lemma settling_accounted:
  assumes "alone p1" and "same_but_stats (px_db p) (px_db p1)"
    and "\<And>e. charged v None = Inl e \<Longrightarrow> \<exists>e. released None = Inl e"
  shows "accounted released charged md p
     (join_task failed (task_then (step_result (report tx (charged v) p1)) (\<lambda>_ q. (q, TaskReturned (Inr (JsonBody v))))))"
proof -
  obtain q u where rep: "report tx (charged v) p1 = (q, u)" by fastforce
  from report_handled [OF assms(1,2) rep] assms(3) rep show ?thesis
    by (cases u) (auto simp: accounted_def step_result_def)
qed

lemma releasing_accounted:
  assumes "alone p1" and "same_but_stats (px_db p) (px_db p1)"
  shows "accounted released charged md p (join_task failed (on_failure tx released (p1, TaskReturned (Inl e))))"
proof -
  obtain q and r :: "answer_body task_result" where
    f: "on_failure tx released (p1, TaskReturned (Inl e)) = (q, r)" by fastforce
  from give_back_outcome(1) [OF assms(1) refl _ f, of e "px_db p"] assms f show ?thesis
    by (auto simp: accounted_def)
qed

text \<open>The handlers, one by one.\<close>

definition embeddings_units ::
  "(json \<Rightarrow> int) \<Rightarrow> request_metadata \<Rightarrow> json \<Rightarrow> string option \<Rightarrow> atoma_proxy_error + 'f state_manager_event" where
  "embeddings_units used md v =
     (let n = as_i64 (metadata_input_tokens md) in settle_reported md (n, used v) (n, used v) (0, 0))"

lemma embeddings_accounted:
  fixes p :: "('f, 'm) proxy"
  assumes "alone p" and "never_panics ne"
    and "\<And>v e. (embeddings_units used md v None :: _ + 'f state_manager_event) = Inl e \<Longrightarrow>
      \<exists>e. (embeddings_units (\<lambda>_. 0) md JNull None :: _ + 'f state_manager_event) = Inl e"
  shows "accounted (embeddings_units (\<lambda>_. 0) md JNull) (embeddings_units used md) md p
     (join_task failed (embeddings_task used tx ne md headers payload p))"
proof -
  obtain p1 r1 where h: "handle_embeddings_response tx ne md headers payload (as_i64 (metadata_input_tokens md)) p = (p1, r1)"
    by fastforce
  from embeddings_response_outcome [OF assms(1,2) h] obtain res where out: "alone p1" "same_but_stats (px_db p) (px_db p1)"
    "r1 = TaskReturned res" by auto
  show ?thesis
  proof (cases res)
    case (Inl e)
    with out h releasing_accounted [OF out(1,2), of "embeddings_units (\<lambda>_. 0) md JNull"] show ?thesis
      by (simp add: embeddings_task_def Let_def embeddings_units_def)
  next
    case (Inr v)
    with out h settling_accounted [where charged = "embeddings_units used md" and v = v
        and released = "embeddings_units (\<lambda>_. 0) md JNull", OF out(1,2) assms(3)] show ?thesis
      by (simp add: embeddings_task_def Let_def embeddings_units_def)
  qed
qed

lemma image_response_outcome:
  assumes "alone p" and "never_panics ne"
    and "handle_image_generation_response tx ne md headers payload p = (q, r)"
  shows "alone q \<and> same_but_stats (px_db p) (px_db q) \<and> (\<exists>res. r = TaskReturned res \<and> (\<forall>b. res = Inr b \<longrightarrow> (\<exists>v. b = JsonBody v)))"
proof -
  let ?json = "node_json ne md headers payload
         (\<lambda>e. InternalError (''Failed to send image generation request: '' @ e) (Some ''Failed to connect to the node'')
            (rx_endpoint md))
         (\<lambda>e. InternalError (''Failed to parse image generation response: '' @ e)
            (Some ''Failed to parse node's response'') (rx_endpoint md))"
  show ?thesis
  proof (cases ?json)
    case (Inl e)
    with assms show ?thesis by (auto simp: handle_image_generation_response_def)
  next
    case (Inr v)
    obtain p1 where t: "report tx (throughput_event ne md ''Failed to update node throughput performance: ''
        0 (as_i64 (rx_max_output_tokens md))) p = (p1, Inr ())"
      "alone p1" "same_but_stats (px_db p) (px_db p1)" using throughput_alone [OF assms(1)] by metis
    with assms Inr never_panics_check [OF assms(2), of v "rx_endpoint md \<noteq> CONFIDENTIAL_IMAGE_GENERATIONS_PATH"]
    show ?thesis
      by (cases "verify_response_hash_and_signature (ne_crates ne) v (rx_endpoint md \<noteq> CONFIDENTIAL_IMAGE_GENERATIONS_PATH)")
        (auto simp: handle_image_generation_response_def check_answer_def step_result_def)
  qed
qed

definition image_units_used :: "request_metadata \<Rightarrow> json \<Rightarrow> string option \<Rightarrow> atoma_proxy_error + 'f state_manager_event" where
  "image_units_used md v =
     (let units = as_i64 (metadata_input_tokens md + rx_max_output_tokens md);
          input = as_i64 (metadata_input_tokens md); outp = as_i64 (rx_max_output_tokens md) in
      settle_reported md (units, units) (input, input) (outp, outp))"

lemma image_accounted:
  fixes p :: "('f, 'm) proxy"
  assumes "alone p" and "never_panics ne"
    and "\<And>v e. (image_units_used md v None :: _ + 'f state_manager_event) = Inl e \<Longrightarrow>
      \<exists>e. (give_back md None :: _ + 'f state_manager_event) = Inl e"
  shows "accounted (give_back md) (image_units_used md) md p (image_generations_create tx ne md headers payload p)"
proof -
  obtain p1 r1 where h: "handle_image_generation_response tx ne md headers payload p = (p1, r1)" by fastforce
  from image_response_outcome [OF assms(1,2) h] obtain res where out: "alone p1" "same_but_stats (px_db p) (px_db p1)"
    "r1 = TaskReturned res" "\<forall>b. res = Inr b \<longrightarrow> (\<exists>v. b = JsonBody v)" by auto
  show ?thesis
  proof (cases res)
    case (Inl e)
    with out h releasing_accounted [OF out(1,2)] show ?thesis by (simp add: image_generations_create_def)
  next
    case (Inr b)
    with out(4) obtain v where "b = JsonBody v" by blast
    with Inr out h settling_accounted [where charged = "image_units_used md" and v = v
        and released = "give_back md", OF out(1,2) assms(3)] show ?thesis
      by (simp add: image_generations_create_def Let_def image_units_used_def)
  qed
qed

lemma streaming_accounted:
  assumes "alone p"
  shows "accounted (give_back md) charged md p
     (join_task failed (on_failure tx (give_back md) (handle_streaming_response ne md headers payload p)))"
proof -
  obtain res where h: "handle_streaming_response ne md headers payload p = (p, TaskReturned res)"
    "\<And>b. res = Inr b \<Longrightarrow> b = SseBody (metadata_streamer md)"
    by (auto simp: handle_streaming_response_def res_bind_Inr_iff)
  show ?thesis
  proof (cases res)
    case (Inl e)
    with h releasing_accounted [OF assms same_but_stats_refl] show ?thesis by simp
  next
    case (Inr b)
    with h assms show ?thesis by (simp add: on_failure_def accounted_def)
  qed
qed

lemma chat_accounted:
  assumes "alone p" and "never_panics ne"
  shows "accounted (give_back md)
     (\<lambda>v. settle_answer ne md (usage_tokens v ''total_tokens'') (usage_tokens v ''prompt_tokens'', usage_tokens v ''completion_tokens'')) md p
     (chat_completions_create tx ne md headers payload p)"
  by (simp add: chat_completions_create_def handle_chat_completions_request_def chat_non_streaming_response_def
      streaming_accounted [OF assms(1)] non_streaming_accounted [OF assms])

lemma completions_accounted:
  assumes "alone p" and "never_panics ne"
  shows "accounted (give_back md)
     (\<lambda>v. settle_answer ne md (usage_tokens v ''total_tokens'') (0, usage_tokens v ''total_tokens'')) md p
     (completions_create tx ne md headers payload p)"
  by (simp add: completions_create_def handle_completions_request_def completions_non_streaming_response_def
      completions_streaming_response_def streaming_accounted [OF assms(1)] non_streaming_accounted [OF assms])

subsection \<open>Fiat balances\<close>

text \<open>A settlement that the database refuses leaves the table as it is.\<close>

definition settled_fiat :: "int \<Rightarrow> int \<times> int \<Rightarrow> int \<times> int \<Rightarrow> fiat_balances \<Rightarrow> fiat_balances" where
  "settled_fiat uid e a t = (case settle_fiat_amounts uid e a t of None \<Rightarrow> t | Some t' \<Rightarrow> t')"

lemma fst_execute: "fst (execute put d res) = (case res of Inl e \<Rightarrow> d | Inr t \<Rightarrow> put t)"
  by (cases res) simp_all

lemma fiat_amount_zero [simp]: "fiat_amount 0 price = Some 0"
  by (simp add: fiat_amount_def as_u128_def try_i64_def i64_max_def)

lemma fiat_update_balances:
  "db_fiat (fst (handle_fiat_update cx uid model ei i it eo c ot d)) = settled_fiat uid (ei, eo) (i, c) (db_fiat d)"
  by (auto simp: handle_fiat_update_def settled_fiat_def Let_def fst_execute split: sum.split)

lemma fiat_settlement:
  assumes "message_handled (settle_reported md units (ei, i) (eo, c)) d d'" and "rx_selected_stack_small_id md = None"
    and "fiat_amount ei (rx_price_per_one_million_input_compute_units md) = Some a"
    and "fiat_amount eo (rx_price_per_one_million_output_compute_units md) = Some b"
  shows "\<exists>x y. fiat_amount i (rx_price_per_one_million_input_compute_units md) = Some x \<and>
    fiat_amount c (rx_price_per_one_million_output_compute_units md) = Some y \<and>
    db_fiat d' = settled_fiat (rx_user_id md) (a, b) (x, y) (db_fiat d)"
proof -
  from assms(1) obtain ev cx d1 where f: "settle_reported md units (ei, i) (eo, c) None = Inr ev"
    and d1: "same_but_stats d d1" and d': "d' = fst (handle_state_manager_event cx ev d1)"
    by (auto simp: message_handled_def)
  from f assms(2-4) obtain x y where "fiat_amount i (rx_price_per_one_million_input_compute_units md) = Some x"
    "fiat_amount c (rx_price_per_one_million_output_compute_units md) = Some y"
    "ev = UpdateStackNumTokensFiat (rx_user_id md) (rx_model_name md) a x i b y c"
    by (auto simp: settle_reported_def update_state_manager_fiat_Inr_iff)
  with d' same_but_statsD(1) [OF d1] show ?thesis by (simp add: fiat_update_balances)
qed

text \<open>
  A request whose metadata tell of the reservation that leads from \<open>d\<close> to \<open>d'\<close>, with prices and
  amounts that fit an \<^verbatim>\<open>i64\<close>.
\<close>

definition input_hold :: "request_metadata \<Rightarrow> int" where
  "input_hold md = fiat_locked_amount (metadata_input_tokens md) (rx_price_per_one_million_input_compute_units md)"

definition output_hold :: "request_metadata \<Rightarrow> int" where
  "output_hold md = fiat_locked_amount (rx_max_output_tokens md) (rx_price_per_one_million_output_compute_units md)"

definition fits_amounts :: "request_metadata \<Rightarrow> bool" where
  "fits_amounts md \<longleftrightarrow>
     fiat_amount (as_i64 (metadata_input_tokens md)) (rx_price_per_one_million_input_compute_units md) = Some (input_hold md) \<and>
     fiat_amount (as_i64 (rx_max_output_tokens md)) (rx_price_per_one_million_output_compute_units md) = Some (output_hold md)"

lemma fits_amountsD:
  "fits_amounts md \<Longrightarrow>
     fiat_amount (as_i64 (metadata_input_tokens md)) (rx_price_per_one_million_input_compute_units md) = Some (input_hold md)"
  "fits_amounts md \<Longrightarrow>
     fiat_amount (as_i64 (rx_max_output_tokens md)) (rx_price_per_one_million_output_compute_units md) = Some (output_hold md)"
  by (simp_all add: fits_amounts_def)

definition reserved_for :: "'f db \<Rightarrow> 'f db \<Rightarrow> request_metadata \<Rightarrow> bool" where
  "reserved_for d d' md \<longleftrightarrow> fiat_inv (db_fiat d) \<and> fits_amounts md \<and> rx_selected_stack_small_id md = None \<and>
     lock_user_fiat_balance (db_fiat d) (rx_user_id md) (input_hold md) (output_hold md) = Inr (db_fiat d', True)"

text \<open>
  The contract of a handler on a fiat request: \<open>admits\<close> says which metadata it is for, and
  \<open>charge\<close> which numbers of tokens it charges for an answer.
\<close>

locale fiat_handler =
  fixes handle :: "texts \<Rightarrow> 'f node_env \<Rightarrow> request_metadata \<Rightarrow> header_map \<Rightarrow> json \<Rightarrow> ('f, 'm) proxy
      \<Rightarrow> ('f, 'm) proxy \<times> (atoma_proxy_error + answer_body)"
    and admits :: "request_metadata \<Rightarrow> bool"
    and charge :: "request_metadata \<Rightarrow> json \<Rightarrow> int \<times> int"
  assumes handles: "alone p \<Longrightarrow> never_panics ne \<Longrightarrow> rx_selected_stack_small_id md = None \<Longrightarrow> admits md \<Longrightarrow>
      fiat_amount (as_i64 (metadata_input_tokens md)) (rx_price_per_one_million_input_compute_units md) = Some a \<Longrightarrow>
      fiat_amount (as_i64 (rx_max_output_tokens md)) (rx_price_per_one_million_output_compute_units md) = Some b \<Longrightarrow>
      handle tx ne md headers payload p = (q, r) \<Longrightarrow>
      (case r of
         Inl e \<Rightarrow> db_fiat (px_db q) = settled_fiat (rx_user_id md) (a, b) (0, 0) (db_fiat (px_db p))
       | Inr (JsonBody v) \<Rightarrow>
           (\<exists>x y. fiat_amount (fst (charge md v)) (rx_price_per_one_million_input_compute_units md) = Some x \<and>
              fiat_amount (snd (charge md v)) (rx_price_per_one_million_output_compute_units md) = Some y \<and>
              db_fiat (px_db q) = settled_fiat (rx_user_id md) (a, b) (x, y) (db_fiat (px_db p)))
       | Inr (SseBody s) \<Rightarrow> q = p \<and> s = metadata_streamer md)"
begin

text \<open>A reservation is released by an error, and turned into the charge by an answer.\<close>

lemma failure_releases:
  assumes "alone p" "never_panics ne" "admits md" and res: "reserved_for d (px_db p) md"
    and "handle tx ne md headers payload p = (q, Inl e)"
  shows "db_fiat (px_db q) = db_fiat d"
proof -
  from res have fit: "fits_amounts md"
    and t: "lock_user_fiat_balance (db_fiat d) (rx_user_id md) (input_hold md) (output_hold md) = Inr (db_fiat (px_db p), True)"
    and inv: "fiat_inv (db_fiat d)" and sel: "rx_selected_stack_small_id md = None"
    by (auto simp: reserved_for_def)
  from handles [OF assms(1,2) sel assms(3) fits_amountsD [OF fit] assms(5)] lock_rollback_fiat [OF inv t]
  show ?thesis by (simp add: settled_fiat_def)
qed

lemma answer_charges:
  assumes "alone p" "never_panics ne" "admits md" and res: "reserved_for d (px_db p) md"
    and "handle tx ne md headers payload p = (q, Inr (JsonBody v))"
  shows "\<exists>x y. fiat_amount (fst (charge md v)) (rx_price_per_one_million_input_compute_units md) = Some x \<and>
    fiat_amount (snd (charge md v)) (rx_price_per_one_million_output_compute_units md) = Some y \<and>
    db_fiat (px_db q) = settled_fiat (rx_user_id md) (input_hold md, output_hold md) (x, y) (db_fiat (px_db p))"
proof -
  from res have fit: "fits_amounts md" and sel: "rx_selected_stack_small_id md = None"
    by (auto simp: reserved_for_def)
  from handles [OF assms(1,2) sel assms(3) fits_amountsD [OF fit] assms(5)] show ?thesis by simp
qed

lemma stream_holds:
  assumes "alone p" "never_panics ne" "admits md" and res: "reserved_for d (px_db p) md"
    and "handle tx ne md headers payload p = (q, Inr (SseBody s))"
  shows "q = p \<and> s = metadata_streamer md"
proof -
  from res have fit: "fits_amounts md" and sel: "rx_selected_stack_small_id md = None"
    by (auto simp: reserved_for_def)
  from handles [OF assms(1,2) sel assms(3) fits_amountsD [OF fit] assms(5)] show ?thesis by simp
qed

end

lemma accounted_fiat:
  assumes acc: "accounted released charged md p (q, r)" and sel: "rx_selected_stack_small_id md = None"
    and a: "fiat_amount ei (rx_price_per_one_million_input_compute_units md) = Some a"
    and b: "fiat_amount eo (rx_price_per_one_million_output_compute_units md) = Some b"
    and rel: "released None = settle_reported md u0 (ei, 0) (eo, 0) None"
    and chg: "\<And>v ev. charged v None = Inr ev \<Longrightarrow> settle_reported md (u v) (ei, i v) (eo, c v) None = Inr ev"
  shows "case r of
      Inl e \<Rightarrow> db_fiat (px_db q) = settled_fiat (rx_user_id md) (a, b) (0, 0) (db_fiat (px_db p))
    | Inr (JsonBody v) \<Rightarrow>
        (\<exists>x y. fiat_amount (i v) (rx_price_per_one_million_input_compute_units md) = Some x \<and>
           fiat_amount (c v) (rx_price_per_one_million_output_compute_units md) = Some y \<and>
           db_fiat (px_db q) = settled_fiat (rx_user_id md) (a, b) (x, y) (db_fiat (px_db p)))
    | Inr (SseBody s) \<Rightarrow> q = p \<and> s = metadata_streamer md"
proof (cases r)
  case (Inl e)
  from rel a b sel have "\<not> (\<exists>e. released None = Inl e)"
    by (simp add: settle_reported_def update_state_manager_fiat_def fiat_amount_or_def)
  with acc Inl have "message_handled released (px_db p) (px_db q)" by (auto simp: accounted_def)
  then have "message_handled (settle_reported md u0 (ei, 0) (eo, 0)) (px_db p) (px_db q)"
    using rel by (simp add: message_handled_def)
  from fiat_settlement [OF this sel a b] Inl show ?thesis by simp
next
  case (Inr body)
  show ?thesis
  proof (cases body)
    case (JsonBody v)
    with acc Inr have "message_handled (charged v) (px_db p) (px_db q)" by (simp add: accounted_def)
    then have "message_handled (settle_reported md (u v) (ei, i v) (eo, c v)) (px_db p) (px_db q)"
      using chg by (auto simp: message_handled_def)
    from fiat_settlement [OF this sel a b] Inr JsonBody show ?thesis by simp
  next
    case (SseBody s)
    with acc Inr show ?thesis by (simp add: accounted_def)
  qed
qed

interpretation chat: fiat_handler chat_completions_create "\<lambda>md. True"
  "\<lambda>md v. (usage_tokens v ''prompt_tokens'', usage_tokens v ''completion_tokens'')"
proof (unfold_locales, goal_cases)
  case (1 p ne md a b tx headers payload q r)
  from accounted_fiat [OF chat_accounted [OF 1(1,2), of md tx headers payload, unfolded 1(7)] 1(3,5,6)]
  show ?case by (simp add: give_back_def settle_answer_def)
qed

text \<open>Completions are charged their total as output.\<close>

interpretation completions: fiat_handler completions_create "\<lambda>md. True"
  "\<lambda>md v. (0, usage_tokens v ''total_tokens'')"
proof (unfold_locales, goal_cases)
  case (1 p ne md a b tx headers payload q r)
  from accounted_fiat [OF completions_accounted [OF 1(1,2), of md tx headers payload, unfolded 1(7)] 1(3,5,6)]
  show ?case by (simp add: give_back_def settle_answer_def)
qed

text \<open>Embeddings and images are charged their estimate; embeddings have no output.\<close>

interpretation embeddings: fiat_handler embeddings_create "\<lambda>md. rx_max_output_tokens md = 0"
  "\<lambda>md v. (as_i64 (metadata_input_tokens md), 0)"
proof (unfold_locales, goal_cases)
  case (1 p ne md a b tx headers payload q r)
  have "accounted (embeddings_units (\<lambda>_. 0) md JNull) (embeddings_units (\<lambda>v. as_i64 (metadata_input_tokens md)) md) md p
      (join_task (handler_failed ne md) (embeddings_task (\<lambda>v. as_i64 (metadata_input_tokens md)) tx ne md headers payload p))"
    using 1(3,5) by (intro embeddings_accounted 1(1,2))
      (simp add: Let_def embeddings_units_def settle_reported_def update_state_manager_fiat_def fiat_amount_or_def)
  note acc = this [folded embeddings_create_def, unfolded 1(7)]
  have "as_i64 0 = 0" by (simp add: as_i64_def wrap_i64_def)
  with 1(4,6) have "b = 0" by simp
  with accounted_fiat [where i = "\<lambda>v. as_i64 (metadata_input_tokens md)" and c = "\<lambda>v. 0"
      and ?u0.0 = "(as_i64 (metadata_input_tokens md), 0)"
      and u = "\<lambda>v. (as_i64 (metadata_input_tokens md), as_i64 (metadata_input_tokens md))",
      OF acc 1(3,5) fiat_amount_zero]
  show ?case by (auto simp: embeddings_units_def Let_def split: sum.splits answer_body.splits)
qed

interpretation images: fiat_handler image_generations_create "\<lambda>md. True"
  "\<lambda>md v. (as_i64 (metadata_input_tokens md), as_i64 (rx_max_output_tokens md))"
proof (unfold_locales, goal_cases)
  case (1 p ne md a b tx headers payload q r)
  have "accounted (give_back md) (image_units_used md) md p (image_generations_create tx ne md headers payload p)"
    using 1(3,5,6) by (intro image_accounted 1(1,2))
      (simp add: Let_def image_units_used_def settle_reported_def update_state_manager_fiat_def fiat_amount_or_def)
  from accounted_fiat [OF this [unfolded 1(7)] 1(3,5,6)]
  show ?case by (simp add: give_back_def image_units_used_def Let_def)
qed

subsection \<open>Properties\<close>

lemmas handler_defs = inference_handler_def path_defs

definition fiat_path :: "string \<Rightarrow> request_metadata \<Rightarrow> bool" where
  "fiat_path path md \<longleftrightarrow> path = CHAT_COMPLETIONS_PATH \<or> path = COMPLETIONS_PATH \<or> path = IMAGE_GENERATIONS_PATH \<or>
     path = EMBEDDINGS_PATH \<and> rx_max_output_tokens md = 0"

lemma path_distinct [simp]:
  "CHAT_COMPLETIONS_PATH \<noteq> COMPLETIONS_PATH" "COMPLETIONS_PATH \<noteq> CHAT_COMPLETIONS_PATH"
  "CHAT_COMPLETIONS_PATH \<noteq> EMBEDDINGS_PATH" "EMBEDDINGS_PATH \<noteq> CHAT_COMPLETIONS_PATH"
  "CHAT_COMPLETIONS_PATH \<noteq> IMAGE_GENERATIONS_PATH" "IMAGE_GENERATIONS_PATH \<noteq> CHAT_COMPLETIONS_PATH"
  "COMPLETIONS_PATH \<noteq> EMBEDDINGS_PATH" "EMBEDDINGS_PATH \<noteq> COMPLETIONS_PATH"
  "COMPLETIONS_PATH \<noteq> IMAGE_GENERATIONS_PATH" "IMAGE_GENERATIONS_PATH \<noteq> COMPLETIONS_PATH"
  "EMBEDDINGS_PATH \<noteq> IMAGE_GENERATIONS_PATH" "IMAGE_GENERATIONS_PATH \<noteq> EMBEDDINGS_PATH"
  by (simp_all add: path_defs)

lemma inference_handlers [simp]:
  "inference_handler CHAT_COMPLETIONS_PATH = Some chat_completions_create"
  "inference_handler COMPLETIONS_PATH = Some completions_create"
  "inference_handler EMBEDDINGS_PATH = Some embeddings_create"
  "inference_handler IMAGE_GENERATIONS_PATH = Some image_generations_create"
  "inference_handler CONFIDENTIAL_CHAT_COMPLETIONS_PATH = Some confidential_chat_completions_create"
  "inference_handler CONFIDENTIAL_COMPLETIONS_PATH = Some confidential_completions_create"
  "inference_handler CONFIDENTIAL_EMBEDDINGS_PATH = Some confidential_embeddings_create"
  "inference_handler CONFIDENTIAL_IMAGE_GENERATIONS_PATH = Some confidential_image_generations_create"
  by (simp_all add: handler_defs)

lemma failed_is_released:
  assumes "alone p" and "never_panics ne" and "reserved_for d (px_db p) md" and "fiat_path path md"
    and "inference_handler path = Some handle" and "handle tx ne md headers payload p = (q, Inl e)"
  shows "db_fiat (px_db q) = db_fiat d"
  using assms(4-6) chat.failure_releases [OF assms(1,2) _ assms(3)] completions.failure_releases [OF assms(1,2) _ assms(3)]
    embeddings.failure_releases [OF assms(1,2) _ assms(3)] images.failure_releases [OF assms(1,2) _ assms(3)]
  by (auto simp: fiat_path_def)

text \<open>The numbers of tokens that an answer is charged.\<close>

definition answer_charge :: "string \<Rightarrow> request_metadata \<Rightarrow> json \<Rightarrow> int \<times> int" where
  "answer_charge path md v =
     (if path = CHAT_COMPLETIONS_PATH then (usage_tokens v ''prompt_tokens'', usage_tokens v ''completion_tokens'')
      else if path = COMPLETIONS_PATH then (0, usage_tokens v ''total_tokens'')
      else if path = EMBEDDINGS_PATH then (as_i64 (metadata_input_tokens md), 0)
      else (as_i64 (metadata_input_tokens md), as_i64 (rx_max_output_tokens md)))"

lemma answered_is_settled:
  assumes "alone p" and "never_panics ne" and "reserved_for d (px_db p) md" and "fiat_path path md"
    and "inference_handler path = Some handle" and "handle tx ne md headers payload p = (q, Inr (JsonBody v))"
  shows "\<exists>x y. fiat_amount (fst (answer_charge path md v)) (rx_price_per_one_million_input_compute_units md) = Some x \<and>
    fiat_amount (snd (answer_charge path md v)) (rx_price_per_one_million_output_compute_units md) = Some y \<and>
    db_fiat (px_db q) = settled_fiat (rx_user_id md) (input_hold md, output_hold md) (x, y) (db_fiat (px_db p))"
proof -
  from assms(4) consider "path = CHAT_COMPLETIONS_PATH" | "path = COMPLETIONS_PATH" | "path = IMAGE_GENERATIONS_PATH"
    | "path = EMBEDDINGS_PATH" "rx_max_output_tokens md = 0" by (auto simp: fiat_path_def)
  then show ?thesis
  proof cases
    case 1
    with assms(5,6) chat.answer_charges [OF assms(1,2) _ assms(3)] show ?thesis by (auto simp: answer_charge_def)
  next
    case 2
    with assms(5,6) completions.answer_charges [OF assms(1,2) _ assms(3)] show ?thesis by (auto simp: answer_charge_def)
  next
    case 3
    with assms(5,6) images.answer_charges [OF assms(1,2) _ assms(3)] show ?thesis by (auto simp: answer_charge_def)
  next
    case 4
    with assms(5,6) embeddings.answer_charges [OF assms(1,2) _ assms(3)] show ?thesis by (auto simp: answer_charge_def)
  qed
qed

lemma streamed_holds:
  assumes "alone p" and "never_panics ne" and "reserved_for d (px_db p) md" and "fiat_path path md"
    and "inference_handler path = Some handle" and "handle tx ne md headers payload p = (q, Inr (SseBody s))"
  shows "q = p \<and> s = metadata_streamer md"
  using assms(4-6) chat.stream_holds [OF assms(1,2) _ assms(3)] completions.stream_holds [OF assms(1,2) _ assms(3)]
    embeddings.stream_holds [OF assms(1,2) _ assms(3)] images.stream_holds [OF assms(1,2) _ assms(3)]
  by (auto simp: fiat_path_def)

lemma reserve_then_settle:
  assumes "fiat_inv t" and "reserve_fiat uid e t = Some t1" and "settle_fiat_amounts uid e a t1 = Some t2"
  shows "fiat_num fiat_held t2 uid = fiat_num fiat_held t uid \<and>
    fiat_num fiat_debited t2 uid = fiat_num fiat_debited t uid + fiat_weight a \<and>
    fiat_num usd_balance t2 uid = fiat_num usd_balance t uid"
proof -
  have "fiat_inv t1" by (rule fiat_ledger.reserve_inv [OF assms(1,2)])
  with assms show ?thesis
    by (simp add: fiat_ledger.reserve_laws [OF assms(1,2)] fiat_ledger.settle_laws [OF _ assms(3)])
qed

lemma reserved_then_charged:
  assumes "reserved_for d d1 md" and "settle_fiat_amounts (rx_user_id md) (input_hold md, output_hold md) (x, y) (db_fiat d1) = Some t"
  shows "fiat_num fiat_held t (rx_user_id md) = fiat_num fiat_held (db_fiat d) (rx_user_id md) \<and>
    fiat_num fiat_debited t (rx_user_id md) = fiat_num fiat_debited (db_fiat d) (rx_user_id md) + x + y \<and>
    fiat_num usd_balance t (rx_user_id md) = fiat_num usd_balance (db_fiat d) (rx_user_id md)"
  using reserve_then_settle [of "db_fiat d" "rx_user_id md" "(input_hold md, output_hold md)" "db_fiat d1" "(x, y)" t] assms
  by (auto simp: reserved_for_def reserve_fiat_iff)


text \<open>
  A node whose answer carries a response hash that is not base64 makes the handler's task
  panic: the request fails and no message is sent to the state manager, so that the
  reservation is neither charged nor released.
\<close>

theorem panicking_check_keeps_reservation:
  fixes p :: "('f, 'm) proxy"
  assumes "ne_post ne (rx_node_address md @ rx_endpoint md) headers payload = Inr \<lparr>nr_status = 200, nr_body = Inr v\<rparr>"
    and "json_get v ''response_hash'' = Some (JString s)" and "rc_base64_decode (ne_crates ne) s = None"
    and "fiat_path path md" and "inference_handler path = Some handle" and "\<not> is_streaming payload"
  shows "handle tx ne md headers payload p =
    (p, Inl (handler_failed ne md (ne_panic ne)))"
proof -
  have json: "node_json ne md headers payload f g = Inr v" for f g
    using assms(1) by (simp add: node_json_def post_to_node_def)
  have check: "check_answer ne v b p = (p, TaskPanicked (ne_panic ne))" for b
    using assms(2,3) by (simp add: check_answer_def verify_response_hash_and_signature_def json_index_def)
  show ?thesis using assms(4-6)
    by (auto simp: fiat_path_def json check chat_completions_create_def completions_create_def embeddings_create_def
        image_generations_create_def handle_chat_completions_request_def handle_completions_request_def
        chat_non_streaming_response_def completions_non_streaming_response_def non_streaming_response_def
        embeddings_task_def handle_embeddings_response_def handle_image_generation_response_def on_failure_def)
qed

text \<open>
  A completion without streaming is charged all of its tokens, the prompt included, at the
  price of output: when output is dearer than input and the node reports as many tokens as
  were estimated, the charge exceeds what was reserved for the request.
\<close>

theorem completions_exceed_reservation:
  assumes "alone p" and "never_panics ne" and "reserved_for d (px_db p) md"
    and "completions_create tx ne md headers payload p = (q, Inr (JsonBody v))"
    and "ip = rx_price_per_one_million_input_compute_units md" and "op = rx_price_per_one_million_output_compute_units md"
    and "n = uint (metadata_input_tokens md)" and "m = uint (rx_max_output_tokens md)"
    and "0 \<le> ip" and "op \<le> i64_max" and "n + m \<le> i64_max" and "(n + m) * op \<le> i64_max"
    and "n * ip div ONE_MILLION < n * op div ONE_MILLION" and "ip \<le> op"
    and "usage_tokens v ''total_tokens'' = n + m"
    and "settle_fiat_amounts (rx_user_id md) (input_hold md, output_hold md) (0, (n + m) * op div ONE_MILLION)
      (db_fiat (px_db p)) \<noteq> None"
  shows "fiat_num fiat_debited (db_fiat (px_db q)) (rx_user_id md) - fiat_num fiat_debited (db_fiat d) (rx_user_id md) >
    input_hold md + output_hold md"
proof -
  have pos: "0 \<le> n" "0 \<le> m" using assms(7,8) by simp_all
  have "0 \<le> op" using assms(9,14) by simp
  have prod: "n * op + m * op \<le> i64_max" using assms(12) by (simp add: distrib_right)
  have "n * ip \<le> n * op" "0 \<le> n * ip" "0 \<le> m * op" using pos assms(9,14) \<open>0 \<le> op\<close> by (auto intro: mult_left_mono)
  then have le: "n * ip \<le> i64_max" "m * op \<le> i64_max" "n \<le> i64_max" "m \<le> i64_max" using prod pos assms(11) by linarith+
  have holds: "input_hold md = n * ip div ONE_MILLION" "output_hold md = m * op div ONE_MILLION"
    using fiat_locked_amount_eq [of "metadata_input_tokens md" ip] fiat_locked_amount_eq [of "rx_max_output_tokens md" op]
      le assms(9) \<open>0 \<le> op\<close> unfolding input_hold_def output_hold_def assms(5-8) by blast+
  have total: "fiat_amount (n + m) op = Some ((n + m) * op div ONE_MILLION)"
    using assms(10-12) pos \<open>0 \<le> op\<close> \<open>n * ip \<le> n * op\<close> \<open>0 \<le> m * op\<close>
    by (subst fiat_amount_eq) (auto simp: ONE_MILLION_def i64_max_def)
  have "fiat_path COMPLETIONS_PATH md" by (simp add: fiat_path_def)
  from answered_is_settled [OF assms(1-3) this inference_handlers(2) assms(4)] total assms(5,6,15)
  have q: "db_fiat (px_db q) = settled_fiat (rx_user_id md) (input_hold md, output_hold md)
      (0, (n + m) * op div ONE_MILLION) (db_fiat (px_db p))"
    by (auto simp: answer_charge_def)
  from assms(16) obtain t where t: "settle_fiat_amounts (rx_user_id md) (input_hold md, output_hold md)
      (0, (n + m) * op div ONE_MILLION) (db_fiat (px_db p)) = Some t" by auto
  have "n * op div ONE_MILLION + m * op div ONE_MILLION \<le> (n + m) * op div ONE_MILLION"
    by (simp add: distrib_right div_add1_eq [of "n * op" "m * op"] ONE_MILLION_def)
  with reserved_then_charged [OF assms(3) t] q t holds assms(13) show ?thesis by (simp add: settled_fiat_def)
qed

definition sample_reserved_db :: "int db" where
  "sample_reserved_db = sample_db\<lparr>db_fiat := [sample_fiat_row 7 50 0 0, sample_fiat_row 1 100 40 20]\<rparr>"

definition sample_reserved_proxy :: "(int, unit) proxy" where
  "sample_reserved_proxy = sample_proxy\<lparr>px_db := sample_reserved_db\<rparr>"

definition sample_answer :: "int \<Rightarrow> int \<Rightarrow> json" where
  "sample_answer prompt completion = JObject [(''response_hash'', JString ''ab''), (''signature'', JString ''s''),
     (''usage'', JObject [(''prompt_tokens'', JInt prompt), (''completion_tokens'', JInt completion),
        (''total_tokens'', JInt (prompt + completion))])]"

definition sample_node_env :: "nat \<Rightarrow> json \<Rightarrow> int node_env" where
  "sample_node_env status v = \<lparr>ne_post = (\<lambda>url headers payload. Inr \<lparr>nr_status = status, nr_body = Inr v\<rparr>),
     ne_canonical_reason = (\<lambda>s. None), ne_show_status = (\<lambda>s. ''''), ne_show_debug = (\<lambda>e. ''''),
     ne_crates = sample_response_crates\<lparr>rc_blake2b := (\<lambda>s. [2])\<rparr>, ne_panic = ''unwrap'', ne_show_join = (\<lambda>e. e),
     ne_now = sample_time 0, ne_elapsed = 1, ne_request_id_header = ''x-request-id'', ne_request_id = ''id''\<rparr>"

definition sample_request_metadata :: "int \<Rightarrow> string \<Rightarrow> request_metadata" where
  "sample_request_metadata ip path = \<lparr>rx_node_address = ''http://n'', rx_node_id = 8, rx_num_input_tokens = Some 2000000,
     rx_max_output_tokens = 1000000, rx_user_id = 1, rx_selected_stack_small_id = None,
     rx_price_per_one_million_input_compute_units = ip, rx_price_per_one_million_output_compute_units = 20,
     rx_endpoint = path, rx_model_name = ''m''\<rparr>"

lemma sample_never_panics: "never_panics (sample_node_env status v)"
  by (simp add: never_panics_def sample_node_env_def sample_response_crates_def)

lemma sample_reserved_alone: "alone sample_reserved_proxy"
  using sample_proxy_alone by (simp add: sample_reserved_proxy_def)

lemma sample_reserved_for: "reserved_for sample_db (px_db sample_reserved_proxy) (sample_request_metadata 20 path)"
proof -
  have "fiat_inv (db_fiat sample_db)" by (simp add: sample_db_def sample_fiat_inv)
  moreover have "input_hold (sample_request_metadata 20 path) = 40" "output_hold (sample_request_metadata 20 path) = 20"
    by (simp_all add: input_hold_def output_hold_def sample_request_metadata_def metadata_input_tokens_def
        fiat_locked_amount_eq i64_max_def ONE_MILLION_def)
  moreover have "fiat_amount (as_i64 2000000) 20 = Some 40" "fiat_amount (as_i64 1000000) 20 = Some 20" by code_simp+
  moreover have "lock_user_fiat_balance (db_fiat sample_db) 1 40 20 =
      Inr ([sample_fiat_row 7 50 0 0, sample_fiat_row 1 100 40 20], True)" by code_simp
  ultimately show ?thesis
    by (simp add: reserved_for_def fits_amounts_def sample_reserved_proxy_def sample_reserved_db_def
        sample_request_metadata_def metadata_input_tokens_def)
qed

lemma sample_fiat_path: "fiat_path CHAT_COMPLETIONS_PATH md" "fiat_path COMPLETIONS_PATH md"
  by (simp_all add: fiat_path_def)

definition sample_run :: "nat \<Rightarrow> json \<Rightarrow> (int, unit) proxy \<times> (atoma_proxy_error + answer_body)" where
  "sample_run status v = chat_completions_create sample_texts (sample_node_env status v)
     (sample_request_metadata 20 CHAT_COMPLETIONS_PATH) sample_headers (JObject []) sample_reserved_proxy"


theorem panicking_check_keeps_reservation_witness:
  "fst (chat_completions_create sample_texts
      ((sample_node_env 200 (sample_answer 1 1))\<lparr>ne_crates := sample_response_crates\<lparr>rc_base64_decode := (\<lambda>s. None)\<rparr>\<rparr>)
      (sample_request_metadata 20 CHAT_COMPLETIONS_PATH) sample_headers (JObject []) sample_reserved_proxy) = sample_reserved_proxy"
proof -
  have "\<not> is_streaming (JObject [])" by (simp add: is_streaming_def)
  from panicking_check_keeps_reservation [OF _ _ _ sample_fiat_path(1) inference_handlers(1) this,
    of "(sample_node_env 200 (sample_answer 1 1))\<lparr>ne_crates := sample_response_crates\<lparr>rc_base64_decode := (\<lambda>s. None)\<rparr>\<rparr>"
      "sample_request_metadata 20 CHAT_COMPLETIONS_PATH" sample_headers "sample_answer 1 1" "''ab''" sample_texts sample_reserved_proxy]
  show ?thesis by (simp add: sample_node_env_def sample_answer_def)
qed

definition sample_completions_proxy :: "(int, unit) proxy" where
  "sample_completions_proxy =
     sample_proxy\<lparr>px_db := sample_db\<lparr>db_fiat := [sample_fiat_row 7 50 0 0, sample_fiat_row 1 100 20 20]\<rparr>\<rparr>"

definition sample_completion :: "(int, unit) proxy \<times> (atoma_proxy_error + answer_body)" where
  "sample_completion = completions_create sample_texts (sample_node_env 200 (sample_answer 2000000 1000000))
     (sample_request_metadata 10 COMPLETIONS_PATH) sample_headers (JObject []) sample_completions_proxy"

theorem completions_exceed_reservation_witness:
  "fiat_num fiat_debited (db_fiat (px_db (fst sample_completion))) 1 - fiat_num fiat_debited sample_fiat 1 > 40"
proof -
  let ?md = "sample_request_metadata 10 COMPLETIONS_PATH"
  have holds: "input_hold ?md = 20" "output_hold ?md = 20" by code_simp+
  have "fiat_inv (db_fiat sample_db)" by (simp add: sample_db_def sample_fiat_inv)
  moreover have "fits_amounts ?md" by code_simp
  moreover have "lock_user_fiat_balance (db_fiat sample_db) 1 20 20 =
      Inr ([sample_fiat_row 7 50 0 0, sample_fiat_row 1 100 20 20], True)" by code_simp
  ultimately have res: "reserved_for sample_db (px_db sample_completions_proxy) ?md"
    by (simp add: reserved_for_def holds) (simp add: sample_completions_proxy_def sample_request_metadata_def)
  have al: "alone sample_completions_proxy" using sample_proxy_alone by (simp add: sample_completions_proxy_def)
  have "snd sample_completion = Inr (JsonBody (sample_answer 2000000 1000000))" by code_simp
  then have run: "sample_completion = (fst sample_completion, Inr (JsonBody (sample_answer 2000000 1000000)))"
    by (metis prod.collapse)
  have nums: "uint (metadata_input_tokens ?md) = 2000000" "uint (rx_max_output_tokens ?md) = 1000000"
    "rx_price_per_one_million_input_compute_units ?md = 10" "rx_price_per_one_million_output_compute_units ?md = 20"
    "rx_user_id ?md = 1" by (simp_all add: sample_request_metadata_def metadata_input_tokens_def)
  have usage: "usage_tokens (sample_answer 2000000 1000000) ''total_tokens'' = 3000000" by code_simp
  have s: "settle_fiat_amounts 1 (20, 20) (0, 60) (db_fiat (px_db sample_completions_proxy)) \<noteq> None" by code_simp
  have "fiat_num fiat_debited (db_fiat (px_db (fst sample_completion))) (rx_user_id ?md) -
      fiat_num fiat_debited (db_fiat sample_db) (rx_user_id ?md) > input_hold ?md + output_hold ?md"
    by (rule completions_exceed_reservation [OF al sample_never_panics res run [unfolded sample_completion_def]
          refl refl refl refl, folded sample_completion_def])
      (use s in \<open>simp_all only: nums holds usage\<close>, simp_all add: i64_max_def ONE_MILLION_def)
  then show ?thesis unfolding nums holds by (simp add: sample_db_def)
qed

end
