(* ===== verification/Gateway.thy ===== *)
theory Gateway
  imports Inference
begin

text \<open>
  The middleware of \<^verbatim>\<open>atoma-proxy/src/server/middleware.rs\<close> around the handlers of
  \<open>Inference\<close>: \<^verbatim>\<open>authenticate_middleware\<close> reserves and forwards a request,
  \<^verbatim>\<open>handle_locked_stack_middleware\<close> retries when the node's stack is locked or not
  available, and \<open>regular_service\<close> is their composition in \<^verbatim>\<open>create_router\<close>. A request
  is its path, headers, extension and body; the next layer is a function on requests. The
  lemmas show that a reservation and the metadata of the forwarded request agree, and what
  happens to the reservation on every way a request can end.
\<close>

subsection \<open>Requests and responses\<close>

text \<open>
  A body is too large, cannot be read, or is its bytes. A response is the program's error,
  an answer, or what axum answers by itself, by its status.
\<close>

datatype http_body = BodyTooBig string | BodyUnreadable string | BodyBytes string

record http_request =
  hr_path :: string
  hr_headers :: header_map
  hr_metadata :: "request_metadata option"
  hr_body :: http_body

datatype http_response = Refused atoma_proxy_error | Answered answer_body | AnsweredStatus nat

fun response_status :: "http_response \<Rightarrow> nat" where
  "response_status (Refused e) = status_code e"
| "response_status (Answered b) = 200"
| "response_status (AnsweredStatus s) = s"

text \<open>
  A layer: what a middleware or a handler makes of a request. \<^verbatim>\<open>next.run(req)\<close> turns an
  error of the next layer into a response; a panic goes through it.
\<close>

type_synonym ('f, 'm) layer = "http_request \<Rightarrow> ('f, 'm) proxy \<Rightarrow> ('f, 'm) proxy \<times> http_response task_result"

definition forward :: "('f, 'm) layer \<Rightarrow> ('f, 'm) layer" where
  "forward handler req p =
     (case handler req p of
        (q, TaskReturned (Inl e)) \<Rightarrow> (q, TaskReturned (Inr (Refused e)))
      | (q, r) \<Rightarrow> (q, r))"

text \<open>
  What the middleware takes from crates, besides the parameters of \<open>Billing\<close> and
  \<open>Requests\<close>: the names of the headers (\<^verbatim>\<open>atoma_utils::constants\<close>), whether a text can be
  a header's value and how it reads again, the wallet's signature of a body, JSON texts,
  and axum's \<^verbatim>\<open>Json\<close> extractor, which may reject a request with a status.
\<close>

record ('tok, 'j) gateway =
  gw_texts :: texts
  gw_request_crates :: "'tok request_crates"
  gw_models :: "(string \<times> 'tok) list"
  gw_sui_client :: "'j sui_client"
  gw_to_datetime :: "int \<Rightarrow> datetime option"
  gw_now :: datetime
  gw_signature_header :: string
  gw_stack_small_id_header :: string
  gw_tx_digest_header :: string
  gw_user_id_header :: string
  gw_header_value :: "string \<Rightarrow> string + string option"
  gw_sui_signature :: "json \<Rightarrow> string + string"
  gw_json_text :: "json \<Rightarrow> string"
  gw_parse_json :: "string \<Rightarrow> string + json"
  gw_extract_json :: "header_map \<Rightarrow> string \<Rightarrow> nat + json"
  gw_panic :: string

definition MODELS_PATH :: string where "MODELS_PATH = ''/v1/models''"

text \<open>\<^verbatim>\<open>axum::body::to_bytes\<close> with the limit and its two errors.\<close>

fun body_bytes :: "string \<Rightarrow> http_body \<Rightarrow> atoma_proxy_error + string" where
  "body_bytes endpoint (BodyTooBig e) = Inl (RequestError (''The body is too big: '' @ e) endpoint)"
| "body_bytes endpoint (BodyUnreadable e) =
     Inl (InternalError (''Failed to convert body to bytes: '' @ e) None endpoint)"
| "body_bytes endpoint (BodyBytes s) = Inr s"

definition body_json :: "('tok, 'j) gateway \<Rightarrow> string \<Rightarrow> string \<Rightarrow> atoma_proxy_error + json" where
  "body_json gw endpoint s =
     map_err (\<lambda>e. RequestError (''Failed to parse body as JSON: '' @ e) endpoint) (gw_parse_json gw s)"

text \<open>\<^verbatim>\<open>str::parse::<i64>\<close>: an optional sign and digits.\<close>

definition parse_i64 :: "string \<Rightarrow> int option" where
  "parse_i64 s =
     (let (sign, digits) = (case s of CHR ''-'' # t \<Rightarrow> (- 1, t) | CHR ''+'' # t \<Rightarrow> (1, t) | _ \<Rightarrow> (1, s)) in
      if digits = [] then None
      else (case decimal_value digits 0 of
              Some n \<Rightarrow> if in_i64 (sign * int n) then Some (sign * int n) else None
            | None \<Rightarrow> None))"

subsection \<open>The forwarded request\<close>

definition header_or ::
  "('tok, 'j) gateway \<Rightarrow> string \<Rightarrow> string \<Rightarrow> string \<Rightarrow> atoma_proxy_error + string option" where
  "header_or gw what endpoint s =
     map_err (\<lambda>e. InternalError (''Failed to convert '' @ what @ '' to header value: '' @ e) None endpoint)
       (gw_header_value gw s)"

definition content_length_header ::
  "('tok, 'j) gateway \<Rightarrow> string \<Rightarrow> json \<Rightarrow> atoma_proxy_error + string option" where
  "content_length_header gw endpoint body =
     header_or gw ''content length'' endpoint (decimal (length (gw_json_text gw body)))"

definition model_of_body :: "string \<Rightarrow> json \<Rightarrow> atoma_proxy_error + string" where
  "model_of_body endpoint body = ok_or (RequestError ''{MODEL} not found'' endpoint) (get_str body ''model'')"

text \<open>
  \<^verbatim>\<open>create_fiat_request\<close>. The value of the user's id is unwrapped.
\<close>

definition create_fiat_request ::
  "('tok, 'j) gateway \<Rightarrow> json \<Rightarrow> http_request \<Rightarrow> int \<Rightarrow> int \<Rightarrow> int \<Rightarrow> u64 \<Rightarrow> u64 \<Rightarrow> int \<Rightarrow> ('f, 'm) proxy
    \<Rightarrow> ('f, 'm) proxy \<times> http_request task_result" where
  "create_fiat_request gw body req node input_price output_price num_input_tokens max_output_tokens uid p =
     (let endpoint = hr_path req in
      task_then (step_result (process_selected_stack (gw_texts gw) (gw_sui_signature gw body) node endpoint p))
        (\<lambda>(node_address, signature) p.
      task_then (p, TaskReturned (header_or gw ''signature'' endpoint signature)) (\<lambda>signature_value p.
      task_then (p, TaskReturned (content_length_header gw endpoint body)) (\<lambda>length_value p.
      case gw_header_value gw (decimal_int uid) of
        Inl e \<Rightarrow> (p, TaskPanicked (gw_panic gw))
      | Inr uid_value \<Rightarrow>
      task_then (p, TaskReturned (model_of_body endpoint body)) (\<lambda>model p.
        (p, TaskReturned (Inr \<lparr>hr_path = endpoint,
           hr_headers = (hr_headers req)(gw_signature_header gw \<mapsto> signature_value, ''content-length'' \<mapsto> length_value,
             gw_user_id_header gw \<mapsto> uid_value),
           hr_metadata = Some \<lparr>rx_node_address = node_address, rx_node_id = node,
             rx_num_input_tokens = Some num_input_tokens, rx_max_output_tokens = max_output_tokens, rx_user_id = uid,
             rx_selected_stack_small_id = None, rx_price_per_one_million_input_compute_units = input_price,
             rx_price_per_one_million_output_compute_units = output_price, rx_endpoint = endpoint, rx_model_name = model\<rparr>,
           hr_body = BodyBytes (gw_json_text gw body)\<rparr>)))))))"

definition try_validate_stack_for_request ::
  "('tok, 'j) gateway \<Rightarrow> json \<Rightarrow> http_request \<Rightarrow> int \<Rightarrow> int \<Rightarrow> u64 \<Rightarrow> u64 \<Rightarrow> int \<Rightarrow> int \<Rightarrow> string option \<Rightarrow> int
    \<Rightarrow> ('f, 'm) proxy \<Rightarrow> ('f, 'm) proxy \<times> http_request task_result" where
  "try_validate_stack_for_request gw body req node sid num_input_tokens max_output_tokens input_price output_price
     tx_digest uid p =
     (let endpoint = hr_path req in
      task_then (step_result (process_selected_stack (gw_texts gw) (gw_sui_signature gw body) node endpoint p))
        (\<lambda>(node_address, signature) p.
      task_then (p, TaskReturned (header_or gw ''stack small id'' endpoint (decimal_int sid))) (\<lambda>stack_value p.
      task_then (p, TaskReturned (header_or gw ''signature'' endpoint signature)) (\<lambda>signature_value p.
      task_then (p, TaskReturned (content_length_header gw endpoint body)) (\<lambda>length_value p.
      task_then (p, TaskReturned (case tx_digest of None \<Rightarrow> Inr None
         | Some t \<Rightarrow> res_bind (header_or gw ''tx digest'' endpoint t) (\<lambda>v. Inr (Some v)))) (\<lambda>digest_value p.
      task_then (p, TaskReturned (model_of_body endpoint body)) (\<lambda>model p.
        (p, TaskReturned (Inr \<lparr>hr_path = endpoint,
           hr_headers =
             (let hs = (hr_headers req)(gw_signature_header gw \<mapsto> signature_value,
                gw_stack_small_id_header gw \<mapsto> stack_value, ''content-length'' \<mapsto> length_value) in
              case digest_value of None \<Rightarrow> hs | Some v \<Rightarrow> hs(gw_tx_digest_header gw \<mapsto> v)),
           hr_metadata = Some \<lparr>rx_node_address = node_address, rx_node_id = node,
             rx_num_input_tokens = Some num_input_tokens, rx_max_output_tokens = max_output_tokens, rx_user_id = uid,
             rx_selected_stack_small_id = Some sid, rx_price_per_one_million_input_compute_units = input_price,
             rx_price_per_one_million_output_compute_units = output_price, rx_endpoint = endpoint, rx_model_name = model\<rparr>,
           hr_body = BodyBytes (gw_json_text gw body)\<rparr>)))))))))"

subsection \<open>Authentication\<close>

definition middleware_failed :: "('tok, 'j) gateway \<Rightarrow> string \<Rightarrow> string \<Rightarrow> atoma_proxy_error" where
  "middleware_failed gw endpoint m =
     InternalError (''Failed to spawn task: '' @ tx_join_error (gw_texts gw) m) None endpoint"

text \<open>The node of a fiat request is chosen already; any other request selects one.\<close>

definition node_of_request ::
  "('tok, 'j) gateway \<Rightarrow> string \<Rightarrow> stack_metadata \<Rightarrow> ('f, 'm) proxy \<Rightarrow> ('f, 'm) proxy \<times> (atoma_proxy_error + selected_node_metadata)" where
  "node_of_request gw endpoint md p =
     (if sm_is_fiat_request md
      then (p, Inr \<lparr>sn_stack_small_id = None, sn_selected_node_id = sm_selected_node_id md, sn_tx_digest = None,
             sn_price_per_one_million_input_compute_units = sm_price_per_one_million_input_compute_units md,
             sn_price_per_one_million_output_compute_units = sm_price_per_one_million_output_compute_units md\<rparr>)
      else get_selected_node (gw_texts gw) (gw_sui_client gw) (gw_to_datetime gw) (gw_now gw) (sm_optional_stack md)
             (sm_user_id md) (sm_model md) endpoint (sm_num_input_tokens md + sm_max_output_tokens md) p)"

text \<open>The request for the node that was selected, or what was locked is given back.\<close>

definition request_for_node ::
  "('tok, 'j) gateway \<Rightarrow> json \<Rightarrow> http_request \<Rightarrow> stack_metadata \<Rightarrow> selected_node_metadata \<Rightarrow> ('f, 'm) proxy
    \<Rightarrow> ('f, 'm) proxy \<times> http_request task_result" where
  "request_for_node gw body req md node p =
     (let n = sm_num_input_tokens md; m = sm_max_output_tokens md;
          ip = sn_price_per_one_million_input_compute_units node;
          op = sn_price_per_one_million_output_compute_units node in
      case sn_stack_small_id node of
        Some sid \<Rightarrow>
          on_failure (gw_texts gw) (\<lambda>chan. update_state_manager chan sid (as_i64 (n + m)) 0 (hr_path req))
            (try_validate_stack_for_request gw body req (sn_selected_node_id node) sid n m ip op (sn_tx_digest node)
               (sm_user_id md) p)
      | None \<Rightarrow>
          on_failure (gw_texts gw)
            (\<lambda>chan. update_state_manager_fiat chan (sm_user_id md) (as_i64 n) 0 (as_i64 m) 0 ip op (sm_model md) (hr_path req))
            (create_fiat_request gw body req (sn_selected_node_id node) ip op n m (sm_user_id md) p))"

definition authenticate_task ::
  "('tok, 'j) gateway \<Rightarrow> ('f, 'm) layer \<Rightarrow> json \<Rightarrow> ('f, 'm) layer" where
  "authenticate_task gw handler body req p =
     task_then (step_result (handle_authenticate_and_lock_compute_units (gw_texts gw) (gw_request_crates gw) (gw_models gw)
        (hr_headers req) body (hr_path req) p)) (\<lambda>md p.
     task_then (step_result (node_of_request gw (hr_path req) md p)) (\<lambda>node p.
     task_then (request_for_node gw body req md node p) (forward handler)))"

definition authenticate_middleware :: "('tok, 'j) gateway \<Rightarrow> ('f, 'm) layer \<Rightarrow> ('f, 'm) layer" where
  "authenticate_middleware gw handler req p =
     (if hr_path req = MODELS_PATH
      then task_then (step_result (check_auth (gw_texts gw) (hr_headers req) (hr_path req) p)) (\<lambda>_. forward handler req)
      else
        case res_bind (body_bytes (hr_path req) (hr_body req)) (body_json gw (hr_path req)) of
          Inl e \<Rightarrow> (p, TaskReturned (Inl e))
        | Inr body \<Rightarrow>
            step_result (join_task (middleware_failed gw (hr_path req))
              (authenticate_task gw handler (with_default_max_tokens body) req p)))"

subsection \<open>Locked and unavailable stacks\<close>

text \<open>\<open>selected_stack\<close> is the stack that step 1 or step 2 gives, which must have an id.\<close>

definition too_early_without_stack :: "string \<Rightarrow> atoma_proxy_error" where
  "too_early_without_stack endpoint = InternalError ''Too early without a stack information'' None endpoint"

definition retry_unavailable ::
  "('tok, 'j) gateway \<Rightarrow> ('f, 'm) layer \<Rightarrow> http_request \<Rightarrow> header_map \<Rightarrow> string \<Rightarrow> request_metadata \<Rightarrow> ('f, 'm) proxy \<Rightarrow> ('f, 'm) proxy \<times> http_response task_result" where
  "retry_unavailable gw handler req headers bytes md p =
     (let endpoint = hr_path req; n = metadata_input_tokens md; m = rx_max_output_tokens md in
      task_then (step_result (and_then
          (get_node_metadata_from_state_manager (gw_texts gw) (rx_model_name md) (rx_user_id md) (as_i64 (n + m))
             (is_confidential_compute_endpoint endpoint) endpoint p)
          (\<lambda>found p. case found of
              Some s \<Rightarrow> (p, Inr (s\<lparr>sn_tx_digest := None\<rparr>))
            | None \<Rightarrow> get_cheapest_node_and_acquire_new_stack (gw_texts gw) (gw_sui_client gw) (gw_to_datetime gw) (gw_now gw)
                (rx_user_id md) (rx_model_name md) (rx_endpoint md) (n + m) p))) (\<lambda>node p.
      case sn_stack_small_id node of
        None \<Rightarrow> (p, TaskReturned (Inl (too_early_without_stack endpoint)))
      | Some sid \<Rightarrow>
          (case gw_header_value gw (decimal_int sid) of
             Inl e \<Rightarrow> (p, TaskPanicked (gw_panic gw))
           | Inr sid_value \<Rightarrow>
               task_then (p, TaskReturned (body_json gw endpoint bytes)) (\<lambda>body p.
               task_then (on_failure (gw_texts gw) (\<lambda>chan. update_state_manager chan sid (as_i64 (n + m)) 0 endpoint)
                   (try_validate_stack_for_request gw body
                      (req\<lparr>hr_headers := headers(gw_stack_small_id_header gw \<mapsto> sid_value)\<rparr>)
                      (sn_selected_node_id node) sid n m (sn_price_per_one_million_input_compute_units node)
                      (sn_price_per_one_million_output_compute_units node) (sn_tx_digest node) (rx_user_id md) p))
                 (forward handler)))))"

definition handle_locked_stack_middleware :: "('tok, 'j) gateway \<Rightarrow> ('f, 'm) layer \<Rightarrow> ('f, 'm) layer" where
  "handle_locked_stack_middleware gw handler req p =
     (let endpoint = hr_path req; headers = (hr_headers req)(''authorization'' := None);
          no_metadata = InternalError ''Request metadata not found, this should never happen'' None endpoint in
      case hr_headers req ''authorization'' of
        None \<Rightarrow> (p, TaskReturned (Inl (RequestError ''Authorization header not found, this should never happen'' endpoint)))
      | Some authorization \<Rightarrow>
      task_then (p, TaskReturned (body_bytes endpoint (hr_body req))) (\<lambda>bytes p.
      task_then (forward handler (req\<lparr>hr_headers := headers, hr_body := BodyBytes bytes\<rparr>) p) (\<lambda>response p.
        if response_status response = 423 then
          (case hr_metadata req of
             None \<Rightarrow> (p, TaskReturned (Inl no_metadata))
           | Some md \<Rightarrow>
               (case lock_stack_of_request (gw_texts gw) parse_i64 (gw_stack_small_id_header gw) headers endpoint p of
                  (rest, p, Inl e) \<Rightarrow> (p, TaskReturned (Inl e))
                | (rest, p, Inr _) \<Rightarrow>
                    if is_confidential_compute_endpoint endpoint
                    then (p, TaskReturned (Inl (Locked ''Current stack is locked, for this reason the confidential compute request should be retried'' endpoint)))
                    else authenticate_middleware gw handler
                      (req\<lparr>hr_headers := rest(''authorization'' \<mapsto> authorization), hr_body := BodyBytes bytes\<rparr>) p))
        else if response_status response = 425 then
          (case hr_metadata req of
             None \<Rightarrow> (p, TaskReturned (Inl no_metadata))
           | Some md \<Rightarrow>
               if is_confidential_compute_endpoint endpoint
               then (p, TaskReturned (Inl (UnavailableStack ''Current stack is currently unavailable, confidential compute request should be retried'' endpoint)))
               else retry_unavailable gw handler req (headers(''authorization'' \<mapsto> authorization)) bytes md p)
        else (p, TaskReturned (Inr response)))))"

subsection \<open>The service\<close>

text \<open>
  The innermost layer: axum routes by the path and extracts the extension, the headers and
  the JSON payload for the handler. The list of models is answered without them.
\<close>

definition models_list :: "(string \<times> 'tok) list \<Rightarrow> json" where
  "models_list models = JObject [(''object'', JString ''list''),
     (''data'', JArray (map (\<lambda>(model, _). JObject [(''id'', JString model), (''object'', JString ''model''),
        (''created'', JInt 1686935002), (''owned_by'', JString ''atoma'')]) models))]"

definition inference_service :: "('tok, 'j) gateway \<Rightarrow> 'f node_env \<Rightarrow> ('f, 'm) layer" where
  "inference_service gw ne req p =
     (if hr_path req = MODELS_PATH then (p, TaskReturned (Inr (Answered (JsonBody (models_list (gw_models gw))))))
      else case inference_handler (hr_path req) of
        None \<Rightarrow> (p, TaskReturned (Inr (AnsweredStatus 404)))
      | Some handle \<Rightarrow>
          (case hr_metadata req of
             None \<Rightarrow> (p, TaskReturned (Inr (AnsweredStatus 500)))
           | Some md \<Rightarrow>
               (case hr_body req of
                  BodyBytes bytes \<Rightarrow>
                    (case gw_extract_json gw (hr_headers req) bytes of
                       Inl status \<Rightarrow> (p, TaskReturned (Inr (AnsweredStatus status)))
                     | Inr payload \<Rightarrow>
                         (case handle (gw_texts gw) ne md (hr_headers req) payload p of
                            (q, Inl e) \<Rightarrow> (q, TaskReturned (Inl e))
                          | (q, Inr b) \<Rightarrow> (q, TaskReturned (Inr (Answered b)))))
                | _ \<Rightarrow> (p, TaskReturned (Inr (AnsweredStatus 400))))))"

definition regular_service :: "('tok, 'j) gateway \<Rightarrow> 'f node_env \<Rightarrow> ('f, 'm) layer" where
  "regular_service gw ne = authenticate_middleware gw (handle_locked_stack_middleware gw (inference_service gw ne))"

subsection \<open>The forwarded request is backed by its reservation\<close>

lemma process_alone:
  assumes "alone p" and "process_selected_stack tx sg node ep p = (q, r)"
  shows "alone q \<and> px_db q = px_db p"
proof -
  let ?a = "get_node_public_address (db_nodes (px_db p)) node"
  have "send_event_with_response tx address_answer (GetNodePublicAddress node) ''GetNodePublicAddress'' ep p =
      (after p (px_db p), map_err (state_failure tx ''GetNodePublicAddress'' ep) ?a)"
    by (simp add: respond_alone [OF assms(1)] send_reply_def)
  with assms show ?thesis by (cases ?a) (auto simp: process_selected_stack_def)
qed

text \<open>Numbers can be header values, and the names of the headers are not the ones of the client's token and content type.\<close>

definition headers_fine :: "('tok, 'j) gateway \<Rightarrow> bool" where
  "headers_fine gw \<longleftrightarrow> (\<forall>i. \<not> isl (gw_header_value gw (decimal_int i))) \<and>
     {''authorization'', ''content-type''} \<inter> {gw_signature_header gw, gw_stack_small_id_header gw, gw_user_id_header gw} = {} \<and>
     gw_stack_small_id_header gw \<notin> {gw_signature_header gw, gw_user_id_header gw, ''content-length''}"

lemma create_fiat_outcome:
  assumes "alone p" and "headers_fine gw"
    and "create_fiat_request gw body req node ip op n m uid p = (q, r)"
  shows "alone q \<and> px_db q = px_db p \<and> (\<exists>res. r = TaskReturned res \<and>
    (\<forall>req'. res = Inr req' \<longrightarrow> hr_path req' = hr_path req \<and> hr_body req' = BodyBytes (gw_json_text gw body) \<and>
       hr_headers req' ''authorization'' = hr_headers req ''authorization'' \<and>
       hr_headers req' ''content-type'' = hr_headers req ''content-type'' \<and>
       hr_headers req' (gw_stack_small_id_header gw) = hr_headers req (gw_stack_small_id_header gw) \<and>
       (\<exists>md. hr_metadata req' = Some md \<and> rx_node_id md = node \<and> rx_num_input_tokens md = Some n \<and>
          rx_max_output_tokens md = m \<and> rx_user_id md = uid \<and> rx_selected_stack_small_id md = None \<and>
          rx_price_per_one_million_input_compute_units md = ip \<and>
          rx_price_per_one_million_output_compute_units md = op \<and> rx_endpoint md = hr_path req)))"
proof -
  obtain p1 s where pr: "process_selected_stack (gw_texts gw) (gw_sui_signature gw body) node (hr_path req) p = (p1, s)"
    by fastforce
  obtain v where v: "gw_header_value gw (decimal_int uid) = Inr v"
    using assms(2) by (auto simp: headers_fine_def isl_def) (metis sum.exhaust)
  show ?thesis
  proof (cases s)
    case (Inl e)
    with assms(3) pr process_alone [OF assms(1) pr] show ?thesis
      by (auto simp: create_fiat_request_def step_result_def Let_def)
  next
    case (Inr a)
    obtain address sig where a: "a = (address, sig)" by fastforce
    with Inr assms(2,3) pr v process_alone [OF assms(1) pr] show ?thesis
      by (cases "header_or gw ''signature'' (hr_path req) sig"; cases "content_length_header gw (hr_path req) body";
          cases "model_of_body (hr_path req) body")
        (auto simp: create_fiat_request_def step_result_def headers_fine_def Let_def)
  qed
qed

definition stack_metadata_fits :: "stack_metadata \<Rightarrow> bool" where
  "stack_metadata_fits md \<longleftrightarrow>
     fiat_amount (as_i64 (sm_num_input_tokens md)) (sm_price_per_one_million_input_compute_units md) =
       Some (fiat_locked_amount (sm_num_input_tokens md) (sm_price_per_one_million_input_compute_units md)) \<and>
     fiat_amount (as_i64 (sm_max_output_tokens md)) (sm_price_per_one_million_output_compute_units md) =
       Some (fiat_locked_amount (sm_max_output_tokens md) (sm_price_per_one_million_output_compute_units md))"

text \<open>The amounts of this request's reservation fit an \<^verbatim>\<open>i64\<close>.\<close>

definition reservation_of :: "('tok, 'j) gateway \<Rightarrow> json \<Rightarrow> http_request \<Rightarrow> ('f, 'm) proxy \<Rightarrow> ('f, 'm) proxy \<times> (atoma_proxy_error + stack_metadata)" where
  "reservation_of gw body req p =
     handle_authenticate_and_lock_compute_units (gw_texts gw) (gw_request_crates gw) (gw_models gw)
        (hr_headers req) body (hr_path req) p"

definition request_json :: "('tok, 'j) gateway \<Rightarrow> http_request \<Rightarrow> atoma_proxy_error + json" where
  "request_json gw req =
     res_bind (res_bind (body_bytes (hr_path req) (hr_body req)) (body_json gw (hr_path req)))
       (\<lambda>body. Inr (with_default_max_tokens body))"

definition reservation_fits :: "('tok, 'j) gateway \<Rightarrow> http_request \<Rightarrow> ('f, 'm) proxy \<Rightarrow> bool" where
  "reservation_fits gw req p =
     (case request_json gw req of
        Inl e \<Rightarrow> True
      | Inr body \<Rightarrow>
          (case snd (reservation_of gw body req p) of
             Inl e \<Rightarrow> True | Inr md \<Rightarrow> stack_metadata_fits md))"

lemma reservation_outcome:
  assumes "alone p" and "db_inv (px_db p)" and "reservation_of gw body req p = (q, r)"
  shows "alone q \<and> (case r of
      Inl e \<Rightarrow> db_fiat (px_db q) = db_fiat (px_db p)
    | Inr md \<Rightarrow> (\<exists>d. db_fiat d = db_fiat (px_db p) \<and>
        reserved d (sm_user_id md) (sm_num_input_tokens md) (sm_max_output_tokens md) (px_db q) md) \<and>
        hr_headers req ''authorization'' \<noteq> None \<and>
        (hr_path req = CHAT_COMPLETIONS_PATH \<or> hr_path req = COMPLETIONS_PATH \<or> hr_path req = IMAGE_GENERATIONS_PATH \<or>
         hr_path req = EMBEDDINGS_PATH \<and> sm_max_output_tokens md = 0))"
proof (cases "request_model_of (gw_request_crates gw) body (hr_path req)")
  case (Inl e)
  with assms show ?thesis by (auto simp: reservation_of_def handle_authenticate_and_lock_compute_units_def)
next
  case (Inr rm)
  with assms(3) have run: "authenticate_and_lock_compute_units (gw_texts gw) (gw_models gw) (hr_headers req) rm (hr_path req) p = (q, r)"
    by (simp add: reservation_of_def handle_authenticate_and_lock_compute_units_def)
  have al: "alone q" using alone_kept.authenticate_keeps [OF assms(1)] run by (metis fst_conv)
  from Inr have path: "hr_path req \<in> {CHAT_COMPLETIONS_PATH, COMPLETIONS_PATH, IMAGE_GENERATIONS_PATH, EMBEDDINGS_PATH}"
    by (auto simp: request_model_of_def split: if_splits)
  have emb: "m = 0" if "hr_path req = EMBEDDINGS_PATH" and "estimate_request (gw_models gw) rm (hr_path req) = Inr (n, m)" for n m
    using that Inr by (auto simp: request_model_of_def embeddings_request_def estimate_request_def res_bind_Inr_iff
        split: if_splits option.splits)
  note out = authenticate_alone [OF assms(1,2) run]
  show ?thesis
  proof (cases r)
    case (Inl e)
    with out al show ?thesis by simp
  next
    case (Inr md)
    with out obtain row now n m where est: "estimate_request (gw_models gw) rm (hr_path req) = Inr (n, m)"
      and tok: "bearer_token (hr_headers req) \<noteq> None"
      and res: "reserved (token_used row now (px_db p)) (sm_user_id md) n m (px_db q) md" by auto
    from res have "sm_num_input_tokens md = n" "sm_max_output_tokens md = m" by (auto simp: reserved_def)
    moreover have "db_fiat (token_used row now (px_db p)) = db_fiat (px_db p)" by (simp add: token_used_tables)
    ultimately have "\<exists>d. db_fiat d = db_fiat (px_db p) \<and>
        reserved d (sm_user_id md) (sm_num_input_tokens md) (sm_max_output_tokens md) (px_db q) md"
      using res by blast
    moreover have "hr_path req = CHAT_COMPLETIONS_PATH \<or> hr_path req = COMPLETIONS_PATH \<or> hr_path req = IMAGE_GENERATIONS_PATH \<or>
         hr_path req = EMBEDDINGS_PATH \<and> sm_max_output_tokens md = 0"
      using path emb est \<open>sm_max_output_tokens md = m\<close> by auto
    ultimately show ?thesis using Inr al tok by (auto simp: bearer_token_Some)
  qed
qed

lemma fiat_path_not_models: "fiat_path path md \<Longrightarrow> path \<noteq> MODELS_PATH"
  by (auto simp: fiat_path_def path_defs MODELS_PATH_def)

lemma reserved_reserved_for:
  assumes "reserved d uid n m d1 smd" and "db_fiat d = db_fiat d0" and "fiat_inv (db_fiat d0)" and "stack_metadata_fits smd"
    and "rx_num_input_tokens md = Some n" "rx_max_output_tokens md = m" "rx_user_id md = uid" "rx_selected_stack_small_id md = None"
    and "rx_price_per_one_million_input_compute_units md = sm_price_per_one_million_input_compute_units smd"
    and "rx_price_per_one_million_output_compute_units md = sm_price_per_one_million_output_compute_units smd"
  shows "reserved_for d0 d1 md"
  using assms by (auto simp: reserved_def reserved_for_def fits_amounts_def stack_metadata_fits_def input_hold_def
      output_hold_def metadata_input_tokens_def)

text \<open>
  What the middleware has done when it lets a request through: the reservation is made, and
  the request that is forwarded describes it.
\<close>

definition forwards ::
  "('tok, 'j) gateway \<Rightarrow> http_request \<Rightarrow> json \<Rightarrow> ('f, 'm) proxy \<Rightarrow> http_request \<Rightarrow> request_metadata \<Rightarrow> ('f, 'm) proxy \<Rightarrow> bool" where
  "forwards gw req body p req' md p1 \<longleftrightarrow> alone p1 \<and> reserved_for (px_db p) (px_db p1) md \<and>
     fiat_path (hr_path req) md \<and> hr_metadata req' = Some md \<and> rx_endpoint md = hr_path req \<and>
     hr_path req' = hr_path req \<and> hr_body req' = BodyBytes (gw_json_text gw body) \<and>
     hr_headers req' ''authorization'' = hr_headers req ''authorization'' \<and>
     hr_headers req' ''content-type'' = hr_headers req ''content-type'' \<and>
     hr_headers req' (gw_stack_small_id_header gw) = hr_headers req (gw_stack_small_id_header gw)"

lemma request_for_fiat:
  fixes p p1 p2 q :: "('f, 'm) proxy"
  assumes "alone p1" and "headers_fine gw" and "sm_is_fiat_request smd" and "stack_metadata_fits smd"
    and "reserved d (sm_user_id smd) (sm_num_input_tokens smd) (sm_max_output_tokens smd) (px_db p1) smd"
    and "db_fiat d = db_fiat (px_db p)" and "fiat_inv (db_fiat (px_db p))"
    and path: "hr_path req = CHAT_COMPLETIONS_PATH \<or> hr_path req = COMPLETIONS_PATH \<or> hr_path req = IMAGE_GENERATIONS_PATH \<or>
      hr_path req = EMBEDDINGS_PATH \<and> sm_max_output_tokens smd = 0"
    and "node_of_request gw (hr_path req) smd p1 = (p2, Inr node)"
    and run: "request_for_node gw body req smd node p2 = (q, r)"
  shows "(\<exists>e. r = TaskReturned (Inl e)) \<and> alone q \<and> db_fiat (px_db q) = db_fiat (px_db p) \<or>
    (\<exists>req' md. r = TaskReturned (Inr req') \<and> forwards gw req body p req' md q)"
proof -
  let ?n = "sm_num_input_tokens smd" and ?m = "sm_max_output_tokens smd"
  let ?ip = "sm_price_per_one_million_input_compute_units smd" and ?op = "sm_price_per_one_million_output_compute_units smd"
  let ?f = "\<lambda>chan. update_state_manager_fiat chan (sm_user_id smd) (as_i64 ?n) 0 (as_i64 ?m) 0 ?ip ?op (sm_model smd) (hr_path req)
      :: atoma_proxy_error + 'f state_manager_event"
  from assms(3,9) have p2: "p2 = p1" and node: "sn_stack_small_id node = None"
    "sn_price_per_one_million_input_compute_units node = ?ip" "sn_price_per_one_million_output_compute_units node = ?op"
    by (auto simp: node_of_request_def)
  obtain p3 r3 where cr: "create_fiat_request gw body req (sn_selected_node_id node) ?ip ?op ?n ?m (sm_user_id smd) p1 = (p3, r3)"
    by fastforce
  from run node p2 cr have f: "on_failure (gw_texts gw) ?f (p3, r3) = (q, r)"
    by (simp add: request_for_node_def Let_def)
  note out = create_fiat_outcome [OF assms(1,2) cr]
  then obtain res where r3: "r3 = TaskReturned res" by blast
  from assms(5,6) have hold: "lock_user_fiat_balance (db_fiat (px_db p)) (sm_user_id smd) (fiat_locked_amount ?n ?ip)
      (fiat_locked_amount ?m ?op) = Inr (db_fiat (px_db p1), True)"
    by (auto simp: reserved_def)
  show ?thesis
  proof (cases res)
    case (Inl e)
    from assms(4) have ev: "?f None = Inr (UpdateStackNumTokensFiat (sm_user_id smd) (sm_model smd)
        (fiat_locked_amount ?n ?ip) 0 0 (fiat_locked_amount ?m ?op) 0 0)"
      by (simp add: update_state_manager_fiat_Inr_iff stack_metadata_fits_def)
    with f r3 Inl out have "alone q" "r = TaskReturned (Inl e)"
      and q: "px_db q = fst (handle_fiat_update (event_ctx p3) (sm_user_id smd) (sm_model smd)
        (fiat_locked_amount ?n ?ip) 0 0 (fiat_locked_amount ?m ?op) 0 0 (px_db p1))"
      by (auto simp: on_failure_def report_alone)
    with lock_rollback_fiat [OF assms(7) hold] show ?thesis
      by (simp add: fiat_update_balances settled_fiat_def)
  next
    case (Inr req')
    with f r3 have q: "q = p3" "r = TaskReturned (Inr req')" by (auto simp: on_failure_def)
    from out r3 Inr obtain md where md: "hr_metadata req' = Some md" "rx_num_input_tokens md = Some ?n" "rx_max_output_tokens md = ?m"
      "rx_user_id md = sm_user_id smd" "rx_selected_stack_small_id md = None"
      "rx_price_per_one_million_input_compute_units md = ?ip" "rx_price_per_one_million_output_compute_units md = ?op"
      "rx_endpoint md = hr_path req" by auto
    from reserved_reserved_for [OF assms(5,6,7,4) md(2-7)] have "reserved_for (px_db p) (px_db q) md"
      using out q by (simp add: reserved_for_def)
    moreover have "fiat_path (hr_path req) md" using path md(3) by (auto simp: fiat_path_def)
    ultimately have "forwards gw req body p req' md q" using out r3 Inr md q by (auto simp: forwards_def)
    with q show ?thesis by blast
  qed
qed

subsection \<open>Unavailable stacks are reported by nodes only\<close>

text \<open>No error of the program itself has the status on which a request is retried.\<close>

fun not_unavailable :: "'a task_result \<Rightarrow> bool" where
  "not_unavailable (TaskReturned (Inl e)) \<longleftrightarrow> status_code e \<noteq> 425"
| "not_unavailable r \<longleftrightarrow> True"

definition never_unavailable :: "'f node_env \<Rightarrow> bool" where
  "never_unavailable ne \<longleftrightarrow>
     (\<forall>url headers payload response. ne_post ne url headers payload = Inr response \<longrightarrow> nr_status response \<noteq> 425)"

named_theorems available

lemma not_unavailable_task_then [available]:
  "not_unavailable (snd m) \<Longrightarrow> (\<And>a p. not_unavailable (snd (f a p))) \<Longrightarrow> not_unavailable (snd (task_then m f))"
  by (cases "(m, f)" rule: task_then.cases) auto

lemma report_error:
  assumes "report tx f p = (q, Inl e)"
  shows "\<exists>chan. f chan = Inl e"
proof (cases "f None")
  case (Inl x)
  with assms show ?thesis by (auto simp: report_def)
next
  case (Inr ev)
  obtain p1 o1 where "send_message ev p = (p1, o1)" by fastforce
  with assms Inr show ?thesis
    by (cases "f (Some (tx_send_error tx))"; cases o1) (auto simp: report_def)
qed

lemma not_unavailable_report [available]:
  assumes "\<And>chan e. f chan = Inl e \<Longrightarrow> status_code e \<noteq> 425"
  shows "not_unavailable (snd (step_result (report tx f p)))"
proof (cases "report tx f p")
  case (Pair q r)
  with report_error [of tx f p q] assms show ?thesis by (cases r) (auto simp: step_result_def)
qed

lemma not_unavailable_on_failure [available]:
  assumes "\<And>chan e. f chan = Inl e \<Longrightarrow> status_code e \<noteq> 425" and "not_unavailable (snd m)"
  shows "not_unavailable (snd (on_failure tx f m))"
proof (cases "\<exists>p e. m = (p, TaskReturned (Inl e))")
  case True
  then obtain p e where m: "m = (p, TaskReturned (Inl e))" by blast
  obtain q r where r: "report tx f p = (q, r)" by fastforce
  with report_error [of tx f p q] assms m show ?thesis by (cases r) (auto simp: on_failure_def)
next
  case False
  then show ?thesis using assms(2) by (auto simp: on_failure_def split: prod.splits task_result.splits sum.splits)
qed

lemma settle_reported_error: "settle_reported md t i c chan = Inl e \<Longrightarrow> status_code e \<noteq> 425"
  by (cases "fiat_amount (fst i) (rx_price_per_one_million_input_compute_units md)";
      cases "fiat_amount (fst c) (rx_price_per_one_million_output_compute_units md)";
      cases "fiat_amount (snd i) (rx_price_per_one_million_input_compute_units md)";
      cases "fiat_amount (snd c) (rx_price_per_one_million_output_compute_units md)")
    (auto simp: settle_reported_def update_state_manager_def update_state_manager_fiat_def fiat_amount_or_def
      split: option.splits)

lemma throughput_event_error: "throughput_event ne md what i c chan = Inl e \<Longrightarrow> status_code e \<noteq> 425"
  by (auto simp: throughput_event_def split: option.splits)

lemma settle_answer_error: "settle_answer ne md t c chan = Inl e \<Longrightarrow> status_code e \<noteq> 425"
  by (auto simp: settle_answer_def map_err_Inl_iff)

lemma post_to_node_error:
  assumes "never_unavailable ne" and "\<And>e. status_code (f e) \<noteq> 425" and "post_to_node ne md headers payload f = Inl e"
  shows "status_code e \<noteq> 425"
proof (cases "ne_post ne (rx_node_address md @ rx_endpoint md) headers payload")
  case (Inl x)
  with assms(2,3) show ?thesis by (auto simp: post_to_node_def)
next
  case (Inr response)
  with assms(1) have "nr_status response \<noteq> 425" by (auto simp: never_unavailable_def)
  with assms(3) Inr show ?thesis
    by (auto simp: post_to_node_def handle_status_code_error_def split: if_splits)
qed

lemma node_json_error:
  assumes "never_unavailable ne" and "\<And>e. status_code (f e) \<noteq> 425" and "\<And>e. status_code (g e) \<noteq> 425"
    and "node_json ne md headers payload f g = Inl e"
  shows "status_code e \<noteq> 425"
proof (cases "post_to_node ne md headers payload f")
  case (Inl x)
  with assms(4) post_to_node_error [OF assms(1,2) Inl] show ?thesis by (simp add: node_json_def)
next
  case (Inr response)
  with assms(3,4) show ?thesis by (cases "nr_body response") (auto simp: node_json_def)
qed

lemma step_result_snd [simp]: "snd (step_result m) = TaskReturned (snd m)"
  by (simp add: step_result_def split: prod.split)

lemma check_rejected:
  assumes "verify_response_hash_and_signature rc v b = check.Rejected e"
  shows "status_code e \<noteq> 425"
proof -
  have scheme: "verify_with_scheme rc scheme k g h = Inl e \<Longrightarrow> status_code e \<noteq> 425" for scheme k g h
    by (auto simp: verify_with_scheme_def bad_response_def res_bind_Inl_iff map_err_Inl_iff split: if_splits)
  have sig: "verify_signature_of rc v h = Inl e \<Longrightarrow> status_code e \<noteq> 425" for h
    by (auto simp: verify_signature_of_def bad_response_def res_bind_Inl_iff map_err_Inl_iff ok_or_Inl_iff dest: scheme)
  have hash: "verify_response_hash rc v h = Inl e \<Longrightarrow> status_code e \<noteq> 425" for h
    by (auto simp: verify_response_hash_def bad_response_def split: if_splits)
  from assms show ?thesis
    by (auto simp: verify_response_hash_and_signature_def bad_response_def res_bind_Inl_iff
        split: option.splits sum.splits if_splits dest: hash sig)
qed

lemma check_answer_available [available]: "not_unavailable (snd (check_answer ne v b p))"
proof (cases "verify_response_hash_and_signature (ne_crates ne) v b")
  case (Rejected e)
  with check_rejected [OF this] show ?thesis by (simp add: check_answer_def)
qed (simp_all add: check_answer_def)

lemma joined_available:
  assumes "not_unavailable (snd m)" and "join_task (handler_failed ne md) m = (q, Inl e)"
  shows "status_code e \<noteq> 425"
  using assms by (cases m; cases "snd m") (auto simp: handler_failed_def)

lemma give_back_error: "give_back md chan = Inl e \<Longrightarrow> status_code e \<noteq> 425"
  unfolding give_back_def by (rule settle_reported_error)

lemmas event_errors = settle_reported_error throughput_event_error settle_answer_error give_back_error

lemma streaming_available [available]:
  "never_unavailable ne \<Longrightarrow> not_unavailable (snd (handle_streaming_response ne md headers payload p))"
  by (cases "post_to_node ne md (headers(ne_request_id_header ne \<mapsto> Some (ne_request_id ne))) payload
          (\<lambda>e. TooManyRequests (''Error sending request to inference service: '' @ e) (rx_endpoint md))")
    (auto simp: handle_streaming_response_def dest: post_to_node_error [rotated 2])

lemma node_answer_available [available]:
  assumes "never_unavailable ne" and "\<And>e. status_code (f e) \<noteq> 425" and "\<And>e. status_code (g e) \<noteq> 425"
    and "\<And>v. not_unavailable (snd (k v))"
  shows "not_unavailable (snd (case node_json ne md headers payload f g of Inl e \<Rightarrow> (p, TaskReturned (Inl e)) | Inr v \<Rightarrow> k v))"
  using node_json_error [OF assms(1-3)] assms(4) by (auto split: sum.split)

lemma non_streaming_available [available]:
  "never_unavailable ne \<Longrightarrow> not_unavailable (snd (non_streaming_response path charge tx ne md headers payload p))"
  unfolding non_streaming_response_def by (intro available) (auto dest: event_errors)

lemma embeddings_response_available [available]:
  "never_unavailable ne \<Longrightarrow> not_unavailable (snd (handle_embeddings_response tx ne md headers payload n p))"
  unfolding handle_embeddings_response_def by (intro available) (auto dest: event_errors)

lemma image_response_available [available]:
  "never_unavailable ne \<Longrightarrow> not_unavailable (snd (handle_image_generation_response tx ne md headers payload p))"
  unfolding handle_image_generation_response_def by (intro available) (auto dest: event_errors)

lemma embeddings_task_available [available]:
  assumes "never_unavailable ne"
  shows "not_unavailable (snd (embeddings_task used tx ne md headers payload p))"
proof -
  obtain q r where h: "handle_embeddings_response tx ne md headers payload (as_i64 (metadata_input_tokens md)) p = (q, r)"
    by fastforce
  with embeddings_response_available [OF assms, of tx md headers payload "as_i64 (metadata_input_tokens md)" p]
  have r: "not_unavailable r" by simp
  show ?thesis
  proof (cases r)
    case (TaskReturned res)
    show ?thesis
    proof (cases res)
      case (Inl e)
      have "not_unavailable (snd (on_failure tx
          (settle_reported md (as_i64 (metadata_input_tokens md), 0) (as_i64 (metadata_input_tokens md), 0) (0, 0))
          (q, TaskReturned (Inl e) :: answer_body task_result)))"
        using r TaskReturned Inl by (intro available) (auto dest: event_errors)
      with h TaskReturned Inl show ?thesis by (simp add: embeddings_task_def Let_def)
    next
      case (Inr v)
      have "not_unavailable (snd (task_then (step_result (report tx
            (settle_reported md (as_i64 (metadata_input_tokens md), used v) (as_i64 (metadata_input_tokens md), used v) (0, 0)) q))
          (\<lambda>_ q. (q, TaskReturned (Inr (JsonBody v))))))"
        by (intro available) (auto dest: event_errors)
      with h TaskReturned Inr show ?thesis by (simp add: embeddings_task_def Let_def)
    qed
  next
    case (TaskPanicked m)
    with h show ?thesis by (simp add: embeddings_task_def Let_def)
  qed
qed

lemma image_generations_available:
  assumes "never_unavailable ne" and "image_generations_create tx ne md headers payload p = (q, Inl e)"
  shows "status_code e \<noteq> 425"
proof -
  let ?units = "as_i64 (metadata_input_tokens md + rx_max_output_tokens md)"
  let ?input = "as_i64 (metadata_input_tokens md)" and ?outp = "as_i64 (rx_max_output_tokens md)"
  obtain q1 r where h: "handle_image_generation_response tx ne md headers payload p = (q1, r)" by fastforce
  with image_response_available [OF assms(1), of tx md headers payload p] have r: "not_unavailable r" by simp
  have fail: "not_unavailable (snd (on_failure tx (give_back md) (q1, r)))"
    using r by (intro available) (auto dest: event_errors)
  have ok: "not_unavailable (snd (task_then (step_result (report tx (settle_reported md (?units, ?units) (?input, ?input) (?outp, ?outp)) q1))
      (\<lambda>_ q. (q, TaskReturned (Inr v)))))" for v
    by (intro available) (auto dest: event_errors)
  have "not_unavailable (snd (case r of TaskReturned (Inr v) \<Rightarrow>
      task_then (step_result (report tx (settle_reported md (?units, ?units) (?input, ?input) (?outp, ?outp)) q1))
        (\<lambda>_ q. (q, TaskReturned (Inr v))) | _ \<Rightarrow> on_failure tx (give_back md) (q1, r)))"
    using fail ok by (cases r) (auto split: sum.split)
  from joined_available [OF this] assms(2) h show ?thesis
    by (cases r) (auto simp: image_generations_create_def Let_def split: sum.splits)
qed

text \<open>So a request is retried only when its node asked for it.\<close>

lemma handler_available:
  assumes "never_unavailable ne" and "inference_handler path = Some handle" and "handle tx ne md headers payload p = (q, Inl e)"
  shows "status_code e \<noteq> 425"
proof -
  have chat: "chat_completions_create tx ne md headers payload p = (q, Inl e) \<Longrightarrow> ?thesis"
    unfolding chat_completions_create_def handle_chat_completions_request_def chat_non_streaming_response_def
    by (rule joined_available, cases "is_streaming payload")
      (auto intro!: available assms(1) dest: event_errors)
  have comp: "completions_create tx ne md headers payload p = (q, Inl e) \<Longrightarrow> ?thesis"
    unfolding completions_create_def handle_completions_request_def completions_non_streaming_response_def completions_streaming_response_def
    by (rule joined_available, cases "is_streaming payload")
      (auto intro!: available assms(1) dest: event_errors)
  have emb: "join_task (handler_failed ne md) (embeddings_task used tx ne md headers payload p) = (q, Inl e) \<Longrightarrow> ?thesis" for used
    by (rule joined_available [OF embeddings_task_available [OF assms(1)]])
  have img: "confidential_image_generations_create tx ne md headers payload p = (q, Inl e) \<Longrightarrow> ?thesis"
    unfolding confidential_image_generations_create_def
    by (rule joined_available) (auto intro!: available assms(1) dest: event_errors)
  from assms(2,3) chat comp emb img image_generations_available [OF assms(1), of tx md headers payload p q e] show ?thesis
    by (auto simp: inference_handler_def confidential_chat_completions_create_def confidential_completions_create_def
        embeddings_create_def confidential_embeddings_create_def split: if_splits)
qed

lemma authenticate_outcome:
  fixes p q :: "('f, 'm) proxy"
  assumes "alone p" and "db_inv (px_db p)" and "headers_fine gw" and "reservation_fits gw req p"
    and "hr_path req \<noteq> MODELS_PATH" and "authenticate_middleware gw handler req p = (q, r)"
  shows "(\<exists>e. r = TaskReturned (Inl e)) \<and> alone q \<and> db_fiat (px_db q) = db_fiat (px_db p) \<or>
    (\<exists>body req' md p1. request_json gw req = Inr body \<and> hr_headers req ''authorization'' \<noteq> None \<and>
       forwards gw req body p req' md p1 \<and>
       (q, r) = step_result (join_task (middleware_failed gw (hr_path req)) (forward handler req' p1)))"
proof (cases "res_bind (body_bytes (hr_path req) (hr_body req)) (body_json gw (hr_path req))")
  case (Inl e)
  with assms(1,5,6) show ?thesis by (auto simp: authenticate_middleware_def)
next
  case (Inr raw)
  define body where "body = with_default_max_tokens raw"
  let ?join = "join_task (middleware_failed gw (hr_path req))"
  have json: "request_json gw req = Inr body" using Inr by (simp add: request_json_def body_def)
  from Inr assms(5,6) have run: "step_result (?join (authenticate_task gw handler body req p)) = (q, r)"
    by (simp add: authenticate_middleware_def body_def)
  obtain p1 s where res: "reservation_of gw body req p = (p1, s)" by fastforce
  note out = reservation_outcome [OF assms(1,2) res]
  have inv: "fiat_inv (db_fiat (px_db p))" using assms(2) by (simp add: db_inv_def)
  show ?thesis
  proof (cases s)
    case (Inl e)
    with run res out show ?thesis by (auto simp: authenticate_task_def reservation_of_def step_result_def)
  next
    case (Inr smd)
    with out obtain d where fiat: "db_fiat d = db_fiat (px_db p)" and al: "alone p1"
      and rsv: "reserved d (sm_user_id smd) (sm_num_input_tokens smd) (sm_max_output_tokens smd) (px_db p1) smd"
      and path: "hr_path req = CHAT_COMPLETIONS_PATH \<or> hr_path req = COMPLETIONS_PATH \<or> hr_path req = IMAGE_GENERATIONS_PATH \<or>
        hr_path req = EMBEDDINGS_PATH \<and> sm_max_output_tokens smd = 0"
      and tok: "hr_headers req ''authorization'' \<noteq> None" by auto
    have is_fiat: "sm_is_fiat_request smd" using rsv by (auto simp: reserved_def)
    have fits: "stack_metadata_fits smd" using assms(4) json res Inr by (simp add: reservation_fits_def)
    obtain node where node: "node_of_request gw (hr_path req) smd p1 = (p1, Inr node)"
      using is_fiat by (simp add: node_of_request_def)
    obtain p2 s2 where for_node: "request_for_node gw body req smd node p1 = (p2, s2)" by fastforce
    from request_for_fiat [OF al assms(3) is_fiat fits rsv fiat inv path node for_node]
    show ?thesis
    proof (elim disjE)
      assume "(\<exists>e. s2 = TaskReturned (Inl e)) \<and> alone p2 \<and> db_fiat (px_db p2) = db_fiat (px_db p)"
      with run res Inr node for_node show ?thesis by (auto simp: authenticate_task_def reservation_of_def step_result_def)
    next
      assume "\<exists>req' md. s2 = TaskReturned (Inr req') \<and> forwards gw req body p req' md p2"
      then obtain req' md where f: "s2 = TaskReturned (Inr req')" "forwards gw req body p req' md p2" by blast
      with run res Inr node for_node have "(q, r) = step_result (?join (forward handler req' p2))"
        by (simp add: authenticate_task_def reservation_of_def step_result_def)
      with f json tok show ?thesis by blast
    qed
  qed
qed

subsection \<open>A request from end to end\<close>

text \<open>Axum's extractor takes the JSON of the request, whatever headers the middleware added.\<close>

definition extracts :: "('tok, 'j) gateway \<Rightarrow> http_request \<Rightarrow> bool" where
  "extracts gw req \<longleftrightarrow> (\<forall>body headers. request_json gw req = Inr body \<longrightarrow>
     headers ''content-type'' = hr_headers req ''content-type'' \<longrightarrow>
     \<not> isl (gw_extract_json gw headers (gw_json_text gw body)))"

text \<open>
  What has become of the balances of \<open>p\<close> when a request is answered: a JSON answer has
  turned the reservation into the charge, a stream still holds it, and after anything else
  the balances are what they were.
\<close>

definition fiat_settled :: "string \<Rightarrow> ('f, 'm) proxy \<Rightarrow> ('f, 'm) proxy \<Rightarrow> http_response task_result \<Rightarrow> bool" where
  "fiat_settled path p q r \<longleftrightarrow>
     (case r of
        TaskReturned (Inr (Answered (JsonBody v))) \<Rightarrow>
          (\<exists>md d x y. reserved_for (px_db p) d md \<and>
             fiat_amount (fst (answer_charge path md v)) (rx_price_per_one_million_input_compute_units md) = Some x \<and>
             fiat_amount (snd (answer_charge path md v)) (rx_price_per_one_million_output_compute_units md) = Some y \<and>
             db_fiat (px_db q) = settled_fiat (rx_user_id md) (input_hold md, output_hold md) (x, y) (db_fiat d))
      | TaskReturned (Inr (Answered (SseBody s))) \<Rightarrow>
          (\<exists>md. reserved_for (px_db p) (px_db q) md \<and> s = metadata_streamer md)
      | _ \<Rightarrow> db_fiat (px_db q) = db_fiat (px_db p))"

text \<open>
  The extractor rejects a request, which then keeps its reservation, or the handler runs.
\<close>

definition plain_rejections :: "('tok, 'j) gateway \<Rightarrow> bool" where
  "plain_rejections gw \<longleftrightarrow> (\<forall>headers s status. gw_extract_json gw headers s = Inl status \<longrightarrow> status \<notin> {423, 425})"

lemma inner_outcome:
  fixes p p1 q :: "('f, 'm) proxy"
  assumes "headers_fine gw" and "plain_rejections gw" and "request_json gw req = Inr body" and "forwards gw req body p req' md p1"
    and "hr_headers req ''authorization'' \<noteq> None" and "hr_headers req (gw_stack_small_id_header gw) = None"
    and "never_panics ne" and "never_unavailable ne"
    and run: "handle_locked_stack_middleware gw (inference_service gw ne) req' p1 = (q, r)"
  shows "case gw_extract_json gw ((hr_headers req')(''authorization'' := None)) (gw_json_text gw body) of
      Inl status \<Rightarrow> q = p1 \<and> r = TaskReturned (Inr (AnsweredStatus status))
    | Inr payload \<Rightarrow> fiat_settled (hr_path req) p q r \<and> (\<forall>status. r \<noteq> TaskReturned (Inr (AnsweredStatus status)))"
proof -
  let ?headers = "(hr_headers req')(''authorization'' := None)"
  let ?inner = "req'\<lparr>hr_headers := ?headers, hr_body := BodyBytes (gw_json_text gw body)\<rparr>"
  from assms(4) have f: "alone p1" "reserved_for (px_db p) (px_db p1) md" "fiat_path (hr_path req) md" "hr_metadata req' = Some md"
    "hr_path req' = hr_path req" "hr_body req' = BodyBytes (gw_json_text gw body)"
    "hr_headers req' ''authorization'' = hr_headers req ''authorization''"
    "hr_headers req' (gw_stack_small_id_header gw) = hr_headers req (gw_stack_small_id_header gw)"
    by (simp_all add: forwards_def)
  from assms(5) f(7) obtain authorization where auth: "hr_headers req' ''authorization'' = Some authorization" by auto
  obtain handle :: "texts \<Rightarrow> 'f node_env \<Rightarrow> request_metadata \<Rightarrow> header_map \<Rightarrow> json \<Rightarrow> ('f, 'm) proxy
      \<Rightarrow> ('f, 'm) proxy \<times> (atoma_proxy_error + answer_body)"
    where h: "inference_handler (hr_path req) = Some handle" using f(3) by (auto simp: fiat_path_def)
  note run3 = run [unfolded handle_locked_stack_middleware_def Let_def auth f(6)]
  show ?thesis
  proof (cases "gw_extract_json gw ?headers (gw_json_text gw body)")
    case (Inl status)
    then have "forward (inference_service gw ne) ?inner p1 = (p1, TaskReturned (Inr (AnsweredStatus status)))"
      using f(4,5) h fiat_path_not_models [OF f(3)] by (simp add: forward_def inference_service_def)
    moreover have "status \<noteq> 423" "status \<noteq> 425" using assms(2) Inl by (auto simp: plain_rejections_def)
    ultimately show ?thesis using run3 Inl by simp
  next
    case (Inr payload)
    obtain p2 res where run2: "handle (gw_texts gw) ne md ?headers payload p1 = (p2, res)" by fastforce
    have fwd: "forward (inference_service gw ne) ?inner p1 =
        (p2, TaskReturned (Inr (case res of Inl e \<Rightarrow> Refused e | Inr b \<Rightarrow> Answered b)))"
      using f(4,5) h Inr run2 fiat_path_not_models [OF f(3)] by (simp add: forward_def inference_service_def split: sum.split)
    have "fiat_settled (hr_path req) p q r \<and> (\<forall>status. r \<noteq> TaskReturned (Inr (AnsweredStatus status)))"
    proof (cases res)
      case (Inl e)
      have no425: "status_code e \<noteq> 425" by (rule handler_available [OF assms(8) h run2 [unfolded Inl]])
      have fiat: "db_fiat (px_db p2) = db_fiat (px_db p)"
        by (rule failed_is_released [OF f(1) assms(7) f(2,3) h run2 [unfolded Inl]])
      have "?headers (gw_stack_small_id_header gw) = None" using f(8) assms(6) by simp
      then have "q = p2" and "(\<exists>e'. r = TaskReturned (Inl e')) \<or> r = TaskReturned (Inr (Refused e))"
        using run3 fwd f(4) Inl no425 by (auto simp: lock_stack_of_request_def split: if_splits)
      with fiat show ?thesis by (auto simp: fiat_settled_def)
    next
      case (Inr b)
      have q: "q = p2" "r = TaskReturned (Inr (Answered b))" using run3 fwd Inr by auto
      show ?thesis
      proof (cases b)
        case (JsonBody v)
        from answered_is_settled [OF f(1) assms(7) f(2,3) h run2 [unfolded Inr JsonBody]] f(2) q JsonBody show ?thesis
          by (auto simp: fiat_settled_def)
      next
        case (SseBody s)
        with q show ?thesis using streamed_holds [OF f(1) assms(7) f(2,3) h run2 [unfolded Inr SseBody]] f(2)
          by (auto simp: fiat_settled_def)
      qed
    qed
    with Inr show ?thesis by simp
  qed
qed

text \<open>What a request that gets past the reservation does, with the result that leaves the service.\<close>

lemma service_outcome:
  fixes p q :: "('f, 'm) proxy"
  assumes "alone p" and "db_inv (px_db p)" and "headers_fine gw" and "reservation_fits gw req p" and "plain_rejections gw"
    and "hr_path req \<noteq> MODELS_PATH" and "hr_headers req (gw_stack_small_id_header gw) = None"
    and "never_panics ne" and "never_unavailable ne" and "regular_service gw ne req p = (q, r)"
  shows "fiat_settled (hr_path req) p q r \<and> (\<forall>status. r \<noteq> TaskReturned (Inr (AnsweredStatus status))) \<or>
    (\<exists>body headers md status. request_json gw req = Inr body \<and> headers ''content-type'' = hr_headers req ''content-type'' \<and>
       gw_extract_json gw headers (gw_json_text gw body) = Inl status \<and> reserved_for (px_db p) (px_db q) md \<and>
       r = TaskReturned (Inr (AnsweredStatus status)))"
  using authenticate_outcome [OF assms(1-4,6) assms(10) [unfolded regular_service_def]]
proof (elim disjE)
  assume "(\<exists>e. r = TaskReturned (Inl e)) \<and> alone q \<and> db_fiat (px_db q) = db_fiat (px_db p)"
  then show ?thesis by (auto simp: fiat_settled_def)
next
  let ?inner = "handle_locked_stack_middleware gw (inference_service gw ne) :: ('f, 'm) layer"
  assume "\<exists>body req' md p1. request_json gw req = Inr body \<and> hr_headers req ''authorization'' \<noteq> None \<and>
      forwards gw req body p req' md p1 \<and>
      (q, r) = step_result (join_task (middleware_failed gw (hr_path req)) (forward ?inner req' p1))"
  then obtain body req' md p1 where json: "request_json gw req = Inr body" and auth: "hr_headers req ''authorization'' \<noteq> None"
    and fwd: "forwards gw req body p req' md p1"
    and out: "(q, r) = step_result (join_task (middleware_failed gw (hr_path req)) (forward ?inner req' p1))"
    by blast
  obtain q1 r1 where run: "?inner req' p1 = (q1, r1)" by fastforce
  let ?headers = "(hr_headers req')(''authorization'' := None)"
  note inner = inner_outcome [OF assms(3,5) json fwd auth assms(7-9) run]
  show ?thesis
  proof (cases "gw_extract_json gw ?headers (gw_json_text gw body)")
    case (Inl status)
    with inner out run have "q = p1" "r = TaskReturned (Inr (AnsweredStatus status))"
      by (auto simp: forward_def step_result_def)
    moreover have "?headers ''content-type'' = hr_headers req ''content-type''" using fwd by (simp add: forwards_def)
    ultimately show ?thesis using json Inl fwd unfolding forwards_def by blast
  next
    case (Inr payload)
    with inner have "fiat_settled (hr_path req) p q1 r1" "\<forall>status. r1 \<noteq> TaskReturned (Inr (AnsweredStatus status))" by auto
    with out run have "fiat_settled (hr_path req) p q r \<and> (\<forall>status. r \<noteq> TaskReturned (Inr (AnsweredStatus status)))"
      by (cases r1) (auto simp: fiat_settled_def forward_def step_result_def split: sum.splits http_response.splits answer_body.splits)
    then show ?thesis ..
  qed
qed



definition sample_gateway :: "(unit, unit) gateway" where
  "sample_gateway = \<lparr>gw_texts = sample_texts, gw_request_crates = sample_request_crates, gw_models = [(''m'', ())],
     gw_sui_client = sample_client (Inl ''down''), gw_to_datetime = (\<lambda>_. None), gw_now = sample_time 5,
     gw_signature_header = ''x-sig'', gw_stack_small_id_header = ''x-stack'', gw_tx_digest_header = ''x-tx'',
     gw_user_id_header = ''x-user'', gw_header_value = (\<lambda>s. Inr (Some s)), gw_sui_signature = (\<lambda>j. Inr ''sig''),
     gw_json_text = (\<lambda>j. ''{}''), gw_parse_json = (\<lambda>s. if s = ''{}'' then Inr (sample_chat_body 1000000) else Inl s),
     gw_extract_json = (\<lambda>headers s. if headers ''content-type'' = Some (Some ''application/json'')
        then Inr (JObject []) else Inl 415), gw_panic = ''unwrap''\<rparr>"

definition sample_http_request :: http_request where
  "sample_http_request = \<lparr>hr_path = CHAT_COMPLETIONS_PATH,
     hr_headers = sample_headers(''content-type'' \<mapsto> Some ''application/json''), hr_metadata = None, hr_body = BodyBytes ''{}''\<rparr>"

definition sample_served_proxy :: "(int, unit) proxy" where
  "sample_served_proxy = sample_proxy\<lparr>px_db := sample_db\<lparr>db_nodes :=
     [\<lparr>nd_node_small_id = 8, nd_node_id = ''n8'', nd_sui_address = ''0x8'', nd_public_address = Some ''http://n'',
        nd_country = None, nd_timestamp = None\<rparr>]\<rparr>\<rparr>"

definition sample_service :: "nat \<Rightarrow> json \<Rightarrow> (int, unit) proxy \<times> http_response task_result" where
  "sample_service status v = regular_service sample_gateway (sample_node_env status v) sample_http_request sample_served_proxy"

lemma sample_service_ready:
  "alone sample_served_proxy" "db_inv (px_db sample_served_proxy)" "headers_fine sample_gateway"
  "reservation_fits sample_gateway sample_http_request sample_served_proxy" "plain_rejections sample_gateway"
  "hr_path sample_http_request \<noteq> MODELS_PATH"
  "hr_headers sample_http_request (gw_stack_small_id_header sample_gateway) = None"
  "status \<noteq> 425 \<Longrightarrow> never_unavailable (sample_node_env status v)"
proof -
  show "alone sample_served_proxy" using sample_proxy_alone by (simp add: sample_served_proxy_def)
  show "db_inv (px_db sample_served_proxy)" using sample_db_inv by (simp add: sample_served_proxy_def db_inv_def)
  show "headers_fine sample_gateway" by (simp add: headers_fine_def sample_gateway_def)
  show "reservation_fits sample_gateway sample_http_request sample_served_proxy" by code_simp
  show "plain_rejections sample_gateway" by (auto simp: plain_rejections_def sample_gateway_def)
  show "hr_path sample_http_request \<noteq> MODELS_PATH" by code_simp
  show "hr_headers sample_http_request (gw_stack_small_id_header sample_gateway) = None" by code_simp
  show "status \<noteq> 425 \<Longrightarrow> never_unavailable (sample_node_env status v)"
    by (simp add: never_unavailable_def sample_node_env_def)
qed

lemma sample_service_runs:
  "case snd (sample_service 503 JNull) of TaskReturned (Inr (Refused e)) \<Rightarrow> status_code e = 500 | _ \<Rightarrow> False"
  "case snd (sample_service 200 (sample_answer 11 500000)) of
     TaskReturned (Inr (Answered (JsonBody v))) \<Rightarrow> v = sample_answer 11 500000 | _ \<Rightarrow> False"
  by code_simp+


definition sample_untyped :: "(int, unit) proxy \<times> http_response task_result" where
  "sample_untyped = regular_service sample_gateway (sample_node_env 200 JNull) (sample_http_request\<lparr>hr_headers := sample_headers\<rparr>)
     sample_served_proxy"


end
