(* ===== verification/Confidential.thy ===== *)
theory Confidential
  imports Gateway StackLocks
begin

text \<open>
  Confidential requests: \<^verbatim>\<open>confidential_compute_middleware\<close> of
  \<^verbatim>\<open>atoma-proxy/src/server/middleware.rs\<close>, which claims units that \<^verbatim>\<open>/v1/nodes/lock\<close> has
  locked, and the confidential routes of \<^verbatim>\<open>create_router\<close>. The state is that of a request
  together with the map \<^verbatim>\<open>stack_locked_compute_units\<close> of \<open>StackLocks\<close>. The lemmas show that the
  pruning of that map agrees with \<open>StackLocks\<close>, what a request claims from it, and which of
  the units that are locked in the database a request gives back.
\<close>

subsection \<open>Claiming locked units\<close>

type_synonym ('f, 'm) vault = "('f, 'm) proxy \<times> locked_units"

text \<open>The loop of \<open>release_expired\<close>, with its messages sent.\<close>

function prune_expired ::
  "texts \<Rightarrow> int \<Rightarrow> string \<Rightarrow> int \<Rightarrow> lock_heap \<Rightarrow> ('f, 'm) proxy \<Rightarrow> lock_heap \<times> ('f, 'm) proxy \<times> (atoma_proxy_error + unit)" where
  "prune_expired tx now endpoint sid h p =
     (case heap_peek h of
        None \<Rightarrow> (h, p, Inr ())
      | Some lock \<Rightarrow>
          if expires_at lock \<ge> now then (h, p, Inr ())
          else (case report tx (\<lambda>chan. update_state_manager chan sid (max_num_tokens lock) 0 endpoint) p of
                  (q, Inl e) \<Rightarrow> (h, q, Inl e)
                | (q, Inr u) \<Rightarrow> prune_expired tx now endpoint sid (heap_pop h) q))"
  by auto
termination
  by (relation "measure (\<lambda>(tx, now, endpoint, sid, h, p). length h)") (auto dest: heap_pop_length)

declare prune_expired.simps [simp del]

definition claim_lock ::
  "texts \<Rightarrow> int \<Rightarrow> int \<Rightarrow> int \<Rightarrow> string \<Rightarrow> ('f, 'm) vault \<Rightarrow> ('f, 'm) vault \<times> (atoma_proxy_error + bool)" where
  "claim_lock tx sid min_units now endpoint = (\<lambda>(p, m).
     case m sid of
       None \<Rightarrow> ((p, m), Inr False)
     | Some details \<Rightarrow>
         (case prune_expired tx now endpoint sid details p of (h, q, r) \<Rightarrow>
            (case r of
               Inl e \<Rightarrow> ((q, m(sid \<mapsto> h)), Inl e)
             | Inr u \<Rightarrow>
                 if h = [] then ((q, m(sid := None)), Inr False)
                 else (case take_lock min_units h of
                         (None, h') \<Rightarrow> ((q, m(sid \<mapsto> h')), Inr False)
                       | (Some x, h') \<Rightarrow> ((q, if h' = [] then m(sid := None) else m(sid \<mapsto> h')), Inr True)))))"

definition verify_stack_for_confidential_compute ::
  "texts \<Rightarrow> int \<Rightarrow> int \<Rightarrow> int \<Rightarrow> string \<Rightarrow> ('f, 'm) vault \<Rightarrow> ('f, 'm) vault \<times> (atoma_proxy_error + bool)" where
  "verify_stack_for_confidential_compute tx sid available_compute_units now endpoint =
     claim_lock tx sid available_compute_units now endpoint"

subsection \<open>The middleware\<close>

record confidential_compute_request =
  cr_ciphertext :: string
  cr_stack_small_id :: u64
  cr_nonce :: string
  cr_salt :: string
  cr_client_dh_public_key :: string
  cr_node_dh_public_key :: string
  cr_plaintext_body_hash :: string
  cr_stream :: "bool option"
  cr_model_name :: string
  cr_num_compute_units :: "u64 option"

text \<open>
  What it takes from crates, besides the \<open>gateway\<close>: serde's parser of the request, base64,
  and the wallet's signature of a hash.
\<close>

record confidential_crates =
  cf_parse :: "string \<Rightarrow> string + confidential_compute_request"
  cf_base64_decode :: "string \<Rightarrow> string + bytes"
  cf_sign_hash :: "bytes \<Rightarrow> string + string"

definition DEFAULT_IMAGE_RESOLUTION :: u64 where "DEFAULT_IMAGE_RESOLUTION = 1024 * 1024"

definition MAX_NUM_TOKENS_FOR_CONFIDENTIAL_COMPUTE :: int where "MAX_NUM_TOKENS_FOR_CONFIDENTIAL_COMPUTE = 8192"

definition claimed_units :: "string \<Rightarrow> confidential_compute_request \<Rightarrow> int" where
  "claimed_units endpoint cr =
     (if endpoint = CONFIDENTIAL_IMAGE_GENERATIONS_PATH
      then as_i64 (case cr_num_compute_units cr of None \<Rightarrow> DEFAULT_IMAGE_RESOLUTION | Some n \<Rightarrow> n)
      else (case cr_num_compute_units cr of None \<Rightarrow> MAX_NUM_TOKENS_FOR_CONFIDENTIAL_COMPUTE | Some n \<Rightarrow> as_i64 n))"

text \<open>A step on the first half of the state, and the spawned task up to \<^verbatim>\<open>next.run(req)\<close>.\<close>

definition with_locks :: "locked_units \<Rightarrow> ('f, 'm) proxy \<times> (atoma_proxy_error + 'a) \<Rightarrow> ('f, 'm) vault \<times> 'a task_result" where
  "with_locks m s = (case s of (p, r) \<Rightarrow> ((p, m), TaskReturned r))"

definition confidential_request_for_node ::
  "('tok, 'j) gateway \<Rightarrow> confidential_crates \<Rightarrow> int \<Rightarrow> http_request \<Rightarrow> ('f, 'm) vault \<Rightarrow> ('f, 'm) vault \<times> http_request task_result" where
  "confidential_request_for_node gw cf now req = (\<lambda>(p, m).
     let endpoint = hr_path req in
      task_then (with_locks m (check_auth (gw_texts gw) (hr_headers req) endpoint p)) (\<lambda>uid s.
      task_then (s, TaskReturned (body_bytes endpoint (hr_body req))) (\<lambda>bytes s.
      task_then (s, TaskReturned (map_err (\<lambda>e. RequestError (''Failed to parse body as JSON: '' @ e) endpoint) (cf_parse cf bytes)))
        (\<lambda>cr s.
      let num_compute_units = claimed_units endpoint cr; sid = as_i64 (cr_stack_small_id cr) in
      task_then (s, TaskReturned (map_err (\<lambda>e. RequestError (''Hash is not base64: '' @ e) endpoint)
          (cf_base64_decode cf (cr_plaintext_body_hash cr)))) (\<lambda>hash s.
      task_then (s, TaskReturned (map_err (\<lambda>e. InternalError (''Failed to get Sui signature: '' @ e) None endpoint)
          (cf_sign_hash cf hash))) (\<lambda>signature s.
      task_then (s, TaskReturned (map_err (\<lambda>e. RequestError (''Signed hash is not present as header value: '' @ e) endpoint)
          (gw_header_value gw signature))) (\<lambda>signature_header s.
      task_then (with_locks (snd s) (get_node_address (gw_texts gw) sid endpoint (fst s))) (\<lambda>(node_address, node_small_id) s.
      task_then (step_result (verify_stack_for_confidential_compute (gw_texts gw) sid num_compute_units now endpoint s))
        (\<lambda>available s.
      if \<not> available then (s, TaskReturned (Inl (UnavailableStack ''Stack is not available for confidential compute'' endpoint)))
      else (case gw_header_value gw (decimal_int uid) of
         Inl e \<Rightarrow> (s, TaskPanicked (gw_panic gw))
       | Inr user_header \<Rightarrow>
           (s, TaskReturned (Inr (req\<lparr>
              hr_headers := (hr_headers req)(gw_signature_header gw \<mapsto> signature_header, gw_user_id_header gw \<mapsto> user_header),
              hr_metadata := Some ((case hr_metadata req of None \<Rightarrow> default_metadata | Some md \<Rightarrow> md)\<lparr>
                 rx_node_address := node_address, rx_node_id := node_small_id, rx_selected_stack_small_id := Some sid,
                 rx_max_output_tokens := as_u64 num_compute_units, rx_user_id := uid, rx_model_name := cr_model_name cr,
                 rx_endpoint := endpoint\<rparr>),
              hr_body := BodyBytes bytes\<rparr>)))))))))))))"

text \<open>
  The inner layers work on the first half of the state: they leave the map of locks alone.
\<close>

definition confidential_compute_middleware ::
  "('tok, 'j) gateway \<Rightarrow> confidential_crates \<Rightarrow> int \<Rightarrow> ('f, 'm) layer \<Rightarrow> http_request \<Rightarrow> ('f, 'm) vault
    \<Rightarrow> ('f, 'm) vault \<times> http_response task_result" where
  "confidential_compute_middleware gw cf now handler req s =
     step_result (join_task (middleware_failed gw (hr_path req))
       (task_then (confidential_request_for_node gw cf now req s)
          (\<lambda>req' (p, m). case forward handler req' p of (q, r) \<Rightarrow> ((q, m), r))))"

definition confidential_service ::
  "('tok, 'j) gateway \<Rightarrow> confidential_crates \<Rightarrow> int \<Rightarrow> 'f node_env \<Rightarrow> http_request \<Rightarrow> ('f, 'm) vault
    \<Rightarrow> ('f, 'm) vault \<times> http_response task_result" where
  "confidential_service gw cf now ne =
     confidential_compute_middleware gw cf now (handle_locked_stack_middleware gw (inference_service gw ne))"

subsection \<open>Pruning refines the pruning of \<open>StackLocks\<close>\<close>

text \<open>The messages that release amounts of a stack, one after the other.\<close>

fun release_all ::
  "texts \<Rightarrow> string \<Rightarrow> int \<Rightarrow> int list \<Rightarrow> ('f, 'm) proxy \<Rightarrow> ('f, 'm) proxy \<times> (atoma_proxy_error + unit)" where
  "release_all tx endpoint sid [] p = (p, Inr ())"
| "release_all tx endpoint sid (u # us) p =
     (case report tx (\<lambda>chan. update_state_manager chan sid u 0 endpoint) p of
        (q, Inl e) \<Rightarrow> (q, Inl e) | (q, Inr x) \<Rightarrow> release_all tx endpoint sid us q)"

text \<open>The messages of \<open>out\<close> were sent, and no other, except one that failed.\<close>

definition released_units ::
  "texts \<Rightarrow> string \<Rightarrow> int \<Rightarrow> int list \<Rightarrow> ('f, 'm) proxy \<Rightarrow> ('f, 'm) proxy \<Rightarrow> (atoma_proxy_error + 'a) \<Rightarrow> bool" where
  "released_units tx endpoint sid out p q r \<longleftrightarrow>
     (case r of
        Inr b \<Rightarrow> release_all tx endpoint sid out p = (q, Inr ())
      | Inl e \<Rightarrow> (\<exists>u. release_all tx endpoint sid (out @ [u]) p = (q, Inl e)))"

lemma prune_refines:
  "prune_expired tx now endpoint sid h p = (h', q, r) \<Longrightarrow>
   \<exists>out. release_expired (\<lambda>i. \<not> isl r \<or> i < length acc + length out) now h acc = (h', acc @ out, \<not> isl r) \<and>
     released_units tx endpoint sid out p q r"
proof (induction h arbitrary: p acc rule: measure_induct_rule [of length])
  case (less h)
  show ?case
  proof (cases "\<exists>lock. heap_peek h = Some lock \<and> expires_at lock < now")
    case False
    then have stop: "release_expired send now h acc = (h, acc, True)" "prune_expired tx now endpoint sid h p = (h, p, Inr ())" for send
      by (auto simp: release_expired.simps [of send now h] prune_expired.simps [of tx now endpoint sid h] split: option.split)
    with less.prems have "h' = h" "q = p" "r = Inr ()" by auto
    then show ?thesis by (intro exI [of _ "[]"]) (simp add: stop released_units_def)
  next
    case True
    then obtain lock where lock: "heap_peek h = Some lock" and late: "\<not> expires_at lock \<ge> now" by auto
    let ?u = "max_num_tokens lock"
    have step: "release_expired send now h acc =
        (if send (length acc) then release_expired send now (heap_pop h) (acc @ [?u]) else (h, acc, False))" for send
      using lock late by (subst release_expired.simps) simp
    obtain p1 u where rep: "report tx (\<lambda>chan. update_state_manager chan sid ?u 0 endpoint) p = (p1, u)" by fastforce
    have prune: "prune_expired tx now endpoint sid h p =
        (case u of Inl e \<Rightarrow> (h, p1, Inl e) | Inr x \<Rightarrow> prune_expired tx now endpoint sid (heap_pop h) p1)"
      using lock late rep by (subst prune_expired.simps) (simp split: sum.split)
    show ?thesis
    proof (cases u)
      case (Inl e)
      with prune less.prems have "h' = h" "q = p1" "r = Inl e" by auto
      with Inl rep step show ?thesis
        by (intro exI [of _ "[]"]) (auto simp: released_units_def intro!: exI [of _ "?u"])
    next
      case (Inr x)
      with prune less.prems have "prune_expired tx now endpoint sid (heap_pop h) p1 = (h', q, r)" by simp
      from less.IH [OF heap_pop_length [OF lock] this, of "acc @ [?u]"] obtain out where
        "release_expired (\<lambda>i. \<not> isl r \<or> i < length (acc @ [?u]) + length out) now (heap_pop h)
          (acc @ [?u]) = (h', (acc @ [?u]) @ out, \<not> isl r)" "released_units tx endpoint sid out p1 q r" by blast
      with step rep Inr show ?thesis
        by (intro exI [of _ "?u # out"]) (auto simp: released_units_def split: sum.splits)
    qed
  qed
qed

lemma claim_refines:
  assumes "claim_lock tx sid min_units now endpoint (p, m) = ((q, m'), r)"
  shows "\<exists>send out. find_stacks_meeting_criteria_and_prune send m sid min_units now =
      (m', out, case r of Inl e \<Rightarrow> None | Inr b \<Rightarrow> Some b) \<and> released_units tx endpoint sid out p q r"
proof (cases "m sid")
  case None
  with assms show ?thesis
    by (intro exI [of _ "\<lambda>_. True"] exI [of _ "[]"])
      (auto simp: claim_lock_def find_stacks_meeting_criteria_and_prune_def released_units_def)
next
  case (Some details)
  obtain h p1 s where pr: "prune_expired tx now endpoint sid details p = (h, p1, s)" by (metis prod_cases3)
  from prune_refines [OF this, of "[]"] obtain out where
    out: "release_expired (\<lambda>i. \<not> isl s \<or> i < length out) now details [] = (h, out, \<not> isl s)"
    and sent: "released_units tx endpoint sid out p p1 s" by auto
  from assms Some pr have q: "q = p1" and rs: "case s of Inl e \<Rightarrow> r = Inl e | Inr u \<Rightarrow> \<not> isl r"
    by (auto simp: claim_lock_def split: sum.splits if_splits prod.splits option.splits)
  have "released_units tx endpoint sid out p q r"
    using sent q rs by (auto simp: released_units_def isl_def split: sum.splits)
  moreover have "find_stacks_meeting_criteria_and_prune (\<lambda>i. \<not> isl s \<or> i < length out) m sid min_units now =
      (m', out, case r of Inl e \<Rightarrow> None | Inr b \<Rightarrow> Some b)"
    using assms Some pr out
    by (auto simp: claim_lock_def find_stacks_meeting_criteria_and_prune_def split: sum.splits if_splits prod.splits option.splits)
  ultimately show ?thesis by blast
qed

subsection \<open>What a handler settles on a stack\<close>

text \<open>A settlement, of an estimate and what was used, that the database refuses changes nothing.\<close>

fun settled_stacks :: "int \<Rightarrow> (int \<times> int) option \<Rightarrow> stacks \<Rightarrow> stacks" where
  "settled_stacks sid None t = t"
| "settled_stacks sid (Some (estimate, used)) t =
     (case update_stack_num_tokens t sid estimate used of Inl e \<Rightarrow> t | Inr t' \<Rightarrow> t')"

lemma stack_update_handled:
  "fst (handle_state_manager_event cx (UpdateStackNumTokens sid e u) d) = d\<lparr>db_stacks := settled_stacks sid (Some (e, u)) (db_stacks d)\<rparr>"
  by (cases "update_stack_num_tokens (db_stacks d) sid e u") (simp_all add: fst_execute)

lemma stack_settlement:
  assumes "message_handled (settle_reported md (e, u) i c) d d'" and "rx_selected_stack_small_id md = Some sid"
  shows "db_stacks d' = settled_stacks sid (Some (e, u)) (db_stacks d)"
proof -
  from assms obtain cx d1 where d1: "same_but_stats d d1"
    and d': "d' = fst (handle_state_manager_event cx (UpdateStackNumTokens sid e u) d1)"
    by (auto simp: message_handled_def settle_reported_def update_state_manager_def)
  show ?thesis unfolding d' stack_update_handled by (simp add: same_but_statsD(2) [OF d1] del: settled_stacks.simps)
qed

text \<open>
  The contract of a handler on a stack: \<open>settlement\<close> says what it settles for an error
  (\<open>None\<close>) and for an answer. An error or an answer that settles nothing leaves the units locked.
\<close>

locale stack_handler =
  fixes handle :: "texts \<Rightarrow> 'f node_env \<Rightarrow> request_metadata \<Rightarrow> header_map \<Rightarrow> json \<Rightarrow> ('f, 'm) proxy
      \<Rightarrow> ('f, 'm) proxy \<times> (atoma_proxy_error + answer_body)"
    and settlement :: "request_metadata \<Rightarrow> json option \<Rightarrow> (int \<times> int) option"
  assumes handles: "alone p \<Longrightarrow> never_panics ne \<Longrightarrow> rx_selected_stack_small_id md = Some sid \<Longrightarrow>
      handle tx ne md headers payload p = (q, r) \<Longrightarrow>
      (case r of
         Inl e \<Rightarrow> db_stacks (px_db q) = settled_stacks sid (settlement md None) (db_stacks (px_db p))
       | Inr (JsonBody v) \<Rightarrow> db_stacks (px_db q) = settled_stacks sid (settlement md (Some v)) (db_stacks (px_db p))
       | Inr (SseBody s) \<Rightarrow> q = p \<and> s = metadata_streamer md)"

lemma accounted_stack:
  assumes acc: "accounted released charged md p (q, r)" and sel: "rx_selected_stack_small_id md = Some sid"
    and rel: "released None = settle_reported md (e, 0) i0 c0 None"
    and chg: "\<And>v ev. charged v None = Inr ev \<Longrightarrow> settle_reported md (e' v, u v) (i v) (c v) None = Inr ev"
  shows "case r of
      Inl e1 \<Rightarrow> db_stacks (px_db q) = settled_stacks sid (Some (e, 0)) (db_stacks (px_db p))
    | Inr (JsonBody v) \<Rightarrow> db_stacks (px_db q) = settled_stacks sid (Some (e' v, u v)) (db_stacks (px_db p))
    | Inr (SseBody s) \<Rightarrow> q = p \<and> s = metadata_streamer md"
proof (cases r)
  case (Inl e1)
  from rel sel have "\<not> (\<exists>e. released None = Inl e)" by (simp add: settle_reported_def update_state_manager_def)
  with acc Inl have "message_handled released (px_db p) (px_db q)" by (auto simp: accounted_def)
  then have "message_handled (settle_reported md (e, 0) i0 c0) (px_db p) (px_db q)" using rel by (simp add: message_handled_def)
  from stack_settlement [OF this sel] Inl show ?thesis by simp
next
  case (Inr body)
  show ?thesis
  proof (cases body)
    case (JsonBody v)
    with acc Inr have "message_handled (charged v) (px_db p) (px_db q)" by (simp add: accounted_def)
    then have "message_handled (settle_reported md (e' v, u v) (i v) (c v)) (px_db p) (px_db q)"
      using chg by (auto simp: message_handled_def)
    from stack_settlement [OF this sel] Inr JsonBody show ?thesis by simp
  next
    case (SseBody s)
    with acc Inr show ?thesis by (simp add: accounted_def)
  qed
qed

text \<open>Text is settled with the node's total, embeddings with the input, which is not known.\<close>

definition text_settlement :: "request_metadata \<Rightarrow> json option \<Rightarrow> (int \<times> int) option" where
  "text_settlement md v =
     (case v of
        None \<Rightarrow> Some (as_i64 (metadata_input_tokens md + rx_max_output_tokens md), 0)
      | Some v \<Rightarrow> Some (i64_add (as_i64 (metadata_input_tokens md)) (as_i64 (rx_max_output_tokens md)),
          usage_tokens v ''total_tokens''))"

definition embeddings_settlement :: "request_metadata \<Rightarrow> json option \<Rightarrow> (int \<times> int) option" where
  "embeddings_settlement md v =
     Some (as_i64 (metadata_input_tokens md), case v of None \<Rightarrow> 0 | Some v \<Rightarrow> usage_tokens v ''total_tokens'')"

definition image_settlement :: "request_metadata \<Rightarrow> json option \<Rightarrow> (int \<times> int) option" where
  "image_settlement md v =
     (case v of None \<Rightarrow> Some (as_i64 (metadata_input_tokens md + rx_max_output_tokens md), 0) | Some v \<Rightarrow> None)"

interpretation stack_chat: stack_handler chat_completions_create text_settlement
proof (unfold_locales, goal_cases)
  case (1 p ne md sid tx headers payload q r)
  let ?n = "as_i64 (metadata_input_tokens md)" and ?m = "as_i64 (rx_max_output_tokens md)"
  from accounted_stack [where e = "as_i64 (metadata_input_tokens md + rx_max_output_tokens md)" and e' = "\<lambda>v. i64_add ?n ?m"
      and u = "\<lambda>v. usage_tokens v ''total_tokens''" and ?i0.0 = "(?n, 0)" and ?c0.0 = "(?m, 0)"
      and i = "\<lambda>v. (?n, usage_tokens v ''prompt_tokens'')" and c = "\<lambda>v. (?m, usage_tokens v ''completion_tokens'')",
      OF chat_accounted [OF 1(1,2), of md tx headers payload, unfolded 1(4)] 1(3)]
  show ?case by (simp add: give_back_def settle_answer_def text_settlement_def
      split: sum.splits answer_body.splits del: settled_stacks.simps)
qed

interpretation stack_completions: stack_handler completions_create text_settlement
proof (unfold_locales, goal_cases)
  case (1 p ne md sid tx headers payload q r)
  let ?n = "as_i64 (metadata_input_tokens md)" and ?m = "as_i64 (rx_max_output_tokens md)"
  from accounted_stack [where e = "as_i64 (metadata_input_tokens md + rx_max_output_tokens md)" and e' = "\<lambda>v. i64_add ?n ?m"
      and u = "\<lambda>v. usage_tokens v ''total_tokens''" and ?i0.0 = "(?n, 0)" and ?c0.0 = "(?m, 0)"
      and i = "\<lambda>v. (?n, 0)" and c = "\<lambda>v. (?m, usage_tokens v ''total_tokens'')",
      OF completions_accounted [OF 1(1,2), of md tx headers payload, unfolded 1(4)] 1(3)]
  show ?case by (simp add: give_back_def settle_answer_def text_settlement_def
      split: sum.splits answer_body.splits del: settled_stacks.simps)
qed

interpretation confidential_embeddings: stack_handler confidential_embeddings_create embeddings_settlement
proof (unfold_locales, goal_cases)
  case (1 p ne md sid tx headers payload q r)
  let ?used = "\<lambda>v. usage_tokens v ''total_tokens''"
  have "accounted (embeddings_units (\<lambda>_. 0) md JNull) (embeddings_units ?used md) md p
      (join_task (handler_failed ne md) (embeddings_task ?used tx ne md headers payload p))"
    using 1(3) by (intro embeddings_accounted 1(1,2))
      (simp add: Let_def embeddings_units_def settle_reported_def update_state_manager_def)
  note acc = this [folded confidential_embeddings_create_def, unfolded 1(4)]
  let ?n = "as_i64 (metadata_input_tokens md)"
  from accounted_stack [where e = ?n and e' = "\<lambda>v. ?n" and u = ?used and ?i0.0 = "(?n, 0)" and ?c0.0 = "(0, 0)"
      and i = "\<lambda>v. (?n, ?used v)" and c = "\<lambda>v. (0, 0)", OF acc 1(3)]
  show ?case by (simp add: embeddings_units_def Let_def embeddings_settlement_def
      split: sum.splits answer_body.splits del: settled_stacks.simps)
qed

interpretation confidential_images: stack_handler confidential_image_generations_create image_settlement
proof (unfold_locales, goal_cases)
  case (1 p ne md sid tx headers payload q r)
  obtain p1 r1 where h: "handle_image_generation_response tx ne md headers payload p = (p1, r1)" by fastforce
  from image_response_outcome [OF 1(1,2) h] obtain res where out: "alone p1" "same_but_stats (px_db p) (px_db p1)"
    "r1 = TaskReturned res" "\<forall>b. res = Inr b \<longrightarrow> (\<exists>v. b = JsonBody v)" by auto
  show ?case
  proof (cases res)
    case (Inl e)
    have "accounted (give_back md) (\<lambda>v. give_back md) md p (q, r)"
      using releasing_accounted [OF out(1,2), of "give_back md" "\<lambda>v. give_back md" md "handler_failed ne md" tx e] 1(4) h out(3) Inl
      by (simp add: confidential_image_generations_create_def)
    moreover have "\<exists>e'. r = Inl e'"
      using 1(4) h out(1,3) Inl report_alone [OF out(1), of tx "give_back md"] 1(3)
      by (auto simp: confidential_image_generations_create_def on_failure_def give_back_def settle_reported_def
          update_state_manager_def)
    ultimately obtain e' where acc: "accounted (give_back md) (\<lambda>v. give_back md) md p (q, Inl e')" and r: "r = Inl e'" by blast
    let ?n = "as_i64 (metadata_input_tokens md)" and ?m = "as_i64 (rx_max_output_tokens md)"
    let ?units = "as_i64 (metadata_input_tokens md + rx_max_output_tokens md)"
    have gb: "give_back md = settle_reported md (?units, 0) (?n, 0) (?m, 0)" by (simp add: give_back_def)
    from accounted_stack [where e' = "\<lambda>v. ?units" and u = "\<lambda>v. 0" and i = "\<lambda>v. (?n, 0)" and c = "\<lambda>v. (?m, 0)",
        OF acc [unfolded gb] 1(3) refl]
    have "db_stacks (px_db q) = settled_stacks sid (Some (?units, 0)) (db_stacks (px_db p))" by simp
    then show ?thesis using r by (simp only: sum.case image_settlement_def option.case)
  next
    case (Inr b)
    with out(4) obtain v where "b = JsonBody v" by blast
    with 1(4) h out(3) Inr have "q = p1" "r = Inr (JsonBody v)"
      by (auto simp: confidential_image_generations_create_def on_failure_def)
    with same_but_statsD(2) [OF out(2)] show ?thesis by (simp add: image_settlement_def)
  qed
qed

subsection \<open>Admission\<close>

lemma as_i64_as_u64_in: "in_i64 x \<Longrightarrow> as_i64 (as_u64 x) = x"
  by (simp add: as_i64_def as_u64_def wrap_i64_def uint_word_of_int mod_add_left_eq i64_bounds mod_pos_pos_trivial)

lemma claimed_units_in [simp]: "in_i64 (claimed_units endpoint cr)"
  by (simp add: claimed_units_def MAX_NUM_TOKENS_FOR_CONFIDENTIAL_COMPUTE_def i64_bounds split: option.split)
    (simp add: as_i64_in [unfolded i64_bounds])

text \<open>Expired locks are given back to the stack with nothing used.\<close>

definition give_back_units :: "int \<Rightarrow> int list \<Rightarrow> stacks \<Rightarrow> stacks" where
  "give_back_units sid = fold (\<lambda>u. settled_stacks sid (Some (u, 0)))"

lemma release_all_alone:
  "alone p \<Longrightarrow> release_all tx endpoint sid us p = (q, r) \<Longrightarrow>
   r = Inr () \<and> alone q \<and> px_db q = (px_db p)\<lparr>db_stacks := give_back_units sid us (db_stacks (px_db p))\<rparr>"
proof (induction us arbitrary: p)
  case Nil
  then show ?case by (auto simp: give_back_units_def)
next
  case (Cons u us)
  let ?p = "after p ((px_db p)\<lparr>db_stacks := settled_stacks sid (Some (u, 0)) (db_stacks (px_db p))\<rparr>)"
  have "report tx (\<lambda>chan. update_state_manager chan sid u 0 endpoint) p = (?p, Inr ())"
    using report_alone [OF Cons.prems(1), of tx "\<lambda>chan. update_state_manager chan sid u 0 endpoint"]
    by (simp only: update_state_manager_def option.case sum.case stack_update_handled)
  with Cons.prems have "release_all tx endpoint sid us ?p = (q, r)" "alone ?p" by simp_all
  from Cons.IH [OF this(2,1)] show ?case by (simp add: give_back_units_def after_simps del: settled_stacks.simps)
qed

definition claims :: "int \<Rightarrow> int \<Rightarrow> int \<Rightarrow> locked_units \<Rightarrow> locked_units \<Rightarrow> locked_details list \<Rightarrow> locked_details list \<Rightarrow> bool" where
  "claims now sid n m m' gone claimed \<longleftrightarrow>
     mset (entry m sid) = mset (entry m' sid) + mset gone + mset claimed \<and> (\<forall>j. j \<noteq> sid \<longrightarrow> m' j = m j) \<and>
     (\<forall>x \<in> set gone. expires_at x < now) \<and> (\<forall>x \<in> set claimed. n \<le> max_num_tokens x \<and> now \<le> expires_at x)"

lemma claims_nothing [simp]: "claims now sid n m m [] []"
  by (simp add: claims_def)

lemma claim_alone:
  assumes "alone p" and "claim_lock tx sid n now endpoint (p, m) = ((q, m'), r)"
  shows "\<exists>b gone claimed. r = Inr b \<and> alone q \<and> length claimed = of_bool b \<and> claims now sid n m m' gone claimed \<and>
    px_db q = (px_db p)\<lparr>db_stacks := give_back_units sid (map max_num_tokens gone) (db_stacks (px_db p))\<rparr>"
proof -
  let ?r = "case r of Inl e \<Rightarrow> None | Inr b \<Rightarrow> Some b"
  have "\<exists>send out. find_stacks_meeting_criteria_and_prune send m sid n now = (m', out, ?r) \<and>
      released_units tx endpoint sid out p q r" by (rule claim_refines [OF assms(2)])
  then obtain send out where run: "find_stacks_meeting_criteria_and_prune send m sid n now = (m', out, ?r)"
    and sent: "released_units tx endpoint sid out p q r" by blast
  obtain b where r: "r = Inr b" and q: "release_all tx endpoint sid out p = (q, Inr ())"
  proof (cases r)
    case (Inl e)
    with sent obtain u where "release_all tx endpoint sid (out @ [u]) p = (q, Inl e)" by (auto simp: released_units_def)
    from release_all_alone [OF assms(1) this] show ?thesis by simp
  next
    case (Inr b)
    with sent that show ?thesis by (simp add: released_units_def)
  qed
  from find_stacks_accounts [OF run] r obtain gone claimed where
    acc: "mset (entry m sid) = mset (entry m' sid) + mset gone + mset claimed"
      "out = map max_num_tokens gone" "\<forall>x \<in> set gone. expires_at x < now" "length claimed = (if b then 1 else 0)"
      "\<forall>x \<in> set claimed. n \<le> max_num_tokens x \<and> now \<le> expires_at x" "\<forall>j. j \<noteq> sid \<longrightarrow> m' j = m j" by auto
  with r release_all_alone [OF assms(1) q] show ?thesis
    by (intro exI [of _ b] exI [of _ gone] exI [of _ claimed]) (simp add: claims_def)
qed

text \<open>A refusal means that no lock that is left is large enough.\<close>

lemma claim_refused:
  assumes "claim_lock tx sid n now endpoint (p, m) = ((q, m'), Inr b)" and "\<not> b"
  shows "\<forall>x \<in> set (entry m' sid). max_num_tokens x < n"
proof -
  from claim_refines [OF assms(1)] obtain send out where
    run: "find_stacks_meeting_criteria_and_prune send m sid n now = (m', out, Some b)" by auto
  from find_stacks_accounts [OF run] assms(2) show ?thesis by auto
qed

lemma node_address_alone:
  assumes "alone p" and "get_node_address tx sid endpoint p = (q, r)"
  shows "alone q \<and> px_db q = px_db p"
proof -
  let ?a = "get_node_public_url_and_small_id (db_stacks (px_db p)) (db_nodes (px_db p)) sid"
  have "send_event_with_response tx url_answer (GetNodePublicUrlAndSmallId sid) ''GetNodePublicUrlAndSmallId'' endpoint p =
      (after p (px_db p), map_err (state_failure tx ''GetNodePublicUrlAndSmallId'' endpoint) ?a)"
    by (simp add: respond_alone [OF assms(1)] send_reply_def)
  with assms show ?thesis by (cases ?a) (auto simp: get_node_address_def)
qed

text \<open>What the request that is forwarded says of the claim.\<close>

definition admitted ::
  "('tok, 'j) gateway \<Rightarrow> confidential_crates \<Rightarrow> http_request \<Rightarrow> int \<Rightarrow> int \<Rightarrow> http_request \<Rightarrow> bool" where
  "admitted gw cf req sid n req' \<longleftrightarrow>
     (\<exists>bytes cr. body_bytes (hr_path req) (hr_body req) = Inr bytes \<and> cf_parse cf bytes = Inr cr \<and>
        sid = as_i64 (cr_stack_small_id cr) \<and> n = claimed_units (hr_path req) cr \<and> hr_body req' = BodyBytes bytes) \<and>
     hr_headers req' ''authorization'' = hr_headers req ''authorization'' \<and> hr_headers req ''authorization'' \<noteq> None \<and>
     hr_headers req' (gw_stack_small_id_header gw) = hr_headers req (gw_stack_small_id_header gw) \<and>
     hr_path req' = hr_path req \<and>
     (\<exists>md. hr_metadata req' = Some md \<and> rx_selected_stack_small_id md = Some sid \<and> metadata_input_tokens md = 0 \<and>
        rx_max_output_tokens md = as_u64 n)"

text \<open>The steps that need neither the database nor the locks.\<close>

definition request_parts ::
  "('tok, 'j) gateway \<Rightarrow> confidential_crates \<Rightarrow> http_request \<Rightarrow> atoma_proxy_error + string option" where
  "request_parts gw cf req =
     (let endpoint = hr_path req in
      res_bind (body_bytes endpoint (hr_body req)) (\<lambda>bytes.
      res_bind (map_err (\<lambda>e. RequestError (''Failed to parse body as JSON: '' @ e) endpoint) (cf_parse cf bytes)) (\<lambda>cr.
      res_bind (map_err (\<lambda>e. RequestError (''Hash is not base64: '' @ e) endpoint)
        (cf_base64_decode cf (cr_plaintext_body_hash cr))) (\<lambda>hash.
      res_bind (map_err (\<lambda>e. InternalError (''Failed to get Sui signature: '' @ e) None endpoint) (cf_sign_hash cf hash)) (\<lambda>sig.
        map_err (\<lambda>e. RequestError (''Signed hash is not present as header value: '' @ e) endpoint) (gw_header_value gw sig))))))"

lemma confidential_admission:
  fixes p p1 :: "('f, 'm) proxy"
  assumes "alone p" and inv: "api_tokens_inv (db_api_tokens (px_db p))" and "headers_fine gw" and "hr_metadata req = None"
    and run: "confidential_request_for_node gw cf now req (p, m) = ((p1, m1), t)"
  shows "\<exists>res sid n gone claimed. t = TaskReturned res \<and> alone p1 \<and> claims now sid n m m1 gone claimed \<and>
    db_stacks (px_db p1) = give_back_units sid (map max_num_tokens gone) (db_stacks (px_db p)) \<and>
    (case res of Inl e \<Rightarrow> claimed = [] | Inr req' \<Rightarrow> length claimed = 1 \<and> admitted gw cf req sid n req')"
proof -
  let ?ep = "hr_path req"
  have unclaimed: ?thesis if "t = TaskReturned (Inl e)" "alone p1" "m1 = m" "db_stacks (px_db p1) = db_stacks (px_db p)" for e
    using that by (intro exI [of _ "Inl e"] exI [of _ 0] exI [of _ "[]"]) (simp add: give_back_units_def)
  obtain p2 a where auth: "check_auth (gw_texts gw) (hr_headers req) ?ep p = (p2, a)" by fastforce
  note ca = check_auth_alone [OF assms(1) inv auth]
  then have p2: "alone p2" "db_stacks (px_db p2) = db_stacks (px_db p)" by (auto split: sum.splits)
  show ?thesis
  proof (cases a)
    case (Inl e)
    with run auth p2 show ?thesis
      by (intro unclaimed [of e]) (auto simp: confidential_request_for_node_def with_locks_def Let_def)
  next
    case (Inr uid)
    with ca have tok: "hr_headers req ''authorization'' \<noteq> None" by (auto simp: bearer_token_Some)
    show ?thesis
    proof (cases "\<exists>e. request_parts gw cf req = Inl e")
      case True
      then have "\<exists>e. t = TaskReturned (Inl e) \<and> p1 = p2 \<and> m1 = m"
        using run auth Inr unfolding confidential_request_for_node_def request_parts_def with_locks_def Let_def
        by (auto simp: res_bind_Inl_iff)
      with p2 unclaimed show ?thesis by auto
    next
      case False
      then obtain bytes cr hash sig v where ok: "body_bytes ?ep (hr_body req) = Inr bytes" "cf_parse cf bytes = Inr cr"
        "cf_base64_decode cf (cr_plaintext_body_hash cr) = Inr hash" "cf_sign_hash cf hash = Inr sig"
        "gw_header_value gw sig = Inr v"
        by (cases "request_parts gw cf req") (auto simp: request_parts_def res_bind_Inr_iff Let_def)
      let ?sid = "as_i64 (cr_stack_small_id cr)" and ?n = "claimed_units ?ep cr"
      obtain p3 b where addr: "get_node_address (gw_texts gw) ?sid ?ep p2 = (p3, b)" by fastforce
      note na = node_address_alone [OF p2(1) addr]
      show ?thesis
      proof (cases b)
        case (Inl e)
        with run auth \<open>a = Inr uid\<close> ok addr na p2 show ?thesis
          by (intro unclaimed [of e]) (auto simp: confidential_request_for_node_def with_locks_def Let_def)
      next
        case (Inr nd)
        obtain address node where nd: "nd = (address, node)" by fastforce
        obtain p4 m4 c where claim: "claim_lock (gw_texts gw) ?sid ?n now ?ep (p3, m) = ((p4, m4), c)" by (metis prod.exhaust)
        from na have p3: "alone p3" by simp
        from claim_alone [OF p3 claim] obtain d gone claimed where
          cl: "c = Inr d" "alone p4" "length claimed = of_bool d" "claims now ?sid ?n m m4 gone claimed"
            "px_db p4 = (px_db p3)\<lparr>db_stacks := give_back_units ?sid (map max_num_tokens gone) (db_stacks (px_db p3))\<rparr>"
          by blast
        have st: "db_stacks (px_db p4) = give_back_units ?sid (map max_num_tokens gone) (db_stacks (px_db p))"
          using cl(5) na p2 by simp
        obtain w where w: "gw_header_value gw (decimal_int uid) = Inr w"
          using assms(3) by (auto simp: headers_fine_def isl_def) (metis sum.exhaust)
        show ?thesis
        proof (cases d)
          case False
          with run auth \<open>a = Inr uid\<close> ok addr Inr nd claim cl
          have "t = TaskReturned (Inl (UnavailableStack ''Stack is not available for confidential compute'' ?ep))" "p1 = p4" "m1 = m4"
            by (auto simp: confidential_request_for_node_def with_locks_def Let_def step_result_def
                verify_stack_for_confidential_compute_def)
          with False cl st show ?thesis by fastforce
        next
          case True
          with run auth \<open>a = Inr uid\<close> ok addr Inr nd claim cl w assms(3,4) tok
          have "\<exists>req'. t = TaskReturned (Inr req') \<and> admitted gw cf req ?sid ?n req'" "p1 = p4" "m1 = m4"
            by (auto simp: confidential_request_for_node_def with_locks_def Let_def step_result_def admitted_def
                verify_stack_for_confidential_compute_def headers_fine_def metadata_input_tokens_def default_metadata_def)
          with True cl st show ?thesis by fastforce
        qed
      qed
    qed
  qed
qed

subsection \<open>The accounting of a confidential request\<close>

text \<open>
  What the answer to an admitted request settles, for a claim of \<open>n\<close> units: the whole claim
  for text and for an image that failed, nothing for an image that was generated, and an
  estimate of no units for embeddings. A stream is settled by its streamer.
\<close>

fun confidential_settlement :: "string \<Rightarrow> int \<Rightarrow> http_response \<Rightarrow> (int \<times> int) option" where
  "confidential_settlement path n (Answered (JsonBody v)) =
     (if path = CONFIDENTIAL_IMAGE_GENERATIONS_PATH then None
      else Some (if path = CONFIDENTIAL_EMBEDDINGS_PATH then 0 else n, usage_tokens v ''total_tokens''))"
| "confidential_settlement path n (Refused e) = Some (if path = CONFIDENTIAL_EMBEDDINGS_PATH then 0 else n, 0)"
| "confidential_settlement path n _ = None"

lemmas confidential_defs = confidential_chat_completions_create_def confidential_completions_create_def

lemma confidential_paths_distinct [simp]:
  "CONFIDENTIAL_CHAT_COMPLETIONS_PATH \<noteq> CONFIDENTIAL_IMAGE_GENERATIONS_PATH"
  "CONFIDENTIAL_CHAT_COMPLETIONS_PATH \<noteq> CONFIDENTIAL_EMBEDDINGS_PATH"
  "CONFIDENTIAL_COMPLETIONS_PATH \<noteq> CONFIDENTIAL_IMAGE_GENERATIONS_PATH"
  "CONFIDENTIAL_COMPLETIONS_PATH \<noteq> CONFIDENTIAL_EMBEDDINGS_PATH"
  "CONFIDENTIAL_EMBEDDINGS_PATH \<noteq> CONFIDENTIAL_IMAGE_GENERATIONS_PATH"
  "CONFIDENTIAL_IMAGE_GENERATIONS_PATH \<noteq> CONFIDENTIAL_EMBEDDINGS_PATH"
  by (simp_all add: path_defs)

lemma confidential_endpoint_cases:
  assumes "is_confidential_compute_endpoint path"
  obtains "path = CONFIDENTIAL_CHAT_COMPLETIONS_PATH" | "path = CONFIDENTIAL_COMPLETIONS_PATH"
  | "path = CONFIDENTIAL_EMBEDDINGS_PATH" | "path = CONFIDENTIAL_IMAGE_GENERATIONS_PATH"
  using assms by (auto simp: is_confidential_compute_endpoint_def)

lemma text_settlement_claim:
  assumes "metadata_input_tokens md = 0" and "rx_max_output_tokens md = as_u64 n" and "in_i64 n"
  shows "text_settlement md v = Some (n, case v of None \<Rightarrow> 0 | Some v \<Rightarrow> usage_tokens v ''total_tokens'')"
    "image_settlement md v = (case v of None \<Rightarrow> Some (n, 0) | Some v \<Rightarrow> None)"
    "embeddings_settlement md v = Some (0, case v of None \<Rightarrow> 0 | Some v \<Rightarrow> usage_tokens v ''total_tokens'')"
proof -
  have "as_i64 0 = 0" by (simp add: as_i64_def wrap_i64_id)
  with assms show "text_settlement md v = Some (n, case v of None \<Rightarrow> 0 | Some v \<Rightarrow> usage_tokens v ''total_tokens'')"
    "image_settlement md v = (case v of None \<Rightarrow> Some (n, 0) | Some v \<Rightarrow> None)"
    "embeddings_settlement md v = Some (0, case v of None \<Rightarrow> 0 | Some v \<Rightarrow> usage_tokens v ''total_tokens'')"
    by (simp_all add: text_settlement_def image_settlement_def embeddings_settlement_def as_i64_as_u64_in i64_add_def
        wrap_i64_id split: option.split)
qed

lemma confidential_handled:
  fixes p q :: "('f, 'm) proxy"
  assumes "alone p" and "never_panics ne" and "is_confidential_compute_endpoint path"
    and "rx_selected_stack_small_id md = Some sid" and "metadata_input_tokens md = 0" and "rx_max_output_tokens md = as_u64 n"
    and "in_i64 n"
  obtains handle :: "texts \<Rightarrow> 'f node_env \<Rightarrow> request_metadata \<Rightarrow> header_map \<Rightarrow> json \<Rightarrow> ('f, 'm) proxy
      \<Rightarrow> ('f, 'm) proxy \<times> (atoma_proxy_error + answer_body)"
  where "inference_handler path = Some handle"
    and "\<And>tx headers payload q r. handle tx ne md headers payload p = (q, r) \<Longrightarrow>
      db_stacks (px_db q) = settled_stacks sid (confidential_settlement path n (case r of Inl e \<Rightarrow> Refused e | Inr b \<Rightarrow> Answered b))
        (db_stacks (px_db p))"
  using assms(3)
proof (cases rule: confidential_endpoint_cases)
  case 1
  show ?thesis
  proof (rule that)
    show "inference_handler path = Some chat_completions_create" using 1 by (simp add: confidential_defs)
  next
    fix tx headers payload q r
    assume "chat_completions_create tx ne md headers payload p = (q, r)"
    from stack_chat.handles [OF assms(1,2,4) this] 1
    show "db_stacks (px_db q) = settled_stacks sid (confidential_settlement path n
        (case r of Inl e \<Rightarrow> Refused e | Inr b \<Rightarrow> Answered b)) (db_stacks (px_db p))"
      by (cases r) (auto simp: text_settlement_claim [OF assms(5-7)] split: answer_body.splits simp del: settled_stacks.simps(2))
  qed
next
  case 2
  show ?thesis
  proof (rule that)
    show "inference_handler path = Some completions_create" using 2 by (simp add: confidential_defs)
  next
    fix tx headers payload q r
    assume "completions_create tx ne md headers payload p = (q, r)"
    from stack_completions.handles [OF assms(1,2,4) this] 2
    show "db_stacks (px_db q) = settled_stacks sid (confidential_settlement path n
        (case r of Inl e \<Rightarrow> Refused e | Inr b \<Rightarrow> Answered b)) (db_stacks (px_db p))"
      by (cases r) (auto simp: text_settlement_claim [OF assms(5-7)] split: answer_body.splits simp del: settled_stacks.simps(2))
  qed
next
  case 3
  show ?thesis
  proof (rule that)
    show "inference_handler path = Some confidential_embeddings_create" using 3 by (simp add: confidential_defs)
  next
    fix tx headers payload q r
    assume "confidential_embeddings_create tx ne md headers payload p = (q, r)"
    from confidential_embeddings.handles [OF assms(1,2,4) this] 3
    show "db_stacks (px_db q) = settled_stacks sid (confidential_settlement path n
        (case r of Inl e \<Rightarrow> Refused e | Inr b \<Rightarrow> Answered b)) (db_stacks (px_db p))"
      by (cases r) (auto simp: text_settlement_claim [OF assms(5-7)] split: answer_body.splits simp del: settled_stacks.simps(2))
  qed
next
  case 4
  show ?thesis
  proof (rule that)
    show "inference_handler path = Some confidential_image_generations_create" using 4 by (simp add: confidential_defs)
  next
    fix tx headers payload q r
    assume "confidential_image_generations_create tx ne md headers payload p = (q, r)"
    from confidential_images.handles [OF assms(1,2,4) this] 4
    show "db_stacks (px_db q) = settled_stacks sid (confidential_settlement path n
        (case r of Inl e \<Rightarrow> Refused e | Inr b \<Rightarrow> Answered b)) (db_stacks (px_db p))"
      by (cases r) (auto simp: text_settlement_claim [OF assms(5-7)] split: answer_body.splits simp del: settled_stacks.simps(2))
  qed
qed

lemma confidential_inner:
  fixes p q :: "('f, 'm) proxy"
  assumes "alone p" and "headers_fine gw" and "plain_rejections gw" and "never_panics ne"
    and path: "is_confidential_compute_endpoint (hr_path req)" and "hr_headers req (gw_stack_small_id_header gw) = None"
    and "admitted gw cf req sid n req'" and "in_i64 n"
    and run: "forward (handle_locked_stack_middleware gw (inference_service gw ne)) req' p = (q, r)"
  shows "\<exists>a. r = TaskReturned (Inr a) \<and>
    db_stacks (px_db q) = settled_stacks sid (confidential_settlement (hr_path req) n a) (db_stacks (px_db p))"
proof -
  let ?headers = "(hr_headers req')(''authorization'' := None)"
  from assms(7) obtain bytes md authorization where f: "hr_body req' = BodyBytes bytes" "hr_path req' = hr_path req"
    "hr_headers req' ''authorization'' = Some authorization"
    "hr_headers req' (gw_stack_small_id_header gw) = hr_headers req (gw_stack_small_id_header gw)"
    and md: "hr_metadata req' = Some md" "rx_selected_stack_small_id md = Some sid" "metadata_input_tokens md = 0"
      "rx_max_output_tokens md = as_u64 n"
    by (auto simp: admitted_def)
  from confidential_handled [OF assms(1,4) path md(2-4) assms(8)]
  obtain handle :: "texts \<Rightarrow> 'f node_env \<Rightarrow> request_metadata \<Rightarrow> header_map \<Rightarrow> json \<Rightarrow> ('f, 'm) proxy
      \<Rightarrow> ('f, 'm) proxy \<times> (atoma_proxy_error + answer_body)"
    where h: "inference_handler (hr_path req) = Some handle"
    and settles: "\<And>tx headers payload q r. handle tx ne md headers payload p = (q, r) \<Longrightarrow>
      db_stacks (px_db q) = settled_stacks sid (confidential_settlement (hr_path req) n
        (case r of Inl e \<Rightarrow> Refused e | Inr b \<Rightarrow> Answered b)) (db_stacks (px_db p))"
    by blast
  have models: "hr_path req \<noteq> MODELS_PATH" using path
    by (cases rule: confidential_endpoint_cases) (auto simp: path_defs MODELS_PATH_def)
  have none: "?headers (gw_stack_small_id_header gw) = None" using f(4) assms(6) by simp
  let ?inner = "req'\<lparr>hr_headers := ?headers, hr_body := BodyBytes bytes\<rparr>"
  note run3 = run [unfolded forward_def handle_locked_stack_middleware_def Let_def f(3) f(1), folded forward_def]
  show ?thesis
  proof (cases "gw_extract_json gw ?headers bytes")
    case (Inl status)
    then have "forward (inference_service gw ne) ?inner p = (p, TaskReturned (Inr (AnsweredStatus status)))"
      using f(2) md(1) h models by (simp add: forward_def inference_service_def)
    moreover have "status \<noteq> 423" "status \<noteq> 425" using assms(3) Inl by (auto simp: plain_rejections_def)
    ultimately show ?thesis using run f by (auto simp: forward_def handle_locked_stack_middleware_def Let_def)
  next
    case (Inr payload)
    obtain p2 res where run2: "handle (gw_texts gw) ne md ?headers payload p = (p2, res)" by fastforce
    have fwd: "forward (inference_service gw ne) ?inner p =
        (p2, TaskReturned (Inr (case res of Inl e \<Rightarrow> Refused e | Inr b \<Rightarrow> Answered b)))"
      using f(2) md(1) h Inr run2 models by (simp add: forward_def inference_service_def split: sum.split)
    have "q = p2 \<and> (\<exists>a. r = TaskReturned (Inr a) \<and>
        (case res of Inl e \<Rightarrow> \<exists>e'. a = Refused e' | Inr b \<Rightarrow> a = Answered b))"
      using run f(1-3) fwd md(1) none path
      by (cases res) (auto simp: forward_def [of "handle_locked_stack_middleware gw (inference_service gw ne)"]
          handle_locked_stack_middleware_def Let_def lock_stack_of_request_def split: if_splits)
    with settles [OF run2] show ?thesis by (auto split: sum.splits)
  qed
qed

lemma confidential_accounts:
  fixes p q :: "('f, 'm) proxy"
  assumes "alone p" and "db_inv (px_db p)" and "headers_fine gw" and "plain_rejections gw" and "never_panics ne"
    and "is_confidential_compute_endpoint (hr_path req)" and "hr_metadata req = None"
    and "hr_headers req (gw_stack_small_id_header gw) = None"
    and "confidential_service gw cf now ne req (p, m) = ((q, m'), r)"
  shows "\<exists>res sid n gone claimed. r = TaskReturned res \<and> claims now sid n m m' gone claimed \<and>
    db_stacks (px_db q) = settled_stacks sid (case res of Inl e \<Rightarrow> None | Inr a \<Rightarrow> confidential_settlement (hr_path req) n a)
      (give_back_units sid (map max_num_tokens gone) (db_stacks (px_db p))) \<and>
    (case res of Inl e \<Rightarrow> claimed = [] | Inr a \<Rightarrow> length claimed = 1 \<and> (\<exists>req'. admitted gw cf req sid n req'))"
proof -
  let ?inner = "handle_locked_stack_middleware gw (inference_service gw ne) :: ('f, 'm) layer"
  obtain p1 m1 t where node: "confidential_request_for_node gw cf now req (p, m) = ((p1, m1), t)" by (metis prod.exhaust)
  have inv: "api_tokens_inv (db_api_tokens (px_db p))" using assms(2) by (simp add: db_inv_def)
  from confidential_admission [OF assms(1) inv assms(3,7) node] obtain res sid n gone claimed where
    adm: "t = TaskReturned res" "alone p1" "claims now sid n m m1 gone claimed"
      "db_stacks (px_db p1) = give_back_units sid (map max_num_tokens gone) (db_stacks (px_db p))"
    and cl: "case res of Inl e \<Rightarrow> claimed = [] | Inr req' \<Rightarrow> length claimed = 1 \<and> admitted gw cf req sid n req'"
    by blast
  show ?thesis
  proof (cases res)
    case (Inl e)
    with assms(9) node adm have "r = TaskReturned (Inl e)" "q = p1" "m' = m1"
      by (auto simp: confidential_service_def confidential_compute_middleware_def step_result_def)
    moreover from this adm have "claims now sid n m m' gone []" "db_stacks (px_db q) = settled_stacks sid None
        (give_back_units sid (map max_num_tokens gone) (db_stacks (px_db p)))" using Inl cl by auto
    ultimately show ?thesis
      by (simp, rule_tac exI [of _ sid], rule_tac exI [of _ n], rule_tac exI [of _ gone]) simp
  next
    case (Inr req')
    with cl have ad: "admitted gw cf req sid n req'" and one: "length claimed = 1" by auto
    then have "in_i64 n" by (auto simp: admitted_def)
    obtain q1 r1 where run: "forward ?inner req' p1 = (q1, r1)" by fastforce
    from confidential_inner [OF adm(2) assms(3-6,8) ad \<open>in_i64 n\<close> run] obtain a where
      a: "r1 = TaskReturned (Inr a)"
      "db_stacks (px_db q1) = settled_stacks sid (confidential_settlement (hr_path req) n a) (db_stacks (px_db p1))" by blast
    with assms(9) node adm(1) Inr run have "r = TaskReturned (Inr a)" "q = q1" "m' = m1"
      by (auto simp: confidential_service_def confidential_compute_middleware_def step_result_def)
    with a adm ad one show ?thesis
      by (simp, rule_tac exI [of _ sid], rule_tac exI [of _ n], rule_tac exI [of _ gone], rule_tac exI [of _ claimed]) auto
  qed
qed

subsection \<open>Units that stay locked\<close>

lemma settled_stacks_inv: "stacks_inv t \<Longrightarrow> stacks_inv (settled_stacks sid s t)"
  by (cases "(sid, s, t)" rule: settled_stacks.cases) (auto split: sum.splits dest: update_stack_num_tokens_inv)

lemma settled_stacks_locked:
  assumes "stacks_inv t"
  shows "settled_stacks sid (Some (e, u)) t = t \<or>
    (\<forall>j. stack_num locked_compute_units (settled_stacks sid (Some (e, u)) t) j =
       stack_num locked_compute_units t j - (if j = sid then e else 0))"
proof (cases "update_stack_num_tokens t sid e u")
  case (Inr t')
  then obtain r r' where "row_of stack_small_id t sid = Some r" "record_tokens e u r = Inr r'"
    and "t' = put_row stack_small_id r' t" by (auto simp: update_stack_num_tokens_Inr_iff [OF assms])
  with Inr show ?thesis by (auto simp: sql_simps stack_num_put stack_num_Some)
qed simp

text \<open>The units of a stack that \<^verbatim>\<open>/v1/nodes/lock\<close> has locked and that may still be claimed or expire.\<close>

definition held_in_memory :: "locked_units \<Rightarrow> int \<Rightarrow> int" where
  "held_in_memory m sid = sum_list (map max_num_tokens (entry m sid))"

definition all_live :: "int \<Rightarrow> locked_units \<Rightarrow> bool" where
  "all_live now m \<longleftrightarrow> (\<forall>sid. \<forall>x \<in> set (entry m sid). now \<le> expires_at x)"

lemma claims_live:
  assumes "claims now sid n m m' gone claimed" and "all_live now m"
  shows "gone = [] \<and> (\<forall>j. held_in_memory m' j = held_in_memory m j - (if j = sid then sum_list (map max_num_tokens claimed) else 0))"
proof -
  from assms(1) have e: "mset (entry m sid) = mset (entry m' sid) + mset gone + mset claimed"
    and rest: "\<forall>j. j \<noteq> sid \<longrightarrow> m' j = m j" and late: "\<forall>x \<in> set gone. expires_at x < now"
    by (auto simp: claims_def)
  have "set gone \<subseteq> set (entry m sid)" using arg_cong [OF e, of set_mset] by auto
  with assms(2) have "now \<le> expires_at x" if "x \<in> set gone" for x using that by (auto simp: all_live_def)
  with late have gone: "gone = []" by (cases gone) force+
  have "sum_mset (image_mset max_num_tokens (mset (entry m sid))) =
      sum_mset (image_mset max_num_tokens (mset (entry m' sid))) + sum_mset (image_mset max_num_tokens (mset claimed))"
    using e gone by simp
  then have "held_in_memory m sid = held_in_memory m' sid + sum_list (map max_num_tokens claimed)"
    by (simp add: held_in_memory_def flip: mset_map sum_mset_sum_list)
  moreover have "held_in_memory m' j = held_in_memory m j" if "j \<noteq> sid" for j
    using rest that by (simp add: held_in_memory_def entry_def)
  ultimately show ?thesis using gone by auto
qed

lemma confidential_live:
  fixes p q :: "('f, 'm) proxy"
  assumes "alone p" and "db_inv (px_db p)" and "headers_fine gw" and "plain_rejections gw" and "never_panics ne"
    and "is_confidential_compute_endpoint (hr_path req)" and "hr_metadata req = None"
    and "hr_headers req (gw_stack_small_id_header gw) = None" and "all_live now m"
    and "confidential_service gw cf now ne req (p, m) = ((q, m'), TaskReturned (Inr a))"
  shows "\<exists>sid n x req'. admitted gw cf req sid n req' \<and> n \<le> max_num_tokens x \<and>
    held_in_memory m' sid = held_in_memory m sid - max_num_tokens x \<and>
    db_stacks (px_db q) = settled_stacks sid (confidential_settlement (hr_path req) n a) (db_stacks (px_db p))"
proof -
  from confidential_accounts [OF assms(1-8,10)] obtain res sid n gone claimed where
    res: "TaskReturned (Inr a) = TaskReturned res" and c: "claims now sid n m m' gone claimed"
    and st': "db_stacks (px_db q) = settled_stacks sid (case res of Inl e \<Rightarrow> None | Inr a \<Rightarrow> confidential_settlement (hr_path req) n a)
      (give_back_units sid (map max_num_tokens gone) (db_stacks (px_db p)))"
    and one': "case res of Inl e \<Rightarrow> claimed = [] | Inr a \<Rightarrow> length claimed = 1 \<and> (\<exists>req'. admitted gw cf req sid n req')"
    by (elim exE conjE)
  from res st' one' have one: "length claimed = 1" and req': "\<exists>req'. admitted gw cf req sid n req'"
    and st: "db_stacks (px_db q) = settled_stacks sid (confidential_settlement (hr_path req) n a)
      (give_back_units sid (map max_num_tokens gone) (db_stacks (px_db p)))" by auto
  from one obtain x where x: "claimed = [x]" by (auto simp: length_Suc_conv)
  from claims_live [OF c assms(9)] have gone: "gone = []"
    and held: "held_in_memory m' sid = held_in_memory m sid - max_num_tokens x" using x by auto
  from c x have "n \<le> max_num_tokens x" by (simp add: claims_def)
  moreover from st gone have "db_stacks (px_db q) = settled_stacks sid (confidential_settlement (hr_path req) n a) (db_stacks (px_db p))"
    by (simp add: give_back_units_def)
  ultimately show ?thesis using req' held by blast
qed

text \<open>
  When a confidential text request fails at its node, the lock it claimed is gone from
  memory with all its units, but at most the units that the client named are given back in
  the database: what the client locked beyond that stays locked on the stack.
\<close>

theorem confidential_claim_leaks:
  fixes p q :: "('f, 'm) proxy"
  assumes "alone p" and "db_inv (px_db p)" and "headers_fine gw" and "plain_rejections gw" and "never_panics ne"
    and "hr_path req = CONFIDENTIAL_CHAT_COMPLETIONS_PATH \<or> hr_path req = CONFIDENTIAL_COMPLETIONS_PATH"
    and "hr_metadata req = None" and "hr_headers req (gw_stack_small_id_header gw) = None" and "all_live now m"
    and "confidential_service gw cf now ne req (p, m) = ((q, m'), TaskReturned (Inr (Refused e)))"
  shows "\<exists>sid n x req'. admitted gw cf req sid n req' \<and> n \<le> max_num_tokens x \<and>
    held_in_memory m' sid = held_in_memory m sid - max_num_tokens x \<and>
    (db_stacks (px_db q) = db_stacks (px_db p) \<or>
     stack_num locked_compute_units (db_stacks (px_db q)) sid = stack_num locked_compute_units (db_stacks (px_db p)) sid - n)"
proof -
  have path: "is_confidential_compute_endpoint (hr_path req)" using assms(6) by (auto simp: is_confidential_compute_endpoint_def)
  have inv: "stacks_inv (db_stacks (px_db p))" using assms(2) by (simp add: db_inv_def)
  from confidential_live [OF assms(1-5) path assms(7-10)] obtain sid n x req' where
    l: "admitted gw cf req sid n req'" "n \<le> max_num_tokens x"
      "held_in_memory m' sid = held_in_memory m sid - max_num_tokens x"
    and st: "db_stacks (px_db q) = settled_stacks sid (confidential_settlement (hr_path req) n (Refused e)) (db_stacks (px_db p))"
    by (elim exE conjE)
  have "confidential_settlement (hr_path req) n (Refused e) = Some (n, 0)" using assms(6) by auto
  with st settled_stacks_locked [OF inv, of sid n 0] have "db_stacks (px_db q) = db_stacks (px_db p) \<or>
     stack_num locked_compute_units (db_stacks (px_db q)) sid = stack_num locked_compute_units (db_stacks (px_db p)) sid - n"
    by auto
  with l show ?thesis by blast
qed

text \<open>
  A confidential request for embeddings takes its lock out of memory but leaves the locked
  units of every stack in the database as they were, whatever its outcome: the units of the
  lock are never released.
\<close>

theorem confidential_embeddings_release_nothing:
  fixes p q :: "('f, 'm) proxy"
  assumes "alone p" and "db_inv (px_db p)" and "headers_fine gw" and "plain_rejections gw" and "never_panics ne"
    and "hr_path req = CONFIDENTIAL_EMBEDDINGS_PATH" and "hr_metadata req = None"
    and "hr_headers req (gw_stack_small_id_header gw) = None" and "all_live now m"
    and "confidential_service gw cf now ne req (p, m) = ((q, m'), TaskReturned (Inr a))"
  shows "(\<forall>j. stack_num locked_compute_units (db_stacks (px_db q)) j = stack_num locked_compute_units (db_stacks (px_db p)) j) \<and>
    (\<exists>sid n x req'. admitted gw cf req sid n req' \<and> n \<le> max_num_tokens x \<and>
       held_in_memory m' sid = held_in_memory m sid - max_num_tokens x)"
proof -
  have path: "is_confidential_compute_endpoint (hr_path req)" using assms(6) by (auto simp: is_confidential_compute_endpoint_def)
  have inv: "stacks_inv (db_stacks (px_db p))" using assms(2) by (simp add: db_inv_def)
  from confidential_live [OF assms(1-5) path assms(7-10)] obtain sid n x req' where
    l: "admitted gw cf req sid n req'" "n \<le> max_num_tokens x"
      "held_in_memory m' sid = held_in_memory m sid - max_num_tokens x"
    and st: "db_stacks (px_db q) = settled_stacks sid (confidential_settlement (hr_path req) n a) (db_stacks (px_db p))"
    by (elim exE conjE)
  have "confidential_settlement (hr_path req) n a = None \<or> (\<exists>u. confidential_settlement (hr_path req) n a = Some (0, u))"
    using assms(6) by (cases "(hr_path req, n, a)" rule: confidential_settlement.cases) auto
  then have "stack_num locked_compute_units (db_stacks (px_db q)) j = stack_num locked_compute_units (db_stacks (px_db p)) j" for j
    using st settled_stacks_locked [OF inv, of sid 0] by (elim disjE exE) (force simp del: settled_stacks.simps(2))+
  with l show ?thesis by blast
qed

subsection \<open>Whose units\<close>

text \<open>
  Every live lock that is large enough admits a request, whoever the stack belongs to: the
  owner of the token in the request and the owner of the stack are never compared.
\<close>

text \<open>
  C26. Any user with a valid API token can spend a live lock on any stack, as long as it has
  enough units: the request is forwarded for that stack under the user's own id, whoever
  owns the stack or made the lock.
\<close>

theorem live_lock_admits_any_user:
  fixes p :: "('f, 'm) proxy"
  assumes "alone p" and inv: "db_inv (px_db p)" and "headers_fine gw" and "hr_metadata req = None"
    and tok: "hr_headers req ''authorization'' = Some (Some (''Bearer '' @ tok))"
    and row: "row_of at_token (db_api_tokens (px_db p)) tok = Some row"
    and bytes: "body_bytes (hr_path req) (hr_body req) = Inr bytes" and cr: "cf_parse cf bytes = Inr cr"
    and hash: "cf_base64_decode cf (cr_plaintext_body_hash cr) = Inr hash" and sig: "cf_sign_hash cf hash = Inr sig"
    and v: "gw_header_value gw sig = Inr v" and sid: "sid = as_i64 (cr_stack_small_id cr)"
    and url: "get_node_public_url_and_small_id (db_stacks (px_db p)) (db_nodes (px_db p)) sid = Inr (Some address, node)"
    and x: "x \<in> set (entry m sid)" "claimed_units (hr_path req) cr \<le> max_num_tokens x" "now \<le> expires_at x"
  shows "\<exists>s req' md. confidential_request_for_node gw cf now req (p, m) = (s, TaskReturned (Inr req')) \<and>
    hr_metadata req' = Some md \<and> rx_selected_stack_small_id md = Some sid \<and> rx_user_id md = at_user_id row"
proof -
  let ?ep = "hr_path req" and ?n = "claimed_units (hr_path req) cr"
  obtain p2 a where auth: "check_auth (gw_texts gw) (hr_headers req) ?ep p = (p2, a)" by fastforce
  have tokens: "api_tokens_inv (db_api_tokens (px_db p))" using inv by (simp add: db_inv_def)
  have "handle_state_manager_event (event_ctx p) (IsApiTokenValid tok) (px_db p) =
      (token_used row (cx_now_stamp (event_ctx p)) (px_db p), Inr (IdReply (Inr (at_user_id row))))"
    using row by (simp add: is_api_token_valid_iff [OF tokens] token_used_def send_reply_def)
  then have a: "a = Inr (at_user_id row)" "alone p2"
    "px_db p2 = token_used row (cx_now_stamp (event_ctx p)) (px_db p)"
    using auth tok assms(1) bearer_token_Some [of "hr_headers req" tok]
    by (auto simp: check_auth_def bearer_token_def send_message_alone received_def alone_updates)
  have "send_event_with_response (gw_texts gw) url_answer (GetNodePublicUrlAndSmallId sid) ''GetNodePublicUrlAndSmallId'' ?ep p2 =
      (after p2 (px_db p2), Inr (Some address, node))"
    using url a(3) by (simp add: respond_alone [OF a(2)] send_reply_def token_used_def)
  then obtain p3 where addr: "get_node_address (gw_texts gw) sid ?ep p2 = (p3, Inr (address, node))" and p3: "alone p3"
    using a(2) by (auto simp: get_node_address_def)
  obtain p4 m4 c where claim: "claim_lock (gw_texts gw) sid ?n now ?ep (p3, m) = ((p4, m4), c)" by (metis prod.exhaust)
  have c: "c = Inr True"
  proof -
    from claim_alone [OF p3 claim] obtain b gone claimed where cl: "c = Inr b" "length claimed = of_bool b"
      "claims now sid ?n m m4 gone claimed" by blast
    show ?thesis
    proof (cases b)
      case False
      from claim_refused [OF claim [unfolded cl(1)]] False x(2) have "x \<notin> set (entry m4 sid)" by auto
      moreover have "x \<notin> set gone" using cl(3) x(3) by (auto simp: claims_def)
      moreover have "set (entry m sid) = set (entry m4 sid) \<union> set gone"
      proof -
        have e: "mset (entry m sid) = mset (entry m4 sid) + mset gone" using cl(2,3) False by (simp add: claims_def)
        show ?thesis using arg_cong [OF e, of set_mset] by simp
      qed
      ultimately show ?thesis using x(1) by blast
    qed (use cl in simp)
  qed
  obtain w where w: "gw_header_value gw (decimal_int (at_user_id row)) = Inr w"
    using assms(3) by (auto simp: headers_fine_def isl_def) (metis sum.exhaust)
  show ?thesis
    using auth a(1) bytes cr hash sig v addr claim c w sid assms(4)
    by (auto simp: confidential_request_for_node_def with_locks_def Let_def step_result_def verify_stack_for_confidential_compute_def)
qed

definition sample_claim :: "u64 \<Rightarrow> confidential_compute_request" where
  "sample_claim n = \<lparr>cr_ciphertext = ''c'', cr_stack_small_id = 1, cr_nonce = ''n'', cr_salt = ''s'',
     cr_client_dh_public_key = ''k'', cr_node_dh_public_key = ''k'', cr_plaintext_body_hash = ''h'', cr_stream = None,
     cr_model_name = ''m'', cr_num_compute_units = Some n\<rparr>"

definition sample_confidential :: "u64 \<Rightarrow> confidential_crates" where
  "sample_confidential n = \<lparr>cf_parse = (\<lambda>s. Inr (sample_claim n)), cf_base64_decode = (\<lambda>s. Inr []), cf_sign_hash = (\<lambda>h. Inr ''sig'')\<rparr>"

definition sample_held :: locked_units where
  "sample_held = (\<lambda>_. None)(1 \<mapsto> [LockedDetails 90 50])"

definition sample_confidential_request :: "string \<Rightarrow> http_request" where
  "sample_confidential_request path = sample_http_request\<lparr>hr_path := path\<rparr>"

definition sample_confidential_run ::
  "string \<Rightarrow> u64 \<Rightarrow> nat \<Rightarrow> (int, unit) vault \<times> http_response task_result" where
  "sample_confidential_run path n status = confidential_service sample_gateway (sample_confidential n) 60
     (sample_node_env status (sample_answer 7 5)) (sample_confidential_request path) (sample_served_proxy, sample_held)"

lemma sample_confidential_ready:
  "hr_metadata (sample_confidential_request path) = None"
  "hr_headers (sample_confidential_request path) (gw_stack_small_id_header sample_gateway) = None"
  "all_live 60 sample_held" "hr_path (sample_confidential_request path) = path"
proof -
  show "hr_metadata (sample_confidential_request path) = None" "hr_path (sample_confidential_request path) = path"
    by (simp_all add: sample_confidential_request_def sample_http_request_def)
  show "hr_headers (sample_confidential_request path) (gw_stack_small_id_header sample_gateway) = None"
    by (simp add: sample_confidential_request_def sample_http_request_def sample_headers_def sample_gateway_def)
  show "all_live 60 sample_held" by (simp add: all_live_def sample_held_def entry_def split: option.split)
qed

theorem live_lock_admits_any_user_witness:
  "user_id (sample_stack 1 900 50) = 5 \<and> sample_stack 1 900 50 \<in> set (db_stacks (px_db sample_served_proxy)) \<and>
   (\<exists>s req' md. confidential_request_for_node sample_gateway (sample_confidential 20) 60
      (sample_confidential_request CONFIDENTIAL_CHAT_COMPLETIONS_PATH) (sample_served_proxy, sample_held) =
        (s, TaskReturned (Inr req')) \<and> hr_metadata req' = Some md \<and> rx_selected_stack_small_id md = Some 1 \<and> rx_user_id md = 1)"
proof -
  let ?req = "sample_confidential_request CONFIDENTIAL_CHAT_COMPLETIONS_PATH"
  have tok: "hr_headers ?req ''authorization'' = Some (Some (''Bearer '' @ ''tk''))"
    by (simp add: sample_confidential_request_def sample_http_request_def sample_headers_def)
  have row: "row_of at_token (db_api_tokens (px_db sample_served_proxy)) ''tk'' = Some \<lparr>at_id = 1, at_token = ''tk'', at_user_id = 1,
      at_name = ''n'', at_creation_timestamp = 0, at_last_used_timestamp = None\<rparr>" by code_simp
  have bytes: "body_bytes (hr_path ?req) (hr_body ?req) = Inr ''{}''" by code_simp
  have cr: "cf_parse (sample_confidential 20) ''{}'' = Inr (sample_claim 20)" by (simp add: sample_confidential_def)
  have hash: "cf_base64_decode (sample_confidential 20) (cr_plaintext_body_hash (sample_claim 20)) = Inr []"
    "cf_sign_hash (sample_confidential 20) [] = Inr ''sig''" by (simp_all add: sample_confidential_def)
  have v: "gw_header_value sample_gateway ''sig'' = Inr (Some ''sig'')" by (simp add: sample_gateway_def)
  have sid: "1 = as_i64 (cr_stack_small_id (sample_claim 20))" by code_simp
  have url: "get_node_public_url_and_small_id (db_stacks (px_db sample_served_proxy)) (db_nodes (px_db sample_served_proxy)) 1 =
      Inr (Some ''http://n'', 8)" by code_simp
  have x: "LockedDetails 90 50 \<in> set (entry sample_held 1)" "60 \<le> expires_at (LockedDetails 90 50)"
    by (simp_all add: sample_held_def entry_def)
  have n: "claimed_units (hr_path ?req) (sample_claim 20) \<le> max_num_tokens (LockedDetails 90 50)" by code_simp
  have "sample_stack 1 900 50 \<in> set (db_stacks (px_db sample_served_proxy))"
    by (simp add: sample_served_proxy_def sample_db_def sample_stacks_def)
  moreover have "user_id (sample_stack 1 900 50) = 5" by code_simp
  ultimately show ?thesis
    using live_lock_admits_any_user [OF sample_service_ready(1-3) sample_confidential_ready(1) tok row bytes cr hash v sid url x(1) n x(2)]
    by simp
qed

lemma sample_confidential_refused:
  "case sample_confidential_run CONFIDENTIAL_CHAT_COMPLETIONS_PATH 20 503 of
     ((q, m), TaskReturned (Inr (Refused e))) \<Rightarrow> db_stacks (px_db q) \<noteq> db_stacks (px_db sample_served_proxy) | _ \<Rightarrow> False"
  "case sample_confidential_run CONFIDENTIAL_EMBEDDINGS_PATH 20 200 of
     (s, TaskReturned (Inr (Answered b))) \<Rightarrow> True | _ \<Rightarrow> False"
  by code_simp+

lemma sample_admitted:
  assumes "admitted sample_gateway (sample_confidential k) req sid n req'"
  shows "sid = 1 \<and> n = claimed_units (hr_path req) (sample_claim k)"
proof -
  have "as_i64 (cr_stack_small_id (sample_claim k)) = 1" by (simp add: sample_claim_def as_i64_def wrap_i64_def)
  with assms show ?thesis
    by (auto simp: admitted_def sample_confidential_def)
qed

theorem confidential_claim_leaks_witness:
  "\<exists>x. max_num_tokens x \<ge> 20 \<and>
    held_in_memory (snd (fst (sample_confidential_run CONFIDENTIAL_CHAT_COMPLETIONS_PATH 20 503))) 1 =
      held_in_memory sample_held 1 - max_num_tokens x \<and>
    stack_num locked_compute_units (db_stacks (px_db (fst (fst (sample_confidential_run CONFIDENTIAL_CHAT_COMPLETIONS_PATH 20 503))))) 1 =
      stack_num locked_compute_units (db_stacks (px_db sample_served_proxy)) 1 - 20"
proof -
  let ?req = "sample_confidential_request CONFIDENTIAL_CHAT_COMPLETIONS_PATH"
  obtain q m' e where run: "sample_confidential_run CONFIDENTIAL_CHAT_COMPLETIONS_PATH 20 503 = ((q, m'), TaskReturned (Inr (Refused e)))"
    and changed: "db_stacks (px_db q) \<noteq> db_stacks (px_db sample_served_proxy)"
    using sample_confidential_refused(1) by (auto split: prod.splits task_result.splits sum.splits http_response.splits)
  have n: "claimed_units CONFIDENTIAL_CHAT_COMPLETIONS_PATH (sample_claim 20) = 20" by code_simp
  have path: "hr_path ?req = CONFIDENTIAL_CHAT_COMPLETIONS_PATH \<or> hr_path ?req = CONFIDENTIAL_COMPLETIONS_PATH"
    by (simp add: sample_confidential_ready(4))
  from confidential_claim_leaks [OF sample_service_ready(1-3,5) sample_never_panics path sample_confidential_ready(1-3)
      run [unfolded sample_confidential_run_def]]
  show ?thesis using changed n run sample_confidential_ready(4) by (auto dest!: sample_admitted)
qed

theorem confidential_embeddings_release_nothing_witness:
  "stack_num locked_compute_units (db_stacks (px_db (fst (fst (sample_confidential_run CONFIDENTIAL_EMBEDDINGS_PATH 20 200))))) 1 = 50 \<and>
   held_in_memory sample_held 1 = 50 \<and>
   held_in_memory (snd (fst (sample_confidential_run CONFIDENTIAL_EMBEDDINGS_PATH 20 200))) 1 = 0"
proof -
  let ?req = "sample_confidential_request CONFIDENTIAL_EMBEDDINGS_PATH"
  obtain q m' a where run: "sample_confidential_run CONFIDENTIAL_EMBEDDINGS_PATH 20 200 = ((q, m'), TaskReturned (Inr a))"
    using sample_confidential_refused(2) by (auto split: prod.splits task_result.splits sum.splits http_response.splits)
  have path: "hr_path ?req = CONFIDENTIAL_EMBEDDINGS_PATH" by (simp add: sample_confidential_ready(4))
  have "stack_num locked_compute_units (db_stacks (px_db sample_served_proxy)) 1 = 50" by code_simp
  moreover have "held_in_memory sample_held 1 = 50" by code_simp
  moreover have "held_in_memory (snd (fst (sample_confidential_run CONFIDENTIAL_EMBEDDINGS_PATH 20 200))) 1 = 0" by code_simp
  ultimately show ?thesis
    using confidential_embeddings_release_nothing [OF sample_service_ready(1-3,5) sample_never_panics path sample_confidential_ready(1-3)
        run [unfolded sample_confidential_run_def]] run by simp
qed

subsection \<open>Refinement and accounting\<close>


definition sample_pruning :: "(int, unit) vault \<times> (atoma_proxy_error + bool)" where
  "sample_pruning = claim_lock sample_texts 2 35 60 CONFIDENTIAL_CHAT_COMPLETIONS_PATH (sample_proxy, sample_locked)"




end
