(* ===== verification/NodeLocks.thy ===== *)
theory NodeLocks
  imports Confidential
begin

text \<open>
  The endpoints of \<^verbatim>\<open>atoma-proxy/src/server/handlers/nodes.rs\<close>. With \<^verbatim>\<open>nodes_create\<close> a
  node publishes its address under a signature; with \<^verbatim>\<open>nodes_create_lock\<close> a client takes
  the encryption key of a node and locks units on a stack, in the database and in the map
  \<^verbatim>\<open>stack_locked_compute_units\<close>, from where \<open>Confidential\<close> claims them. The lemmas show that
  an address changes only under the node's own signature, and how the two records of the
  locked units agree or differ.
\<close>

subsection \<open>Messages with the words of this file\<close>

text \<open>A message and its answer: \<open>unsent\<close> and \<open>unanswered\<close> are the errors of the two channels.\<close>

definition ask ::
  "atoma_proxy_error \<Rightarrow> atoma_proxy_error \<Rightarrow> (reply \<Rightarrow> 'a option) \<Rightarrow> 'f state_manager_event \<Rightarrow> ('f, 'm) proxy
    \<Rightarrow> ('f, 'm) proxy \<times> (atoma_proxy_error + 'a)" where
  "ask unsent unanswered answer_of ev p =
     (case send_message ev p of (q, m) \<Rightarrow>
        (q, if m = NotSent then Inl unsent
            else ok_or unanswered (case m of Handled (Inr r) \<Rightarrow> answer_of r | _ \<Rightarrow> None)))"

fun key_answer :: "reply \<Rightarrow> node_public_key option option" where
  "key_answer (KeyReply k) = Some k" | "key_answer _ = None"

lemma ask_alone:
  assumes "alone p" and "handle_state_manager_event (event_ctx p) ev (px_db p) = (d, Inr rep)" and "answer_of rep = Some a"
  shows "ask unsent unanswered answer_of ev p = (after p d, Inr a)"
  using assms by (simp add: ask_def send_message_alone after_def)

lemma ask_keeps_alone: "alone p \<Longrightarrow> ask unsent unanswered answer_of ev p = (q, r) \<Longrightarrow> alone q"
  by (auto simp: ask_def send_message_alone alone_updates)

subsection \<open>Publishing an address\<close>

definition NODES_CREATE_PATH :: string where "NODES_CREATE_PATH = ''/v1/nodes''"

record node_public_address_assignment =
  na_node_small_id :: u64
  na_public_address :: string
  na_country :: string

record nodes_create_request =
  nc_data :: node_public_address_assignment
  nc_signature :: string

text \<open>
  What it takes from crates: serde's printer, the signatures and keys of the Sui SDK with the
  scheme and the key bytes of a signature, the hash, whose 32 bytes always fit, and
  \<^verbatim>\<open>atoma_utils::verify_signature\<close>.
\<close>

record ('sg, 'pk) node_crates =
  no_to_vec :: "node_public_address_assignment \<Rightarrow> string + string"
  no_parse_signature :: "string \<Rightarrow> string + 'sg"
  no_public_key :: "'sg \<Rightarrow> string + 'pk"
  no_sui_address :: "'pk \<Rightarrow> string"
  no_blake2b :: "string \<Rightarrow> bytes"
  no_verify_signature :: "string \<Rightarrow> bytes \<Rightarrow> string + unit"

definition signed_by ::
  "('sg, 'pk) node_crates \<Rightarrow> nodes_create_request \<Rightarrow> atoma_proxy_error + string" where
  "signed_by no payload =
     (let failed = (\<lambda>what e. RequestError (what @ e) NODES_CREATE_PATH) in
      res_bind (map_err (failed ''Failed to serialize payload to bytes, with error: '') (no_to_vec no (nc_data payload)))
        (\<lambda>body_bytes.
      res_bind (map_err (failed ''Failed to parse signature, with error: '') (no_parse_signature no (nc_signature payload)))
        (\<lambda>signature.
      res_bind (map_err (failed ''Failed to extract public key from bytes, with error: '') (no_public_key no signature))
        (\<lambda>public_key.
      res_bind (map_err (failed ''Failed to verify signature, with error: '')
          (no_verify_signature no (nc_signature payload) (no_blake2b no body_bytes)))
        (\<lambda>_. Inr (no_sui_address no public_key))))))"

definition nodes_create ::
  "texts \<Rightarrow> ('sg, 'pk) node_crates \<Rightarrow> nodes_create_request \<Rightarrow> ('f, 'm) proxy \<Rightarrow> ('f, 'm) proxy \<times> (atoma_proxy_error + string)" where
  "nodes_create tx no payload p =
     and_then (p, signed_by no payload) (\<lambda>sui_address p.
     let data = nc_data payload; node = as_i64 (na_node_small_id data);
         failed = (\<lambda>what. InternalError what None NODES_CREATE_PATH) in
     and_then (ask (failed (''Failed to send GetNodeSuiAddress event: '' @ tx_send_error tx))
         (failed (''Failed to receive GetNodeSuiAddress result: '' @ tx_receive_error tx))
         address_answer (GetNodeSuiAddress node) p) (\<lambda>found p.
     and_then (p, map_err (\<lambda>e. failed (''Failed to get node Sui address: '' @ tx_state_error tx e)) found) (\<lambda>found p.
     and_then (p, ok_or (NotFound ''Node Sui address not found'' NODES_CREATE_PATH) found) (\<lambda>node_sui_address p.
     if node_sui_address \<noteq> sui_address
     then (p, Inl (RequestError
       ''The sui address associated with the node small ID does not match the signature sui address'' NODES_CREATE_PATH))
     else
       (case send_message (UpsertNodePublicAddress node (na_public_address data) (na_country data)) p of (q, m) \<Rightarrow>
          (q, if m = NotSent then Inl (failed (''Failed to send UpsertNodePublicAddress event: '' @ tx_send_error tx))
              else Inr ''Success''))))))"

subsection \<open>Locking units\<close>

record nodes_create_lock_request =
  lr_model :: string
  lr_max_num_tokens :: "u64 option"
  lr_timeout :: "u64 option"

record nodes_create_lock_response =
  lp_public_key :: string
  lp_node_small_id :: u64
  lp_stack_entry_digest :: "string option"
  lp_stack_small_id :: u64

definition MAX_TIMEOUT_FOR_CONFIDENTIAL_COMPUTE :: u64 where "MAX_TIMEOUT_FOR_CONFIDENTIAL_COMPUTE = 5"

definition units_to_lock :: "nodes_create_lock_request \<Rightarrow> int" where
  "units_to_lock payload =
     (case lr_max_num_tokens payload of None \<Rightarrow> MAX_NUM_TOKENS_FOR_CONFIDENTIAL_COMPUTE | Some n \<Rightarrow> as_i64 n)"

definition lock_timeout :: "nodes_create_lock_request \<Rightarrow> u64" where
  "lock_timeout payload =
     (case lr_timeout payload of None \<Rightarrow> MAX_TIMEOUT_FOR_CONFIDENTIAL_COMPUTE | Some t \<Rightarrow> t)"

text \<open>
  \<^verbatim>\<open>start + Duration::from_secs(timeout)\<close> panics when the seconds of the \<^verbatim>\<open>Instant\<close> do not
  fit an \<^verbatim>\<open>i64\<close>; by then the entry of the stack has been made.
\<close>

definition instant_overflow :: string where "instant_overflow = ''overflow when adding duration to instant''"

definition hold_units :: "int \<Rightarrow> u64 \<Rightarrow> int \<Rightarrow> int \<Rightarrow> ('f, 'm) vault \<Rightarrow> ('f, 'm) vault \<times> unit task_result" where
  "hold_units start timeout units sid = (\<lambda>(p, m).
     if start + uint timeout > i64_max
     then ((p, case m sid of None \<Rightarrow> m(sid \<mapsto> []) | Some h \<Rightarrow> m), TaskPanicked instant_overflow)
     else ((p, lock_compute_units_in_memory m sid start timeout units), TaskReturned (Inr ())))"

text \<open>
  \<open>prune_compute_units_in_memory\<close> of \<open>StackLocks\<close> with its messages sent: \<open>sids\<close> are the
  keys in the order of the map's iterator. An entry whose locks have all expired stays, empty.
\<close>

fun prune_stacks :: "texts \<Rightarrow> int \<Rightarrow> int list \<Rightarrow> ('f, 'm) vault \<Rightarrow> ('f, 'm) vault \<times> (atoma_proxy_error + unit)" where
  "prune_stacks tx now [] s = (s, Inr ())"
| "prune_stacks tx now (sid # sids) (p, m) =
     (case m sid of
        None \<Rightarrow> prune_stacks tx now sids (p, m)
      | Some details \<Rightarrow>
          (case prune_expired tx now NODES_CREATE_LOCK_PATH sid details p of
             (h, q, Inl e) \<Rightarrow> ((q, m(sid \<mapsto> h)), Inl e)
           | (h, q, Inr u) \<Rightarrow> prune_stacks tx now sids (q, m(sid \<mapsto> h))))"

text \<open>
  What the handler takes from crates and from the clock: base64, the text of a join error,
  the instants of the pruning and of the lock, and what buying a stack takes.
\<close>

record 'j lock_env =
  le_base64 :: "bytes \<Rightarrow> string"
  le_join_error :: "string \<Rightarrow> string"
  le_pruned_at :: int
  le_stacks :: "int list"
  le_locked_at :: int
  le_sui_client :: "'j sui_client"
  le_to_datetime :: "int \<Rightarrow> datetime option"
  le_now :: datetime

definition lock_failed :: "string \<Rightarrow> atoma_proxy_error" where
  "lock_failed what = InternalError what None NODES_CREATE_LOCK_PATH"

definition stack_id_missing :: atoma_proxy_error where
  "stack_id_missing = lock_failed ''Stack small id not found for node public key''"

text \<open>A key with a stack of the user: its units have been locked in the database.\<close>

definition lock_selected_stack ::
  "'j lock_env \<Rightarrow> nodes_create_lock_request \<Rightarrow> node_public_key \<Rightarrow> ('f, 'm) vault
    \<Rightarrow> ('f, 'm) vault \<times> nodes_create_lock_response task_result" where
  "lock_selected_stack le payload key s =
     (case pk_stack_small_id key of
        None \<Rightarrow> (s, TaskReturned (Inl stack_id_missing))
      | Some sid \<Rightarrow>
          task_then (hold_units (le_locked_at le) (lock_timeout payload) (units_to_lock payload) sid s) (\<lambda>_ s.
            (s, TaskReturned (Inr \<lparr>lp_public_key = le_base64 le (pk_public_key key),
               lp_node_small_id = as_u64 (pk_node_small_id key), lp_stack_entry_digest = None,
               lp_stack_small_id = as_u64 sid\<rparr>))))"

definition get_confidential_node ::
  "texts \<Rightarrow> string \<Rightarrow> ('f, 'm) proxy \<Rightarrow> ('f, 'm) proxy \<times> (atoma_proxy_error + cheapest_node)" where
  "get_confidential_node tx model p =
     and_then (ask (lock_failed (''Failed to send GetCheapestNodeForModel event: '' @ tx_send_error tx))
         (lock_failed ''Failed to receive GetCheapestNodeForModel result'') cheapest_answer
         (GetCheapestNodeForModel model True) p) (\<lambda>found p.
     and_then (p, map_err (\<lambda>e. lock_failed (''Failed to get GetCheapestNodeForModel result: '' @ tx_state_error tx e)) found)
       (\<lambda>found p. (p, ok_or (ServiceUnavailable
          (''No node found for model '' @ model @ '' with confidential compute enabled'') NODES_CREATE_LOCK_PATH) found)))"

text \<open>The stack that is bought has 8192 units locked in the database, whatever was asked for.\<close>

definition acquire_or_wait ::
  "texts \<Rightarrow> 'j lock_env \<Rightarrow> int \<Rightarrow> cheapest_node \<Rightarrow> ('f, 'm) proxy \<Rightarrow> ('f, 'm) proxy \<times> (atoma_proxy_error + selected_node_metadata)" where
  "acquire_or_wait tx le uid node p =
     (let units = as_u64 MAX_NUM_TOKENS_FOR_CONFIDENTIAL_COMPUTE in
      case try_lock (px_buy_locks p) (uid, cn_task_small_id node) of
        Some (locks, guard) \<Rightarrow>
          acquire_new_stack tx (le_sui_client le) (le_to_datetime le) (le_now le) uid guard NODES_CREATE_LOCK_PATH units node
            (p\<lparr>px_buy_locks := locks\<rparr>)
      | None \<Rightarrow> get_stack_if_locked tx uid (cn_task_small_id node) NODES_CREATE_LOCK_PATH units p)"

definition lock_bought_stack ::
  "texts \<Rightarrow> 'j lock_env \<Rightarrow> nodes_create_lock_request \<Rightarrow> selected_node_metadata \<Rightarrow> ('f, 'm) vault
    \<Rightarrow> ('f, 'm) vault \<times> nodes_create_lock_response task_result" where
  "lock_bought_stack tx le payload md = (\<lambda>(p, m).
     let node = sn_selected_node_id md in
     task_then (with_locks m (ask (lock_failed (''Failed to send GetNodePublicKeyForEncryption event: '' @ tx_send_error tx))
         (lock_failed (''Failed to receive GetNodePublicKeyForEncryption result: '' @ tx_receive_error tx)) key_answer
         (SelectNodePublicKeyForEncryptionForNode node) p)) (\<lambda>found s.
     case found of
       None \<Rightarrow> (s, TaskReturned (Inl (InternalError (''No node public key found for node '' @ decimal_int node)
         (Some ''Node public key not found'') NODES_CREATE_LOCK_PATH)))
     | Some key \<Rightarrow>
         (case sn_stack_small_id md of
            None \<Rightarrow> (s, TaskReturned (Inl stack_id_missing))
          | Some sid \<Rightarrow>
              task_then (hold_units (le_locked_at le) (lock_timeout payload) (units_to_lock payload) sid s) (\<lambda>_ s.
                (s, TaskReturned (Inr \<lparr>lp_public_key = le_base64 le (pk_public_key key),
                   lp_node_small_id = as_u64 (pk_node_small_id key), lp_stack_entry_digest = sn_tx_digest md,
                   lp_stack_small_id = as_u64 sid\<rparr>))))))"

definition nodes_create_lock_task ::
  "texts \<Rightarrow> 'j lock_env \<Rightarrow> nodes_create_lock_request \<Rightarrow> int \<Rightarrow> ('f, 'm) vault
    \<Rightarrow> ('f, 'm) vault \<times> nodes_create_lock_response task_result" where
  "nodes_create_lock_task tx le payload uid = (\<lambda>(p, m).
     task_then (with_locks m (ask (lock_failed ''Failed to send SelectNodePublicKeyForEncryption event'')
         (lock_failed (''Failed to receive node public key: '' @ tx_receive_error tx)) key_answer
         (SelectNodePublicKeyForEncryption (lr_model payload) (units_to_lock payload) uid) p)) (\<lambda>found s.
     case found of
       Some key \<Rightarrow> lock_selected_stack le payload key s
     | None \<Rightarrow>
         task_then (with_locks (snd s) (get_confidential_node tx (lr_model payload) (fst s))) (\<lambda>node s.
         task_then (with_locks (snd s) (acquire_or_wait tx le uid node (fst s))) (\<lambda>md s.
           lock_bought_stack tx le payload md s))))"

definition nodes_create_lock ::
  "texts \<Rightarrow> 'j lock_env \<Rightarrow> header_map \<Rightarrow> nodes_create_lock_request \<Rightarrow> ('f, 'm) vault
    \<Rightarrow> ('f, 'm) vault \<times> (atoma_proxy_error + nodes_create_lock_response)" where
  "nodes_create_lock tx le headers payload = (\<lambda>(p, m).
     case check_auth tx headers NODES_CREATE_LOCK_PATH p of
       (q, Inl e) \<Rightarrow> ((q, m), Inl e)
     | (q, Inr uid) \<Rightarrow>
         and_then (prune_stacks tx (le_pruned_at le) (le_stacks le) (q, m)) (\<lambda>_ s.
           join_task (\<lambda>e. lock_failed (''Failed to spawn task: '' @ le_join_error le e))
             (nodes_create_lock_task tx le payload uid s)))"

subsection \<open>Only the node's signature changes its address\<close>

definition with_address :: "int \<Rightarrow> string \<Rightarrow> string \<Rightarrow> node_row \<Rightarrow> node_row" where
  "with_address node address country d =
     (if nd_node_small_id d = node then d\<lparr>nd_public_address := Some address, nd_country := Some country\<rparr> else d)"

lemma update_node_public_address_rows:
  "update_node_public_address nodes node address country = Inr (map (with_address node address country) nodes)"
proof -
  let ?w = "\<lambda>d. sql_and (sql_is (nd_node_small_id d = node))
    (sql_is (nd_public_address d \<noteq> Some address \<or> nd_country d \<noteq> Some country))"
  have "\<exists>u. sql_update ?w (\<lambda>d. Inr (d\<lparr>nd_public_address := Some address, nd_country := Some country\<rparr>)) Inr t =
      Inr (map (with_address node address country) t, u)" for t :: nodes
  proof (induction t)
    case (Cons d t)
    then obtain u where u: "sql_update ?w (\<lambda>d. Inr (d\<lparr>nd_public_address := Some address, nd_country := Some country\<rparr>)) Inr t =
        Inr (map (with_address node address country) t, u)" by blast
    show ?case
    proof (cases "nd_node_small_id d = node \<and> (nd_public_address d \<noteq> Some address \<or> nd_country d \<noteq> Some country)")
      case True
      then have "?w d = Inr True" by (auto simp: sql_is_def sql_and_def)
      with True u show ?thesis by (simp add: with_address_def)
    next
      case False
      then have "?w d = Inr False" "with_address node address country d = d"
        by (auto simp: sql_is_def sql_and_def with_address_def)
      with u show ?thesis by simp
    qed
  qed simp
  then obtain u where "sql_update ?w (\<lambda>d. Inr (d\<lparr>nd_public_address := Some address, nd_country := Some country\<rparr>)) Inr nodes =
      Inr (map (with_address node address country) nodes, u)" by blast
  then show ?thesis unfolding update_node_public_address_def by (simp add: db_try_def)
qed

lemma signed_by_Inr:
  "signed_by no payload = Inr address \<longleftrightarrow>
   (\<exists>body sg key. no_to_vec no (nc_data payload) = Inr body \<and> no_parse_signature no (nc_signature payload) = Inr sg \<and>
      no_public_key no sg = Inr key \<and> no_sui_address no key = address \<and>
      no_verify_signature no (nc_signature payload) (no_blake2b no body) = Inr ())"
  by (auto simp: signed_by_def Let_def res_bind_Inr_iff)

lemma sui_address_alone:
  assumes "alone p"
  shows "ask unsent unanswered address_answer (GetNodeSuiAddress node) p =
    (after p (px_db p), Inr (Inr (get_node_sui_address (db_nodes (px_db p)) node)))"
  by (simp add: ask_def send_message_alone [OF assms] send_reply_def after_def)


definition sample_node_crates :: "(string, string) node_crates" where
  "sample_node_crates = \<lparr>no_to_vec = (\<lambda>d. Inr ''body''), no_parse_signature = Inr, no_public_key = Inr,
     no_sui_address = (\<lambda>k. ''0x8''), no_blake2b = (\<lambda>b. [1]), no_verify_signature = (\<lambda>s h. Inr ())\<rparr>"

definition sample_assignment :: nodes_create_request where
  "sample_assignment = \<lparr>nc_data = \<lparr>na_node_small_id = 8, na_public_address = ''http://new'', na_country = ''DE''\<rparr>,
     nc_signature = ''sig''\<rparr>"


subsection \<open>What a lock request locks\<close>

lemma prune_live: "all_live now m \<Longrightarrow> prune_stacks tx now sids (p, m) = ((p, m), Inr ())"
proof (induction sids)
  case (Cons sid sids)
  have "prune_expired tx now ep sid h p = (h, p, Inr ())" if "m sid = Some h" for h ep
  proof (cases "heap_peek h")
    case (Some x)
    then have "x \<in> set (entry m sid)" using that by (auto simp: entry_def dest: heap_peek_SomeD)
    with Cons.prems have "now \<le> expires_at x" by (auto simp: all_live_def)
    with Some show ?thesis by (simp add: prune_expired.simps [of tx now ep sid h])
  qed (simp add: prune_expired.simps)
  with Cons show ?case by (cases "m sid") (simp_all add: fun_upd_idem)
qed simp

lemma held_after_lock:
  "held_in_memory (lock_compute_units_in_memory m sid start t n) j = held_in_memory m j + (if j = sid then n else 0)"
  by (simp add: held_in_memory_def lock_compute_units_in_memory_def Let_def heap_push_def entry_def split: option.split)

lemma held_after_panic: "held_in_memory (case m sid of None \<Rightarrow> m(sid \<mapsto> []) | Some h \<Rightarrow> m) j = held_in_memory m j"
  by (simp add: held_in_memory_def entry_def split: option.split)

lemma hold_units_returned:
  "hold_units start t n sid (p, m) = (s, TaskReturned (Inr u)) \<longleftrightarrow>
   start + uint t \<le> i64_max \<and> s = (p, lock_compute_units_in_memory m sid start t n)"
  by (auto simp: hold_units_def)

lemma check_auth_token:
  assumes "alone p" and "api_tokens_inv (db_api_tokens (px_db p))" and "bearer_token headers = Some tok"
    and "row_of at_token (db_api_tokens (px_db p)) tok = Some row"
  shows "check_auth tx headers ep p =
    (after p (token_used row (cx_now_stamp (event_ctx p)) (px_db p)), Inr (at_user_id row))"
proof -
  have "handle_state_manager_event (event_ctx p) (IsApiTokenValid tok) (px_db p) =
      (token_used row (cx_now_stamp (event_ctx p)) (px_db p), Inr (IdReply (Inr (at_user_id row))))"
    using assms(4) by (simp add: is_api_token_valid_iff [OF assms(2)] token_used_def send_reply_def)
  with assms show ?thesis
    by (simp add: check_auth_def bearer_token_def send_message_alone received_def after_def)
qed

text \<open>The key that a request finds, with the stack on which its units are then locked.\<close>

definition key_for :: "'f db \<Rightarrow> nodes_create_lock_request \<Rightarrow> int \<Rightarrow> state_error + (stacks \<times> node_public_key option)" where
  "key_for d payload uid = select_node_public_key_for_encryption (db_stacks d) (db_tasks d) (db_rotations d) (db_keys d)
     (lr_model payload) (units_to_lock payload) uid"

lemma key_for_token [simp]: "key_for (token_used row now d) payload uid = key_for d payload uid"
  by (simp add: key_for_def token_used_def)

lemma select_alone:
  assumes "alone p"
  shows "ask unsent unanswered key_answer (SelectNodePublicKeyForEncryption (lr_model payload) (units_to_lock payload) uid) p =
    (case key_for (px_db p) payload uid of
       Inl e \<Rightarrow> (after p (px_db p), Inl unanswered)
     | Inr (t, k) \<Rightarrow> (after p ((px_db p)\<lparr>db_stacks := t\<rparr>), Inr k))"
  by (simp add: ask_def send_message_alone [OF assms] send_reply_def after_def key_for_def split: sum.split prod.split)

definition confidential_node :: "'f db \<Rightarrow> string \<Rightarrow> cheapest_node option" where
  "confidential_node d model =
     get_cheapest_node_for_model (db_tasks d) (db_subscriptions d) (db_rotations d) (db_keys d) model True"

lemma confidential_node_alone:
  assumes "alone p"
  shows "get_confidential_node tx model p = (after p (px_db p), ok_or (ServiceUnavailable
     (''No node found for model '' @ model @ '' with confidential compute enabled'') NODES_CREATE_LOCK_PATH)
     (confidential_node (px_db p) model))"
  by (simp add: get_confidential_node_def ask_def send_message_alone [OF assms] send_reply_def after_def confidential_node_def)

lemma node_key_alone:
  assumes "alone p" and "ask unsent unanswered key_answer (SelectNodePublicKeyForEncryptionForNode node) p = (q, r)"
  shows "px_db q = px_db p"
  using assms by (auto simp: ask_def send_message_alone send_reply_def)

text \<open>A purchase for this endpoint: no other request's stack is ever taken, and the digest is known.\<close>

lemma acquire_task_digest:
  "acquire_task tx cl td now uid ep n node p = (q, TaskReturned (Inr md)) \<Longrightarrow> \<exists>dg. sn_tx_digest md = Some dg"
  by (auto simp: acquire_task_def acquire_new_stack_on_usdc_deduction_wrapper_def acquire_new_stack_on_usdc_deduction_def
      Let_def res_bind_Inr_iff split: prod.splits sum.splits outcome.splits task_result.splits)

lemma acquire_or_wait_bought:
  assumes "alone p" and "crypto_inv (db_crypto (px_db p))" and "acquire_or_wait tx le uid node p = (q, Inr md)"
  shows "alone q \<and> (\<exists>dg. sn_tx_digest md = Some dg) \<and>
    bought (px_db p) uid (node_cost node) (as_u64 MAX_NUM_TOKENS_FOR_CONFIDENTIAL_COMPUTE) (px_db q) md"
proof (cases "try_lock (px_buy_locks p) (uid, cn_task_small_id node)")
  case None
  have "NODES_CREATE_LOCK_PATH \<notin> set [CHAT_COMPLETIONS_PATH, COMPLETIONS_PATH, EMBEDDINGS_PATH, IMAGE_GENERATIONS_PATH]"
    by (simp add: path_defs)
  with None assms(3) show ?thesis by (auto simp: acquire_or_wait_def get_stack_if_locked_def)
next
  case (Some lg)
  obtain locks guard where lg: "lg = (locks, guard)" by fastforce
  let ?p = "p\<lparr>px_buy_locks := locks\<rparr>" and ?n = "as_u64 MAX_NUM_TOKENS_FOR_CONFIDENTIAL_COMPUTE"
  obtain q1 t where run: "acquire_task tx (le_sui_client le) (le_to_datetime le) (le_now le) uid NODES_CREATE_LOCK_PATH ?n node ?p
    = (q1, t)" by fastforce
  have p: "alone ?p" "crypto_inv (db_crypto (px_db ?p))" using assms(1,2) by simp_all
  from Some lg assms(3) run have t: "t = TaskReturned (Inr md)" and q: "px_db q = px_db q1"
    by (auto simp: acquire_or_wait_def acquire_new_stack_def Let_def split: task_result.splits)
  have "acquire_new_stack tx (le_sui_client le) (le_to_datetime le) (le_now le) uid guard NODES_CREATE_LOCK_PATH ?n node ?p
      = (q, Inr md)" using Some lg assms(3) by (simp add: acquire_or_wait_def Let_def)
  with alone_kept.acquire_keeps [OF p(1), of tx "le_sui_client le" "le_to_datetime le" "le_now le" uid guard
      NODES_CREATE_LOCK_PATH ?n node] have "alone q" by simp
  moreover from acquire_task_alone [OF p run] t q
  have "bought (px_db p) uid (node_cost node) ?n (px_db q) md" by simp
  moreover note acquire_task_digest [OF run [unfolded t]]
  ultimately show ?thesis by blast
qed

text \<open>The outcome of a lock request that is answered.\<close>

definition lock_outcome ::
  "'f db \<Rightarrow> locked_units \<Rightarrow> nodes_create_lock_request \<Rightarrow> int \<Rightarrow> 'f db \<Rightarrow> locked_units \<Rightarrow> nodes_create_lock_response \<Rightarrow> bool" where
  "lock_outcome d m payload uid d' m' resp \<longleftrightarrow>
     (\<exists>sid. lp_stack_small_id resp = as_u64 sid \<and>
        (\<forall>j. held_in_memory m' j = held_in_memory m j + (if j = sid then units_to_lock payload else 0)) \<and>
        (case lp_stack_entry_digest resp of
           None \<Rightarrow> \<exists>s \<in> set (db_stacks d). stack_small_id s = sid \<and> user_id s = uid \<and> units_to_lock payload \<le> free_units s \<and>
             db_stacks d' = put_row stack_small_id (with_locked (units_to_lock payload) s) (db_stacks d)
         | Some dg \<Rightarrow> \<exists>node md. confidential_node d (lr_model payload) = Some node \<and> sn_stack_small_id md = Some sid \<and>
             bought d uid (node_cost node) (as_u64 MAX_NUM_TOKENS_FOR_CONFIDENTIAL_COMPUTE) d' md))"

lemma lock_selected_returned:
  assumes "lock_selected_stack le payload key (p, m) = (s, TaskReturned (Inr resp))"
  obtains sid where "pk_stack_small_id key = Some sid" "lp_stack_small_id resp = as_u64 sid" "lp_stack_entry_digest resp = None"
    "s = (p, lock_compute_units_in_memory m sid (le_locked_at le) (lock_timeout payload) (units_to_lock payload))"
  using assms
  by (cases "pk_stack_small_id key") (auto simp: lock_selected_stack_def task_then_returned hold_units_returned)

lemma lock_bought_returned:
  assumes "alone p" and "lock_bought_stack tx le payload md (p, m) = (s, TaskReturned (Inr resp))"
  obtains sid q where "sn_stack_small_id md = Some sid" "lp_stack_small_id resp = as_u64 sid"
    "lp_stack_entry_digest resp = sn_tx_digest md" "px_db q = px_db p"
    "s = (q, lock_compute_units_in_memory m sid (le_locked_at le) (lock_timeout payload) (units_to_lock payload))"
proof -
  let ?node = "sn_selected_node_id md"
  obtain q r where key: "ask (lock_failed (''Failed to send GetNodePublicKeyForEncryption event: '' @ tx_send_error tx))
      (lock_failed (''Failed to receive GetNodePublicKeyForEncryption result: '' @ tx_receive_error tx)) key_answer
      (SelectNodePublicKeyForEncryptionForNode ?node) p = (q, r)" by fastforce
  note q = node_key_alone [OF assms(1) key]
  from assms(2) key obtain found where r: "r = Inr found"
    by (cases r) (auto simp: lock_bought_stack_def Let_def with_locks_def)
  from assms(2) key r obtain k where k: "found = Some k"
    by (cases found) (auto simp: lock_bought_stack_def Let_def with_locks_def)
  from assms(2) key r k obtain sid where sid: "sn_stack_small_id md = Some sid"
    by (cases "sn_stack_small_id md") (auto simp: lock_bought_stack_def Let_def with_locks_def)
  from assms(2) key r k sid have "lp_stack_small_id resp = as_u64 sid" "lp_stack_entry_digest resp = sn_tx_digest md"
    "s = (q, lock_compute_units_in_memory m sid (le_locked_at le) (lock_timeout payload) (units_to_lock payload))"
    by (auto simp: lock_bought_stack_def Let_def with_locks_def task_then_returned hold_units_returned)
  with that sid q show thesis by blast
qed

lemma sql_update_unhit: "sql_update w f store t = Inr (t', []) \<Longrightarrow> t' = t"
  by (induction t arbitrary: t') (auto elim!: sql_update_ConsE simp del: sql_update.simps(2))

lemma lock_encryption_stack_None: "lock_encryption_stack t n x = Inr (t', None) \<Longrightarrow> t' = t"
  by (cases "(t, n, x)" rule: lock_encryption_stack.cases)
    (auto simp: res_bind_Inr_iff split: if_splits dest: sql_update_unhit)

lemma key_for_None: "key_for d payload uid = Inr (t, None) \<Longrightarrow> t = db_stacks d"
  by (auto simp: key_for_def select_node_public_key_for_encryption_def res_bind_Inr_iff dest: lock_encryption_stack_None)

lemma lock_task_outcome:
  fixes p q :: "('f, 'm) proxy"
  assumes "alone p" and inv: "stacks_inv (db_stacks (px_db p))" "crypto_inv (db_crypto (px_db p))"
    and run: "nodes_create_lock_task tx le payload uid (p, m) = ((q, m'), TaskReturned (Inr resp))"
  shows "lock_outcome (px_db p) m payload uid (px_db q) m' resp"
proof (cases "key_for (px_db p) payload uid")
  case (Inl e)
  with run show ?thesis by (simp add: nodes_create_lock_task_def select_alone [OF assms(1)] with_locks_def)
next
  case (Inr tk)
  obtain t k where tk: "key_for (px_db p) payload uid = Inr (t, k)" using Inr by (cases tk) auto
  let ?p = "after p ((px_db p)\<lparr>db_stacks := t\<rparr>)"
  show ?thesis
  proof (cases k)
    case (Some key)
    with tk run have "lock_selected_stack le payload key (?p, m) = ((q, m'), TaskReturned (Inr resp))"
      by (simp add: nodes_create_lock_task_def select_alone [OF assms(1)] with_locks_def)
    then obtain sid where r: "pk_stack_small_id key = Some sid" "lp_stack_small_id resp = as_u64 sid"
      "lp_stack_entry_digest resp = None" "q = ?p"
      "m' = lock_compute_units_in_memory m sid (le_locked_at le) (lock_timeout payload) (units_to_lock payload)"
      by (auto elim: lock_selected_returned)
    from select_node_public_key_spec [OF tk [unfolded key_for_def Some] inv(1)] obtain s where "s \<in> set (db_stacks (px_db p))"
      "pk_stack_small_id key = Some (stack_small_id s)" "user_id s = uid" "units_to_lock payload \<le> free_units s"
      "t = put_row stack_small_id (with_locked (units_to_lock payload) s) (db_stacks (px_db p))"
      by blast
    with r show ?thesis by (auto simp: lock_outcome_def held_after_lock)
  next
    case None
    from tk None have t: "t = db_stacks (px_db p)" by (simp add: key_for_None)
    then have p: "px_db ?p = px_db p" "alone ?p" using assms(1) by simp_all
    let ?n = "confidential_node (px_db p) (lr_model payload)"
    have node: "get_confidential_node tx (lr_model payload) ?p = (after ?p (px_db p), ok_or (ServiceUnavailable
       (''No node found for model '' @ lr_model payload @ '' with confidential compute enabled'') NODES_CREATE_LOCK_PATH) ?n)"
      using confidential_node_alone [OF p(2)] p(1) by simp
    show ?thesis
    proof (cases ?n)
      case None
      with \<open>k = None\<close> tk run node show ?thesis
        by (simp add: nodes_create_lock_task_def select_alone [OF assms(1)] with_locks_def)
    next
      case (Some nd)
      obtain p2 r2 where acq: "acquire_or_wait tx le uid nd (after ?p (px_db p)) = (p2, r2)" by fastforce
      with Some \<open>k = None\<close> tk run node obtain md where r2: "r2 = Inr md"
        and last: "lock_bought_stack tx le payload md (p2, m) = ((q, m'), TaskReturned (Inr resp))"
        by (cases r2) (auto simp: nodes_create_lock_task_def select_alone [OF assms(1)] with_locks_def)
      have "alone (after ?p (px_db p))" "crypto_inv (db_crypto (px_db (after ?p (px_db p))))" using assms(1) inv(2) by simp_all
      from acquire_or_wait_bought [OF this acq [unfolded r2]] obtain dg where
        b: "alone p2" "sn_tx_digest md = Some dg"
          "bought (px_db p) uid (node_cost nd) (as_u64 MAX_NUM_TOKENS_FOR_CONFIDENTIAL_COMPUTE) (px_db p2) md" by auto
      from lock_bought_returned [OF b(1) last] obtain sid where
        "sn_stack_small_id md = Some sid" "lp_stack_small_id resp = as_u64 sid" "lp_stack_entry_digest resp = sn_tx_digest md"
        "px_db q = px_db p2" "m' = lock_compute_units_in_memory m sid (le_locked_at le) (lock_timeout payload) (units_to_lock payload)"
        by auto
      with b Some show ?thesis by (auto simp: lock_outcome_def held_after_lock)
    qed
  qed
qed

lemma lock_request_outcome:
  fixes p q :: "('f, 'm) proxy"
  assumes "alone p" and inv: "db_inv (px_db p)" and "all_live (le_pruned_at le) m"
    and run: "nodes_create_lock tx le headers payload (p, m) = ((q, m'), Inr resp)"
  shows "\<exists>tok row now. bearer_token headers = Some tok \<and> row_of at_token (db_api_tokens (px_db p)) tok = Some row \<and>
    lock_outcome (token_used row now (px_db p)) m payload (at_user_id row) (px_db q) m' resp"
proof -
  obtain p1 a where auth: "check_auth tx headers NODES_CREATE_LOCK_PATH p = (p1, a)" by fastforce
  from run auth obtain uid where a: "a = Inr uid" by (cases a) (auto simp: nodes_create_lock_def)
  have tokens: "api_tokens_inv (db_api_tokens (px_db p))" using inv by (simp add: db_inv_def)
  from check_auth_alone [OF assms(1) tokens auth] a obtain tok row now where t: "bearer_token headers = Some tok"
      "row_of at_token (db_api_tokens (px_db p)) tok = Some row" "at_user_id row = uid"
    and p1: "alone p1" "px_db p1 = token_used row now (px_db p)" by auto
  obtain s r where task: "nodes_create_lock_task tx le payload uid (p1, m) = (s, r)" by fastforce
  from run auth a task have "s = (q, m')" "r = TaskReturned (Inr resp)"
    by (cases r; simp add: nodes_create_lock_def prune_live [OF assms(3)])+
  note task = task [unfolded this]
  have "lock_outcome (px_db p1) m payload uid (px_db q) m' resp"
  proof (rule lock_task_outcome [OF p1(1) _ _ task])
    show "stacks_inv (db_stacks (px_db p1))" "crypto_inv (db_crypto (px_db p1))" using inv p1(2) by (simp_all add: db_inv_def)
  qed
  with t p1(2) show ?thesis by auto
qed

lemma stack_num_absent: "sid \<notin> stack_small_id ` set t \<Longrightarrow> stack_num g t sid = 0"
  by (simp add: stack_num_def row_of_None_iff [symmetric])

text \<open>A stack that was bought is new and has the given units locked.\<close>

lemma bought_stack:
  assumes "bought d uid cost n d' md" and "sn_stack_small_id md = Some sid"
  shows "row_of stack_small_id (db_stacks d) sid = None \<and> stack_num locked_compute_units (db_stacks d') sid = as_i64 n"
proof -
  from assms obtain ev ts t where ins: "handle_stack_created_event d ev (as_i64 n) uid ts = Inr t"
    and sid: "sid = as_i64 (sce_stack_small_id ev)" and t: "db_stacks d' = t" by (auto simp: bought_def)
  define r where "r = stack.extend ((stack_of_event ev)\<lparr>locked_compute_units := as_i64 n\<rparr>)
    \<lparr>user_id = uid, acquired_timestamp = ts, is_claimed = False, is_locked = False, user_refund_amount = None\<rparr>"
  from ins have "t = db_stacks d @ [r]" and fresh: "\<not> list_ex (stack_clash r) (db_stacks d)"
    by (auto simp: handle_stack_created_event_def insert_new_stack_def sql_insert_def r_def [symmetric] res_iffs sql_simps
        split: if_splits)
  moreover have "stack_small_id r = sid" "locked_compute_units r = as_i64 n"
    by (simp_all add: r_def sid stack.defs stack_of_event_def)
  moreover from this fresh have "row_of stack_small_id (db_stacks d) sid = None"
    by (auto simp: row_of_def stack_clash_def list_ex_iff find_None_iff)
  ultimately show ?thesis using t by (simp add: stack_num_def row_of_append)
qed

lemma lock_task_panics:
  fixes p :: "('f, 'm) proxy"
  assumes "alone p" and "key_for (px_db p) payload uid = Inr (t, Some key)" and "pk_stack_small_id key = Some sid"
    and "i64_max < le_locked_at le + uint (lock_timeout payload)"
  shows "nodes_create_lock_task tx le payload uid (p, m) =
    ((after p ((px_db p)\<lparr>db_stacks := t\<rparr>), case m sid of None \<Rightarrow> m(sid \<mapsto> []) | Some h \<Rightarrow> m), TaskPanicked instant_overflow)"
  using assms by (simp add: nodes_create_lock_task_def select_alone with_locks_def lock_selected_stack_def hold_units_def)

subsection \<open>Properties\<close>

text \<open>
  C7. An answer of nodes_create_lock says what has been locked, once in each record: the
  memory holds the requested units on one stack, and in the database either the same units
  are locked on a stack of the user of the API token that had them free, or the user has
  paid for a new stack, named in the answer, at the cost of the cheapest confidential node.
  No message of another task is handled in between and no lock in memory has expired.
\<close>

theorem lock_answers_are_backed:
  fixes p q :: "('f, 'm) proxy"
  assumes "alone p" and "db_inv (px_db p)" and "all_live (le_pruned_at le) m"
    and "nodes_create_lock tx le headers payload (p, m) = ((q, m'), Inr resp)"
  shows "\<exists>tok row now. bearer_token headers = Some tok \<and> row_of at_token (db_api_tokens (px_db p)) tok = Some row \<and>
    lock_outcome (token_used row now (px_db p)) m payload (at_user_id row) (px_db q) m' resp"
  by (rule lock_request_outcome [OF assms])

definition sample_lock_env :: "unit lock_env" where
  "sample_lock_env = \<lparr>le_base64 = (\<lambda>b. ''key''), le_join_error = (\<lambda>e. e), le_pruned_at = 60, le_stacks = [1], le_locked_at = 70,
     le_sui_client = sample_selling_client, le_to_datetime = (\<lambda>_. None), le_now = sample_time 5\<rparr>"

definition sample_lock_proxy :: "int \<Rightarrow> (int, unit) proxy" where
  "sample_lock_proxy uid = sample_proxy\<lparr>px_db := sample_db\<lparr>db_api_tokens :=
     [\<lparr>at_id = 1, at_token = ''tk'', at_user_id = uid, at_name = ''n'', at_creation_timestamp = 0,
       at_last_used_timestamp = None\<rparr>]\<rparr>\<rparr>"

definition sample_lock ::
  "int \<Rightarrow> u64 \<Rightarrow> u64 option \<Rightarrow> (int, unit) vault \<times> (atoma_proxy_error + nodes_create_lock_response)" where
  "sample_lock uid n timeout = nodes_create_lock sample_texts sample_lock_env sample_headers
     \<lparr>lr_model = ''m'', lr_max_num_tokens = Some n, lr_timeout = timeout\<rparr> (sample_lock_proxy uid, sample_held)"

lemma sample_lock_ready:
  "alone (sample_lock_proxy uid)" "db_inv (px_db (sample_lock_proxy uid))" "all_live (le_pruned_at sample_lock_env) sample_held"
proof -
  show "alone (sample_lock_proxy uid)" using sample_proxy_alone by (simp add: sample_lock_proxy_def)
  show "db_inv (px_db (sample_lock_proxy uid))"
    using sample_db_inv by (simp add: sample_lock_proxy_def db_inv_def api_tokens_inv_def)
  show "all_live (le_pruned_at sample_lock_env) sample_held" using sample_confidential_ready(3) by (simp add: sample_lock_env_def)
qed

lemma sample_lock_found: "case sample_lock 5 60 None of
    (s, Inr resp) \<Rightarrow> lp_stack_entry_digest resp = None \<and> lp_stack_small_id resp = 2 | _ \<Rightarrow> False"
  by code_simp

lemma sample_lock_bought: "case sample_lock 1 60 None of
    (s, Inr resp) \<Rightarrow> lp_stack_entry_digest resp = Some ''dg'' \<and> lp_stack_small_id resp = 9 | _ \<Rightarrow> False"
  by code_simp

lemma sample_lock_negative: "case sample_lock 5 (- 10) None of
    (s, Inr resp) \<Rightarrow> lp_stack_entry_digest resp = None \<and> lp_stack_small_id resp = 1 | _ \<Rightarrow> False"
  by code_simp

theorem lock_answers_are_backed_witness:
  "db_stacks (px_db (fst (fst (sample_lock 5 60 None)))) = [sample_stack 1 900 50, sample_stack 2 100 60] \<and>
   held_in_memory (snd (fst (sample_lock 5 60 None))) 2 = 60"
proof -
  obtain q m' resp where run: "sample_lock 5 60 None = ((q, m'), Inr resp)" and r: "lp_stack_entry_digest resp = None"
    "lp_stack_small_id resp = 2"
    using sample_lock_found by (auto split: prod.splits sum.splits)
  let ?req = "\<lparr>lr_model = ''m'', lr_max_num_tokens = Some 60, lr_timeout = None\<rparr>"
  from lock_answers_are_backed [OF sample_lock_ready run [unfolded sample_lock_def]] r obtain tok row now where
    row: "bearer_token sample_headers = Some tok" "row_of at_token (db_api_tokens (px_db (sample_lock_proxy 5))) tok = Some row"
    and out: "lock_outcome (token_used row now (px_db (sample_lock_proxy 5))) sample_held ?req (at_user_id row) (px_db q) m' resp"
    by blast
  have units: "units_to_lock ?req = 60" by code_simp
  have stacks: "db_stacks (token_used row now (px_db (sample_lock_proxy 5))) = sample_stacks"
    by (simp add: sample_lock_proxy_def sample_db_def)
  from out [unfolded lock_outcome_def units stacks r(1) option.case] obtain sid s where o: "lp_stack_small_id resp = as_u64 sid" "s \<in> set sample_stacks" "stack_small_id s = sid"
    "60 \<le> free_units s" "\<forall>j. held_in_memory m' j = held_in_memory sample_held j + (if j = sid then 60 else 0)"
    "db_stacks (px_db q) = put_row stack_small_id (with_locked 60 s) sample_stacks"
    by blast
  have free: "free_units (sample_stack 1 900 50) = 50" by code_simp
  from o(2,4) free have s: "s = sample_stack 2 100 0" by (auto simp: sample_stacks_def)
  then have sid: "sid = 2" using o(3) by (simp add: sample_stack_def stack.defs)
  have "put_row stack_small_id (with_locked 60 (sample_stack 2 100 0)) sample_stacks = [sample_stack 1 900 50, sample_stack 2 100 60]"
    by code_simp
  moreover have "held_in_memory sample_held 2 = 0" by code_simp
  ultimately show ?thesis using o s sid run by simp
qed

text \<open>
  A lock request that buys a stack ignores its own number of tokens in the database: the new
  stack has 8192 units locked while the memory holds what was asked for. When the lock
  expires, what was asked for is released, so that a smaller request leaves units locked for
  ever and a larger one leaves a negative number of them.
\<close>

theorem bought_lock_ignores_the_request:
  fixes p q :: "('f, 'm) proxy"
  assumes "alone p" and "db_inv (px_db p)" and "all_live (le_pruned_at le) m"
    and "nodes_create_lock tx le headers payload (p, m) = ((q, m'), Inr resp)"
    and "lp_stack_entry_digest resp = Some dg"
  shows "\<exists>sid. lp_stack_small_id resp = as_u64 sid \<and> row_of stack_small_id (db_stacks (px_db p)) sid = None \<and>
    stack_num locked_compute_units (db_stacks (px_db q)) sid = 8192 \<and>
    held_in_memory m' sid = held_in_memory m sid + units_to_lock payload \<and>
    (let released = settled_stacks sid (Some (units_to_lock payload, 0)) (db_stacks (px_db q)) in
       released = db_stacks (px_db q) \<or> stack_num locked_compute_units released sid = 8192 - units_to_lock payload)"
proof -
  from lock_request_outcome [OF assms(1-4)] obtain row now where
    "lock_outcome (token_used row now (px_db p)) m payload (at_user_id row) (px_db q) m' resp" by blast
  with assms(5) obtain sid node md where o: "lp_stack_small_id resp = as_u64 sid" "sn_stack_small_id md = Some sid"
    "held_in_memory m' sid = held_in_memory m sid + units_to_lock payload"
    "bought (token_used row now (px_db p)) (at_user_id row) (node_cost node) (as_u64 MAX_NUM_TOKENS_FOR_CONFIDENTIAL_COMPUTE)
       (px_db q) md"
    by (auto simp: lock_outcome_def)
  have n: "as_i64 (as_u64 MAX_NUM_TOKENS_FOR_CONFIDENTIAL_COMPUTE) = 8192"
    by (simp add: MAX_NUM_TOKENS_FOR_CONFIDENTIAL_COMPUTE_def as_i64_as_u64 i64_max_def)
  have inv: "stacks_inv (db_stacks (px_db q))"
  proof -
    have p: "stacks_inv (db_stacks (token_used row now (px_db p)))" using assms(2) by (simp add: db_inv_def)
    from o(4) [unfolded bought_def n] obtain ev ts t1 t where
      "handle_stack_created_event (token_used row now (px_db p)) ev 8192 (at_user_id row) ts = Inr t"
      and "px_db q = (token_used row now (px_db p))\<lparr>db_crypto := t1, db_stacks := t\<rparr>" by (elim exE conjE)
    with handle_stack_created_event_inv [OF this(1) _ p] show ?thesis by (simp add: i64_bounds)
  qed
  from bought_stack [OF o(4,2)] o(1,3) settled_stacks_locked [OF inv, of sid "units_to_lock payload" 0] show ?thesis
    by (auto simp: n Let_def simp del: settled_stacks.simps)
qed

theorem bought_lock_ignores_the_request_witness:
  "stack_num locked_compute_units (db_stacks (px_db (fst (fst (sample_lock 1 60 None))))) 9 = 8192"
proof -
  obtain q m' resp where run: "sample_lock 1 60 None = ((q, m'), Inr resp)" and r: "lp_stack_entry_digest resp = Some ''dg''"
    using sample_lock_bought by (auto split: prod.splits sum.splits)
  from bought_lock_ignores_the_request [OF sample_lock_ready run [unfolded sample_lock_def] r] obtain sid where
    sid: "row_of stack_small_id (db_stacks (px_db (sample_lock_proxy 1))) sid = None"
    "stack_num locked_compute_units (db_stacks (px_db q)) sid = 8192" by (auto simp: Let_def)
  have "map stack_small_id (db_stacks (px_db (fst (fst (sample_lock 1 60 None))))) = [1, 2, 9]" by code_simp
  then have ids: "map stack_small_id (db_stacks (px_db q)) = [1, 2, 9]" using run by simp
  have "stack_small_id ` set (db_stacks (px_db (sample_lock_proxy 1))) = {1, 2}"
    by (simp add: sample_lock_proxy_def sample_db_def sample_stacks_def sample_stack_def stack.defs)
  with sid(1) have "sid \<notin> {1, 2}" by (simp add: row_of_None_iff)
  moreover have "sid \<in> stack_small_id ` set (db_stacks (px_db q))"
    using sid(2) stack_num_absent [of sid "db_stacks (px_db q)" locked_compute_units] by fastforce
  then have "sid \<in> {1, 2, 9}" using ids by (metis list.set_map set_simps)
  ultimately show ?thesis using sid(2) run by auto
qed

text \<open>
  A number of tokens of 2^63 or more is read as a negative number: the request then finds
  any stack of the user that is open and takes units away from those that other requests
  have locked there, so that the same units can be spent twice.
\<close>

theorem huge_lock_frees_units:
  fixes p q :: "('f, 'm) proxy"
  assumes "alone p" and "db_inv (px_db p)" and "all_live (le_pruned_at le) m"
    and "nodes_create_lock tx le headers payload (p, m) = ((q, m'), Inr resp)"
    and "lp_stack_entry_digest resp = None" and "lr_max_num_tokens payload = Some n" and "i64_max < uint n"
  shows "\<exists>sid. lp_stack_small_id resp = as_u64 sid \<and>
    stack_num locked_compute_units (db_stacks (px_db q)) sid =
      stack_num locked_compute_units (db_stacks (px_db p)) sid - (2 ^ 64 - uint n) \<and>
    stack_num locked_compute_units (db_stacks (px_db q)) sid < stack_num locked_compute_units (db_stacks (px_db p)) sid"
proof -
  have "uint n < 2 ^ 64" by (rule less_le_trans [OF uint_lt2p]) simp
  then have units: "units_to_lock payload = uint n - 2 ^ 64"
  proof -
    have "(uint n + 9223372036854775808) mod 18446744073709551616 =
        (uint n + 9223372036854775808 - 18446744073709551616) mod 18446744073709551616" by (rule minus_mod_self2 [symmetric])
    also have "\<dots> = uint n + 9223372036854775808 - 18446744073709551616"
      using assms(7) \<open>uint n < 2 ^ 64\<close> by (intro mod_pos_pos_trivial) (simp_all add: i64_max_def)
    finally show ?thesis using assms(6) by (simp add: units_to_lock_def as_i64_def wrap_i64_def)
  qed
  from lock_request_outcome [OF assms(1-4)] obtain row now where
    "lock_outcome (token_used row now (px_db p)) m payload (at_user_id row) (px_db q) m' resp" by blast
  with assms(5) obtain sid s where o: "lp_stack_small_id resp = as_u64 sid" "s \<in> set (db_stacks (px_db p))" "stack_small_id s = sid"
    "db_stacks (px_db q) = put_row stack_small_id (with_locked (units_to_lock payload) s) (db_stacks (px_db p))"
    by (auto simp: lock_outcome_def)
  have "stacks_inv (db_stacks (px_db p))" using assms(2) by (simp add: db_inv_def)
  from row_of_member [OF this o(2)] o(3) have row: "row_of stack_small_id (db_stacks (px_db p)) sid = Some s" by simp
  show ?thesis
    using o row units \<open>uint n < 2 ^ 64\<close> by (intro exI [of _ sid]) (simp add: stack_num_put stack_num_Some with_locked_def)
qed

theorem huge_lock_frees_units_witness:
  "stack_num locked_compute_units sample_stacks 1 = 50 \<and>
   stack_num locked_compute_units (db_stacks (px_db (fst (fst (sample_lock 5 (- 10) None))))) 1 = 40"
proof -
  obtain q m' resp where run: "sample_lock 5 (- 10) None = ((q, m'), Inr resp)" and r: "lp_stack_entry_digest resp = None"
    "lp_stack_small_id resp = 1"
    using sample_lock_negative by (auto split: prod.splits sum.splits)
  have n: "i64_max < uint (- 10 :: u64)" "uint (- 10 :: u64) = 2 ^ 64 - 10" by (simp_all add: i64_max_def)
  have stacks: "db_stacks (px_db (sample_lock_proxy 5)) = sample_stacks" by (simp add: sample_lock_proxy_def sample_db_def)
  from huge_lock_frees_units [OF sample_lock_ready run [unfolded sample_lock_def] r(1) _ n(1)] obtain sid where
    sid: "lp_stack_small_id resp = as_u64 sid"
    "stack_num locked_compute_units (db_stacks (px_db q)) sid = stack_num locked_compute_units sample_stacks sid - 10"
    by (auto simp: n(2) stacks)
  have "map stack_small_id (db_stacks (px_db (fst (fst (sample_lock 5 (- 10) None))))) = map stack_small_id sample_stacks"
    by code_simp
  then have ids: "map stack_small_id (db_stacks (px_db q)) = map stack_small_id sample_stacks" using run by simp
  have "sid \<in> stack_small_id ` set sample_stacks"
    using sid(2) stack_num_absent [of sid sample_stacks] stack_num_absent [of sid "db_stacks (px_db q)"] ids
    by (metis diff_0_right diff_eq_eq diff_self list.set_map zero_neq_numeral)
  then have "sid \<in> {1, 2}" by (simp add: sample_stacks_def sample_stack_def stack.defs)
  with sid r(2) have "sid = 1" by (auto simp: as_u64_def)
  moreover have "stack_num locked_compute_units sample_stacks 1 = 50" by code_simp
  ultimately show ?thesis using sid(2) run by simp
qed

text \<open>
  The timeout of a lock request is not bounded: when it takes the instant of expiry out of
  its range, the task panics after the units have been locked in the database, the client
  gets an error, and no lock is recorded in memory from which the units could be released.
\<close>

theorem overlong_timeout_strands_units:
  fixes p :: "('f, 'm) proxy"
  assumes "alone p" and "db_inv (px_db p)" and "all_live (le_pruned_at le) m"
    and "bearer_token headers = Some tok" and "row_of at_token (db_api_tokens (px_db p)) tok = Some row"
    and "key_for (px_db p) payload (at_user_id row) = Inr (t, Some key)"
    and "i64_max < le_locked_at le + uint (lock_timeout payload)"
    and "nodes_create_lock tx le headers payload (p, m) = ((q, m'), r)"
  shows "isl r \<and> (\<forall>j. held_in_memory m' j = held_in_memory m j) \<and>
    (\<exists>s \<in> set (db_stacks (px_db p)). user_id s = at_user_id row \<and>
       db_stacks (px_db q) = put_row stack_small_id (with_locked (units_to_lock payload) s) (db_stacks (px_db p)))"
proof -
  have inv: "stacks_inv (db_stacks (px_db p))" "api_tokens_inv (db_api_tokens (px_db p))" using assms(2) by (simp_all add: db_inv_def)
  let ?p = "after p (token_used row (cx_now_stamp (event_ctx p)) (px_db p))"
  from select_node_public_key_spec [OF assms(6) [unfolded key_for_def] inv(1)] obtain s where
    s: "s \<in> set (db_stacks (px_db p))" "pk_stack_small_id key = Some (stack_small_id s)" "user_id s = at_user_id row"
      "t = put_row stack_small_id (with_locked (units_to_lock payload) s) (db_stacks (px_db p))" by blast
  have "alone ?p" "key_for (px_db ?p) payload (at_user_id row) = Inr (t, Some key)" using assms(1,6) by simp_all
  from lock_task_panics [OF this s(2) assms(7)] assms(8)
  have "isl r" "db_stacks (px_db q) = t" "m' = (case m (stack_small_id s) of None \<Rightarrow> m(stack_small_id s \<mapsto> []) | Some h \<Rightarrow> m)"
    by (auto simp: nodes_create_lock_def check_auth_token [OF assms(1) inv(2) assms(4,5)] prune_live [OF assms(3)])
  with s held_after_panic show ?thesis by blast
qed

theorem overlong_timeout_strands_units_witness:
  "held_in_memory (snd (fst (sample_lock 5 60 (Some (- 1))))) 2 = 0 \<and>
   (\<exists>s \<in> set sample_stacks. db_stacks (px_db (fst (fst (sample_lock 5 60 (Some (- 1)))))) =
      put_row stack_small_id (with_locked 60 s) sample_stacks)"
proof -
  let ?req = "\<lparr>lr_model = ''m'', lr_max_num_tokens = Some 60, lr_timeout = Some (- 1)\<rparr>"
  obtain q m' r where run: "sample_lock 5 60 (Some (- 1)) = ((q, m'), r)" by (metis prod.exhaust)
  have tok: "bearer_token sample_headers = Some ''tk''" by (simp add: bearer_token_Some sample_headers_def)
  have row: "row_of at_token (db_api_tokens (px_db (sample_lock_proxy 5))) ''tk'' = Some \<lparr>at_id = 1, at_token = ''tk'',
      at_user_id = 5, at_name = ''n'', at_creation_timestamp = 0, at_last_used_timestamp = None\<rparr>" by code_simp
  have key: "key_for (px_db (sample_lock_proxy 5)) ?req 5 = Inr ([sample_stack 1 900 50, sample_stack 2 100 60],
      Some \<lparr>pk_node_small_id = 8, pk_public_key = [1, 2], pk_stack_small_id = Some 2\<rparr>)" by code_simp
  have late: "i64_max < le_locked_at sample_lock_env + uint (lock_timeout ?req)"
  proof -
    have "uint (- 1 :: u64) = 18446744073709551615" by code_simp
    then show ?thesis by (simp add: i64_max_def sample_lock_env_def lock_timeout_def)
  qed
  have units: "units_to_lock ?req = 60" by code_simp
  have stacks: "db_stacks (px_db (sample_lock_proxy 5)) = sample_stacks" by (simp add: sample_lock_proxy_def sample_db_def)
  from overlong_timeout_strands_units [OF sample_lock_ready tok row _ late run [unfolded sample_lock_def]] key
  have "held_in_memory m' 2 = held_in_memory sample_held 2"
    "\<exists>s \<in> set sample_stacks. db_stacks (px_db q) = put_row stack_small_id (with_locked 60 s) sample_stacks"
    by (auto simp: units stacks)
  moreover have "held_in_memory sample_held 2 = 0" by code_simp
  ultimately show ?thesis using run by simp
qed

end
