(* ===== verification/WalletSignatures.thy ===== *)
theory WalletSignatures
  imports Streamer
begin

text \<open>
  The wallet signatures of \<^verbatim>\<open>atoma-auth/src/auth.rs\<close>: the address that a signature of a
  message stands for. For a zkLogin signature the issuer is read from a piece of base64 text
  that need not start at a boundary of three bytes; its decoder is part of the file. The
  lemmas show that the decoder inverts the encoder on every piece, what it does with text that is
  not base64, and which parts of a signature decide about the address.
\<close>

subsection \<open>Results of \<^verbatim>\<open>atoma-auth\<close>\<close>

text \<open>\<^verbatim>\<open>GoogleError\<close> and \<^verbatim>\<open>AuthError\<close>, with the texts of the errors of crates.\<close>

datatype google_error =
    Base64DecodeError string
  | RsaPublicKeyError string
  | DecodingKeyError string
  | RequestFailed string
  | SerdeJsonError string
  | PemError string
  | MissingKid
  | MalformedPublicKeys
  | EmailNotFound

datatype auth_error =
    JsonWebTokenError string
  | FlumeError
  | NotRefreshToken
  | OneShotReceiveError
  | AtomaStateManagerError state_error
  | InvalidRefreshToken
  | ReqwestError string
  | UserAlreadyRegistered
  | PasswordNotValidOrUserNotFound
  | RevokedToken
  | FailedToParseSignature string
  | BcsError string
  | FastCryptoError string
  | UnsupportedSignatureScheme string
  | AnyhowError string
  | NoBalanceChangesFound
  | MultipleSenders
  | MultipleReceivers
  | SenderOrReceiverNotFound
  | PaymentNotForThisUser
  | GoogleError google_error
  | ZkLoginNotEnabled
  | SuiError string
  | IntConversionError string
  | TimestampConversionError

text \<open>A function returns, fails, or panics (\<^verbatim>\<open>unwrap\<close>, a range that is out of bounds).\<close>

datatype 'a auth_result = AuthOk 'a | AuthErr auth_error | AuthPanic

fun auth_bind :: "'a auth_result \<Rightarrow> ('a \<Rightarrow> 'b auth_result) \<Rightarrow> 'b auth_result" where
  "auth_bind (AuthOk a) f = f a"
| "auth_bind (AuthErr e) f = AuthErr e"
| "auth_bind AuthPanic f = AuthPanic"

fun auth_of :: "(string \<Rightarrow> auth_error) \<Rightarrow> string + 'a \<Rightarrow> 'a auth_result" where
  "auth_of err (Inl e) = AuthErr (err e)"
| "auth_of err (Inr a) = AuthOk a"

lemma auth_bind_Ok_iff: "auth_bind m f = AuthOk b \<longleftrightarrow> (\<exists>a. m = AuthOk a \<and> f a = AuthOk b)"
  by (cases m) auto

lemma auth_of_Ok_iff [simp]: "auth_of err m = AuthOk a \<longleftrightarrow> m = Inr a"
  by (cases m) auto

subsection \<open>Pieces of base64 text\<close>

text \<open>
  A string is the list of its bytes in UTF-8. A character outside the alphabet is skipped:
  the iterator of an error is empty. The bytes of a longer character are outside, too.
\<close>

definition BASE64_URL_CHARSET :: string where
  "BASE64_URL_CHARSET = ''ABCDEFGHIJKLMNOPQRSTUVWXYZabcdefghijklmnopqrstuvwxyz0123456789-_''"

fun position_of :: "'a \<Rightarrow> 'a list \<Rightarrow> nat option" where
  "position_of x [] = None"
| "position_of x (y # ys) = (if y = x then Some 0 else map_option Suc (position_of x ys))"

definition sextet :: "nat \<Rightarrow> 8 word list" where
  "sextet index = map (\<lambda>i. of_nat (index div 2 ^ i mod 2)) (rev [0..<6])"

definition base64_to_bitarray :: "string \<Rightarrow> 8 word list" where
  "base64_to_bitarray input =
     concat (map (\<lambda>c. case position_of c BASE64_URL_CHARSET of None \<Rightarrow> [] | Some index \<Rightarrow> sextet index) input)"

function chunks :: "nat \<Rightarrow> 'a list \<Rightarrow> 'a list list" where
  "chunks n xs = (if xs = [] \<or> n = 0 then [] else take n xs # chunks n (drop n xs))"
  by auto
termination
  by (relation "measure (\<lambda>(n, xs). length xs)") auto

declare chunks.simps [simp del]

definition byte_of_bits :: "8 word list \<Rightarrow> 8 word" where
  "byte_of_bits chunk = fold (\<lambda>(i, bit) byte. or byte (push_bit i bit)) (enumerate 0 (rev chunk)) 0"

definition bitarray_to_bytearray :: "8 word list \<Rightarrow> bytes auth_result" where
  "bitarray_to_bytearray bits =
     (if length bits mod 8 \<noteq> 0 then AuthErr (AnyhowError ''bitarray_to_bytearray invalid input'')
      else AuthOk (map byte_of_bits (chunks 8 bits)))"

text \<open>\<^verbatim>\<open>bits.drain(..n)\<close> and \<^verbatim>\<open>bits.drain(bits.len() - n..)\<close> panic when there are too few.\<close>

definition drain_front :: "nat \<Rightarrow> 'a list \<Rightarrow> 'a list auth_result" where
  "drain_front n xs = (if length xs < n then AuthPanic else AuthOk (drop n xs))"

definition drain_back :: "nat \<Rightarrow> 'a list \<Rightarrow> 'a list auth_result" where
  "drain_back n xs = (if length xs < n then AuthPanic else AuthOk (take (length xs - n) xs))"

text \<open>
  \<^verbatim>\<open>u8::try_from(s.len())\<close> panics on text of 256 bytes or more; the sum of 8-bit numbers wraps.
\<close>

definition decode_base64_url :: "string \<Rightarrow> 8 word \<Rightarrow> string auth_result" where
  "decode_base64_url s index_mod_4 =
     (if length s < 2 then AuthErr (AnyhowError ''Base64 string smaller than 2'')
      else
        auth_bind (if index_mod_4 = 0 then AuthOk (base64_to_bitarray s)
            else if index_mod_4 = 1 then drain_front 2 (base64_to_bitarray s)
            else if index_mod_4 = 2 then drain_front 4 (base64_to_bitarray s)
            else AuthErr (AnyhowError ''Invalid first_char_offset'')) (\<lambda>bits.
        if length s \<ge> 256 then AuthPanic
        else
          let last_char_offset = (index_mod_4 + of_nat (length s) - 1) mod 4 in
          auth_bind (if last_char_offset = 3 then AuthOk bits
              else if last_char_offset = 2 then drain_back 2 bits
              else if last_char_offset = 1 then drain_back 4 bits
              else AuthErr (AnyhowError ''Invalid last_char_offset'')) (\<lambda>bits.
          if length bits mod 8 \<noteq> 0 then AuthErr (AnyhowError ''Invalid bits length'')
          else
            auth_bind (bitarray_to_bytearray bits) (\<lambda>bytes.
              if utf8_ok (map unat bytes) then AuthOk (map (\<lambda>b. char_of (unat b)) bytes)
              else AuthErr (AnyhowError ''Invalid UTF8 string'')))))"

subsection \<open>The address of a signature\<close>

datatype simple_scheme = Ed25519 | Secp256k1Simple | Secp256r1Simple

record simple_signature =
  ss_scheme :: simple_scheme
  ss_signature :: bytes
  ss_public_key :: bytes

text \<open>The zero-knowledge proof, the header and the last epoch of its validity are carried along.\<close>

record 'proof zk_login_authenticator =
  zk_proof :: 'proof
  zk_address_seed :: string
  zk_iss_value :: string
  zk_iss_index_mod_4 :: "8 word"
  zk_max_epoch :: u64
  zk_signature :: simple_signature

datatype 'proof user_signature =
    ZkLogin "'proof zk_login_authenticator"
  | Simple simple_signature
  | OtherSignature

text \<open>
  What crates do: the parser of signatures, BCS and the hash of the personal message, the
  field element of a seed, the capture of the regular expression \<^verbatim>\<open>"iss":"(.*)".*\<close> (which
  has matched when there is one), public keys with their addresses, and verification.
\<close>

record ('proof, 'seed, 'pk) wallet_crates =
  wc_from_base64 :: "string \<Rightarrow> string + 'proof user_signature"
  wc_personal_message_hash :: "string \<Rightarrow> string + bytes"
  wc_seed :: "string \<Rightarrow> string + 'seed"
  wc_iss_capture :: "string \<Rightarrow> string option option"
  wc_zk_public_id :: "string \<Rightarrow> 'seed \<Rightarrow> string + 'pk"
  wc_key_from_bytes :: "simple_scheme \<Rightarrow> bytes \<Rightarrow> string + unit"
  wc_signature_from_bytes :: "simple_scheme \<Rightarrow> bytes \<Rightarrow> string + unit"
  wc_verify :: "simple_scheme \<Rightarrow> bytes \<Rightarrow> bytes \<Rightarrow> bytes \<Rightarrow> string + unit"
  wc_public_key :: "simple_scheme \<Rightarrow> bytes \<Rightarrow> string + 'pk"
  wc_address :: "'pk \<Rightarrow> string"

definition personal_message_hash :: "('proof, 'seed, 'pk) wallet_crates \<Rightarrow> string \<Rightarrow> bytes auth_result" where
  "personal_message_hash wc msg = auth_of BcsError (wc_personal_message_hash wc msg)"

definition zk_public_key ::
  "('proof, 'seed, 'pk) wallet_crates \<Rightarrow> 'proof zk_login_authenticator \<Rightarrow> 'pk auth_result" where
  "zk_public_key wc zk =
     auth_bind (auth_of FastCryptoError (wc_seed wc (zk_address_seed zk))) (\<lambda>address_seed.
     auth_bind (decode_base64_url (zk_iss_value zk) (zk_iss_index_mod_4 zk)) (\<lambda>text.
       case wc_iss_capture wc text of
         None \<Rightarrow> AuthPanic
       | Some None \<Rightarrow> AuthErr (FailedToParseSignature ''No iss'')
       | Some (Some iss) \<Rightarrow> auth_of SuiError (wc_zk_public_id wc iss address_seed)))"

text \<open>The three arms of the match, one per scheme, differ in the types of the crate only.\<close>

definition verify_simple ::
  "('proof, 'seed, 'pk) wallet_crates \<Rightarrow> bytes \<Rightarrow> simple_signature \<Rightarrow> unit auth_result" where
  "verify_simple wc message_hash s =
     auth_bind (auth_of FastCryptoError (wc_key_from_bytes wc (ss_scheme s) (ss_public_key s))) (\<lambda>_.
     auth_bind (auth_of FastCryptoError (wc_signature_from_bytes wc (ss_scheme s) (ss_signature s))) (\<lambda>_.
       auth_of FastCryptoError (wc_verify wc (ss_scheme s) (ss_public_key s) message_hash (ss_signature s))))"

definition simple_public_key :: "('proof, 'seed, 'pk) wallet_crates \<Rightarrow> simple_signature \<Rightarrow> 'pk auth_result" where
  "simple_public_key wc s =
     (case wc_public_key wc (ss_scheme s) (ss_public_key s) of Inl e \<Rightarrow> AuthPanic | Inr pk \<Rightarrow> AuthOk pk)"

definition get_sui_address_from_signature ::
  "('proof, 'seed, 'pk) wallet_crates \<Rightarrow> string \<Rightarrow> string \<Rightarrow> string auth_result" where
  "get_sui_address_from_signature wc signature message =
     auth_bind (auth_of (\<lambda>e. FailedToParseSignature signature) (wc_from_base64 wc signature)) (\<lambda>user_signature.
     auth_bind (personal_message_hash wc message) (\<lambda>message_hash.
     auth_bind
       (case user_signature of
          ZkLogin zk \<Rightarrow> auth_bind (zk_public_key wc zk) (\<lambda>pk. AuthOk (zk_signature zk, Some pk))
        | Simple s \<Rightarrow> AuthOk (s, None)
        | OtherSignature \<Rightarrow> AuthErr (FailedToParseSignature ''Unsupported signature'')) (\<lambda>(s, public_key).
     auth_bind (verify_simple wc message_hash s) (\<lambda>_.
     auth_bind (case public_key of Some pk \<Rightarrow> AuthOk pk | None \<Rightarrow> simple_public_key wc s) (\<lambda>pk.
       AuthOk (wc_address wc pk))))))"

subsection \<open>The decoder inverts the encoder\<close>

text \<open>
  Base64 without padding, as RFC 4648 defines it: the bits of the bytes, six at a time,
  filled with zeros at the end.
\<close>

definition bits_of_byte :: "8 word \<Rightarrow> 8 word list" where
  "bits_of_byte b = map (\<lambda>i. of_bool (bit b i)) (rev [0..<8])"

definition bits_of_bytes :: "bytes \<Rightarrow> 8 word list" where
  "bits_of_bytes bs = concat (map bits_of_byte bs)"

definition bits_value :: "8 word list \<Rightarrow> nat" where
  "bits_value = foldl (\<lambda>v b. 2 * v + unat b) 0"

definition encode_char :: "8 word list \<Rightarrow> char" where
  "encode_char c = BASE64_URL_CHARSET ! bits_value (take 6 (c @ replicate 5 0))"

definition base64url_encode :: "bytes \<Rightarrow> string" where
  "base64url_encode bs = map encode_char (chunks 6 (bits_of_bytes bs))"

lemma charset_ok: "distinct BASE64_URL_CHARSET" "length BASE64_URL_CHARSET = 64"
  by code_simp+

lemma position_of_nth: "distinct xs \<Longrightarrow> n < length xs \<Longrightarrow> position_of (xs ! n) xs = Some n"
proof (induction xs arbitrary: n)
  case (Cons x xs)
  then show ?case by (cases n) (auto simp: nth_mem)
qed simp

lemma sextet_values:
  "\<forall>c \<in> set (product_lists (replicate 6 [0, 1])). bits_value c < 64 \<and> sextet (bits_value c) = c"
  by code_simp

lemma sextet_value:
  assumes "length c = 6" and "set c \<subseteq> {0, 1}"
  shows "bits_value c < 64 \<and> sextet (bits_value c) = c"
proof -
  have "c ! i = 0 \<or> c ! i = 1" if "i < 6" for i
  proof -
    have "c ! i \<in> set c" using assms(1) that by simp
    with assms(2) show ?thesis by auto
  qed
  then have "c \<in> set (product_lists (replicate 6 [0, 1]))"
    using assms(1) by (simp add: product_lists_set list_all2_conv_all_nth)
  with sextet_values show ?thesis by blast
qed

lemma chars_of_bits:
  assumes "length c = 6" and "set c \<subseteq> {0, 1}"
  shows "base64_to_bitarray [BASE64_URL_CHARSET ! bits_value c] = c"
  using sextet_value [OF assms] by (simp add: base64_to_bitarray_def position_of_nth charset_ok)

lemma base64_to_bitarray_append: "base64_to_bitarray (s @ t) = base64_to_bitarray s @ base64_to_bitarray t"
  by (simp add: base64_to_bitarray_def)

lemma length_sextet [simp]: "length (sextet i) = 6"
  by (simp add: sextet_def)

lemma base64_bits_length:
  "set s \<subseteq> set BASE64_URL_CHARSET \<Longrightarrow> length (base64_to_bitarray s) = 6 * length s"
proof (induction s)
  case (Cons c s)
  then obtain i where "i < length BASE64_URL_CHARSET" "c = BASE64_URL_CHARSET ! i" by (auto simp: in_set_conv_nth)
  with Cons show ?case
    by (simp add: base64_to_bitarray_def position_of_nth charset_ok)
qed (simp add: base64_to_bitarray_def)

text \<open>The characters of a piece give the bits of that piece.\<close>

lemma base64_split:
  assumes "set s \<subseteq> set BASE64_URL_CHARSET" and "n \<le> length s"
  shows "base64_to_bitarray (take n s) = take (6 * n) (base64_to_bitarray s)"
    "base64_to_bitarray (drop n s) = drop (6 * n) (base64_to_bitarray s)"
proof -
  have "set (take n s) \<subseteq> set BASE64_URL_CHARSET" using assms(1) set_take_subset [of n s] by blast
  with assms(2) have len: "length (base64_to_bitarray (take n s)) = 6 * n" by (simp add: base64_bits_length)
  have eq: "base64_to_bitarray s = base64_to_bitarray (take n s) @ base64_to_bitarray (drop n s)"
    by (simp flip: base64_to_bitarray_append)
  show "base64_to_bitarray (take n s) = take (6 * n) (base64_to_bitarray s)" by (subst eq) (simp add: len)
  show "base64_to_bitarray (drop n s) = drop (6 * n) (base64_to_bitarray s)" by (subst eq) (simp add: len)
qed

lemma base64_piece:
  assumes "set s \<subseteq> set BASE64_URL_CHARSET" and "n + k \<le> length s"
  shows "base64_to_bitarray (take k (drop n s)) = take (6 * k) (drop (6 * n) (base64_to_bitarray s))"
proof -
  have "set (drop n s) \<subseteq> set BASE64_URL_CHARSET" using assms(1) set_drop_subset [of n s] by blast
  with base64_split [of "drop n s" k] base64_split [OF assms(1), of n] assms(2) show ?thesis by simp
qed

text \<open>Six bits at a time, the encoder writes the bits, filled up with zeros.\<close>

lemma chunks_step: "xs \<noteq> [] \<Longrightarrow> 0 < n \<Longrightarrow> chunks n xs = take n xs # chunks n (drop n xs)"
  by (subst chunks.simps) simp

lemma chunks_Nil [simp]: "chunks n [] = []"
  by (subst chunks.simps) simp

definition padded :: "8 word list \<Rightarrow> 8 word list" where
  "padded bits = bits @ replicate ((6 - length bits mod 6) mod 6) 0"

lemma encode_char_bits:
  assumes "c \<noteq> []" and "length c \<le> 6" and "set c \<subseteq> {0, 1}"
  shows "encode_char c \<in> set BASE64_URL_CHARSET \<and> base64_to_bitarray [encode_char c] = c @ replicate (6 - length c) 0"
proof -
  let ?c = "take 6 (c @ replicate 5 0)"
  have "min (6 - length c) 5 = 6 - length c" using assms(1) by (cases c) auto
  with assms(2) have eq: "?c = c @ replicate (6 - length c) 0" by simp
  have "length ?c = 6" "set ?c \<subseteq> {0, 1}" unfolding eq using assms(2,3) by auto
  from chars_of_bits [OF this] sextet_value [OF this] charset_ok(2) show ?thesis
    unfolding encode_char_def by (simp only: eq nth_mem)
qed

lemma encoded_bits:
  "set bits \<subseteq> {0, 1} \<Longrightarrow>
   set (map encode_char (chunks 6 bits)) \<subseteq> set BASE64_URL_CHARSET \<and>
   base64_to_bitarray (map encode_char (chunks 6 bits)) = padded bits"
proof (induction bits rule: measure_induct_rule [of length])
  case (less bits)
  show ?case
  proof (cases "bits = []")
    case True
    then show ?thesis by (simp add: padded_def base64_to_bitarray_def)
  next
    case False
    have "set (take 6 bits) \<subseteq> {0, 1}" "set (drop 6 bits) \<subseteq> {0, 1}"
      using less.prems set_take_subset [of 6 bits] set_drop_subset [of 6 bits] by blast+
    with encode_char_bits [of "take 6 bits"] less.IH [of "drop 6 bits"] False
    have hd: "encode_char (take 6 bits) \<in> set BASE64_URL_CHARSET"
        "base64_to_bitarray [encode_char (take 6 bits)] = take 6 bits @ replicate (6 - min (length bits) 6) 0"
      and tl: "set (map encode_char (chunks 6 (drop 6 bits))) \<subseteq> set BASE64_URL_CHARSET"
        "base64_to_bitarray (map encode_char (chunks 6 (drop 6 bits))) = padded (drop 6 bits)" by auto
    have "take 6 bits @ replicate (6 - min (length bits) 6) 0 @ padded (drop 6 bits) = padded bits"
    proof (cases "6 \<le> length bits")
      case True
      then have "length (drop 6 bits) mod 6 = length bits mod 6" by (simp add: mod_if [of "length bits"])
      with True show ?thesis by (simp add: padded_def)
    next
      case short: False
      with False show ?thesis by (simp add: padded_def)
    qed
    with hd tl base64_to_bitarray_append [of "[encode_char (take 6 bits)]"] False show ?thesis
      by (simp add: chunks_step)
  qed
qed

lemma bits_of_byte_simps [simp]: "length (bits_of_byte b) = 8" "set (bits_of_byte b) \<subseteq> {0, 1}"
  by (auto simp: bits_of_byte_def)

lemma bits_of_bytes_simps [simp]:
  "bits_of_bytes [] = []" "bits_of_bytes (b # bs) = bits_of_byte b @ bits_of_bytes bs"
  "bits_of_bytes (bs @ cs) = bits_of_bytes bs @ bits_of_bytes cs" "length (bits_of_bytes bs) = 8 * length bs"
proof -
  show "length (bits_of_bytes bs) = 8 * length bs" by (induction bs) (simp_all add: bits_of_bytes_def)
qed (simp_all add: bits_of_bytes_def)

lemma bits_of_bytes_set: "set (bits_of_bytes bs) \<subseteq> {0, 1}"
  by (induction bs) (use bits_of_byte_simps(2) in auto)

lemma all_bytes: "list_all (\<lambda>n. byte_of_bits (bits_of_byte (of_nat n)) = of_nat n) [0..<256]"
  by code_simp

lemma byte_of_bits_of_byte [simp]: "byte_of_bits (bits_of_byte b) = b"
proof -
  have "unat b < 256" using unsigned_less [of b] by simp
  with all_bytes show ?thesis by (auto simp: list_all_iff dest: bspec [of _ _ "unat b"])
qed

lemma bytes_of_bits: "bitarray_to_bytearray (bits_of_bytes bs) = AuthOk bs"
proof -
  have "map byte_of_bits (chunks 8 (bits_of_bytes bs)) = bs"
  proof (induction bs)
    case (Cons b bs)
    have "bits_of_byte b \<noteq> []" by (simp flip: length_0_conv)
    with Cons show ?case by (simp add: chunks_step)
  qed simp
  then show ?thesis by (simp add: bitarray_to_bytearray_def)
qed

text \<open>
  The characters that hold the bytes from \<open>a\<close> up to \<open>e\<close>: the first is at \<open>8 * a div 6\<close>, the
  last before \<open>(8 * e + 5) div 6\<close>. At both ends bits of neighbours come along.
\<close>

lemma mod_4 [simp]: "Suc (4 * r) mod 4 = 1" "Suc (Suc (4 * r)) mod 4 = 2" "Suc (Suc (Suc (4 * r))) mod 4 = 3"
  by presburger+

lemma piece_offsets:
  fixes a e :: nat
  assumes "a < e" and start: "start = 8 * a div 6" and stop: "stop = (8 * e + 5) div 6"
  shows "start + 2 \<le> stop" "8 * a = 6 * start + 2 * (start mod 4)" "start mod 4 \<le> 2"
    "6 * stop = 8 * e + (6 - 2 * ((stop - 1) mod 4))" "1 \<le> (stop - 1) mod 4"
proof -
  have "start + 2 = (8 * a + 12) div 6" by (simp add: start)
  also have "\<dots> \<le> stop" unfolding stop by (rule div_le_mono) (use assms(1) in linarith)
  finally show "start + 2 \<le> stop" .
  have "\<exists>q. a = 3 * q \<or> a = 3 * q + 1 \<or> a = 3 * q + 2" by presburger
  then obtain q where "a = 3 * q \<and> start = 4 * q \<or> a = 3 * q + 1 \<and> start = 4 * q + 1 \<or> a = 3 * q + 2 \<and> start = 4 * q + 2"
    unfolding start by fastforce
  then show "8 * a = 6 * start + 2 * (start mod 4)" "start mod 4 \<le> 2" by auto
  have "\<exists>r. e = 3 * r + 1 \<or> e = 3 * r + 2 \<or> e = 3 * r + 3" using assms(1) by presburger
  then obtain r where "e = 3 * r + 1 \<and> stop = 4 * r + 2 \<or> e = 3 * r + 2 \<and> stop = 4 * r + 3 \<or> e = 3 * r + 3 \<and> stop = 4 * r + 4"
    unfolding stop by fastforce
  then show "6 * stop = 8 * e + (6 - 2 * ((stop - 1) mod 4))" "1 \<le> (stop - 1) mod 4" by auto
qed

lemma last_offset:
  assumes "i \<le> 2" and "2 \<le> k" and "k < 256"
  shows "(of_nat i + of_nat k - 1) mod 4 = (of_nat ((i + k - 1) mod 4) :: 8 word)"
proof -
  have eq: "(of_nat i + of_nat k - 1 :: 8 word) = of_nat (i + k - 1)" using assms(2) by (simp add: of_nat_diff)
  have "unat (of_nat (i + k - 1) mod 4 :: 8 word) = (i + k - 1) mod 4"
    by (simp add: unat_mod_distrib unat_of_nat mod_mod_cancel)
  moreover have "unat (of_nat ((i + k - 1) mod 4) :: 8 word) = (i + k - 1) mod 4" by (simp add: unat_of_nat)
  ultimately show ?thesis by (simp only: word_unat_eq_iff eq)
qed

lemma encoded_piece:
  assumes "w \<noteq> []" and start: "start = 8 * length pre div 6" and stop: "stop = (8 * (length pre + length w) + 5) div 6"
  shows "length (base64_to_bitarray (take (stop - start) (drop start (base64url_encode (pre @ w @ post))))) = 6 * (stop - start)"
    "stop \<le> length (base64url_encode (pre @ w @ post))"
    "take (8 * length w) (drop (2 * (start mod 4))
       (base64_to_bitarray (take (stop - start) (drop start (base64url_encode (pre @ w @ post)))))) = bits_of_bytes w"
proof -
  let ?all = "bits_of_bytes (pre @ w @ post)" and ?s = "base64url_encode (pre @ w @ post)"
  have e: "length pre < length pre + length w" using assms(1) by simp
  note off = piece_offsets [OF e start stop]
  have enc: "set ?s \<subseteq> set BASE64_URL_CHARSET" "base64_to_bitarray ?s = padded ?all"
    using encoded_bits [OF bits_of_bytes_set, of "pre @ w @ post"] by (simp_all only: base64url_encode_def)
  have "6 * length ?s = length (padded ?all)" using base64_bits_length [OF enc(1)] enc(2) by simp
  also have "length (padded ?all) \<ge> 8 * (length pre + length w)" by (simp add: padded_def)
  finally show le: "stop \<le> length ?s" unfolding stop by presburger
  have piece: "base64_to_bitarray (take (stop - start) (drop start ?s)) = take (6 * (stop - start)) (drop (6 * start) (padded ?all))"
    using base64_piece [OF enc(1), of start "stop - start"] le off(1) enc(2) by simp
  have "6 * stop \<le> length (padded ?all)" using le \<open>6 * length ?s = length (padded ?all)\<close> by simp
  then show "length (base64_to_bitarray (take (stop - start) (drop start ?s))) = 6 * (stop - start)"
    unfolding piece using off(1) by (simp add: diff_mult_distrib2)
  have "8 * (length pre + length w) \<le> 6 * stop" using off(4,5) by linarith
  moreover have "8 * p = 6 * start + 2 * m \<Longrightarrow> 8 * (p + l) \<le> 6 * stop \<Longrightarrow> 8 * l + 6 * start + 2 * m \<le> 6 * stop" for p l m :: nat
    by presburger
  ultimately have "8 * length w + 6 * start + 2 * (start mod 4) \<le> 6 * stop" using off(2) by blast
  then have "8 * length w \<le> 6 * (stop - start) - 2 * (start mod 4)" by (simp add: diff_mult_distrib2)
  then have "take (8 * length w) (drop (2 * (start mod 4)) (take (6 * (stop - start)) (drop (6 * start) (padded ?all)))) =
      take (8 * length w) (drop (8 * length pre) (padded ?all))"
    unfolding off(2) by (simp add: drop_take min_def add.commute)
  also have "\<dots> = bits_of_bytes w" by (simp add: padded_def)
  finally show "take (8 * length w) (drop (2 * (start mod 4)) (base64_to_bitarray (take (stop - start) (drop start ?s)))) =
      bits_of_bytes w" unfolding piece .
qed

lemma of_char_word [simp]:
  "unat (of_char c :: 8 word) = of_char c" "char_of (unat (of_char c :: 8 word)) = c"
proof -
  have "(of_char c :: 8 word) = of_nat (of_char c)" by (simp only: of_nat_of_char)
  also have "unat \<dots> = of_char c mod 2 ^ 8" by (simp only: unat_of_nat) simp
  finally show "unat (of_char c :: 8 word) = of_char c" by simp
  then show "char_of (unat (of_char c :: 8 word)) = c" by simp
qed

lemma decode_parts:
  assumes "2 \<le> length s" "length s < 256"
    and "(if i = 0 then AuthOk (base64_to_bitarray s) else if i = 1 then drain_front 2 (base64_to_bitarray s)
      else if i = 2 then drain_front 4 (base64_to_bitarray s)
      else AuthErr (AnyhowError ''Invalid first_char_offset'')) = AuthOk bits"
    and "(i + of_nat (length s) - 1) mod 4 = l"
    and "(if l = 3 then AuthOk bits else if l = 2 then drain_back 2 bits else if l = 1 then drain_back 4 bits
      else AuthErr (AnyhowError ''Invalid last_char_offset'')) = AuthOk (bits_of_bytes w)"
    and "utf8_ok (map unat w)"
  shows "decode_base64_url s i = AuthOk (map (\<lambda>b. char_of (unat b)) w)"
  using assms(1,2,6) unfolding decode_base64_url_def assms(3) auth_bind.simps Let_def assms(4,5)
  by (simp add: bytes_of_bits)

lemma small_cases: "(n :: nat) \<le> 2 \<Longrightarrow> n = 0 \<or> n = 1 \<or> n = 2"
  by auto

lemma decode_piece:
  fixes str :: string
  assumes "str \<noteq> []" and "from_utf8_ok str"
    and start: "start = 8 * length pre div 6" and stop: "stop = (8 * (length pre + length str) + 5) div 6"
    and "stop - start < 256"
  shows "decode_base64_url (take (stop - start) (drop start (base64url_encode (pre @ map of_char str @ post))))
    (of_nat (start mod 4)) = AuthOk str"
proof -
  let ?w = "map of_char str :: bytes"
  let ?s = "take (stop - start) (drop start (base64url_encode (pre @ ?w @ post)))"
  let ?i = "of_nat (start mod 4) :: 8 word" and ?n = "2 * (start mod 4)" and ?m = "6 - 2 * ((stop - 1) mod 4)"
  let ?bits = "base64_to_bitarray ?s"
  have "length pre < length pre + length str" using assms(1) by simp
  note off = piece_offsets [OF this start stop]
  have w: "?w \<noteq> []" "stop = (8 * (length pre + length ?w) + 5) div 6" using assms(1) stop by simp_all
  note piece = encoded_piece [OF w(1) start w(2), of post]
  have len: "length ?s = stop - start" using piece(2) by simp
  have bits: "length ?bits = ?n + 8 * length str + ?m"
  proof -
    have "6 * (t - s) = n + 8 * l + k" if "8 * p = 6 * s + n" "6 * t = 8 * (p + l) + k" for p s n t l k :: nat
    proof -
      have "6 * t = 6 * s + (n + 8 * l + k)" using that by simp
      then show ?thesis by (simp add: diff_mult_distrib2)
    qed
    from this [OF off(2,4)] show ?thesis by (simp only: piece(1))
  qed
  have "?i = 0 \<and> start mod 4 = 0 \<or> ?i = 1 \<and> start mod 4 = 1 \<or> ?i = 2 \<and> start mod 4 = 2"
    using small_cases [OF off(3)] by (elim disjE) simp_all
  then have front: "(if ?i = 0 then AuthOk ?bits else if ?i = 1 then drain_front 2 ?bits
      else if ?i = 2 then drain_front 4 ?bits else AuthErr (AnyhowError ''Invalid first_char_offset'')) = AuthOk (drop ?n ?bits)"
    using bits by (elim disjE conjE) (simp_all add: drain_front_def)
  have "(?i + of_nat (stop - start) - 1) mod 4 = (of_nat ((start mod 4 + (stop - start) - 1) mod 4) :: 8 word)"
    by (rule last_offset) (use off(1,3) assms(5) in simp_all)
  moreover have "(start mod 4 + (stop - start) - 1) mod 4 = (stop - 1) mod 4"
  proof -
    have "start mod 4 + (stop - start) - 1 + 4 * (start div 4) = stop - 1"
      using off(1) mult_div_mod_eq [of 4 start] by linarith
    then show ?thesis by (metis mod_mult_self2)
  qed
  ultimately have last: "(?i + of_nat (stop - start) - 1) mod 4 = (of_nat ((stop - 1) mod 4) :: 8 word)" by simp
  let ?l = "of_nat ((stop - 1) mod 4) :: 8 word"
  have "(stop - 1) mod 4 \<in> {1, 2, 3}" using off(5) by auto
  then have rear: "(if ?l = 3 then AuthOk (drop ?n ?bits) else if ?l = 2 then drain_back 2 (drop ?n ?bits)
      else if ?l = 1 then drain_back 4 (drop ?n ?bits) else AuthErr (AnyhowError ''Invalid last_char_offset'')) =
      AuthOk (bits_of_bytes ?w)"
    using bits piece(3) by (auto simp: drain_back_def)
  have utf8: "utf8_ok (map unat ?w)"
  proof -
    have "map unat ?w = map of_char str" by (simp add: of_char_word del: of_nat_of_char)
    then show ?thesis using assms(2) unfolding from_utf8_ok_def by (rule ssubst)
  qed
  have "2 \<le> length ?s" "length ?s < 256" using off(1) assms(5) by (simp_all only: len)
  moreover have "(?i + of_nat (length ?s) - 1) mod 4 = ?l" unfolding len by (rule last)
  ultimately have "decode_base64_url ?s ?i = AuthOk (map (\<lambda>b. char_of (unat b)) ?w)"
    using front rear utf8 by (intro decode_parts)
  then show ?thesis by (simp add: comp_def)
qed

subsection \<open>Properties\<close>

text \<open>
  The comment of \<^verbatim>\<open>base64_to_bitarray\<close> promises an error for a character that is not in
  the alphabet; the code leaves such characters out.
\<close>

lemma foreign_characters_are_skipped:
  "base64_to_bitarray s = base64_to_bitarray (filter (\<lambda>c. c \<in> set BASE64_URL_CHARSET) s)"
proof -
  have unknown: "position_of c cs = None" if "c \<notin> set cs" for c :: char and cs
    using that by (induction cs) auto
  show ?thesis
    by (induction s) (auto simp: base64_to_bitarray_def unknown)
qed

text \<open>Text of 256 bytes panics, whatever else is in it.\<close>

lemma long_text_panics:
  assumes "256 \<le> length s" and "set s \<subseteq> set BASE64_URL_CHARSET" and "i \<in> {0, 1, 2}"
  shows "decode_base64_url s i = AuthPanic"
  using assms by (auto simp: decode_base64_url_def drain_front_def base64_bits_length)

text \<open>
  C33. The decoder of pieces of base64 inverts the encoding: wherever UTF-8 text stands in
  the encoded bytes, the characters that hold it, taken with the offset of the first of them
  in its group of four, decode to exactly this text, whatever stands before and behind. The
  piece has to be shorter than 256 characters.
\<close>

theorem base64_piece_is_decoded:
  fixes str :: string
  assumes "str \<noteq> []" and "from_utf8_ok str" and "start = 8 * length pre div 6"
    and "stop = (8 * (length pre + length str) + 5) div 6" and "stop - start < 256"
  shows "decode_base64_url (take (stop - start) (drop start (base64url_encode (pre @ map of_char str @ post))))
    (of_nat (start mod 4)) = AuthOk str"
  by (rule decode_piece [OF assms])

definition sample_iss :: string where
  "sample_iss = CHR 0x22 # ''iss'' @ [CHR 0x22]"

theorem base64_piece_is_decoded_witness:
  "decode_base64_url (take 8 (drop 2 (base64url_encode (map of_char ''{ '' @ map of_char sample_iss @ map of_char '':1}''))))
    2 = AuthOk sample_iss"
proof -
  have "sample_iss \<noteq> []" and "from_utf8_ok sample_iss" and "2 = 8 * length (map of_char ''{ '' :: bytes) div 6"
    and "10 = (8 * (length (map of_char ''{ '' :: bytes) + length sample_iss) + 5) div 6" and "10 - 2 < (256 :: nat)"
    by code_simp+
  note found = base64_piece_is_decoded [OF this, of "map of_char '':1}''"]
  have "10 - 2 = (8 :: nat)" "of_nat (2 mod 4) = (2 :: 8 word)" by simp_all
  with found show ?thesis by (simp only:)
qed

text \<open>The address of a zkLogin signature.\<close>

lemma zk_address:
  assumes "wc_from_base64 wc signature = Inr (ZkLogin zk)"
  shows "get_sui_address_from_signature wc signature message = AuthOk a \<longleftrightarrow>
    (\<exists>h pk. wc_personal_message_hash wc message = Inr h \<and> zk_public_key wc zk = AuthOk pk \<and>
      verify_simple wc h (zk_signature zk) = AuthOk () \<and> a = wc_address wc pk)"
  by (auto simp: get_sui_address_from_signature_def personal_message_hash_def assms auth_bind_Ok_iff)

lemma simple_address:
  assumes "wc_from_base64 wc signature = Inr (Simple s)"
  shows "get_sui_address_from_signature wc signature message = AuthOk a \<longleftrightarrow>
    (\<exists>h pk. wc_personal_message_hash wc message = Inr h \<and> verify_simple wc h s = AuthOk () \<and>
      wc_public_key wc (ss_scheme s) (ss_public_key s) = Inr pk \<and> a = wc_address wc pk)"
  by (auto simp: get_sui_address_from_signature_def personal_message_hash_def assms auth_bind_Ok_iff
      simple_public_key_def split: sum.splits)

text \<open>
  C25. The zero-knowledge proof of a zkLogin signature is never verified: whoever has seen
  one zkLogin signature of an address can sign any message for this address with a key of
  their own, by keeping the issuer and the seed and putting anything in the place of the
  proof and of its last epoch.
\<close>

theorem zk_address_needs_no_proof:
  assumes "wc_from_base64 wc seen = Inr (ZkLogin zk)" and "get_sui_address_from_signature wc seen message = AuthOk a"
    and "wc_from_base64 wc forged = Inr (ZkLogin (zk\<lparr>zk_proof := junk, zk_max_epoch := epoch, zk_signature := s\<rparr>))"
    and "wc_personal_message_hash wc other = Inr h" and "verify_simple wc h s = AuthOk ()"
  shows "get_sui_address_from_signature wc forged other = AuthOk a"
proof -
  from assms(2) obtain pk where pk: "zk_public_key wc zk = AuthOk pk" "a = wc_address wc pk"
    by (auto simp: zk_address [OF assms(1)])
  then have "zk_public_key wc (zk\<lparr>zk_proof := junk, zk_max_epoch := epoch, zk_signature := s\<rparr>) = AuthOk pk"
    by (simp add: zk_public_key_def)
  with pk(2) assms(4,5) show ?thesis by (simp add: zk_address [OF assms(3)])
qed

definition sample_zk :: "string \<Rightarrow> bytes \<Rightarrow> string zk_login_authenticator" where
  "sample_zk proof key = \<lparr>zk_proof = proof, zk_address_seed = ''7'', zk_iss_value = ''eyJpc3MiOiJhIn'',
     zk_iss_index_mod_4 = 0, zk_max_epoch = 1, zk_signature = \<lparr>ss_scheme = Ed25519, ss_signature = key, ss_public_key = key\<rparr>\<rparr>"

text \<open>Crates for the witnesses: a signature is valid when it equals its key.\<close>

definition sample_wallets :: "(string, string, string) wallet_crates" where
  "sample_wallets = \<lparr>
     wc_from_base64 = (\<lambda>t. if t = ''real'' then Inr (ZkLogin (sample_zk ''proof'' [1]))
       else if t = ''forged'' then Inr (ZkLogin (sample_zk ''none'' [2]))
       else if t = ''plain'' then Inr (Simple \<lparr>ss_scheme = Ed25519, ss_signature = [3], ss_public_key = [3]\<rparr>)
       else Inl ''malformed''),
     wc_personal_message_hash = (\<lambda>m. Inr (map of_char m)),
     wc_seed = Inr, wc_iss_capture = (\<lambda>t. Some (Some t)), wc_zk_public_id = (\<lambda>iss seed. Inr (iss @ seed)),
     wc_key_from_bytes = (\<lambda>_ _. Inr ()), wc_signature_from_bytes = (\<lambda>_ _. Inr ()),
     wc_verify = (\<lambda>_ key _ sig. if key = sig then Inr () else Inl ''invalid''),
     wc_public_key = (\<lambda>_ key. Inr (map (\<lambda>b. char_of (unat b)) key)), wc_address = id\<rparr>"

theorem zk_address_needs_no_proof_witness:
  "\<exists>a. get_sui_address_from_signature sample_wallets ''real'' ''hello'' = AuthOk a \<and>
    get_sui_address_from_signature sample_wallets ''forged'' ''pay'' = AuthOk a"
proof -
  obtain a where a: "get_sui_address_from_signature sample_wallets ''real'' ''hello'' = AuthOk a"
  proof -
    have "case get_sui_address_from_signature sample_wallets ''real'' ''hello'' of AuthOk a \<Rightarrow> True | _ \<Rightarrow> False"
      by code_simp
    then show ?thesis by (auto intro: that split: auth_result.splits)
  qed
  have "get_sui_address_from_signature sample_wallets ''forged'' ''pay'' = AuthOk a"
    by (rule zk_address_needs_no_proof [OF _ a, where zk = "sample_zk ''proof'' [1]" and junk = "''none''" and epoch = 1
          and s = "\<lparr>ss_scheme = Ed25519, ss_signature = [2], ss_public_key = [2]\<rparr>" and h = "map of_char ''pay''"])
      (simp_all add: sample_wallets_def sample_zk_def verify_simple_def)
  with a show ?thesis by blast
qed

end
