(* ===== verification/Tokens.thy ===== *)
theory Tokens
  imports WalletSignatures Requests
begin

text \<open>
  The accounts and tokens of \<^verbatim>\<open>atoma-auth/src/auth.rs\<close> and the check of Google's tokens in
  \<^verbatim>\<open>atoma-auth/src/google.rs\<close>: a user signs up or in and gets a refresh token and an access
  token that names its hash; with the access token come and go the API tokens that the proxy
  accepts. The lemmas show who gets a token, for whom it stands, and which operations notice that
  it has been revoked.
\<close>

subsection \<open>Effects\<close>

text \<open>An operation on the proxy's state that may fail or panic, and its continuation.\<close>

fun auth_then :: "'p \<times> 'a auth_result \<Rightarrow> ('a \<Rightarrow> 'p \<Rightarrow> 'p \<times> 'b auth_result) \<Rightarrow> 'p \<times> 'b auth_result" where
  "auth_then (p, AuthOk a) f = f a p"
| "auth_then (p, AuthErr e) f = (p, AuthErr e)"
| "auth_then (p, AuthPanic) f = (p, AuthPanic)"

lemma auth_then_Ok_iff: "auth_then m f = (q, AuthOk b) \<longleftrightarrow> (\<exists>p a. m = (p, AuthOk a) \<and> f a p = (q, AuthOk b))"
  by (cases "(m, f)" rule: auth_then.cases) auto

definition auth_send_event :: "'f state_manager_event \<Rightarrow> ('f, 'm) proxy \<Rightarrow> ('f, 'm) proxy \<times> unit auth_result" where
  "auth_send_event ev p =
     (case send_message ev p of (q, m) \<Rightarrow> (q, if m = NotSent then AuthErr FlumeError else AuthOk ()))"

definition auth_send_event_with_response ::
  "(reply \<Rightarrow> (state_error + 'a) option) \<Rightarrow> 'f state_manager_event \<Rightarrow> ('f, 'm) proxy
    \<Rightarrow> ('f, 'm) proxy \<times> 'a auth_result" where
  "auth_send_event_with_response answer_of ev p =
     (case send_message ev p of (q, m) \<Rightarrow>
        (q, if m = NotSent then AuthErr FlumeError
            else case received answer_of m of
                None \<Rightarrow> AuthErr OneShotReceiveError
              | Some (Inl e) \<Rightarrow> AuthErr (AtomaStateManagerError e)
              | Some (Inr a) \<Rightarrow> AuthOk a))"

fun text_answer :: "reply \<Rightarrow> (state_error + string option) option" where
  "text_answer (TextReply t) = Some (Inr t)" | "text_answer _ = None"

fun opt_id_answer :: "reply \<Rightarrow> (state_error + int option) option" where
  "opt_id_answer (OptIdReply r) = Some r" | "opt_id_answer _ = None"

fun tokens_answer :: "reply \<Rightarrow> (state_error + (int \<times> string \<times> int option \<times> int \<times> string) list) option" where
  "tokens_answer (TokensReply r) = Some (Inr r)" | "tokens_answer _ = None"

subsection \<open>Tokens\<close>

record claims =
  cl_user_id :: int
  cl_exp :: u64
  cl_refresh_token_hash :: "string option"

record google_claims =
  gc_iss :: string
  gc_sub :: string
  gc_aud :: string
  gc_exp :: u64
  gc_email :: "string option"

text \<open>The configuration that \<^verbatim>\<open>Auth\<close> carries; Google's keys by their ids.\<close>

record 'key auth =
  au_secret_key :: string
  au_access_token_lifetime :: u64
  au_refresh_token_lifetime :: u64
  au_google_public_keys :: "string \<rightharpoonup> 'key"
  au_google_client_id :: string

text \<open>
  What it takes from crates: JSON web tokens, made and checked with a secret at a time; the
  time some days later in seconds, \<open>None\<close> where \<^verbatim>\<open>chrono\<close> panics; Blake2b and hex;
  the key id in the header of a Google token and the check of its claims with a key, an
  audience and an issuer; the making of a key from the members of its JSON.
\<close>

record 'key auth_crates =
  ac_encode :: "claims \<Rightarrow> string \<Rightarrow> string + string"
  ac_decode :: "int \<Rightarrow> string \<Rightarrow> string \<Rightarrow> string + claims"
  ac_plus_days :: "int \<Rightarrow> int \<Rightarrow> int option"
  ac_blake2b :: "string \<Rightarrow> bytes"
  ac_hex :: "bytes \<Rightarrow> string"
  ac_google_kid :: "string \<Rightarrow> string + string option"
  ac_google_decode :: "int \<Rightarrow> string \<Rightarrow> 'key \<Rightarrow> string \<Rightarrow> string \<Rightarrow> string + google_claims"
  ac_jwk_to_decoding_key :: "string \<Rightarrow> string \<Rightarrow> google_error + 'key"

text \<open>The clock as the n-th message of the request finds it, in seconds.\<close>

type_synonym clock = "nat \<Rightarrow> int"

definition time :: "clock \<Rightarrow> ('f, 'm) proxy \<Rightarrow> int" where
  "time clock p = clock (px_messages p)"

definition hash_string :: "'key auth_crates \<Rightarrow> string \<Rightarrow> string" where
  "hash_string ac str = ac_hex ac (ac_blake2b ac str)"

text \<open>The time of expiration, a \<^verbatim>\<open>usize\<close>: a negative one panics.\<close>

definition expiration :: "'key auth_crates \<Rightarrow> int \<Rightarrow> u64 \<Rightarrow> u64 auth_result" where
  "expiration ac now lifetime =
     (case ac_plus_days ac now (as_i64 lifetime) of
        None \<Rightarrow> AuthPanic
      | Some timestamp \<Rightarrow> if timestamp < 0 then AuthPanic else AuthOk (as_u64 timestamp))"

definition generate_refresh_token ::
  "'key auth \<Rightarrow> 'key auth_crates \<Rightarrow> clock \<Rightarrow> int \<Rightarrow> ('f, 'm) proxy \<Rightarrow> ('f, 'm) proxy \<times> string auth_result" where
  "generate_refresh_token au ac clock uid p =
     auth_then (p, expiration ac (time clock p) (au_refresh_token_lifetime au)) (\<lambda>exp p.
     auth_then (p, auth_of JsonWebTokenError (ac_encode ac
         \<lparr>cl_user_id = uid, cl_exp = exp, cl_refresh_token_hash = None\<rparr> (au_secret_key au))) (\<lambda>token p.
     auth_then (auth_send_event (StoreRefreshToken uid (hash_string ac token)) p) (\<lambda>_ p.
       (p, AuthOk token))))"

definition validate_token ::
  "'key auth \<Rightarrow> 'key auth_crates \<Rightarrow> int \<Rightarrow> string \<Rightarrow> bool \<Rightarrow> claims auth_result" where
  "validate_token au ac now token is_refresh =
     auth_bind (auth_of JsonWebTokenError (ac_decode ac now token (au_secret_key au))) (\<lambda>claims.
       if (cl_refresh_token_hash claims = None) \<noteq> is_refresh then AuthErr NotRefreshToken
       else AuthOk claims)"

definition check_refresh_token_validity ::
  "int \<Rightarrow> string \<Rightarrow> ('f, 'm) proxy \<Rightarrow> ('f, 'm) proxy \<times> bool auth_result" where
  "check_refresh_token_validity uid refresh_token_hash =
     auth_send_event_with_response bool_answer (IsRefreshTokenValid uid refresh_token_hash)"

definition generate_access_token ::
  "'key auth \<Rightarrow> 'key auth_crates \<Rightarrow> clock \<Rightarrow> string \<Rightarrow> ('f, 'm) proxy \<Rightarrow> ('f, 'm) proxy \<times> string auth_result" where
  "generate_access_token au ac clock refresh_token p =
     auth_then (p, validate_token au ac (time clock p) refresh_token True) (\<lambda>claims p.
     auth_then (check_refresh_token_validity (cl_user_id claims) (hash_string ac refresh_token) p) (\<lambda>valid p.
     if \<not> valid then (p, AuthErr InvalidRefreshToken)
     else
       auth_then (p, expiration ac (time clock p) (au_access_token_lifetime au)) (\<lambda>exp p.
         (p, auth_of JsonWebTokenError (ac_encode ac
           \<lparr>cl_user_id = cl_user_id claims, cl_exp = exp, cl_refresh_token_hash = Some (hash_string ac refresh_token)\<rparr>
           (au_secret_key au))))))"

text \<open>The end of signing up and in.\<close>

definition generate_tokens ::
  "'key auth \<Rightarrow> 'key auth_crates \<Rightarrow> clock \<Rightarrow> int \<Rightarrow> ('f, 'm) proxy
    \<Rightarrow> ('f, 'm) proxy \<times> (string \<times> string) auth_result" where
  "generate_tokens au ac clock uid p =
     auth_then (generate_refresh_token au ac clock uid p) (\<lambda>refresh_token p.
     auth_then (generate_access_token au ac clock refresh_token p) (\<lambda>access_token p.
       (p, AuthOk (refresh_token, access_token))))"

subsection \<open>Signing up and in\<close>

text \<open>\<open>salt\<close> is what the random generator gave. The user id goes through a \<^verbatim>\<open>u64\<close>.\<close>

definition auth_register ::
  "'key auth \<Rightarrow> 'key auth_crates \<Rightarrow> clock \<Rightarrow> string \<Rightarrow> string \<Rightarrow> string \<Rightarrow> ('f, 'm) proxy
    \<Rightarrow> ('f, 'm) proxy \<times> (string \<times> string) auth_result" where
  "auth_register au ac clock salt email password p =
     auth_then (auth_send_event_with_response opt_id_answer
       (RegisterUserWithPassword email (hash_string ac (salt @ '':'' @ password)) salt) p) (\<lambda>uid p.
     case map_option as_u64 uid of
       None \<Rightarrow> (p, AuthErr UserAlreadyRegistered)
     | Some uid \<Rightarrow> generate_tokens au ac clock (as_i64 uid) p)"

definition check_user_password ::
  "'key auth \<Rightarrow> 'key auth_crates \<Rightarrow> clock \<Rightarrow> string \<Rightarrow> string \<Rightarrow> ('f, 'm) proxy
    \<Rightarrow> ('f, 'm) proxy \<times> (string \<times> string) auth_result" where
  "check_user_password au ac clock email password p =
     auth_then (auth_send_event_with_response text_answer (GetPasswordSalt email) p) (\<lambda>salt p.
     case salt of
       None \<Rightarrow> (p, AuthErr PasswordNotValidOrUserNotFound)
     | Some salt \<Rightarrow>
         auth_then (auth_send_event_with_response opt_id_answer
           (GetUserIdByEmailPassword email (hash_string ac (salt @ '':'' @ password))) p) (\<lambda>uid p.
         case map_option as_u64 uid of
           None \<Rightarrow> (p, AuthErr PasswordNotValidOrUserNotFound)
         | Some uid \<Rightarrow> generate_tokens au ac clock (as_i64 uid) p))"

definition ISS :: string where "ISS = ''https://accounts.google.com''"

definition verify_google_id_token ::
  "'key auth_crates \<Rightarrow> int \<Rightarrow> string \<Rightarrow> string \<Rightarrow> (string \<rightharpoonup> 'key) \<Rightarrow> google_error + google_claims" where
  "verify_google_id_token ac now id_token audience public_keys =
     res_bind (map_err DecodingKeyError (ac_google_kid ac id_token)) (\<lambda>kid.
     res_bind (ok_or MissingKid kid) (\<lambda>kid.
     res_bind (ok_or (DecodingKeyError ''InvalidToken'') (public_keys kid)) (\<lambda>decoding_key.
       map_err DecodingKeyError (ac_google_decode ac now id_token decoding_key audience ISS))))"

definition check_google_id_token ::
  "'key auth \<Rightarrow> 'key auth_crates \<Rightarrow> clock \<Rightarrow> string \<Rightarrow> string \<Rightarrow> ('f, 'm) proxy
    \<Rightarrow> ('f, 'm) proxy \<times> (string \<times> string) auth_result" where
  "check_google_id_token au ac clock salt id_token p =
     (case verify_google_id_token ac (time clock p) id_token (au_google_client_id au) (au_google_public_keys au) of
        Inl e \<Rightarrow> (p, AuthErr (GoogleError e))
      | Inr claims \<Rightarrow>
          (case gc_email claims of
             None \<Rightarrow> (p, AuthErr (GoogleError EmailNotFound))
           | Some email \<Rightarrow>
               auth_then (auth_send_event_with_response id_answer (OAuth email salt) p) (\<lambda>uid p.
                 generate_tokens au ac clock uid p)))"

text \<open>The keys of Google's document, read once when the proxy starts.\<close>

definition jwk_member :: "json \<Rightarrow> string \<Rightarrow> google_error + string" where
  "jwk_member key name = ok_or MalformedPublicKeys (Option.bind (json_get key name) json_str)"

fun google_keys_of ::
  "'key auth_crates \<Rightarrow> json list \<Rightarrow> (string \<rightharpoonup> 'key) \<Rightarrow> google_error + (string \<rightharpoonup> 'key)" where
  "google_keys_of ac [] public_keys = Inr public_keys"
| "google_keys_of ac (key # keys) public_keys =
     res_bind (jwk_member key ''kid'') (\<lambda>kid.
     res_bind (jwk_member key ''n'') (\<lambda>n.
     res_bind (jwk_member key ''e'') (\<lambda>e.
     res_bind (ac_jwk_to_decoding_key ac n e) (\<lambda>decoding_key.
       google_keys_of ac keys (public_keys(kid \<mapsto> decoding_key))))))"

definition fetch_google_public_keys ::
  "'key auth_crates \<Rightarrow> string + json \<Rightarrow> google_error + (string \<rightharpoonup> 'key)" where
  "fetch_google_public_keys ac response =
     res_bind (map_err RequestFailed response) (\<lambda>jwks.
     res_bind (ok_or MalformedPublicKeys (Option.bind (json_get jwks ''keys'') json_array)) (\<lambda>keys.
       google_keys_of ac keys Map.empty))"

subsection \<open>Operations of a user that is signed in\<close>

text \<open>\<^verbatim>\<open>expect\<close> panics without a hash, which \<open>validate_token\<close> has excluded.\<close>

definition get_claims_from_token ::
  "'key auth \<Rightarrow> 'key auth_crates \<Rightarrow> clock \<Rightarrow> string \<Rightarrow> ('f, 'm) proxy \<Rightarrow> ('f, 'm) proxy \<times> claims auth_result" where
  "get_claims_from_token au ac clock jwt p =
     auth_then (p, validate_token au ac (time clock p) jwt False) (\<lambda>claims p.
     case cl_refresh_token_hash claims of
       None \<Rightarrow> (p, AuthPanic)
     | Some hash \<Rightarrow>
         auth_then (check_refresh_token_validity (cl_user_id claims) hash p) (\<lambda>valid p.
           if \<not> valid then (p, AuthErr RevokedToken) else (p, AuthOk claims)))"

definition get_user_id_from_token ::
  "'key auth \<Rightarrow> 'key auth_crates \<Rightarrow> clock \<Rightarrow> string \<Rightarrow> ('f, 'm) proxy \<Rightarrow> ('f, 'm) proxy \<times> int auth_result" where
  "get_user_id_from_token au ac clock jwt p =
     auth_then (get_claims_from_token au ac clock jwt p) (\<lambda>claims p. (p, AuthOk (cl_user_id claims)))"

text \<open>\<open>api_token\<close> is what the random generator gave.\<close>

definition generate_api_token ::
  "'key auth \<Rightarrow> 'key auth_crates \<Rightarrow> clock \<Rightarrow> string \<Rightarrow> string \<Rightarrow> string \<Rightarrow> ('f, 'm) proxy
    \<Rightarrow> ('f, 'm) proxy \<times> string auth_result" where
  "generate_api_token au ac clock api_token jwt name p =
     auth_then (get_claims_from_token au ac clock jwt p) (\<lambda>claims p.
     auth_then (auth_send_event (StoreNewApiToken (cl_user_id claims) api_token name) p) (\<lambda>_ p.
       (p, AuthOk api_token)))"

definition revoke_api_token ::
  "'key auth \<Rightarrow> 'key auth_crates \<Rightarrow> clock \<Rightarrow> string \<Rightarrow> int \<Rightarrow> ('f, 'm) proxy \<Rightarrow> ('f, 'm) proxy \<times> unit auth_result" where
  "revoke_api_token au ac clock jwt api_token_id p =
     auth_then (get_claims_from_token au ac clock jwt p) (\<lambda>claims p.
       auth_send_event (RevokeApiToken (cl_user_id claims) api_token_id) p)"

definition get_all_api_tokens ::
  "'key auth \<Rightarrow> 'key auth_crates \<Rightarrow> clock \<Rightarrow> string \<Rightarrow> ('f, 'm) proxy
    \<Rightarrow> ('f, 'm) proxy \<times> (int \<times> string \<times> int option \<times> int \<times> string) list auth_result" where
  "get_all_api_tokens au ac clock jwt p =
     auth_then (get_claims_from_token au ac clock jwt p) (\<lambda>claims p.
       auth_send_event_with_response tokens_answer (GetApiTokensForUser (cl_user_id claims)) p)"

text \<open>An \<^verbatim>\<open>i64\<close> in decimal digits.\<close>

definition show_id :: "int \<Rightarrow> string" where
  "show_id n = (if n < 0 then ''-'' @ decimal (nat (- n)) else decimal (nat n))"

definition wallet_message :: "int \<Rightarrow> string" where
  "wallet_message uid =
     ''Sign this message to prove you are the owner of this wallet. User ID: '' @ show_id uid"

definition auth_update_sui_address ::
  "'key auth \<Rightarrow> 'key auth_crates \<Rightarrow> ('proof, 'seed, 'pk) wallet_crates \<Rightarrow> clock \<Rightarrow> string \<Rightarrow> string
    \<Rightarrow> ('f, 'm) proxy \<Rightarrow> ('f, 'm) proxy \<times> unit auth_result" where
  "auth_update_sui_address au ac wc clock jwt signature p =
     auth_then (p, validate_token au ac (time clock p) jwt False) (\<lambda>claims p.
     auth_then (p, get_sui_address_from_signature wc signature (wallet_message (cl_user_id claims))) (\<lambda>sui_address p.
       auth_send_event (UpdateSuiAddress (cl_user_id claims) sui_address) p))"

definition auth_get_sui_address ::
  "'key auth \<Rightarrow> 'key auth_crates \<Rightarrow> clock \<Rightarrow> string \<Rightarrow> ('f, 'm) proxy
    \<Rightarrow> ('f, 'm) proxy \<times> string option auth_result" where
  "auth_get_sui_address au ac clock jwt p =
     auth_then (p, validate_token au ac (time clock p) jwt False) (\<lambda>claims p.
       auth_send_event_with_response text_answer (GetSuiAddress (cl_user_id claims)) p)"

subsection \<open>Messages of a request that is alone\<close>

fun auth_answer :: "state_error + 'a \<Rightarrow> 'a auth_result" where
  "auth_answer (Inl e) = AuthErr (AtomaStateManagerError e)"
| "auth_answer (Inr a) = AuthOk a"

lemma auth_ask_alone:
  assumes "alone p" and "handle_state_manager_event (event_ctx p) ev (px_db p) = (d, Inr rep)"
    and "answer_of rep = Some r"
  shows "auth_send_event_with_response answer_of ev p = (after p d, auth_answer r)"
  using assms by (cases r) (simp_all add: auth_send_event_with_response_def send_message_alone received_def after_def)

lemma auth_send_alone:
  "alone p \<Longrightarrow> auth_send_event ev p =
     (after p (fst (handle_state_manager_event (event_ctx p) ev (px_db p))), AuthOk ())"
  by (simp add: auth_send_event_def send_message_alone after_def)

lemma check_refresh_token_alone:
  "alone p \<Longrightarrow> check_refresh_token_validity uid h p =
     (after p (px_db p), AuthOk (is_refresh_token_valid (db_refresh_tokens (px_db p)) uid h))"
  using auth_ask_alone [of p "IsRefreshTokenValid uid h" "px_db p" _ bool_answer
      "Inr (is_refresh_token_valid (db_refresh_tokens (px_db p)) uid h)"]
  by (simp add: check_refresh_token_validity_def send_reply_def)

lemma store_refresh_token_alone:
  "alone p \<Longrightarrow> auth_send_event (StoreRefreshToken uid h) p =
     (after p (case store_refresh_token (db_refresh_tokens (px_db p)) (cx_new_id (event_ctx p)) uid h of
        Inl e \<Rightarrow> px_db p | Inr t \<Rightarrow> (px_db p)\<lparr>db_refresh_tokens := t\<rparr>), AuthOk ())"
  by (simp add: auth_send_alone split: sum.split)

text \<open>
  What the documentation of \<^verbatim>\<open>jsonwebtoken\<close> promises: a token that was made with a
  secret gives its claims with this secret, until a minute after it has expired.
\<close>

definition jwt_law :: "'key auth_crates \<Rightarrow> bool" where
  "jwt_law ac \<longleftrightarrow> (\<forall>c secret token now. ac_encode ac c secret = Inr token \<longrightarrow>
     ac_decode ac now token secret = (if uint (cl_exp c) + 60 < now then Inl ''ExpiredSignature'' else Inr c))"

lemma validate_own_token:
  assumes "jwt_law ac" and "ac_encode ac c (au_secret_key au) = Inr token"
  shows "validate_token au ac now token is_refresh =
    (if uint (cl_exp c) + 60 < now then AuthErr (JsonWebTokenError ''ExpiredSignature'')
     else if (cl_refresh_token_hash c = None) \<noteq> is_refresh then AuthErr NotRefreshToken else AuthOk c)"
  using assms by (auto simp: jwt_law_def validate_token_def)

text \<open>What signing in leaves behind when it has gone well.\<close>

lemma generate_tokens_Ok:
  assumes "alone p" and "jwt_law ac" and "generate_tokens au ac clock uid p = (q, AuthOk (refresh, access))"
  shows "alone q \<and> db_users (px_db q) = db_users (px_db p) \<and>
    is_refresh_token_valid (db_refresh_tokens (px_db q)) uid (hash_string ac refresh) \<and>
    (\<exists>exp. ac_encode ac \<lparr>cl_user_id = uid, cl_exp = exp, cl_refresh_token_hash = Some (hash_string ac refresh)\<rparr>
      (au_secret_key au) = Inr access)"
proof -
  from assms(3) obtain p1 where p1: "generate_refresh_token au ac clock uid p = (p1, AuthOk refresh)"
    "generate_access_token au ac clock refresh p1 = (q, AuthOk access)"
    by (auto simp: generate_tokens_def auth_then_Ok_iff)
  from p1(1) assms(1) obtain exp where exp: "ac_encode ac \<lparr>cl_user_id = uid, cl_exp = exp, cl_refresh_token_hash = None\<rparr>
      (au_secret_key au) = Inr refresh" and p1': "alone p1" "db_users (px_db p1) = db_users (px_db p)"
    by (auto simp: generate_refresh_token_def auth_then_Ok_iff store_refresh_token_alone split: sum.splits)
  from p1(2) obtain c where c: "validate_token au ac (time clock p1) refresh True = AuthOk c"
    and rest: "is_refresh_token_valid (db_refresh_tokens (px_db p1)) (cl_user_id c) (hash_string ac refresh)"
      "q = after p1 (px_db p1)" "\<exists>exp. ac_encode ac \<lparr>cl_user_id = cl_user_id c, cl_exp = exp,
         cl_refresh_token_hash = Some (hash_string ac refresh)\<rparr> (au_secret_key au) = Inr access"
    by (auto simp: generate_access_token_def auth_then_Ok_iff check_refresh_token_alone [OF p1'(1)] split: if_splits)
  have "cl_user_id c = uid" using c by (auto simp: validate_own_token [OF assms(2) exp] split: if_splits)
  with rest p1' show ?thesis by simp
qed

lemma get_claims_alone:
  assumes "alone p" and "validate_token au ac (time clock p) jwt False = AuthOk c" and "cl_refresh_token_hash c = Some h"
  shows "get_claims_from_token au ac clock jwt p = (after p (px_db p),
    if is_refresh_token_valid (db_refresh_tokens (px_db p)) (cl_user_id c) h then AuthOk c else AuthErr RevokedToken)"
  using assms by (simp add: get_claims_from_token_def check_refresh_token_alone)

text \<open>The user that an access token stands for, as long as it has not expired.\<close>

lemma user_of_generated_token:
  assumes "alone p" and "jwt_law ac" and "generate_tokens au ac clock uid p = (q, AuthOk (refresh, access))"
  shows "snd (get_user_id_from_token au ac later access q) \<in>
    {AuthOk uid, AuthErr (JsonWebTokenError ''ExpiredSignature'')}"
proof -
  from generate_tokens_Ok [OF assms] obtain exp where q: "alone q"
    "is_refresh_token_valid (db_refresh_tokens (px_db q)) uid (hash_string ac refresh)"
    and exp: "ac_encode ac \<lparr>cl_user_id = uid, cl_exp = exp, cl_refresh_token_hash = Some (hash_string ac refresh)\<rparr>
      (au_secret_key au) = Inr access" by blast
  show ?thesis
  proof (cases "uint exp + 60 < time later q")
    case True
    then show ?thesis
      by (simp add: get_user_id_from_token_def get_claims_from_token_def validate_own_token [OF assms(2) exp])
  next
    case False
    then have "validate_token au ac (time later q) access False =
        AuthOk \<lparr>cl_user_id = uid, cl_exp = exp, cl_refresh_token_hash = Some (hash_string ac refresh)\<rparr>"
      by (simp add: validate_own_token [OF assms(2) exp])
    with q show ?thesis by (simp add: get_user_id_from_token_def get_claims_alone)
  qed
qed

lemma as_i64_of_u64: "in_i64 x \<Longrightarrow> as_i64 (as_u64 x) = x"
proof -
  assume x: "in_i64 x"
  have "as_i64 (as_u64 x) = wrap_i64 x"
    by (simp add: as_i64_def as_u64_def wrap_i64_def uint_word_of_int mod_add_left_eq)
  with x show ?thesis by (simp add: wrap_i64_id)
qed

subsection \<open>Who signs in\<close>

lemma register_alone:
  assumes "alone p"
  shows "auth_send_event_with_response opt_id_answer (RegisterUserWithPassword email h salt) p =
    (case register (db_users (px_db p)) (cx_new_id (event_ctx p)) email h salt of
       Inl e \<Rightarrow> (after p (px_db p), AuthErr (AtomaStateManagerError e))
     | Inr (t, r) \<Rightarrow> (after p ((px_db p)\<lparr>db_users := t\<rparr>), AuthOk r))"
proof (cases "register (db_users (px_db p)) (cx_new_id (event_ctx p)) email h salt")
  case (Inl e)
  then show ?thesis
    using auth_ask_alone [OF assms, of "RegisterUserWithPassword email h salt" "px_db p" _ opt_id_answer "Inl e"]
    by (simp add: send_reply_def)
next
  case (Inr x)
  then show ?thesis
    using auth_ask_alone [OF assms, of "RegisterUserWithPassword email h salt" "(px_db p)\<lparr>db_users := fst x\<rparr>" _
        opt_id_answer "Inr (snd x)"]
    by (cases x) (simp add: send_reply_def)
qed

lemma password_salt_alone:
  "alone p \<Longrightarrow> auth_send_event_with_response text_answer (GetPasswordSalt email) p =
     (after p (px_db p), AuthOk (get_password_salt (db_users (px_db p)) email))"
  using auth_ask_alone [of p "GetPasswordSalt email" "px_db p" _ text_answer
      "Inr (get_password_salt (db_users (px_db p)) email)"]
  by (simp add: send_reply_def)

lemma user_id_alone:
  "alone p \<Longrightarrow> auth_send_event_with_response opt_id_answer (GetUserIdByEmailPassword email h) p =
     (after p (px_db p), AuthOk (get_user_id_by_email_password (db_users (px_db p)) email h))"
  using auth_ask_alone [of p "GetUserIdByEmailPassword email h" "px_db p" _ opt_id_answer
      "Inr (get_user_id_by_email_password (db_users (px_db p)) email h)"]
  by (simp add: send_reply_def)

lemma fetch_optional_filter: "fetch_optional (filter P xs) = Some x \<Longrightarrow> x \<in> set xs \<and> P x"
  by (cases "filter P xs") (auto simp: filter_eq_Cons_iff)

text \<open>With one account per email, the salt and the id are of the same account.\<close>

lemma password_account:
  assumes "users_inv t" and "get_password_salt t email = Some salt"
    and "get_user_id_by_email_password t email h = Some uid"
  shows "\<exists>u \<in> set t. u_email u = email \<and> u_password_salt u = salt \<and> u_password_hash u = Some h \<and> u_id u = uid"
proof -
  from assms(2) obtain u where u: "u \<in> set t" "u_email u = email" "u_password_salt u = salt"
    by (auto simp: get_password_salt_def dest!: fetch_optional_filter)
  from assms(3) obtain v where v: "v \<in> set t" "u_email v = email" "u_password_hash v = Some h" "u_id v = uid"
    by (auto simp: get_user_id_by_email_password_def dest!: fetch_optional_filter)
  have "u = v" using assms(1) u(1,2) v(1,2) by (auto simp: users_inv_def dest: distinct_map_inj)
  with u v show ?thesis by auto
qed

subsection \<open>Properties of signing in\<close>

text \<open>
  C16. Whoever gets tokens for an email and a password knows the password of the account
  with this email: its hash with the salt of the account is the stored one. The access token
  stands for this account whenever it is used, until it expires.
\<close>

theorem tokens_need_the_password:
  fixes p :: "('f, 'm) proxy"
  assumes "alone p" and "jwt_law ac" and "users_inv (db_users (px_db p))"
    and "\<forall>u \<in> set (db_users (px_db p)). in_i64 (u_id u)"
    and "check_user_password au ac clock email password p = (q, AuthOk (refresh, access))"
  shows "\<exists>u \<in> set (db_users (px_db p)). u_email u = email \<and>
    u_password_hash u = Some (hash_string ac (u_password_salt u @ '':'' @ password)) \<and>
    snd (get_user_id_from_token au ac later access q) \<in>
      {AuthOk (u_id u), AuthErr (JsonWebTokenError ''ExpiredSignature'')}"
proof -
  let ?d = "px_db p" and ?p = "after (after p (px_db p)) (px_db p)"
  from assms(1,5) obtain salt uid where salt: "get_password_salt (db_users ?d) email = Some salt"
    and id: "get_user_id_by_email_password (db_users ?d) email (hash_string ac (salt @ '':'' @ password)) = Some uid"
    and gen: "generate_tokens au ac clock (as_i64 (as_u64 uid)) ?p = (q, AuthOk (refresh, access))"
    by (auto simp: check_user_password_def password_salt_alone user_id_alone auth_then_Ok_iff split: option.splits)
  from password_account [OF assms(3) salt id] obtain u where u: "u \<in> set (db_users ?d)" "u_email u = email"
    "u_password_salt u = salt" "u_password_hash u = Some (hash_string ac (salt @ '':'' @ password))" "u_id u = uid"
    by blast
  have "as_i64 (as_u64 uid) = u_id u" using assms(4) u(1,5) by (auto intro: as_i64_of_u64)
  with gen have "generate_tokens au ac clock (u_id u) ?p = (q, AuthOk (refresh, access))" by simp
  from user_of_generated_token [OF _ assms(2) this, of later] assms(1) u show ?thesis by auto
qed

text \<open>Crates for the witnesses: two tokens that never expire, of user 1.\<close>

definition sample_refresh :: claims where
  "sample_refresh = \<lparr>cl_user_id = 1, cl_exp = 500, cl_refresh_token_hash = None\<rparr>"

definition sample_access :: claims where
  "sample_access = \<lparr>cl_user_id = 1, cl_exp = 100, cl_refresh_token_hash = Some ''#R''\<rparr>"

definition sample_auth_crates :: "unit auth_crates" where
  "sample_auth_crates = \<lparr>
     ac_encode = (\<lambda>c secret. if c = sample_refresh then Inr ''R'' else if c = sample_access then Inr ''A'' else Inl ''x''),
     ac_decode = (\<lambda>now token secret.
       if token = ''R'' then (if uint (cl_exp sample_refresh) + 60 < now then Inl ''ExpiredSignature'' else Inr sample_refresh)
       else if token = ''A'' then (if uint (cl_exp sample_access) + 60 < now then Inl ''ExpiredSignature'' else Inr sample_access)
       else Inl ''InvalidToken''),
     ac_plus_days = (\<lambda>now days. Some (now + 100 * days)), ac_blake2b = map of_char,
     ac_hex = (\<lambda>bs. CHR ''#'' # map (\<lambda>b. char_of (unat b)) bs),
     ac_google_kid = (\<lambda>t. Inl t), ac_google_decode = (\<lambda>_ t _ _ _. Inl t),
     ac_jwk_to_decoding_key = (\<lambda>n e. Inr ())\<rparr>"

definition sample_auth :: "unit auth" where
  "sample_auth = \<lparr>au_secret_key = ''s'', au_access_token_lifetime = 1, au_refresh_token_lifetime = 5,
     au_google_public_keys = Map.empty, au_google_client_id = ''c''\<rparr>"

lemma sample_jwt_law: "jwt_law sample_auth_crates"
  by (auto simp: jwt_law_def sample_auth_crates_def split: if_splits)

text \<open>
  C21. A revoked session is refused wherever the revocation is looked up: an access token
  whose refresh token is no longer stored makes, lists and revokes no API token, names no
  user, and changes nothing.
\<close>

theorem revoked_session_is_refused:
  fixes p :: "('f, 'm) proxy"
  assumes "alone p" and "validate_token au ac (time clock p) jwt False = AuthOk c"
    and "cl_refresh_token_hash c = Some h"
    and "\<not> is_refresh_token_valid (db_refresh_tokens (px_db p)) (cl_user_id c) h"
  shows "generate_api_token au ac clock token jwt name p = (after p (px_db p), AuthErr RevokedToken) \<and>
    revoke_api_token au ac clock jwt tid p = (after p (px_db p), AuthErr RevokedToken) \<and>
    get_all_api_tokens au ac clock jwt p = (after p (px_db p), AuthErr RevokedToken) \<and>
    get_user_id_from_token au ac clock jwt p = (after p (px_db p), AuthErr RevokedToken)"
  using assms(4) get_claims_alone [OF assms(1-3)]
  by (simp add: generate_api_token_def revoke_api_token_def get_all_api_tokens_def get_user_id_from_token_def)

theorem revoked_session_is_refused_witness:
  "snd (get_user_id_from_token sample_auth sample_auth_crates (\<lambda>_. 0) ''A'' sample_proxy) = AuthErr RevokedToken"
proof -
  have "validate_token sample_auth sample_auth_crates (time (\<lambda>_. 0) sample_proxy) ''A'' False = AuthOk sample_access"
    and "cl_refresh_token_hash sample_access = Some ''#R''"
    and "\<not> is_refresh_token_valid (db_refresh_tokens (px_db sample_proxy)) (cl_user_id sample_access) ''#R''"
    by code_simp+
  from revoked_session_is_refused [OF sample_proxy_alone this] show ?thesis by simp
qed

text \<open>The account of the witnesses.\<close>

definition sample_token_proxy :: "(int, unit) proxy" where
  "sample_token_proxy = sample_proxy\<lparr>px_db := sample_db\<lparr>db_users :=
     [\<lparr>u_id = 1, u_email = ''a@b'', u_password_hash = Some ''#s:p'', u_password_salt = ''s'', u_sui_address = None,
       u_zk_salt = None\<rparr>]\<rparr>\<rparr>"

lemma sample_token_proxy_alone: "alone sample_token_proxy"
  using sample_proxy_alone by (simp add: sample_token_proxy_def)

definition sample_google_auth :: "unit auth" where
  "sample_google_auth = sample_auth\<lparr>au_google_public_keys := [''k'' \<mapsto> ()]\<rparr>"

definition sample_google_crates :: "unit auth_crates" where
  "sample_google_crates = sample_auth_crates\<lparr>ac_google_kid := (\<lambda>_. Inr (Some ''k'')),
     ac_google_decode := (\<lambda>now t key aud iss. if t = ''G'' \<and> aud = ''c'' \<and> iss = ISS
       then Inr \<lparr>gc_iss = iss, gc_sub = ''1'', gc_aud = aud, gc_exp = 9, gc_email = Some ''a@b''\<rparr> else Inl ''InvalidToken'')\<rparr>"

text \<open>No accounts yet; the sequence of ids is at 1.\<close>

definition sample_empty_proxy :: "(int, unit) proxy" where
  "sample_empty_proxy = sample_proxy\<lparr>px_db := sample_db\<lparr>db_users := []\<rparr>,
     px_meet := (\<lambda>n. \<lparr>mt_earlier = [], mt_ahead = [], mt_ctx = (mt_ctx (px_meet sample_proxy n))\<lparr>cx_new_id := 1\<rparr>\<rparr>)\<rparr>"

theorem tokens_need_the_password_witness:
  "\<exists>q. check_user_password sample_auth sample_auth_crates (\<lambda>_. 0) ''a@b'' ''p'' sample_token_proxy = (q, AuthOk (''R'', ''A'')) \<and>
    snd (get_user_id_from_token sample_auth sample_auth_crates (\<lambda>_. 0) ''A'' q) \<noteq> AuthErr RevokedToken"
proof -
  define q where "q = fst (check_user_password sample_auth sample_auth_crates (\<lambda>_. 0) ''a@b'' ''p'' sample_token_proxy)"
  have "snd (check_user_password sample_auth sample_auth_crates (\<lambda>_. 0) ''a@b'' ''p'' sample_token_proxy) = AuthOk (''R'', ''A'')"
    by code_simp
  then have q: "check_user_password sample_auth sample_auth_crates (\<lambda>_. 0) ''a@b'' ''p'' sample_token_proxy = (q, AuthOk (''R'', ''A''))"
    by (simp add: q_def prod_eq_iff)
  have "users_inv (db_users (px_db sample_token_proxy))"
    and "\<forall>u \<in> set (db_users (px_db sample_token_proxy)). in_i64 (u_id u)" by code_simp+
  from tokens_need_the_password [OF sample_token_proxy_alone sample_jwt_law this q, of "\<lambda>_. 0"] q show ?thesis by auto
qed

lemma oauth_alone:
  assumes "alone p"
  shows "auth_send_event_with_response id_answer (OAuth email salt) p =
    (case oauth (db_users (px_db p)) (cx_new_id (event_ctx p)) email salt of
       Inl e \<Rightarrow> (after p (px_db p), AuthErr (AtomaStateManagerError e))
     | Inr (t, uid) \<Rightarrow> (after p ((px_db p)\<lparr>db_users := t\<rparr>), AuthOk uid))"
proof (cases "oauth (db_users (px_db p)) (cx_new_id (event_ctx p)) email salt")
  case (Inl e)
  then show ?thesis
    using auth_ask_alone [OF assms, of "OAuth email salt" "px_db p" _ id_answer "Inl e"] by (simp add: send_reply_def)
next
  case (Inr x)
  then show ?thesis
    using auth_ask_alone [OF assms, of "OAuth email salt" "(px_db p)\<lparr>db_users := fst x\<rparr>" _ id_answer "Inr (snd x)"]
    by (cases x) (simp add: send_reply_def)
qed

text \<open>
  C18. Whoever gets tokens for a Google token holds one that Google's key of the id in its
  header has signed for this client and with Google as the issuer; the access token stands
  for the one account with the email in its claims, which is made when there is none.
\<close>

theorem google_tokens_need_googles_key:
  fixes p :: "('f, 'm) proxy"
  assumes "alone p" and "jwt_law ac" and "users_inv (db_users (px_db p))"
    and "check_google_id_token au ac clock salt id_token p = (q, AuthOk (refresh, access))"
  shows "\<exists>kid key c u. ac_google_kid ac id_token = Inr (Some kid) \<and> au_google_public_keys au kid = Some key \<and>
    ac_google_decode ac (time clock p) id_token key (au_google_client_id au) ISS = Inr c \<and>
    u \<in> set (db_users (px_db q)) \<and> gc_email c = Some (u_email u) \<and>
    (u \<in> set (db_users (px_db p)) \<or> u_email u \<notin> u_email ` set (db_users (px_db p))) \<and>
    snd (get_user_id_from_token au ac later access q) \<in>
      {AuthOk (u_id u), AuthErr (JsonWebTokenError ''ExpiredSignature'')}"
proof -
  let ?t = "db_users (px_db p)"
  from assms(4) obtain c email where c: "verify_google_id_token ac (time clock p) id_token (au_google_client_id au)
      (au_google_public_keys au) = Inr c" "gc_email c = Some email"
    by (auto simp: check_google_id_token_def split: sum.splits option.splits)
  with assms(1,4) obtain t' uid where t': "oauth ?t (cx_new_id (event_ctx p)) email salt = Inr (t', uid)"
    and gen: "generate_tokens au ac clock uid (after p ((px_db p)\<lparr>db_users := t'\<rparr>)) = (q, AuthOk (refresh, access))"
    by (auto simp: check_google_id_token_def oauth_alone auth_then_Ok_iff split: sum.splits)
  from c(1) obtain kid key where key: "ac_google_kid ac id_token = Inr (Some kid)" "au_google_public_keys au kid = Some key"
    "ac_google_decode ac (time clock p) id_token key (au_google_client_id au) ISS = Inr c"
    by (auto simp: verify_google_id_token_def res_iffs)
  have "\<exists>u \<in> set t'. u_email u = email \<and> u_id u = uid \<and> (u \<in> set ?t \<or> email \<notin> u_email ` set ?t)"
  proof (cases "email \<in> u_email ` set ?t")
    case True
    then obtain u where u: "u \<in> set ?t" "u_email u = email" by auto
    with oauth_known [OF assms(3) u t'] show ?thesis by auto
  next
    case False
    then have "\<forall>u \<in> set ?t. u_email u \<noteq> email" by auto
    from oauth_new [OF this t' assms(3)] False show ?thesis by auto
  qed
  then obtain u where u: "u \<in> set t'" "u_email u = email" "u_id u = uid" "u \<in> set ?t \<or> email \<notin> u_email ` set ?t" by blast
  have alone: "alone (after p ((px_db p)\<lparr>db_users := t'\<rparr>))" using assms(1) by simp
  from generate_tokens_Ok [OF alone assms(2) gen] have "db_users (px_db q) = t'" by simp
  with user_of_generated_token [OF alone assms(2) gen, of later] u key c(2) show ?thesis by auto
qed

theorem google_tokens_need_googles_key_witness:
  "\<exists>q. check_google_id_token sample_google_auth sample_google_crates (\<lambda>_. 0) ''s'' ''G'' sample_token_proxy = (q, AuthOk (''R'', ''A'')) \<and>
    snd (get_user_id_from_token sample_google_auth sample_google_crates (\<lambda>_. 0) ''A'' q) \<noteq> AuthErr RevokedToken"
proof -
  define q where "q = fst (check_google_id_token sample_google_auth sample_google_crates (\<lambda>_. 0) ''s'' ''G'' sample_token_proxy)"
  have "snd (check_google_id_token sample_google_auth sample_google_crates (\<lambda>_. 0) ''s'' ''G'' sample_token_proxy) = AuthOk (''R'', ''A'')"
    by code_simp
  then have q: "check_google_id_token sample_google_auth sample_google_crates (\<lambda>_. 0) ''s'' ''G'' sample_token_proxy = (q, AuthOk (''R'', ''A''))"
    by (simp add: q_def prod_eq_iff)
  have "users_inv (db_users (px_db sample_token_proxy))" by code_simp
  moreover have "jwt_law sample_google_crates" using sample_jwt_law by (simp add: sample_google_crates_def jwt_law_def)
  ultimately show ?thesis
    using google_tokens_need_googles_key [OF sample_token_proxy_alone _ _ q, of "\<lambda>_. 0"] q by auto
qed

text \<open>
  C22. A new account can be used: after a user has registered, the same email and password
  pass the check of the password, and all that can fail is the making of the tokens; the
  access token stands for the new account until it expires, and another registration of the
  email is refused.
\<close>

theorem registration_is_remembered:
  fixes p :: "('f, 'm) proxy"
  assumes "alone p" and "jwt_law ac" and "in_i64 (cx_new_id (event_ctx p))"
    and "auth_register au ac clock salt email password p = (q, AuthOk tokens)"
  shows "\<exists>uid. \<exists>q' :: ('f, 'm) proxy. alone q' \<and> px_db q' = px_db q \<and>
    snd (check_user_password au ac clock2 email password q) = snd (generate_tokens au ac clock2 uid q') \<and>
    snd (get_user_id_from_token au ac later (snd tokens) q) \<in> {AuthOk uid, AuthErr (JsonWebTokenError ''ExpiredSignature'')} \<and>
    snd (auth_register au ac clock2 salt2 email password2 q) \<in>
      {AuthErr UserAlreadyRegistered, AuthErr (AtomaStateManagerError (DatabaseConnectionError StringTooLong))}"
proof -
  let ?h = "hash_string ac (salt @ '':'' @ password)" and ?i = "cx_new_id (event_ctx p)"
  from assms(1,4) obtain t' uid where t': "register (db_users (px_db p)) ?i email ?h salt = Inr (t', Some uid)"
    and gen: "generate_tokens au ac clock (as_i64 (as_u64 uid)) (after p ((px_db p)\<lparr>db_users := t'\<rparr>)) = (q, AuthOk tokens)"
    by (auto simp: auth_register_def register_alone auth_then_Ok_iff split: sum.splits option.splits prod.splits)
  have uid: "uid = ?i" using t' by (auto simp: register_def res_iffs split: if_splits)
  have cast: "as_i64 (as_u64 uid) = uid" using assms(3) by (simp add: uid as_i64_of_u64)
  have alone: "alone (after p ((px_db p)\<lparr>db_users := t'\<rparr>))" using assms(1) by simp
  obtain refresh access where tokens: "tokens = (refresh, access)" by (cases tokens)
  note gen = gen [unfolded cast tokens]
  from generate_tokens_Ok [OF alone assms(2) gen] have q: "alone q" "db_users (px_db q) = t'" by simp_all
  let ?q = "after (after q (px_db q)) (px_db q)"
  have "check_user_password au ac clock2 email password q = generate_tokens au ac clock2 uid ?q"
    using register_login [OF t'] q cast by (simp add: check_user_password_def password_salt_alone user_id_alone)
  moreover have "\<exists>u \<in> set t'. u_email u = email"
    using t' by (auto simp: register_def res_iffs user_store_Inr_iff split: if_splits)
  then have again: "register t' j email h2 salt2 \<in> {Inr (t', None), Inl (DatabaseConnectionError StringTooLong)}" for j h2
    by (auto simp: register_def user_store_def list_ex_iff)
  have "snd (auth_register au ac clock2 salt2 email password2 q) \<in>
      {AuthErr UserAlreadyRegistered, AuthErr (AtomaStateManagerError (DatabaseConnectionError StringTooLong))}"
    using q again [of "cx_new_id (event_ctx q)" "hash_string ac (salt2 @ '':'' @ password2)"]
    by (auto simp: auth_register_def register_alone split: sum.split prod.split)
  ultimately show ?thesis
    using user_of_generated_token [OF alone assms(2) gen, of later] q(1) tokens
    by (intro exI [of _ uid] exI [of _ ?q]) simp
qed

theorem registration_is_remembered_witness:
  "\<exists>q uid. \<exists>q' :: (int, unit) proxy. auth_register sample_auth sample_auth_crates (\<lambda>_. 0) ''s'' ''a@b'' ''p'' sample_empty_proxy = (q, AuthOk (''R'', ''A'')) \<and>
    snd (check_user_password sample_auth sample_auth_crates (\<lambda>_. 0) ''a@b'' ''p'' q) =
      snd (generate_tokens sample_auth sample_auth_crates (\<lambda>_. 0) uid q')"
proof -
  define q where "q = fst (auth_register sample_auth sample_auth_crates (\<lambda>_. 0) ''s'' ''a@b'' ''p'' sample_empty_proxy)"
  have "snd (auth_register sample_auth sample_auth_crates (\<lambda>_. 0) ''s'' ''a@b'' ''p'' sample_empty_proxy) = AuthOk (''R'', ''A'')"
    by code_simp
  then have q: "auth_register sample_auth sample_auth_crates (\<lambda>_. 0) ''s'' ''a@b'' ''p'' sample_empty_proxy = (q, AuthOk (''R'', ''A''))"
    by (simp add: q_def prod_eq_iff)
  have "alone sample_empty_proxy" using sample_proxy_alone by (simp add: sample_empty_proxy_def alone_def)
  moreover have "in_i64 (cx_new_id (event_ctx sample_empty_proxy))" by code_simp
  ultimately show ?thesis
    using registration_is_remembered [OF _ sample_jwt_law _ q, of "\<lambda>_. 0" "\<lambda>_. 0" "''s''" "''p''"] q by blast
qed

subsection \<open>API tokens and wallets\<close>

text \<open>
  C20. The API token that a signed-in user is given opens the proxy for this user: once it
  is stored, which fails only when its value or its id is taken or it is too long, a request
  with it in its header is authenticated as this user.
\<close>

theorem new_api_token_opens_the_proxy:
  fixes p :: "('f, 'm) proxy"
  assumes "alone p" and "api_tokens_inv (db_api_tokens (px_db p))"
    and "\<forall>r \<in> set (db_api_tokens (px_db p)). at_token r \<noteq> token \<and> at_id r \<noteq> cx_new_id (event_ctx (after p (px_db p)))"
    and "length token \<le> 255" and "generate_api_token au ac clock token jwt name p = (q, AuthOk shown)"
    and "headers ''authorization'' = Some (Some (''Bearer '' @ shown))"
  shows "\<exists>c. validate_token au ac (time clock p) jwt False = AuthOk c \<and>
    snd (check_auth tx headers endpoint q) = Inr (cl_user_id c)"
proof -
  let ?d = "px_db p" and ?p = "after p (px_db p)"
  from assms(5) obtain c p1 where c: "get_claims_from_token au ac clock jwt p = (p1, AuthOk c)"
    and q: "auth_send_event (StoreNewApiToken (cl_user_id c) token name) p1 = (q, AuthOk ())" and shown: "shown = token"
    by (auto simp: generate_api_token_def auth_then_Ok_iff)
  from c obtain h where v: "validate_token au ac (time clock p) jwt False = AuthOk c" "cl_refresh_token_hash c = Some h"
    by (auto simp: get_claims_from_token_def auth_then_Ok_iff split: option.splits if_splits)
  from c have p1: "p1 = ?p" by (simp add: get_claims_alone [OF assms(1) v])
  define t where "t = db_api_tokens ?d @ [\<lparr>at_id = cx_new_id (event_ctx ?p), at_token = token, at_user_id = cl_user_id c,
    at_name = name, at_creation_timestamp = cx_now_stamp (event_ctx ?p), at_last_used_timestamp = None\<rparr>]"
  have stored: "store_api_token (db_api_tokens ?d) (cx_new_id (event_ctx ?p)) (cx_now_stamp (event_ctx ?p)) (cl_user_id c)
      token name = Inr t"
    using assms(3,4) by (auto simp: store_api_token_def sql_insert_def list_ex_iff t_def)
  from q have q': "q = after ?p (?d\<lparr>db_api_tokens := t\<rparr>)"
    using auth_send_alone [of ?p "StoreNewApiToken (cl_user_id c) token name"] assms(1) stored by (simp add: p1)
  from api_token_stored [OF stored assms(2)] obtain t2 where
    t2: "is_api_token_valid t (cx_now_stamp (event_ctx q)) token = Inr (t2, cl_user_id c)" by blast
  have bearer: "bearer_token headers = Some token" using assms(6) by (simp only: bearer_token_Some shown)
  have "alone q" using assms(1) by (simp add: q')
  with t2 have "snd (check_auth tx headers endpoint q) = Inr (cl_user_id c)"
    using bearer by (simp add: check_auth_def [folded bearer_token_def] send_message_alone received_def send_reply_def q')
  with v(1) show ?thesis by blast
qed

theorem new_api_token_opens_the_proxy_witness:
  "\<exists>q. generate_api_token sample_auth sample_auth_crates (\<lambda>_. 0) ''new'' ''A'' ''n'' (sample_token_proxy\<lparr>px_db := (px_db sample_token_proxy)\<lparr>
       db_refresh_tokens := [\<lparr>rt_id = 1, rt_user_id = 1, rt_token_hash = ''#R''\<rparr>], db_api_tokens := []\<rparr>\<rparr>) = (q, AuthOk ''new'') \<and>
     snd (check_auth sample_texts ((\<lambda>_. None)(''authorization'' := Some (Some ''Bearer new''))) ''/'' q) = Inr 1"
proof -
  let ?p = "sample_token_proxy\<lparr>px_db := (px_db sample_token_proxy)\<lparr>
       db_refresh_tokens := [\<lparr>rt_id = 1, rt_user_id = 1, rt_token_hash = ''#R''\<rparr>], db_api_tokens := []\<rparr>\<rparr>"
  define q where "q = fst (generate_api_token sample_auth sample_auth_crates (\<lambda>_. 0) ''new'' ''A'' ''n'' ?p)"
  have "snd (generate_api_token sample_auth sample_auth_crates (\<lambda>_. 0) ''new'' ''A'' ''n'' ?p) = AuthOk ''new''"
    by code_simp
  then have q: "generate_api_token sample_auth sample_auth_crates (\<lambda>_. 0) ''new'' ''A'' ''n'' ?p = (q, AuthOk ''new'')"
    by (simp add: q_def prod_eq_iff)
  have p: "alone ?p" "api_tokens_inv (db_api_tokens (px_db ?p))"
    "\<forall>r \<in> set (db_api_tokens (px_db ?p)). at_token r \<noteq> ''new'' \<and> at_id r \<noteq> cx_new_id (event_ctx (after ?p (px_db ?p)))"
    using sample_token_proxy_alone by (simp_all add: api_tokens_inv_def)
  have "validate_token sample_auth sample_auth_crates (time (\<lambda>_. 0) ?p) ''A'' False = AuthOk sample_access" by code_simp
  with new_api_token_opens_the_proxy [OF p _ q, of "(\<lambda>_. None)(''authorization'' := Some (Some ''Bearer new''))" sample_texts "''/''"]
    q show ?thesis by (auto simp: sample_access_def)
qed

text \<open>The statement that binds a wallet, on a table with one row per id.\<close>

lemma update_sui_address_confirms:
  assumes "update_sui_address t uid a = Inr t'" and "users_inv t" and "confirm_user t' b v"
  shows "if v = uid then b = a else confirm_user t b v"
proof -
  from assms(1) obtain u where t': "sql_update (\<lambda>u. sql_is (u_id u = uid)) (\<lambda>u. Inr (u\<lparr>u_sui_address := Some a\<rparr>))
      user_store t = Inr (t', u)"
    by (auto simp: update_sui_address_def res_iffs)
  have "\<forall>r \<in> set t'. (u_id r = uid \<and> u_sui_address r = Some a) \<or> (u_id r \<noteq> uid \<and> r \<in> set t)"
  proof (cases "row_of u_id t uid")
    case None
    have "sql_update (\<lambda>u. sql_is (u_id u = uid)) (\<lambda>u. Inr (u\<lparr>u_sui_address := Some a\<rparr>)) user_store t = Inr (t, [])"
      by (rule sql_update_key_None [OF None, where c = "\<lambda>q. Inr True"]) (simp add: sql_is_alone [symmetric])
    with t' None show ?thesis by (auto simp: row_of_None_iff)
  next
    case (Some r)
    have "sql_update (\<lambda>u. sql_is (u_id u = uid)) (\<lambda>u. Inr (u\<lparr>u_sui_address := Some a\<rparr>)) user_store t =
        res_bind (Inr True) (\<lambda>hit. if hit
          then res_bind (res_bind (Inr (r\<lparr>u_sui_address := Some a\<rparr>)) user_store) (\<lambda>r'. Inr (put_row u_id r' t, [r']))
          else Inr (t, []))"
      by (rule sql_update_key [OF _ Some])
        (use assms(2) in \<open>auto simp: users_inv_def sql_is_alone [symmetric] user_store_Inr_iff\<close>)
    with t' have "t' = put_row u_id (r\<lparr>u_sui_address := Some a\<rparr>) t" by (auto simp: res_iffs user_store_Inr_iff)
    moreover have "u_id r = uid" using Some by (auto dest: row_of_SomeD)
    ultimately show ?thesis by (auto simp: put_row_def)
  qed
  with assms(3) show ?thesis by (fastforce simp: confirm_user_def list_ex_iff)
qed

text \<open>The digits of a number determine it.\<close>

lemma decimal_inj: "decimal m = decimal n \<longleftrightarrow> m = n"
  using decimal_value_decimal [of m 0] decimal_value_decimal [of n 0] by auto

lemma decimal_no_minus: "decimal n \<noteq> CHR ''-'' # s" "CHR ''-'' # s \<noteq> decimal n"
proof -
  have "CHR ''-'' \<notin> set (decimal n)"
  proof
    assume "CHR ''-'' \<in> set (decimal n)"
    then obtain d :: nat where "d < 10" "CHR ''-'' = char_of (48 + d)" using decimal_digits by blast
    then have "of_char (CHR ''-'') = (48 + d :: nat)" by simp
    then show False by simp
  qed
  then show "decimal n \<noteq> CHR ''-'' # s" by force
  then show "CHR ''-'' # s \<noteq> decimal n" by metis
qed

lemma show_id_inj: "show_id m = show_id n \<longleftrightarrow> m = n"
proof
  assume "show_id m = show_id n"
  then show "m = n"
    by (auto simp: show_id_def decimal_inj decimal_no_minus split: if_splits)
qed simp



text \<open>
  The revocation is not looked up everywhere: with the token of a revoked session a wallet can
  still be bound to the user.
\<close>

lemma revoked_session_binds_a_wallet:
  fixes p :: "('f, 'm) proxy"
  assumes "alone p" and "validate_token au ac (time clock p) jwt False = AuthOk c"
    and "cl_refresh_token_hash c = Some h"
    and "\<not> is_refresh_token_valid (db_refresh_tokens (px_db p)) (cl_user_id c) h"
    and "get_sui_address_from_signature wc signature (wallet_message (cl_user_id c)) = AuthOk a"
  shows "snd (get_user_id_from_token au ac clock jwt p) = AuthErr RevokedToken \<and>
    auth_update_sui_address au ac wc clock jwt signature p =
      (after p (fst (handle_state_manager_event (event_ctx p) (UpdateSuiAddress (cl_user_id c) a) (px_db p))), AuthOk ())"
  using assms get_claims_alone [OF assms(1-3)]
  by (simp add: auth_update_sui_address_def auth_send_alone get_user_id_from_token_def)

end
