(* ===== verification/Payments.thy ===== *)
theory Payments
  imports Tokens
begin

text \<open>
  Payments in USDC: \<^verbatim>\<open>usdc_payment\<close> of \<^verbatim>\<open>atoma-auth/src/auth.rs\<close> with
  \<^verbatim>\<open>get_balance_changes\<close> of \<^verbatim>\<open>atoma-auth/src/sui/mod.rs\<close>. A user names a transaction
  of the chain; its digest is recorded, its balance changes are read, and what the proxy's
  wallet received is added to the user's balance. The lemmas show what a credited payment is,
  that a digest is credited once under every interleaving with other requests, and that
  a failed attempt uses it up.
\<close>

subsection \<open>Balance changes\<close>

datatype coin_owner = AddressOwner string | OtherOwner

text \<open>The package of the coin in hex; \<open>None\<close> when its type is not a struct. The amount is an \<^verbatim>\<open>i128\<close>.\<close>

record balance_change =
  bc_owner :: coin_owner
  bc_package :: "string option"
  bc_amount :: int

text \<open>
  The chain as the payment sees it: the parser of digests, the client and the transaction at
  the n-th attempt, the wallet of the proxy and the package of USDC.
\<close>

record chain_reads =
  cr_parse_digest :: "string \<Rightarrow> string + bytes"
  cr_client :: "nat \<Rightarrow> string + unit"
  cr_transaction :: "nat \<Rightarrow> bytes \<Rightarrow> string + balance_change list option"
  cr_active_address :: "string + string"
  cr_usdc_package_id :: string

text \<open>\<^verbatim>\<open>TransactionDigest::from_str(..).unwrap()\<close> panics on text that is not a digest.\<close>

definition get_balance_changes ::
  "chain_reads \<Rightarrow> nat \<Rightarrow> string \<Rightarrow> (string + balance_change list option) auth_result" where
  "get_balance_changes cr attempt transaction_digest =
     (case cr_parse_digest cr transaction_digest of
        Inl e \<Rightarrow> AuthPanic
      | Inr digest \<Rightarrow> AuthOk (res_bind (cr_client cr attempt) (\<lambda>_. cr_transaction cr attempt digest)))"

definition SUI_BALANCE_RETRY_COUNT :: nat where "SUI_BALANCE_RETRY_COUNT = 5"

fun retry_balance_changes ::
  "chain_reads \<Rightarrow> string \<Rightarrow> nat \<Rightarrow> nat \<Rightarrow> string + balance_change list option
    \<Rightarrow> (string + balance_change list option) auth_result" where
  "retry_balance_changes cr digest attempt 0 latest = AuthOk latest"
| "retry_balance_changes cr digest attempt (Suc left) latest =
     auth_bind (get_balance_changes cr attempt digest) (\<lambda>r.
       case r of
         Inr changes \<Rightarrow> AuthOk (Inr changes)
       | Inl e \<Rightarrow> retry_balance_changes cr digest (attempt + 1) left (Inl e))"

record scan =
  sc_sender :: "string option"
  sc_receiver :: "string option"
  sc_money_in :: "int option"

fun scan_changes :: "string \<Rightarrow> balance_change list \<Rightarrow> scan \<Rightarrow> scan auth_result" where
  "scan_changes usdc [] s = AuthOk s"
| "scan_changes usdc (c # cs) s =
     (if bc_package c = Some usdc then
        if bc_amount c < 0 then
          if sc_sender s \<noteq> None then AuthErr MultipleSenders
          else scan_changes usdc cs (case bc_owner c of AddressOwner a \<Rightarrow> s\<lparr>sc_sender := Some a\<rparr> | _ \<Rightarrow> s)
        else
          if sc_receiver s \<noteq> None then AuthErr MultipleReceivers
          else scan_changes usdc cs (let s = s\<lparr>sc_money_in := Some (bc_amount c)\<rparr> in
            case bc_owner c of AddressOwner a \<Rightarrow> s\<lparr>sc_receiver := Some a\<rparr> | _ \<Rightarrow> s)
      else scan_changes usdc cs s)"

definition empty_scan :: scan where
  "empty_scan = \<lparr>sc_sender = None, sc_receiver = None, sc_money_in = None\<rparr>"

subsection \<open>The payment\<close>

text \<open>The sender is the user's wallet, or has signed the digest.\<close>

definition confirm_payer ::
  "('proof, 'seed, 'pk) wallet_crates \<Rightarrow> string \<Rightarrow> string option \<Rightarrow> string \<Rightarrow> int \<Rightarrow> ('f, 'm) proxy
    \<Rightarrow> ('f, 'm) proxy \<times> unit auth_result" where
  "confirm_payer wc digest zk_proof_signature sender uid p =
     (case zk_proof_signature of
        Some signature \<Rightarrow>
          auth_then (p, get_sui_address_from_signature wc signature digest) (\<lambda>address p.
            (p, if sender \<noteq> address then AuthErr PaymentNotForThisUser else AuthOk ()))
      | None \<Rightarrow>
          auth_then (auth_send_event_with_response bool_answer (ConfirmUser sender uid) p) (\<lambda>is_their_wallet p.
            (p, if \<not> is_their_wallet then AuthErr PaymentNotForThisUser else AuthOk ())))"

definition money_in_i64 :: "int option \<Rightarrow> int auth_result" where
  "money_in_i64 money_in =
     (case money_in of
        None \<Rightarrow> AuthPanic
      | Some m \<Rightarrow> if in_i64 m then AuthOk m
          else AuthErr (AnyhowError ''Failed to convert amount: out of range integral type conversion attempted''))"

text \<open>The end of the payment, when the balance changes have been read.\<close>

definition credit_payment ::
  "('proof, 'seed, 'pk) wallet_crates \<Rightarrow> chain_reads \<Rightarrow> string \<Rightarrow> string option \<Rightarrow> int \<Rightarrow> scan
    \<Rightarrow> ('f, 'm) proxy \<Rightarrow> ('f, 'm) proxy \<times> unit auth_result" where
  "credit_payment wc cr digest zk_proof_signature uid s p =
     (case (sc_sender s, sc_receiver s) of
        (Some sender, Some receiver) \<Rightarrow>
          auth_then (p, auth_of AnyhowError (cr_active_address cr)) (\<lambda>own_address p.
          if receiver = own_address then
            auth_then (confirm_payer wc digest zk_proof_signature sender uid p) (\<lambda>_ p.
            auth_then (p, money_in_i64 (sc_money_in s)) (\<lambda>amount p.
              auth_send_event (TopUpBalance uid amount) p))
          else (p, AuthOk ()))
      | _ \<Rightarrow> (p, AuthErr SenderOrReceiverNotFound))"

definition usdc_payment ::
  "'key auth \<Rightarrow> 'key auth_crates \<Rightarrow> ('proof, 'seed, 'pk) wallet_crates \<Rightarrow> chain_reads \<Rightarrow> clock
    \<Rightarrow> string \<Rightarrow> string \<Rightarrow> string option \<Rightarrow> ('f, 'm) proxy \<Rightarrow> ('f, 'm) proxy \<times> unit auth_result" where
  "usdc_payment au ac wc cr clock jwt digest zk_proof_signature p =
     auth_then (p, validate_token au ac (time clock p) jwt False) (\<lambda>claims p.
     auth_then (auth_send_event_with_response unit_answer (InsertNewUsdcPaymentDigest digest) p) (\<lambda>_ p.
     auth_then (p, retry_balance_changes cr digest 0 SUI_BALANCE_RETRY_COUNT (Inl ''No balance changes found'')) (\<lambda>changes p.
     auth_then (p, auth_of AnyhowError changes) (\<lambda>changes p.
     auth_then (p, case changes of None \<Rightarrow> AuthErr NoBalanceChangesFound | Some changes \<Rightarrow> AuthOk changes) (\<lambda>changes p.
     auth_then (p, scan_changes (cr_usdc_package_id cr) changes empty_scan) (\<lambda>s p.
       credit_payment wc cr digest zk_proof_signature (cl_user_id claims) s p))))))"

subsection \<open>What the scan accepts\<close>

text \<open>The addresses that paid USDC and those that received it, with the amounts.\<close>

definition payers :: "string \<Rightarrow> balance_change list \<Rightarrow> string list" where
  "payers usdc cs = concat (map (\<lambda>c. case bc_owner c of
     AddressOwner a \<Rightarrow> if bc_package c = Some usdc \<and> bc_amount c < 0 then [a] else [] | OtherOwner \<Rightarrow> []) cs)"

definition payees :: "string \<Rightarrow> balance_change list \<Rightarrow> (string \<times> int) list" where
  "payees usdc cs = concat (map (\<lambda>c. case bc_owner c of
     AddressOwner a \<Rightarrow> if bc_package c = Some usdc \<and> 0 \<le> bc_amount c then [(a, bc_amount c)] else [] | OtherOwner \<Rightarrow> []) cs)"

lemma payers_payees_simps [simp]:
  "payers usdc [] = []" "payees usdc [] = []"
  "payers usdc (c # cs) = (case bc_owner c of AddressOwner a \<Rightarrow>
     if bc_package c = Some usdc \<and> bc_amount c < 0 then [a] else [] | OtherOwner \<Rightarrow> []) @ payers usdc cs"
  "payees usdc (c # cs) = (case bc_owner c of AddressOwner a \<Rightarrow>
     if bc_package c = Some usdc \<and> 0 \<le> bc_amount c then [(a, bc_amount c)] else [] | OtherOwner \<Rightarrow> []) @ payees usdc cs"
  by (simp_all add: payers_def payees_def)

lemma scan_settled:
  "scan_changes usdc cs s = AuthOk s' \<Longrightarrow>
   (case sc_sender s of Some a \<Rightarrow> payers usdc cs = [] \<and> sc_sender s' = Some a
     | None \<Rightarrow> payers usdc cs = (case sc_sender s' of None \<Rightarrow> [] | Some a \<Rightarrow> [a])) \<and>
   (case sc_receiver s of Some b \<Rightarrow> payees usdc cs = [] \<and> sc_receiver s' = Some b \<and> sc_money_in s' = sc_money_in s
     | None \<Rightarrow> (case sc_receiver s' of None \<Rightarrow> payees usdc cs = []
         | Some b \<Rightarrow> \<exists>m. sc_money_in s' = Some m \<and> payees usdc cs = [(b, m)]))"
proof (induction usdc cs s rule: scan_changes.induct)
  case (2 usdc c cs s)
  show ?case
  proof (cases "bc_package c = Some usdc")
    case False
    then have "payers usdc (c # cs) = payers usdc cs" "payees usdc (c # cs) = payees usdc cs"
      by (simp_all split: coin_owner.split)
    then show ?thesis using 2(3) [OF False] 2(4) False by (simp only: scan_changes.simps if_False)
  next
    case usdc: True
    show ?thesis
    proof (cases "bc_amount c < 0")
      case True
      with usdc 2(1,4) show ?thesis
        by (cases "bc_owner c") (auto split: if_splits option.splits)
    next
      case False
      with usdc 2(2,4) show ?thesis
        by (cases "bc_owner c") (auto simp: Let_def split: if_splits option.splits)
    qed
  qed
qed (auto split: option.split)

lemma scan_finds:
  assumes "scan_changes usdc cs empty_scan = AuthOk s" and "sc_sender s = Some a" and "sc_receiver s = Some b"
  shows "payers usdc cs = [a] \<and> (\<exists>m. sc_money_in s = Some m \<and> payees usdc cs = [(b, m)])"
  using scan_settled [OF assms(1)] assms(2,3) by (simp add: empty_scan_def)

lemma payees_nonneg: "(b, m) \<in> set (payees usdc cs) \<Longrightarrow> 0 \<le> m"
  by (induction cs) (auto split: coin_owner.splits if_splits)

text \<open>The changes that the retries find are those of one of the attempts.\<close>

lemma retry_finds:
  "retry_balance_changes cr digest attempt left latest = AuthOk (Inr changes) \<Longrightarrow>
   latest = Inr changes \<or> (\<exists>n d. attempt \<le> n \<and> n < attempt + left \<and> cr_parse_digest cr digest = Inr d \<and>
     cr_transaction cr n d = Inr changes)"
proof (induction cr digest attempt left latest rule: retry_balance_changes.induct)
  case (2 cr digest attempt left latest)
  then obtain r where r: "get_balance_changes cr attempt digest = AuthOk r" by (auto simp: auth_bind_Ok_iff)
  show ?case
  proof (cases r)
    case (Inl e)
    with 2 r show ?thesis by fastforce
  next
    case (Inr x)
    with 2(2) r have "get_balance_changes cr attempt digest = AuthOk (Inr changes)" by simp
    then show ?thesis by (auto simp: get_balance_changes_def res_iffs split: sum.splits)
  qed
qed simp

subsection \<open>A digest is never forgotten\<close>

text \<open>No message to the state manager removes a digest, so no interleaving does.\<close>

lemmas digests_fst = execute_fst [of "\<lambda>d. x \<in> set (db_digests d)" for x]
  answer_fst [of "\<lambda>d. x \<in> set (db_digests d)" for x] answer_unit_fst [of "\<lambda>d. x \<in> set (db_digests d)" for x]

lemma digest_inserted:
  "insert_new_usdc_payment_digest t x = (if x \<in> set t then Inl (DatabaseConnectionError UniqueViolation) else Inr (t @ [x]))"
  by (auto simp: insert_new_usdc_payment_digest_def sql_insert_def list_ex_iff)

lemma atoma_event_digests: "x \<in> set (db_digests d) \<Longrightarrow> x \<in> set (db_digests (fst (handle_atoma_event cx ev d)))"
  by (cases ev)
    (auto simp: handle_new_task_event_def handle_task_deprecation_event_def
      handle_node_task_subscription_event_def handle_node_task_subscription_updated_event_def
      handle_node_task_unsubscription_event_def handle_create_stack_stats_def
      handle_stack_try_settle_event_def handle_claimed_stack_event_def
      handle_new_stack_settlement_attestation_event_def handle_stack_settlement_ticket_event_def
      handle_stack_settlement_ticket_claimed_event_def handle_stack_attestation_dispute_event_def
      handle_new_key_rotation_event_def handle_node_registration_event_def
      intro!: digests_fst)

lemma fiat_update_digests:
  "x \<in> set (db_digests d) \<Longrightarrow> x \<in> set (db_digests (fst (handle_fiat_update cx u m ei i it eo c ot d)))"
  by (auto simp: handle_fiat_update_def Let_def split: sum.splits intro!: digests_fst)

lemma state_manager_event_digests:
  "x \<in> set (db_digests d) \<Longrightarrow> x \<in> set (db_digests (fst (handle_state_manager_event cx ev d)))"
  by (cases ev)
    (auto simp: digest_inserted intro!: digests_fst fiat_update_digests split: sum.splits if_splits)

lemma p2p_event_digests:
  assumes "x \<in> set (db_digests d)" and "handle_p2p_event cx ev sender d = (d', rest)"
  shows "x \<in> set (db_digests d')"
proof (cases ev)
  case (NodeMetricsRegistrationEvent url node ts country metrics)
  then show ?thesis using assms
    by (cases "update_node_public_address (db_nodes d) (as_i64 node) url country")
      (auto simp: handle_node_metrics_registration_event_def split: if_splits)
next
  case (VerifyNodeSmallIdOwnership node address)
  then show ?thesis using assms by (auto simp: Let_def split: option.splits if_splits)
qed

lemma manager_step_digests: "x \<in> set (db_digests d) \<Longrightarrow> x \<in> set (db_digests (fst (manager_step m d)))"
proof (cases m)
  case (P2pEvent cx ev sender)
  assume "x \<in> set (db_digests d)"
  then show ?thesis using P2pEvent p2p_event_digests [of x d cx ev sender] by (auto split: prod.splits)
qed (auto simp: atoma_event_digests state_manager_event_digests)

lemma manager_run_digests: "x \<in> set (db_digests d) \<Longrightarrow> x \<in> set (db_digests (fst (manager_run ms d)))"
proof (induction ms arbitrary: d)
  case (Cons m ms)
  then have "x \<in> set (db_digests (fst (manager_step m d)))" by (auto intro: manager_step_digests)
  with Cons show ?case by (cases "manager_step m d") (auto split: status.splits)
qed simp

lemma manager_after_digests: "x \<in> set (db_digests d) \<Longrightarrow> x \<in> set (db_digests (fst (manager_after st ms d)))"
  by (cases st) (simp_all add: manager_run_digests)

definition digest_used :: "string \<Rightarrow> ('f, 'm) proxy \<Rightarrow> bool" where
  "digest_used x p \<longleftrightarrow> x \<in> set (db_digests (px_db p))"

lemma send_message_digests:
  assumes "digest_used x p"
  shows "digest_used x (fst (send_message ev p))"
proof -
  define mt where "mt = px_meet p (px_messages p)"
  obtain d st where d: "manager_after (px_status p) (mt_earlier mt) (px_db p) = (d, st)" by fastforce
  obtain d' st' where d': "manager_run (mt_ahead mt) d = (d', st')" by fastforce
  have "x \<in> set (db_digests d)"
    using manager_after_digests [of x "px_db p" "px_status p" "mt_earlier mt"] assms d by (simp add: digest_used_def)
  moreover from this have "x \<in> set (db_digests d')" using manager_run_digests [of x d "mt_ahead mt"] d' by simp
  ultimately show ?thesis
    using d d' state_manager_event_digests [of x d'] unfolding send_message_def Let_def mt_def [symmetric] digest_used_def
    by (auto split: prod.split status.split) (metis fst_conv)
qed

interpretation digest_kept: proxy_invariant "digest_used x"
  by unfold_locales (simp add: send_message_digests, simp_all add: digest_used_def)

text \<open>Recording a digest succeeds only when it is new, and makes it known.\<close>

lemma digest_recorded:
  assumes "auth_send_event_with_response unit_answer (InsertNewUsdcPaymentDigest x) p = (q, r)"
  shows "(digest_used x p \<longrightarrow> r \<noteq> AuthOk () \<and> digest_used x q) \<and> (r = AuthOk () \<longrightarrow> digest_used x q) \<and>
    px_messages q = px_messages p + 1"
proof -
  obtain m where m: "send_message (InsertNewUsdcPaymentDigest x) p = (q, m)"
    using assms by (auto simp: auth_send_event_with_response_def split: prod.splits)
  have r: "r = AuthOk () \<Longrightarrow> m = Handled (Inr (UnitReply (Inr ())))"
    using assms m by (auto simp: auth_send_event_with_response_def received_def
        split: option.splits delivery.splits sum.splits if_splits elim: unit_answer.elims)
  define mt where "mt = px_meet p (px_messages p)"
  obtain d st where d: "manager_after (px_status p) (mt_earlier mt) (px_db p) = (d, st)" by fastforce
  obtain d' st' where d': "manager_run (mt_ahead mt) d = (d', st')" by fastforce
  have known: "x \<in> set (db_digests d')" if "digest_used x p"
  proof -
    have "x \<in> set (db_digests d)"
      using manager_after_digests [of x "px_db p" "px_status p" "mt_earlier mt"] that d by (simp add: digest_used_def)
    then show ?thesis using manager_run_digests [of x d "mt_ahead mt"] d' by simp
  qed
  have m': "m = Handled (Inr (UnitReply (Inr ()))) \<Longrightarrow> x \<notin> set (db_digests d') \<and> digest_used x q"
    using m d d' unfolding send_message_def Let_def mt_def [symmetric]
    by (auto simp: digest_inserted digest_used_def answer_unit_def send_reply_def split: status.splits if_splits)
  have "px_messages q = px_messages p + 1"
    using m unfolding send_message_def Let_def by (auto split: prod.splits status.splits)
  then show ?thesis using r m' known send_message_digests [of x p "InsertNewUsdcPaymentDigest x"] m by auto
qed

context message_invariant
begin

lemma auth_then_keeps:
  "I (fst m) \<Longrightarrow> (\<And>a p. I p \<Longrightarrow> I (fst (f a p))) \<Longrightarrow> I (fst (auth_then m f))"
  by (cases "(m, f)" rule: auth_then.cases) auto

lemma auth_send_keeps: "I p \<Longrightarrow> event_in_range ev \<Longrightarrow> I (fst (auth_send_event ev p))"
  using send_keeps [of p ev] by (auto simp: auth_send_event_def split: prod.split)

lemma auth_response_keeps: "I p \<Longrightarrow> event_in_range ev \<Longrightarrow> I (fst (auth_send_event_with_response answer_of ev p))"
  using send_keeps [of p ev] by (auto simp: auth_send_event_with_response_def split: prod.split)

lemma confirm_payer_keeps: "I p \<Longrightarrow> I (fst (confirm_payer wc digest sig sender uid p))"
  by (cases sig) (auto simp: confirm_payer_def intro!: auth_then_keeps auth_response_keeps)

lemma money_sent_keeps: "I p \<Longrightarrow> I (fst (auth_then (p, money_in_i64 m) (\<lambda>amount p. auth_send_event (TopUpBalance uid amount) p)))"
  by (cases m) (auto simp: money_in_i64_def intro: auth_send_keeps)

lemma credit_payment_keeps: "I p \<Longrightarrow> I (fst (credit_payment wc cr digest sig uid s p))"
  by (auto simp: credit_payment_def intro!: auth_then_keeps confirm_payer_keeps money_sent_keeps split: option.split)

lemma usdc_payment_keeps: "I p \<Longrightarrow> I (fst (usdc_payment au ac wc cr clock jwt digest sig p))"
  unfolding usdc_payment_def by (intro auth_then_keeps auth_response_keeps credit_payment_keeps) simp_all

end

lemma used_digest_is_refused:
  assumes "digest_used x p"
  shows "snd (usdc_payment au ac wc cr clock jwt x sig p) \<noteq> AuthOk () \<and>
    px_messages (fst (usdc_payment au ac wc cr clock jwt x sig p)) \<le> px_messages p + 1"
proof (cases "validate_token au ac (time clock p) jwt False")
  case (AuthOk c)
  obtain q r where r: "auth_send_event_with_response unit_answer (InsertNewUsdcPaymentDigest x) p = (q, r)" by fastforce
  from digest_recorded [OF this] assms have "r \<noteq> AuthOk ()" "px_messages q = px_messages p + 1" by simp_all
  with AuthOk r show ?thesis by (cases r) (simp_all add: usdc_payment_def)
qed (simp_all add: usdc_payment_def)

lemma paid_digest_is_used:
  assumes "usdc_payment au ac wc cr clock jwt x sig p = (q, AuthOk ())"
  shows "\<not> digest_used x p \<and> digest_used x q"
proof -
  have "\<not> digest_used x p" using used_digest_is_refused [of x p au ac wc cr clock jwt sig] assms by auto
  from assms obtain c p1 where v: "validate_token au ac (time clock p) jwt False = AuthOk c"
    and p1: "auth_send_event_with_response unit_answer (InsertNewUsdcPaymentDigest x) p = (p1, AuthOk ())"
    by (auto simp: usdc_payment_def auth_then_Ok_iff)
  have "digest_used x p1" using digest_recorded [OF p1] by simp
  then have "digest_used x (fst (usdc_payment au ac wc cr clock jwt x sig p))"
    unfolding usdc_payment_def v p1 auth_then.simps
    by (intro digest_kept.auth_then_keeps digest_kept.credit_payment_keeps) simp_all
  with \<open>\<not> digest_used x p\<close> assms show ?thesis by simp
qed

subsection \<open>Properties\<close>

text \<open>Payments one after the other, each with the chain and the clock it meets.\<close>

fun usdc_payments ::
  "'key auth \<Rightarrow> 'key auth_crates \<Rightarrow> ('proof, 'seed, 'pk) wallet_crates
    \<Rightarrow> (chain_reads \<times> clock \<times> string \<times> string \<times> string option) list
    \<Rightarrow> ('f, 'm) proxy \<Rightarrow> ('f, 'm) proxy \<times> (string \<times> unit auth_result) list" where
  "usdc_payments au ac wc [] p = (p, [])"
| "usdc_payments au ac wc ((cr, clock, jwt, digest, sig) # ps) p =
     (case usdc_payment au ac wc cr clock jwt digest sig p of
        (q, r) \<Rightarrow> (case usdc_payments au ac wc ps q of (q', rs) \<Rightarrow> (q', (digest, r) # rs)))"

text \<open>
  C14. A transaction pays at most once: among any payments, by any users and with any
  messages of other requests in between, at most one with a given digest succeeds, and none
  does when the digest has been recorded before.
\<close>

theorem digest_pays_at_most_once:
  fixes p :: "('f, 'm) proxy"
  shows "length (filter (\<lambda>(digest, r). digest = x \<and> r = AuthOk ()) (snd (usdc_payments au ac wc ps p))) \<le>
    (if digest_used x p then 0 else 1)"
proof (induction ps arbitrary: p)
  case (Cons a ps)
  obtain cr clock jwt digest sig where a: "a = (cr, clock, jwt, digest, sig)" by (cases a)
  obtain q r where q: "usdc_payment au ac wc cr clock jwt digest sig p = (q, r)" by fastforce
  obtain q' rs where rs: "usdc_payments au ac wc ps q = (q', rs)" by fastforce
  have kept: "digest_used x p \<Longrightarrow> digest_used x q"
    using digest_kept.usdc_payment_keeps [of x p au ac wc cr clock jwt digest sig] q by simp
  have later: "length (filter (\<lambda>(digest, r). digest = x \<and> r = AuthOk ()) rs) \<le> (if digest_used x q then 0 else 1)"
    using Cons.IH [of q] rs by simp
  show ?case
  proof (cases "digest = x \<and> r = AuthOk ()")
    case True
    with q have "usdc_payment au ac wc cr clock jwt x sig p = (q, AuthOk ())" by simp
    from paid_digest_is_used [OF this] have "\<not> digest_used x p \<and> digest_used x q" .
    moreover have "snd (usdc_payments au ac wc (a # ps) p) = (digest, r) # rs" by (simp add: a q rs)
    ultimately show ?thesis using later True by simp
  next
    case False
    then have "snd (usdc_payments au ac wc (a # ps) p) = (digest, r) # rs" by (simp add: a q rs)
    with False later kept show ?thesis by (auto split: if_splits)
  qed
qed simp

text \<open>What a payment that is alone does, step by step.\<close>

lemma record_digest_alone:
  "alone p \<Longrightarrow> auth_send_event_with_response unit_answer (InsertNewUsdcPaymentDigest x) p =
     (if digest_used x p then (after p (px_db p), AuthErr (AtomaStateManagerError (DatabaseConnectionError UniqueViolation)))
      else (after p ((px_db p)\<lparr>db_digests := db_digests (px_db p) @ [x]\<rparr>), AuthOk ()))"
  using auth_ask_alone [of p "InsertNewUsdcPaymentDigest x" "px_db p" "UnitReply (Inl (DatabaseConnectionError UniqueViolation))"
      unit_answer]
    auth_ask_alone [of p "InsertNewUsdcPaymentDigest x" "(px_db p)\<lparr>db_digests := db_digests (px_db p) @ [x]\<rparr>"
      "UnitReply (Inr ())" unit_answer]
  by (simp add: digest_inserted digest_used_def answer_unit_def send_reply_def)

lemma confirm_user_alone:
  "alone p \<Longrightarrow> auth_send_event_with_response bool_answer (ConfirmUser a uid) p =
     (after p (px_db p), AuthOk (confirm_user (db_users (px_db p)) a uid))"
  using auth_ask_alone [of p "ConfirmUser a uid" "px_db p" _ bool_answer "Inr (confirm_user (db_users (px_db p)) a uid)"]
  by (simp add: send_reply_def)

text \<open>What has to be shown for a payment: the sender is the user's wallet, or has signed the digest.\<close>

definition payer_shown ::
  "('proof, 'seed, 'pk) wallet_crates \<Rightarrow> users \<Rightarrow> string \<Rightarrow> string option \<Rightarrow> string \<Rightarrow> int \<Rightarrow> bool" where
  "payer_shown wc users digest sig sender uid =
     (case sig of
        None \<Rightarrow> confirm_user users sender uid
      | Some signature \<Rightarrow> get_sui_address_from_signature wc signature digest = AuthOk sender)"

lemma confirm_payer_alone:
  assumes "alone p" and "confirm_payer wc digest sig sender uid p = (q, AuthOk ())"
  shows "payer_shown wc (db_users (px_db p)) digest sig sender uid \<and> alone q \<and> px_db q = px_db p"
  using assms
  by (auto simp: confirm_payer_def payer_shown_def auth_then_Ok_iff confirm_user_alone split: option.splits if_splits)

definition credited :: "crypto_balances \<Rightarrow> int \<Rightarrow> int \<Rightarrow> crypto_balances" where
  "credited t uid amount = (case top_up_crypto_balance t uid amount of Inl e \<Rightarrow> t | Inr t' \<Rightarrow> t')"

lemma top_up_alone:
  "alone p \<Longrightarrow> auth_send_event (TopUpBalance uid amount) p =
     (after p ((px_db p)\<lparr>db_crypto := credited (db_crypto (px_db p)) uid amount\<rparr>), AuthOk ())"
  by (simp add: auth_send_alone credited_def split: sum.split)


text \<open>
  The chain of the witnesses: the first attempt fails, then an address has paid 7 to the
  proxy's wallet. The user of the access token has not bound a wallet.
\<close>

definition sample_payer :: string where "sample_payer = [char_of (3 :: nat)]"

definition sample_chain :: chain_reads where
  "sample_chain = \<lparr>cr_parse_digest = (\<lambda>t. Inr (map of_char t)), cr_client = (\<lambda>_. Inr ()),
     cr_transaction = (\<lambda>n d. if n = 0 then Inl ''not found'' else Inr (Some
       [\<lparr>bc_owner = AddressOwner sample_payer, bc_package = Some ''u'', bc_amount = - 7\<rparr>,
        \<lparr>bc_owner = AddressOwner ''own'', bc_package = None, bc_amount = 5\<rparr>,
        \<lparr>bc_owner = AddressOwner ''own'', bc_package = Some ''u'', bc_amount = 7\<rparr>])),
     cr_active_address = Inr ''own'', cr_usdc_package_id = ''u''\<rparr>"


text \<open>
  C29. An attempt uses the digest up whatever comes of it: after a call with a valid access
  token for a digest, whether it credited somebody or failed, no call by any user for this
  digest succeeds. A payment is lost when its payer forgets the proof, when the chain does
  not know the transaction yet, or when another user names the digest first.
\<close>

theorem attempt_uses_the_digest_up:
  fixes p :: "('f, 'm) proxy"
  assumes "alone p" and "validate_token au ac (time clock p) jwt False = AuthOk c"
  shows "snd (usdc_payment au ac wc cr2 clock2 jwt2 x sig2 (fst (usdc_payment au ac wc cr clock jwt x sig p))) \<noteq> AuthOk ()"
proof -
  have recorded: "digest_used x (fst (auth_send_event_with_response unit_answer (InsertNewUsdcPaymentDigest x) p))"
    using assms(1) by (simp add: record_digest_alone digest_used_def)
  have "digest_used x (fst (usdc_payment au ac wc cr clock jwt x sig p))"
    unfolding usdc_payment_def assms(2) auth_then.simps
    by (intro digest_kept.auth_then_keeps digest_kept.credit_payment_keeps recorded) simp_all
  from used_digest_is_refused [OF this] show ?thesis by blast
qed

theorem attempt_uses_the_digest_up_witness:
  "snd (usdc_payment sample_auth sample_auth_crates sample_wallets sample_chain (\<lambda>_. 0) ''A'' ''x'' None sample_token_proxy)
      = AuthErr PaymentNotForThisUser \<and>
    snd (usdc_payment sample_auth sample_auth_crates sample_wallets sample_chain (\<lambda>_. 0) ''A'' ''x'' (Some ''plain'')
      (fst (usdc_payment sample_auth sample_auth_crates sample_wallets sample_chain (\<lambda>_. 0) ''A'' ''x'' None sample_token_proxy)))
      \<noteq> AuthOk ()"
proof -
  have "validate_token sample_auth sample_auth_crates (time (\<lambda>_. 0) sample_token_proxy) ''A'' False = AuthOk sample_access"
    and "snd (usdc_payment sample_auth sample_auth_crates sample_wallets sample_chain (\<lambda>_. 0) ''A'' ''x'' None sample_token_proxy)
      = AuthErr PaymentNotForThisUser"
    by code_simp+
  with attempt_uses_the_digest_up [OF sample_token_proxy_alone] show ?thesis by blast
qed

end
