(* ===== verification/Service.thy ===== *)
theory Service
  imports Payments
begin

text \<open>
  The HTTP service for users and nodes, \<^verbatim>\<open>atoma-proxy-service/src/handlers\<close>: the
  handlers of \<^verbatim>\<open>auth.rs\<close> call the operations of \<open>Tokens\<close> and \<open>Payments\<close>; the others
  and the salt of a user's zkLogin address read and write the database directly, beside the
  state manager. The lemmas show which status a caller gets, who can set prices and
  attestations, and that a user's salt stays the same, unless two first requests for it meet.
\<close>

subsection \<open>Statuses\<close>

text \<open>An answer, an error status, or a panic of the handler's task.\<close>

datatype 'a http = Answer 'a | Status nat | Aborted

definition UNAUTHORIZED :: nat where "UNAUTHORIZED = 401"
definition BAD_REQUEST :: nat where "BAD_REQUEST = 400"
definition NOT_FOUND :: nat where "NOT_FOUND = 404"
definition CONFLICT :: nat where "CONFLICT = 409"
definition INTERNAL_SERVER_ERROR :: nat where "INTERNAL_SERVER_ERROR = 500"

lemmas statuses = UNAUTHORIZED_def BAD_REQUEST_def NOT_FOUND_def CONFLICT_def INTERNAL_SERVER_ERROR_def

fun http_of :: "(auth_error \<Rightarrow> nat) \<Rightarrow> 'a auth_result \<Rightarrow> 'a http" where
  "http_of status (AuthOk a) = Answer a"
| "http_of status (AuthErr e) = Status (status e)"
| "http_of status AuthPanic = Aborted"

fun http_ok_or :: "nat \<Rightarrow> 'e + 'a \<Rightarrow> 'a http" where
  "http_ok_or status (Inr a) = Answer a"
| "http_ok_or status (Inl e) = Status status"

fun http_then :: "'p \<times> 'a http \<Rightarrow> ('a \<Rightarrow> 'p \<Rightarrow> 'p \<times> 'b http) \<Rightarrow> 'p \<times> 'b http" where
  "http_then (p, Answer a) f = f a p"
| "http_then (p, Status n) f = (p, Status n)"
| "http_then (p, Aborted) f = (p, Aborted)"

lemma http_then_Answer_iff:
  "http_then m f = (q, Answer b) \<longleftrightarrow> (\<exists>p a. m = (p, Answer a) \<and> f a p = (q, Answer b))"
  by (cases "(m, f)" rule: http_then.cases) auto

text \<open>An operation of \<^verbatim>\<open>Auth\<close> whose errors become statuses.\<close>

definition http_auth :: "(auth_error \<Rightarrow> nat) \<Rightarrow> 'p \<times> 'a auth_result \<Rightarrow> 'p \<times> 'a http" where
  "http_auth status m = (fst m, http_of status (snd m))"

text \<open>
  A direct access to the database: like a message, it meets what the state manager has
  handled before it, and the environment of its statement, but it needs no running manager.
\<close>

definition direct :: "('f ctx \<Rightarrow> 'f db \<Rightarrow> 'f db \<times> 'a) \<Rightarrow> ('f, 'm) proxy \<Rightarrow> ('f, 'm) proxy \<times> 'a" where
  "direct f p =
     (let mt = px_meet p (px_messages p) in
      case manager_after (px_status p) (mt_earlier mt) (px_db p) of
        (d, st) \<Rightarrow> (case f (mt_ctx mt) d of
          (d', a) \<Rightarrow> (p\<lparr>px_messages := px_messages p + 1, px_db := d', px_status := st\<rparr>, a)))"

definition direct_read :: "('f db \<Rightarrow> state_error + 'a) \<Rightarrow> ('f, 'm) proxy \<Rightarrow> ('f, 'm) proxy \<times> 'a http" where
  "direct_read f p = (case direct (\<lambda>cx d. (d, f d)) p of (q, r) \<Rightarrow> (q, http_ok_or INTERNAL_SERVER_ERROR r))"

fun stored :: "('t \<Rightarrow> 'f db) \<Rightarrow> 'f db \<Rightarrow> state_error + 't \<Rightarrow> 'f db \<times> (state_error + unit)" where
  "stored put d (Inl e) = (d, Inl e)"
| "stored put d (Inr t) = (put t, Inr ())"

definition direct_write ::
  "('f ctx \<Rightarrow> 'f db \<Rightarrow> 'f db \<times> (state_error + unit)) \<Rightarrow> ('f, 'm) proxy \<Rightarrow> ('f, 'm) proxy \<times> unit http" where
  "direct_write f p = (case direct f p of (q, r) \<Rightarrow> (q, http_ok_or INTERNAL_SERVER_ERROR r))"

subsection \<open>The handlers of \<^verbatim>\<open>auth.rs\<close>\<close>

definition get_jwt_from_headers :: "header_map \<Rightarrow> string http" where
  "get_jwt_from_headers headers =
     http_ok_or UNAUTHORIZED (ok_or () (Option.bind (Option.bind (headers ''authorization'') id) (strip_prefix ''Bearer '')))"

definition with_jwt ::
  "header_map \<Rightarrow> (string \<Rightarrow> ('f, 'm) proxy \<Rightarrow> ('f, 'm) proxy \<times> 'a http) \<Rightarrow> ('f, 'm) proxy \<Rightarrow> ('f, 'm) proxy \<times> 'a http" where
  "with_jwt headers f p = http_then (p, get_jwt_from_headers headers) f"

definition service_get_all_api_tokens ::
  "'key auth \<Rightarrow> 'key auth_crates \<Rightarrow> clock \<Rightarrow> header_map \<Rightarrow> ('f, 'm) proxy
    \<Rightarrow> ('f, 'm) proxy \<times> (int \<times> string \<times> int option \<times> int \<times> string) list http" where
  "service_get_all_api_tokens au ac clock headers =
     with_jwt headers (\<lambda>jwt p. http_auth (\<lambda>_. INTERNAL_SERVER_ERROR) (get_all_api_tokens au ac clock jwt p))"

definition service_generate_api_token ::
  "'key auth \<Rightarrow> 'key auth_crates \<Rightarrow> clock \<Rightarrow> string \<Rightarrow> header_map \<Rightarrow> string \<Rightarrow> ('f, 'm) proxy
    \<Rightarrow> ('f, 'm) proxy \<times> string http" where
  "service_generate_api_token au ac clock api_token headers name =
     with_jwt headers (\<lambda>jwt p. http_auth (\<lambda>_. INTERNAL_SERVER_ERROR) (generate_api_token au ac clock api_token jwt name p))"

definition service_revoke_api_token ::
  "'key auth \<Rightarrow> 'key auth_crates \<Rightarrow> clock \<Rightarrow> header_map \<Rightarrow> int \<Rightarrow> ('f, 'm) proxy \<Rightarrow> ('f, 'm) proxy \<times> unit http" where
  "service_revoke_api_token au ac clock headers api_token_id =
     with_jwt headers (\<lambda>jwt p. http_auth (\<lambda>_. INTERNAL_SERVER_ERROR) (revoke_api_token au ac clock jwt api_token_id p))"

definition service_register ::
  "'key auth \<Rightarrow> 'key auth_crates \<Rightarrow> clock \<Rightarrow> string \<Rightarrow> string \<Rightarrow> string \<Rightarrow> ('f, 'm) proxy
    \<Rightarrow> ('f, 'm) proxy \<times> (string \<times> string) http" where
  "service_register au ac clock salt email password p =
     http_auth (\<lambda>e. case e of UserAlreadyRegistered \<Rightarrow> CONFLICT | _ \<Rightarrow> INTERNAL_SERVER_ERROR)
       (auth_register au ac clock salt email password p)"

definition service_login ::
  "'key auth \<Rightarrow> 'key auth_crates \<Rightarrow> clock \<Rightarrow> string \<Rightarrow> string \<Rightarrow> ('f, 'm) proxy
    \<Rightarrow> ('f, 'm) proxy \<times> (string \<times> string) http" where
  "service_login au ac clock email password p =
     http_auth (\<lambda>e. case e of PasswordNotValidOrUserNotFound \<Rightarrow> UNAUTHORIZED | _ \<Rightarrow> INTERNAL_SERVER_ERROR)
       (check_user_password au ac clock email password p)"

definition google_oauth ::
  "'key auth \<Rightarrow> 'key auth_crates \<Rightarrow> clock \<Rightarrow> string \<Rightarrow> string \<Rightarrow> ('f, 'm) proxy
    \<Rightarrow> ('f, 'm) proxy \<times> (string \<times> string) http" where
  "google_oauth au ac clock salt id_token p =
     http_auth (\<lambda>_. UNAUTHORIZED) (check_google_id_token au ac clock salt id_token p)"

definition service_update_sui_address ::
  "'key auth \<Rightarrow> 'key auth_crates \<Rightarrow> ('proof, 'seed, 'pk) wallet_crates \<Rightarrow> clock \<Rightarrow> header_map \<Rightarrow> string
    \<Rightarrow> ('f, 'm) proxy \<Rightarrow> ('f, 'm) proxy \<times> unit http" where
  "service_update_sui_address au ac wc clock headers signature =
     with_jwt headers (\<lambda>jwt p. http_auth (\<lambda>_. INTERNAL_SERVER_ERROR) (auth_update_sui_address au ac wc clock jwt signature p))"

definition service_usdc_payment ::
  "'key auth \<Rightarrow> 'key auth_crates \<Rightarrow> ('proof, 'seed, 'pk) wallet_crates \<Rightarrow> chain_reads \<Rightarrow> clock \<Rightarrow> header_map
    \<Rightarrow> string \<Rightarrow> string option \<Rightarrow> ('f, 'm) proxy \<Rightarrow> ('f, 'm) proxy \<times> unit http" where
  "service_usdc_payment au ac wc cr clock headers digest proof_signature =
     with_jwt headers (\<lambda>jwt p. http_auth (\<lambda>_. INTERNAL_SERVER_ERROR)
       (usdc_payment au ac wc cr clock jwt digest proof_signature p))"

definition service_get_sui_address ::
  "'key auth \<Rightarrow> 'key auth_crates \<Rightarrow> clock \<Rightarrow> header_map \<Rightarrow> ('f, 'm) proxy \<Rightarrow> ('f, 'm) proxy \<times> string option http" where
  "service_get_sui_address au ac clock headers =
     with_jwt headers (\<lambda>jwt p. http_auth (\<lambda>_. INTERNAL_SERVER_ERROR) (auth_get_sui_address au ac clock jwt p))"

text \<open>The user of the token, for the handlers that go on with the database.\<close>

definition with_user ::
  "'key auth \<Rightarrow> 'key auth_crates \<Rightarrow> clock \<Rightarrow> header_map \<Rightarrow> (int \<Rightarrow> ('f, 'm) proxy \<Rightarrow> ('f, 'm) proxy \<times> 'a http)
    \<Rightarrow> ('f, 'm) proxy \<Rightarrow> ('f, 'm) proxy \<times> 'a http" where
  "with_user au ac clock headers f =
     with_jwt headers (\<lambda>jwt p. http_then (http_auth (\<lambda>_. UNAUTHORIZED) (get_user_id_from_token au ac clock jwt p)) f)"

definition get_balance ::
  "'key auth \<Rightarrow> 'key auth_crates \<Rightarrow> clock \<Rightarrow> header_map \<Rightarrow> ('f, 'm) proxy \<Rightarrow> ('f, 'm) proxy \<times> int http" where
  "get_balance au ac clock headers =
     with_user au ac clock headers (\<lambda>uid. direct_read (\<lambda>d. Inr (get_crypto_balance_for_user (db_crypto d) uid)))"

definition service_get_user_profile ::
  "'key auth \<Rightarrow> 'key auth_crates \<Rightarrow> clock \<Rightarrow> header_map \<Rightarrow> ('f, 'm) proxy \<Rightarrow> ('f, 'm) proxy \<times> string http" where
  "service_get_user_profile au ac clock headers =
     with_user au ac clock headers (\<lambda>uid. direct_read (\<lambda>d. get_user_profile (db_users d) uid))"

text \<open>\<open>fresh\<close> are the random bytes in base64; the salt is read and then, when there is none, written.\<close>

definition service_get_zk_salt ::
  "'key auth \<Rightarrow> 'key auth_crates \<Rightarrow> clock \<Rightarrow> string \<Rightarrow> header_map \<Rightarrow> ('f, 'm) proxy \<Rightarrow> ('f, 'm) proxy \<times> string http" where
  "service_get_zk_salt au ac clock fresh headers =
     with_user au ac clock headers (\<lambda>uid p.
       http_then (direct_read (\<lambda>d. Inr (get_zk_salt (db_users d) uid)) p) (\<lambda>zk_salt p.
         case zk_salt of
           Some zk_salt \<Rightarrow> (p, Answer zk_salt)
         | None \<Rightarrow>
             http_then (direct_write (\<lambda>cx d. stored (\<lambda>t. d\<lparr>db_users := t\<rparr>) d (set_zk_salt (db_users d) uid fresh)) p) (\<lambda>_ p.
               (p, Answer fresh))))"

subsection \<open>The other handlers\<close>

definition service_get_current_stacks :: "('f, 'm) proxy \<Rightarrow> ('f, 'm) proxy \<times> stack list http" where
  "service_get_current_stacks = direct_read (\<lambda>d. Inr (get_current_stacks (db_stacks d)))"

definition get_node_stacks :: "int \<Rightarrow> ('f, 'm) proxy \<Rightarrow> ('f, 'm) proxy \<times> stack list http" where
  "get_node_stacks node_small_id = direct_read (\<lambda>d. Inr (get_stack_by_id (db_stacks d) node_small_id))"

definition get_all_stacks_for_user ::
  "'key auth \<Rightarrow> 'key auth_crates \<Rightarrow> clock \<Rightarrow> header_map \<Rightarrow> ('f, 'm) proxy \<Rightarrow> ('f, 'm) proxy \<times> (stack \<times> datetime) list http" where
  "get_all_stacks_for_user au ac clock headers =
     with_user au ac clock headers (\<lambda>uid. direct_read (\<lambda>d. Inr (get_stacks_by_user_id (db_stacks d) uid)))"

definition get_nodes_for_tasks :: "int \<Rightarrow> ('f, 'm) proxy \<Rightarrow> ('f, 'm) proxy \<times> node_subscription list http" where
  "get_nodes_for_tasks tid = direct_read (\<lambda>d. Inr (get_all_node_subscriptions_for_task (db_subscriptions d) tid))"

definition service_get_all_tasks ::
  "(string \<rightharpoonup> string list) \<Rightarrow> ('f, 'm) proxy \<Rightarrow> ('f, 'm) proxy \<times> (task \<times> string list) list http" where
  "service_get_all_tasks models_with_modalities p =
     http_then (direct_read (\<lambda>d. Inr (get_all_tasks (db_tasks d))) p) (\<lambda>all_tasks p.
       (p, Answer (map (\<lambda>task. (task, case Option.bind (model_name task) models_with_modalities of
          None \<Rightarrow> [] | Some modalities \<Rightarrow> modalities)) all_tasks)))"

definition get_all_subscriptions :: "('f, 'm) proxy \<Rightarrow> ('f, 'm) proxy \<times> node_subscription list http" where
  "get_all_subscriptions = direct_read (\<lambda>d. Inr (get_all_node_subscriptions (db_subscriptions d)))"

definition service_get_nodes_distribution :: "('f, 'm) proxy \<Rightarrow> ('f, 'm) proxy \<times> (string option \<times> nat) list http" where
  "service_get_nodes_distribution = direct_read (\<lambda>d. Inr (get_nodes_distribution (db_nodes d)))"

text \<open>\<open>since\<close> is the start that the state manager computes from the hours of the query.\<close>

definition service_get_compute_units_processed ::
  "(string \<Rightarrow> int) \<Rightarrow> datetime option \<Rightarrow> ('f, 'm) proxy \<Rightarrow> ('f, 'm) proxy \<times> 'f units_hour list http" where
  "service_get_compute_units_processed collate since =
     direct_read (\<lambda>d. get_compute_units_processed collate (db_stats_units d) since)"

definition service_get_stats_stacks :: "datetime option \<Rightarrow> ('f, 'm) proxy \<Rightarrow> ('f, 'm) proxy \<times> stats_stack list http" where
  "service_get_stats_stacks since = direct_read (\<lambda>d. get_stats_stacks (db_stats_stacks d) since)"

record set_price_for_user_for_model =
  sp_user_id :: int
  sp_model_name :: string
  sp_price_per_one_million_input_compute_units :: int
  sp_price_per_one_million_output_compute_units :: int

definition set_pricing_for_user ::
  "string \<Rightarrow> header_map \<Rightarrow> set_price_for_user_for_model \<Rightarrow> ('f, 'm) proxy \<Rightarrow> ('f, 'm) proxy \<times> unit http" where
  "set_pricing_for_user settings_password headers body =
     with_jwt headers (\<lambda>bearer_token p.
       if bearer_token \<noteq> settings_password then (p, Status UNAUTHORIZED)
       else direct_write (\<lambda>cx d. stored (\<lambda>t. d\<lparr>db_prices := t\<rparr>) d
         (set_custom_pricing (db_prices d) (cx_now_stamp cx) (sp_user_id body) (sp_model_name body)
           (sp_price_per_one_million_input_compute_units body) (sp_price_per_one_million_output_compute_units body))) p)"

subsection \<open>Attestations of nodes\<close>

text \<open>
  The name of the header, the parser of signatures, their schemes and keys, the bytes that the
  curves take, the hash and the verification are those of crates. The table
  \<^verbatim>\<open>node_attestations\<close> is touched by this handler only.
\<close>

record ('sg, 'pk) service_crates =
  sv_signature_header :: string
  sv_parse_signature :: "string \<Rightarrow> string + 'sg"
  sv_public_key :: "'sg \<Rightarrow> string + 'pk"
  sv_blake2b :: "bytes \<Rightarrow> bytes"
  sv_scheme :: "'sg \<Rightarrow> simple_scheme option"
  sv_curve_key :: "simple_scheme \<Rightarrow> 'pk \<Rightarrow> bool"
  sv_curve_signature :: "simple_scheme \<Rightarrow> 'sg \<Rightarrow> bool"
  sv_verify :: "simple_scheme \<Rightarrow> 'pk \<Rightarrow> bytes \<Rightarrow> 'sg \<Rightarrow> string + unit"
  sv_address :: "'pk \<Rightarrow> string"

definition to_le_bytes :: "int \<Rightarrow> bytes" where
  "to_le_bytes n = map (\<lambda>i. word_of_int (n div 256 ^ i)) [0..<8]"

definition attestation_hash :: "('sg, 'pk) service_crates \<Rightarrow> int \<Rightarrow> bytes \<Rightarrow> bytes" where
  "attestation_hash sv node evidence = sv_blake2b sv (to_le_bytes node @ evidence)"

text \<open>The unwraps of the bytes panic.\<close>

definition verify_attestation ::
  "('sg, 'pk) service_crates \<Rightarrow> bytes \<Rightarrow> 'sg \<Rightarrow> 'pk \<Rightarrow> unit http" where
  "verify_attestation sv hash signature public_key =
     (case sv_scheme sv signature of
        None \<Rightarrow> Status BAD_REQUEST
      | Some scheme \<Rightarrow>
          if \<not> sv_curve_key sv scheme public_key \<or> \<not> sv_curve_signature sv scheme signature then Aborted
          else http_ok_or UNAUTHORIZED (sv_verify sv scheme public_key hash signature))"

definition service_update_node_attestation ::
  "('sg, 'pk) service_crates \<Rightarrow> header_map \<Rightarrow> int \<Rightarrow> bytes \<Rightarrow> int
    \<Rightarrow> ('f, 'm) proxy \<times> attestation_row list \<Rightarrow> (('f, 'm) proxy \<times> attestation_row list) \<times> unit http" where
  "service_update_node_attestation sv headers node evidence now s =
     http_then (s, http_ok_or BAD_REQUEST (ok_or () (Option.bind (headers (sv_signature_header sv)) id))) (\<lambda>header s.
     http_then (s, http_ok_or BAD_REQUEST (sv_parse_signature sv header)) (\<lambda>signature s.
     http_then (s, http_ok_or BAD_REQUEST (sv_public_key sv signature)) (\<lambda>public_key s.
     http_then (s, verify_attestation sv (attestation_hash sv node evidence) signature public_key) (\<lambda>_ (p, attestations).
     case direct_read (\<lambda>d. Inr (get_node_sui_address (db_nodes d) node)) p of
       (p, r) \<Rightarrow>
         http_then ((p, attestations), r) (\<lambda>public_address s.
         http_then (s, http_ok_or NOT_FOUND (ok_or () public_address)) (\<lambda>public_address (p, attestations).
         if public_address \<noteq> sv_address sv public_key then ((p, attestations), Status UNAUTHORIZED)
         else
           (case Registry.update_node_attestation attestations now node evidence of
              Inl e \<Rightarrow> ((p, attestations), Status INTERNAL_SERVER_ERROR)
            | Inr t \<Rightarrow> ((p, t), Answer ()))))))))"

definition service_get_node_attestation ::
  "attestation_row list \<Rightarrow> int \<Rightarrow> (int \<times> bytes) http" where
  "service_get_node_attestation attestations node =
     http_ok_or NOT_FOUND (ok_or () (get_node_attestation attestations node))"

subsection \<open>Lemmas\<close>

lemma direct_alone:
  assumes "alone p"
  shows "direct f p = (case f (mt_ctx (px_meet p (px_messages p))) (px_db p) of (d, a) \<Rightarrow> (after p d, a))"
  using assms by (simp add: direct_def alone_def after_def Let_def split: prod.split)

lemma direct_read_alone: "alone p \<Longrightarrow> direct_read f p = (after p (px_db p), http_ok_or INTERNAL_SERVER_ERROR (f (px_db p)))"
  by (simp add: direct_read_def direct_alone)

lemma direct_write_alone:
  "alone p \<Longrightarrow> direct_write f p =
     (case f (mt_ctx (px_meet p (px_messages p))) (px_db p) of (d, r) \<Rightarrow> (after p d, http_ok_or INTERNAL_SERVER_ERROR r))"
  by (simp add: direct_write_def direct_alone split: prod.split)

lemma with_jwt_cases:
  "with_jwt headers f p = (case bearer_token headers of None \<Rightarrow> (p, Status UNAUTHORIZED) | Some jwt \<Rightarrow> f jwt p)"
  by (simp add: with_jwt_def get_jwt_from_headers_def bearer_token_def split: option.split)

lemma get_user_keeps_db:
  assumes "alone p" and "get_user_id_from_token au ac clock jwt p = (q, r)"
  shows "alone q \<and> px_db q = px_db p \<and> px_meet q = px_meet p"
proof (cases "validate_token au ac (time clock p) jwt False")
  case (AuthOk c)
  then show ?thesis using assms
    by (cases "cl_refresh_token_hash c")
      (auto simp: get_user_id_from_token_def get_claims_from_token_def check_refresh_token_alone split: if_splits)
qed (use assms in \<open>auto simp: get_user_id_from_token_def get_claims_from_token_def\<close>)

text \<open>A handler that asks for the user is refused or goes on with the user and the same database.\<close>

lemma with_user_Answer:
  assumes "alone p" and "with_user au ac clock headers f p = (q, Answer b)"
  shows "\<exists>jwt uid p1. bearer_token headers = Some jwt \<and> get_user_id_from_token au ac clock jwt p = (p1, AuthOk uid) \<and>
    alone p1 \<and> px_db p1 = px_db p \<and> f uid p1 = (q, Answer b)"
proof -
  from assms(2) obtain jwt where jwt: "bearer_token headers = Some jwt"
    and m: "http_then (http_auth (\<lambda>_. UNAUTHORIZED) (get_user_id_from_token au ac clock jwt p)) f = (q, Answer b)"
    by (auto simp: with_user_def with_jwt_cases split: option.splits)
  obtain p1 r where r: "get_user_id_from_token au ac clock jwt p = (p1, r)" by fastforce
  with m obtain uid where "r = AuthOk uid" "f uid p1 = (q, Answer b)"
    by (cases r) (auto simp: http_auth_def)
  with jwt r get_user_keeps_db [OF assms(1) r] show ?thesis by blast
qed

text \<open>The statement that stores a salt, on a table with one row per id.\<close>

lemma set_zk_salt_get:
  assumes "set_zk_salt t uid salt = Inr t'" and "users_inv t"
  shows "get_zk_salt t' v = (if v = uid \<and> uid \<in> u_id ` set t then Some salt else get_zk_salt t v)"
proof -
  from assms(1) obtain u where t': "sql_update (\<lambda>u. sql_is (u_id u = uid)) (\<lambda>u. Inr (u\<lparr>u_zk_salt := Some salt\<rparr>))
      user_store t = Inr (t', u)"
    by (auto simp: set_zk_salt_def res_iffs)
  show ?thesis
  proof (cases "row_of u_id t uid")
    case None
    have "sql_update (\<lambda>u. sql_is (u_id u = uid)) (\<lambda>u. Inr (u\<lparr>u_zk_salt := Some salt\<rparr>)) user_store t = Inr (t, [])"
      by (rule sql_update_key_None [OF None, where c = "\<lambda>q. Inr True"]) (simp add: sql_is_alone [symmetric])
    with t' None show ?thesis by (auto simp: row_of_None_iff)
  next
    case (Some r)
    have "sql_update (\<lambda>u. sql_is (u_id u = uid)) (\<lambda>u. Inr (u\<lparr>u_zk_salt := Some salt\<rparr>)) user_store t =
        res_bind (Inr True) (\<lambda>hit. if hit
          then res_bind (res_bind (Inr (r\<lparr>u_zk_salt := Some salt\<rparr>)) user_store) (\<lambda>r'. Inr (put_row u_id r' t, [r']))
          else Inr (t, []))"
      by (rule sql_update_key [OF _ Some])
        (use assms(2) in \<open>auto simp: users_inv_def sql_is_alone [symmetric] user_store_Inr_iff\<close>)
    with t' have "t' = put_row u_id (r\<lparr>u_zk_salt := Some salt\<rparr>) t" by (auto simp: res_iffs user_store_Inr_iff)
    moreover have r: "r \<in> set t" "u_id r = uid" using Some by (auto dest: row_of_SomeD)
    moreover have "fetch_optional (filter (\<lambda>u. u_id u = v) (map (\<lambda>q. if u_id q = uid then r' else q) xs)) =
        (if v = uid \<and> uid \<in> u_id ` set xs then Some r' else fetch_optional (filter (\<lambda>u. u_id u = v) xs))"
      if "u_id r' = uid" for r' :: user and xs
      using that by (induction xs) auto
    ultimately show ?thesis by (auto simp: get_zk_salt_def put_row_def)
  qed
qed

lemma zk_salt_of_user:
  assumes "alone p" and "users_inv (db_users (px_db p))" and "bearer_token headers = Some jwt"
    and "snd (get_user_id_from_token au ac clock jwt p) = AuthOk uid" and "uid \<in> u_id ` set (db_users (px_db p))"
    and "service_get_zk_salt au ac clock fresh headers p = (q, Answer salt)"
  shows "alone q \<and> get_zk_salt (db_users (px_db q)) uid = Some salt \<and>
    (get_zk_salt (db_users (px_db p)) uid = None \<longrightarrow> salt = fresh) \<and>
    (\<forall>old. get_zk_salt (db_users (px_db p)) uid = Some old \<longrightarrow> salt = old \<and> px_db q = px_db p)"
proof -
  from with_user_Answer [OF assms(1) assms(6) [unfolded service_get_zk_salt_def]] assms(3,4)
  obtain p1 where p1: "alone p1" "px_db p1 = px_db p"
    and rest: "http_then (direct_read (\<lambda>d. Inr (get_zk_salt (db_users d) uid)) p1) (\<lambda>zk_salt p.
         case zk_salt of
           Some zk_salt \<Rightarrow> (p, Answer zk_salt)
         | None \<Rightarrow>
             http_then (direct_write (\<lambda>cx d. stored (\<lambda>t. d\<lparr>db_users := t\<rparr>) d (set_zk_salt (db_users d) uid fresh)) p) (\<lambda>_ p.
               (p, Answer fresh))) = (q, Answer salt)"
    by auto
  show ?thesis
  proof (cases "get_zk_salt (db_users (px_db p)) uid")
    case (Some old)
    with rest p1 show ?thesis by (auto simp: direct_read_alone)
  next
    case None
    with rest p1 obtain t where t: "set_zk_salt (db_users (px_db p)) uid fresh = Inr t"
      and q: "salt = fresh" "alone q" "px_db q = (px_db p)\<lparr>db_users := t\<rparr>"
      by (cases "set_zk_salt (db_users (px_db p)) uid fresh") (auto simp: direct_read_alone direct_write_alone)
    from set_zk_salt_get [OF t assms(2), of uid] assms(5) q None show ?thesis by simp
  qed
qed

subsection \<open>Properties\<close>


definition sample_service_headers :: header_map where
  "sample_service_headers = (\<lambda>_. None)(''authorization'' := Some (Some ''Bearer A''))"

definition sample_service_proxy :: "(int, unit) proxy" where
  "sample_service_proxy = sample_token_proxy\<lparr>px_db := (px_db sample_token_proxy)\<lparr>
     db_refresh_tokens := [\<lparr>rt_id = 1, rt_user_id = 1, rt_token_hash = ''#R''\<rparr>]\<rparr>\<rparr>"

lemma sample_service_proxy_alone: "alone sample_service_proxy"
  using sample_token_proxy_alone by (simp add: sample_service_proxy_def)

definition sample_salt_call :: "string \<Rightarrow> (int, unit) proxy \<Rightarrow> (int, unit) proxy \<times> string http" where
  "sample_salt_call fresh = service_get_zk_salt sample_auth sample_auth_crates (\<lambda>_. 0) fresh sample_service_headers"


text \<open>
  Two first requests that meet get different salts: here another request of user 1 stores its
  salt between the read and the write of this one, and loses it.
\<close>

lemma concurrent_salts_differ:
  "let p = sample_service_proxy\<lparr>px_meet := (px_meet sample_service_proxy)(2 := \<lparr>mt_earlier =
       [ProxyEvent (sample_ctx True) (SetSalt 1 ''other'')], mt_ahead = [], mt_ctx = sample_ctx True\<rparr>)\<rparr>;
     r = sample_salt_call ''mine'' p
   in snd r = Answer ''mine'' \<and> get_zk_salt (db_users (px_db (fst r))) 1 = Some ''mine''"
  by code_simp

lemma stored_snd [simp]: "snd (stored put d m) = (case m of Inl e \<Rightarrow> Inl e | Inr t \<Rightarrow> Inr ())"
  by (cases m) simp_all

text \<open>
  Prices of users are set only with the settings password: when the prices in the database
  are not as before, the bearer token was the password, and exactly one price has been
  added, the one of the body.
\<close>

theorem prices_need_the_password:
  fixes p :: "('f, 'm) proxy"
  assumes "alone p" and "set_pricing_for_user settings_password headers body p = (q, r)"
  shows "px_db q = px_db p \<and> r \<noteq> Answer () \<or>
    bearer_token headers = Some settings_password \<and> r = Answer () \<and>
    (\<exists>row. px_db q = (px_db p)\<lparr>db_prices := db_prices (px_db p) @ [row]\<rparr> \<and> mp_user_id row = sp_user_id body \<and>
      mp_model_name row = sp_model_name body \<and>
      mp_price_per_one_million_input_compute_units row = sp_price_per_one_million_input_compute_units body \<and>
      mp_price_per_one_million_output_compute_units row = sp_price_per_one_million_output_compute_units body)"
proof (cases "bearer_token headers = Some settings_password")
  case True
  let ?cx = "mt_ctx (px_meet p (px_messages p))"
  define m where "m = set_custom_pricing (db_prices (px_db p)) (cx_now_stamp ?cx) (sp_user_id body) (sp_model_name body)
    (sp_price_per_one_million_input_compute_units body) (sp_price_per_one_million_output_compute_units body)"
  have q: "(q, r) = (case stored (\<lambda>t. (px_db p)\<lparr>db_prices := t\<rparr>) (px_db p) m of
      (d, r) \<Rightarrow> (after p d, http_ok_or INTERNAL_SERVER_ERROR r))"
    using assms True by (simp add: set_pricing_for_user_def with_jwt_cases direct_write_alone m_def)
  show ?thesis
  proof (cases m)
    case (Inl e)
    with q show ?thesis by simp
  next
    case (Inr t)
    then have "\<exists>row. t = db_prices (px_db p) @ [row] \<and> mp_user_id row = sp_user_id body \<and>
        mp_model_name row = sp_model_name body \<and>
        mp_price_per_one_million_input_compute_units row = sp_price_per_one_million_input_compute_units body \<and>
        mp_price_per_one_million_output_compute_units row = sp_price_per_one_million_output_compute_units body"
      by (auto simp: m_def set_custom_pricing_def sql_insert_def res_iffs split: if_splits)
    with q Inr True show ?thesis by auto
  qed
next
  case False
  then show ?thesis using assms
    by (auto simp: set_pricing_for_user_def with_jwt_cases split: option.splits)
qed

definition sample_price :: set_price_for_user_for_model where
  "sample_price = \<lparr>sp_user_id = 1, sp_model_name = ''m'', sp_price_per_one_million_input_compute_units = 2,
     sp_price_per_one_million_output_compute_units = 3\<rparr>"

theorem prices_need_the_password_witness:
  "\<exists>q row. set_pricing_for_user ''A'' sample_service_headers sample_price sample_service_proxy = (q, Answer ()) \<and>
    db_prices (px_db q) = [row] \<and> mp_price_per_one_million_output_compute_units row = 3"
proof -
  define q where "q = fst (set_pricing_for_user ''A'' sample_service_headers sample_price sample_service_proxy)"
  have "snd (set_pricing_for_user ''A'' sample_service_headers sample_price sample_service_proxy) = Answer ()" by code_simp
  then have q: "set_pricing_for_user ''A'' sample_service_headers sample_price sample_service_proxy = (q, Answer ())"
    by (simp add: q_def prod_eq_iff)
  have "db_prices (px_db sample_service_proxy) = []" by code_simp
  with prices_need_the_password [OF sample_service_proxy_alone q] q show ?thesis by (auto simp: sample_price_def)
qed


definition sample_service_crates :: "(bytes, string) service_crates" where
  "sample_service_crates = \<lparr>sv_signature_header = ''x-signature'', sv_parse_signature = (\<lambda>t. Inr (map of_char t)),
     sv_public_key = (\<lambda>s. Inr ''owner''), sv_blake2b = rev, sv_scheme = (\<lambda>s. Some Ed25519), sv_curve_key = (\<lambda>_ _. True),
     sv_curve_signature = (\<lambda>_ _. True), sv_verify = (\<lambda>_ _ hash s. if s = map of_char ''ok'' then Inr () else Inl ''invalid''),
     sv_address = id\<rparr>"

definition sample_node_proxy :: "(int, unit) proxy" where
  "sample_node_proxy = sample_service_proxy\<lparr>px_db := (px_db sample_service_proxy)\<lparr>db_nodes :=
     [\<lparr>nd_node_small_id = 4, nd_node_id = ''n'', nd_sui_address = ''owner'', nd_public_address = None, nd_country = None,
       nd_timestamp = None\<rparr>]\<rparr>\<rparr>"

definition sample_attestation_call :: "((int, unit) proxy \<times> attestation_row list) \<times> unit http" where
  "sample_attestation_call = service_update_node_attestation sample_service_crates
     ((\<lambda>_. None)(''x-signature'' := Some (Some ''ok''))) 4 [1, 2] 9 (sample_node_proxy, [])"


text \<open>
  Without a bearer token nothing is read or written: every handler for a user is answered
  with 401 before it looks at the state.
\<close>

theorem no_token_no_access:
  assumes "bearer_token headers = None"
  shows "service_get_all_api_tokens au ac clock headers p = (p, Status 401) \<and>
    service_generate_api_token au ac clock token headers name p = (p, Status 401) \<and>
    service_revoke_api_token au ac clock headers tid p = (p, Status 401) \<and>
    service_update_sui_address au ac wc clock headers signature p = (p, Status 401) \<and>
    service_usdc_payment au ac wc cr clock headers digest sig p = (p, Status 401) \<and>
    service_get_sui_address au ac clock headers p = (p, Status 401) \<and>
    get_balance au ac clock headers p = (p, Status 401) \<and>
    service_get_user_profile au ac clock headers p = (p, Status 401) \<and>
    service_get_zk_salt au ac clock fresh headers p = (p, Status 401) \<and>
    get_all_stacks_for_user au ac clock headers p = (p, Status 401) \<and>
    set_pricing_for_user password headers body p = (p, Status 401)"
  using assms
  by (simp add: service_get_all_api_tokens_def service_generate_api_token_def service_revoke_api_token_def
      service_update_sui_address_def service_usdc_payment_def service_get_sui_address_def get_balance_def
      service_get_user_profile_def service_get_zk_salt_def get_all_stacks_for_user_def set_pricing_for_user_def
      with_user_def with_jwt_cases statuses)

end
