(* ===== verification/Metrics.thy ===== *)
theory Metrics
  imports Tokens
begin

text \<open>
  The collection of node metrics, \<^verbatim>\<open>atoma-state/src/metrics.rs\<close>: what nodes report goes into
  gauges for Prometheus, every three minutes Prometheus is asked for the best nodes of each
  model, and the answers are handed out on request. The lemmas show that the labels of a
  node are read back, that a node changes its own gauges only, where a list of best nodes comes
  from, and that it is never replaced.
\<close>

subsection \<open>Errors\<close>

datatype metrics_service_error =
    IoError string
  | PrometheusError string
  | MetricsReqwestError string
  | TimerError string
  | ModelNotFound string
  | FlumeRecvError
  | MetricsChannelSendError
  | NodeSmallIdLabelNotFound

datatype 'a metrics_result = MetricsOk 'a | MetricsErr metrics_service_error | MetricsPanic

fun metrics_bind :: "'a metrics_result \<Rightarrow> ('a \<Rightarrow> 'b metrics_result) \<Rightarrow> 'b metrics_result" where
  "metrics_bind (MetricsOk a) f = f a"
| "metrics_bind (MetricsErr e) f = MetricsErr e"
| "metrics_bind MetricsPanic f = MetricsPanic"

lemma metrics_bind_Ok_iff: "metrics_bind m f = MetricsOk b \<longleftrightarrow> (\<exists>a. m = MetricsOk a \<and> f a = MetricsOk b)"
  by (cases m) auto

subsection \<open>Gauges\<close>

text \<open>
  The reports of a node, with their fields that are used; \<open>'n\<close> are the \<^verbatim>\<open>f64\<close> values.
  A gauge maps the labels \<^verbatim>\<open>model\<close> and \<^verbatim>\<open>node_small_id\<close> to its value.
\<close>

record 'n chat_completions_metrics =
  cm_gpu_kv_cache_usage_perc :: 'n
  cm_avg_request_queue_latency :: "'n option"
  cm_time_to_first_token :: 'n
  cm_time_per_output_token :: 'n
  cm_num_running_requests :: "32 word"
  cm_num_waiting_requests :: "32 word"

record 'n embeddings_metrics =
  em_embeddings_queue_duration :: 'n
  em_embeddings_inference_duration :: 'n
  em_embeddings_input_length :: 'n
  em_embeddings_batch_size :: 'n
  em_embeddings_batch_tokens :: 'n

record 'n image_generation_metrics =
  im_image_generation_latency :: 'n
  im_num_running_requests :: "32 word"

datatype 'n model_metrics =
    ChatCompletionsReport "'n chat_completions_metrics"
  | EmbeddingsReport "'n embeddings_metrics"
  | ImageGenerationReport "'n image_generation_metrics"

type_synonym 'n gauge_vec = "string \<times> string \<rightharpoonup> 'n"

record 'n node_metrics_collector =
  avg_waiting_queue_duration :: "'n gauge_vec"
  chat_completions_gpu_kv_cache_usage :: "'n gauge_vec"
  chat_completions_ttft :: "'n gauge_vec"
  chat_completions_tpot :: "'n gauge_vec"
  chat_completions_num_running_requests :: "'n gauge_vec"
  chat_completions_num_waiting_requests :: "'n gauge_vec"
  embeddings_queue_duration :: "'n gauge_vec"
  embeddings_inference_duration :: "'n gauge_vec"
  embeddings_input_length :: "'n gauge_vec"
  embeddings_batch_size :: "'n gauge_vec"
  embeddings_batch_tokens :: "'n gauge_vec"
  image_generation_latency :: "'n gauge_vec"
  image_generation_num_running_requests :: "'n gauge_vec"

text \<open>Zero and the conversion \<^verbatim>\<open>f64::from\<close>.\<close>

record 'n floats =
  fl_zero :: 'n
  fl_of_u32 :: "32 word \<Rightarrow> 'n"

definition store_chat_completions_metrics ::
  "'n floats \<Rightarrow> 'n chat_completions_metrics \<Rightarrow> string \<Rightarrow> int \<Rightarrow> 'n node_metrics_collector \<Rightarrow> 'n node_metrics_collector" where
  "store_chat_completions_metrics fl m model node c =
     (let labels = (model, show_id node) in
      c\<lparr>chat_completions_gpu_kv_cache_usage := (chat_completions_gpu_kv_cache_usage c)(labels \<mapsto> cm_gpu_kv_cache_usage_perc m),
        avg_waiting_queue_duration := (avg_waiting_queue_duration c)(labels \<mapsto>
          (case cm_avg_request_queue_latency m of None \<Rightarrow> fl_zero fl | Some l \<Rightarrow> l)),
        chat_completions_ttft := (chat_completions_ttft c)(labels \<mapsto> cm_time_to_first_token m),
        chat_completions_tpot := (chat_completions_tpot c)(labels \<mapsto> cm_time_per_output_token m),
        chat_completions_num_running_requests :=
          (chat_completions_num_running_requests c)(labels \<mapsto> fl_of_u32 fl (cm_num_running_requests m)),
        chat_completions_num_waiting_requests :=
          (chat_completions_num_waiting_requests c)(labels \<mapsto> fl_of_u32 fl (cm_num_waiting_requests m))\<rparr>)"

definition store_embeddings_metrics ::
  "'n embeddings_metrics \<Rightarrow> string \<Rightarrow> int \<Rightarrow> 'n node_metrics_collector \<Rightarrow> 'n node_metrics_collector" where
  "store_embeddings_metrics m model node c =
     (let labels = (model, show_id node) in
      c\<lparr>embeddings_queue_duration := (embeddings_queue_duration c)(labels \<mapsto> em_embeddings_queue_duration m),
        embeddings_inference_duration := (embeddings_inference_duration c)(labels \<mapsto> em_embeddings_inference_duration m),
        embeddings_input_length := (embeddings_input_length c)(labels \<mapsto> em_embeddings_input_length m),
        embeddings_batch_size := (embeddings_batch_size c)(labels \<mapsto> em_embeddings_batch_size m),
        embeddings_batch_tokens := (embeddings_batch_tokens c)(labels \<mapsto> em_embeddings_batch_tokens m)\<rparr>)"

definition store_image_generation_metrics ::
  "'n floats \<Rightarrow> 'n image_generation_metrics \<Rightarrow> string \<Rightarrow> int \<Rightarrow> 'n node_metrics_collector \<Rightarrow> 'n node_metrics_collector" where
  "store_image_generation_metrics fl m model node c =
     (let labels = (model, show_id node) in
      c\<lparr>image_generation_latency := (image_generation_latency c)(labels \<mapsto> im_image_generation_latency m),
        image_generation_num_running_requests :=
          (image_generation_num_running_requests c)(labels \<mapsto> fl_of_u32 fl (im_num_running_requests m))\<rparr>)"

text \<open>The report of a node by model, in the order of its map.\<close>

fun store_metrics ::
  "'n floats \<Rightarrow> (string \<times> 'n model_metrics) list \<Rightarrow> int \<Rightarrow> 'n node_metrics_collector \<Rightarrow> 'n node_metrics_collector" where
  "store_metrics fl [] node c = c"
| "store_metrics fl ((model, metrics) # ms) node c =
     store_metrics fl ms node
       (case metrics of
          ChatCompletionsReport m \<Rightarrow> store_chat_completions_metrics fl m model node c
        | EmbeddingsReport m \<Rightarrow> store_embeddings_metrics m model node c
        | ImageGenerationReport m \<Rightarrow> store_image_generation_metrics fl m model node c)"

definition reset_metrics :: "'n node_metrics_collector \<Rightarrow> 'n node_metrics_collector" where
  "reset_metrics c =
     c\<lparr>chat_completions_gpu_kv_cache_usage := Map.empty, avg_waiting_queue_duration := Map.empty,
       chat_completions_ttft := Map.empty, chat_completions_tpot := Map.empty,
       chat_completions_num_running_requests := Map.empty, chat_completions_num_waiting_requests := Map.empty,
       embeddings_queue_duration := Map.empty, embeddings_inference_duration := Map.empty,
       embeddings_input_length := Map.empty, embeddings_batch_size := Map.empty, embeddings_batch_tokens := Map.empty,
       image_generation_latency := Map.empty, image_generation_num_running_requests := Map.empty\<rparr>"

subsection \<open>Queries\<close>

definition line :: "nat \<Rightarrow> string" where
  "line indent = CHR 0x0A # replicate indent (CHR '' '')"

definition series :: "string \<Rightarrow> string \<Rightarrow> string" where
  "series name model = name @ ''{model='' @ [CHR 0x22] @ model @ [CHR 0x22] @ ''}''"

definition chat_completions_query :: "string \<Rightarrow> nat \<Rightarrow> string" where
  "chat_completions_query model top_k =
     ''topk('' @ decimal top_k @ '','' @ line 16 @ ''-1 * ('' @ line 20 @ ''('' @
     line 24 @ series ''chat_time_to_first_token'' model @ '' +'' @
     line 24 @ series ''chat_time_per_output_token'' model @
     line 20 @ '') unless ('' @
     line 24 @ series ''chat_num_waiting_requests'' model @ '' /'' @
     line 24 @ ''('' @ series ''chat_num_running_requests'' model @ '' or vector(1)) >= 0.1'' @
     line 20 @ '')'' @ line 16 @ '')'' @ line 12 @ '')''"

definition embeddings_query :: "string \<Rightarrow> nat \<Rightarrow> string" where
  "embeddings_query model top_k =
     ''topk('' @ decimal top_k @ '','' @ line 16 @ ''-1 * ('' @
     line 20 @ ''('' @ series ''embeddings_queue_duration'' model @ '' + '' @
     line 20 @ series ''embeddings_inference_duration'' model @ '') * '' @
     line 20 @ ''(1 + ('' @ series ''embeddings_batch_tokens'' model @ '' / '' @
     line 26 @ ''max('' @ series ''embeddings_batch_size'' model @ '', 1) / 1000000))'' @
     line 16 @ '')'' @ line 12 @ '')''"

definition image_generation_query :: "string \<Rightarrow> nat \<Rightarrow> string" where
  "image_generation_query model top_k =
     ''topk('' @ decimal top_k @ '','' @ line 16 @ ''-1 * ('' @
     line 20 @ series ''image_generation_latency'' model @
     line 16 @ '')'' @ line 12 @ '')''"

text \<open>\<^verbatim>\<open>str::parse::<i64>\<close>\<close>

definition parse_i64 :: "string \<Rightarrow> int option" where
  "parse_i64 s =
     (let minus = (s \<noteq> [] \<and> hd s = CHR ''-''); plus = (s \<noteq> [] \<and> hd s = CHR ''+'');
          digits = (if minus \<or> plus then tl s else s) in
      if digits = [] then None
      else case decimal_value digits 0 of
          None \<Rightarrow> None
        | Some n \<Rightarrow> let x = (if minus then - int n else int n) in if in_i64 x then Some x else None)"

text \<open>
  The results of a query by their labels. The unwraps of a label that is missing or is not a
  number panic. \<open>prom\<close> is the HTTP client with Prometheus at a url, for one query.
\<close>

type_synonym prometheus = "string \<Rightarrow> string \<Rightarrow> string + (string \<rightharpoonup> string) list"

fun node_ids_of :: "(string \<rightharpoonup> string) list \<Rightarrow> int list metrics_result" where
  "node_ids_of [] = MetricsOk []"
| "node_ids_of (metric # results) =
     (case Option.bind (metric ''node_small_id'') parse_i64 of
        None \<Rightarrow> MetricsPanic
      | Some node_small_id \<Rightarrow> metrics_bind (node_ids_of results) (\<lambda>ids. MetricsOk (node_small_id # ids)))"

definition retrieve_prometheus_metrics :: "prometheus \<Rightarrow> string \<Rightarrow> string \<Rightarrow> int list metrics_result" where
  "retrieve_prometheus_metrics prom metrics_url query =
     (case prom (metrics_url @ ''/api/v1/query'') query of
        Inl e \<Rightarrow> MetricsErr (MetricsReqwestError e)
      | Inr results \<Rightarrow> node_ids_of results)"

datatype modalities = ChatCompletions | Embeddings | ImagesGenerations

definition DEFAULT_TOP_K_BEST_AVAILABLE_NODES :: nat where "DEFAULT_TOP_K_BEST_AVAILABLE_NODES = 10"

definition top_k_of :: "nat option \<Rightarrow> nat" where
  "top_k_of top_k = (case top_k of None \<Rightarrow> DEFAULT_TOP_K_BEST_AVAILABLE_NODES | Some k \<Rightarrow> k)"

definition retrieve_best_available_nodes_for_chat_completions ::
  "prometheus \<Rightarrow> string \<Rightarrow> string \<Rightarrow> nat option \<Rightarrow> int list metrics_result" where
  "retrieve_best_available_nodes_for_chat_completions prom metrics_url model top_k =
     retrieve_prometheus_metrics prom metrics_url (chat_completions_query model (top_k_of top_k))"

definition retrieve_best_available_nodes_for_embeddings ::
  "prometheus \<Rightarrow> string \<Rightarrow> string \<Rightarrow> nat option \<Rightarrow> int list metrics_result" where
  "retrieve_best_available_nodes_for_embeddings prom metrics_url model top_k =
     retrieve_prometheus_metrics prom metrics_url (embeddings_query model (top_k_of top_k))"

definition retrieve_best_available_nodes_for_image_generation ::
  "prometheus \<Rightarrow> string \<Rightarrow> string \<Rightarrow> nat option \<Rightarrow> int list metrics_result" where
  "retrieve_best_available_nodes_for_image_generation prom metrics_url model top_k =
     retrieve_prometheus_metrics prom metrics_url (image_generation_query model (top_k_of top_k))"

definition retrieve_best ::
  "prometheus \<Rightarrow> string \<Rightarrow> nat option \<Rightarrow> modalities \<Rightarrow> string \<Rightarrow> int list metrics_result" where
  "retrieve_best prom metrics_url top_k modality model =
     (case modality of
        ChatCompletions \<Rightarrow> retrieve_best_available_nodes_for_chat_completions prom metrics_url model top_k
      | Embeddings \<Rightarrow> retrieve_best_available_nodes_for_embeddings prom metrics_url model top_k
      | ImagesGenerations \<Rightarrow> retrieve_best_available_nodes_for_image_generation prom metrics_url model top_k)"

subsection \<open>The collection and its loop\<close>

record metrics_collection_config =
  mc_metrics_url :: string
  mc_models :: "(modalities \<times> string) list"
  mc_top_k :: "nat option"

text \<open>
  \<^verbatim>\<open>try_join_all\<close> runs the futures together: \<open>order\<close> are the models whose futures come to an
  end, in that order. The first error or panic ends the collection; what was inserted before
  it stays.
\<close>

definition insert_best :: "string \<Rightarrow> int list \<Rightarrow> (string \<rightharpoonup> int list) \<Rightarrow> (string \<rightharpoonup> int list)" where
  "insert_best model nodes best = (case best model of None \<Rightarrow> best(model \<mapsto> nodes) | Some _ \<Rightarrow> best)"

fun collect_best_available_nodes ::
  "prometheus \<Rightarrow> string \<Rightarrow> nat option \<Rightarrow> (modalities \<times> string) list \<Rightarrow> (string \<rightharpoonup> int list)
    \<Rightarrow> (string \<rightharpoonup> int list) \<times> unit metrics_result" where
  "collect_best_available_nodes prom metrics_url top_k [] best = (best, MetricsOk ())"
| "collect_best_available_nodes prom metrics_url top_k ((modality, model) # order) best =
     (case retrieve_best prom metrics_url top_k modality model of
        MetricsErr e \<Rightarrow> (best, MetricsErr e)
      | MetricsPanic \<Rightarrow> (best, MetricsPanic)
      | MetricsOk nodes \<Rightarrow>
          collect_best_available_nodes prom metrics_url top_k order (insert_best model nodes best))"

text \<open>A request for a model, with whether its requester still waits for the answer.\<close>

definition send_best_available_nodes ::
  "(string \<rightharpoonup> int list) \<Rightarrow> string \<Rightarrow> bool \<Rightarrow> metrics_service_error + int list" where
  "send_best_available_nodes best model waits =
     res_bind (ok_or (ModelNotFound model) (best model)) (\<lambda>nodes.
       if waits then Inr nodes else Inl MetricsChannelSendError)"

datatype 'n metrics_event =
    SelectionTick prometheus "(modalities \<times> string) list"
  | MetricsCollected int "(string \<times> 'n model_metrics) list"
  | MetricsClosed
  | BestRequested string bool
  | RequestsClosed
  | MetricsShutdown bool
  | MetricsShutdownClosed

datatype task_status = Looping | Ended | TaskCrashed

record 'n metrics_state =
  mt_best :: "string \<rightharpoonup> int list"
  mt_collector :: "'n node_metrics_collector"

text \<open>One turn of the loop, with the answer it sends. Errors are only logged.\<close>

fun metrics_step ::
  "metrics_collection_config \<Rightarrow> 'n floats \<Rightarrow> 'n metrics_event \<Rightarrow> 'n metrics_state
    \<Rightarrow> 'n metrics_state \<times> (string \<times> int list) list \<times> task_status" where
  "metrics_step cfg fl (SelectionTick prom order) s =
     (case collect_best_available_nodes prom (mc_metrics_url cfg) (mc_top_k cfg) order (mt_best s) of
        (best, MetricsPanic) \<Rightarrow> (s\<lparr>mt_best := best\<rparr>, [], TaskCrashed)
      | (best, _) \<Rightarrow> (s\<lparr>mt_best := best, mt_collector := reset_metrics (mt_collector s)\<rparr>, [], Looping))"
| "metrics_step cfg fl (MetricsCollected node metrics) s =
     (s\<lparr>mt_collector := store_metrics fl metrics node (mt_collector s)\<rparr>, [], Looping)"
| "metrics_step cfg fl MetricsClosed s = (s, [], Looping)"
| "metrics_step cfg fl (BestRequested model waits) s =
     (s, (case send_best_available_nodes (mt_best s) model waits of Inl e \<Rightarrow> [] | Inr nodes \<Rightarrow> [(model, nodes)]), Looping)"
| "metrics_step cfg fl RequestsClosed s = (s, [], Looping)"
| "metrics_step cfg fl (MetricsShutdown b) s = (s, [], if b then Ended else Looping)"
| "metrics_step cfg fl MetricsShutdownClosed s = (s, [], Ended)"

fun metrics_run ::
  "metrics_collection_config \<Rightarrow> 'n floats \<Rightarrow> 'n metrics_event list \<Rightarrow> 'n metrics_state
    \<Rightarrow> 'n metrics_state \<times> (string \<times> int list) list \<times> task_status" where
  "metrics_run cfg fl [] s = (s, [], Looping)"
| "metrics_run cfg fl (ev # evs) s =
     (case metrics_step cfg fl ev s of
        (s', sent, Looping) \<Rightarrow> (case metrics_run cfg fl evs s' of (s2, sent2, st) \<Rightarrow> (s2, sent @ sent2, st))
      | (s', sent, st) \<Rightarrow> (s', sent, st))"

subsection \<open>Labels\<close>

lemma decimal_head: "decimal n \<noteq> [] \<and> hd (decimal n) \<noteq> CHR ''-'' \<and> hd (decimal n) \<noteq> CHR ''+''"
proof -
  obtain c s where d: "decimal n = c # s" using decimal_not_Nil by (cases "decimal n") auto
  then have "c \<noteq> CHR ''+''" using decimal_no_sign [of c n] by simp
  with d decimal_no_minus(1) [of n s] show ?thesis by auto
qed

lemma parse_show_id: "in_i64 n \<Longrightarrow> parse_i64 (show_id n) = Some n"
proof -
  assume n: "in_i64 n"
  have read: "decimal_value (decimal k) 0 = Some k" for k using decimal_value_decimal [of k 0] by auto
  show ?thesis
  proof (cases "n < 0")
    case True
    then show ?thesis using n decimal_head [of "nat (- n)"] by (simp add: parse_i64_def show_id_def read Let_def)
  next
    case False
    then show ?thesis using n decimal_head [of "nat n"] by (simp add: parse_i64_def show_id_def read Let_def)
  qed
qed

text \<open>The gauges of a collector, and what one of them holds for a node.\<close>

definition gauges :: "'n node_metrics_collector \<Rightarrow> 'n gauge_vec list" where
  "gauges c = [avg_waiting_queue_duration c, chat_completions_gpu_kv_cache_usage c, chat_completions_ttft c,
     chat_completions_tpot c, chat_completions_num_running_requests c, chat_completions_num_waiting_requests c,
     embeddings_queue_duration c, embeddings_inference_duration c, embeddings_input_length c, embeddings_batch_size c,
     embeddings_batch_tokens c, image_generation_latency c, image_generation_num_running_requests c]"

definition read_gauges :: "'n node_metrics_collector \<Rightarrow> string \<Rightarrow> int \<Rightarrow> 'n option list" where
  "read_gauges c model node = map (\<lambda>g. g (model, show_id node)) (gauges c)"

lemmas store_defs = store_chat_completions_metrics_def store_embeddings_metrics_def store_image_generation_metrics_def

lemma store_metrics_frame:
  "m \<notin> fst ` set metrics \<or> other \<noteq> node \<Longrightarrow>
   read_gauges (store_metrics fl metrics node c) m other = read_gauges c m other"
proof (induction fl metrics node c rule: store_metrics.induct)
  case (2 fl model metrics ms node c)
  then show ?case
    by (cases metrics) (auto simp: read_gauges_def gauges_def store_defs Let_def show_id_inj)
qed simp

lemma store_metrics_append:
  "store_metrics fl (xs @ ys) node c = store_metrics fl ys node (store_metrics fl xs node c)"
  by (induction fl xs node c rule: store_metrics.induct) simp_all

text \<open>What the reports of one model put into the gauges.\<close>

definition reported :: "'n floats \<Rightarrow> 'n model_metrics \<Rightarrow> 'n option list \<Rightarrow> 'n option list" where
  "reported fl metrics old =
     (case metrics of
        ChatCompletionsReport m \<Rightarrow>
          map Some [case cm_avg_request_queue_latency m of None \<Rightarrow> fl_zero fl | Some l \<Rightarrow> l, cm_gpu_kv_cache_usage_perc m,
            cm_time_to_first_token m, cm_time_per_output_token m, fl_of_u32 fl (cm_num_running_requests m),
            fl_of_u32 fl (cm_num_waiting_requests m)] @ drop 6 old
      | EmbeddingsReport m \<Rightarrow>
          take 6 old @ map Some [em_embeddings_queue_duration m, em_embeddings_inference_duration m,
            em_embeddings_input_length m, em_embeddings_batch_size m, em_embeddings_batch_tokens m] @ drop 11 old
      | ImageGenerationReport m \<Rightarrow>
          take 11 old @ map Some [im_image_generation_latency m, fl_of_u32 fl (im_num_running_requests m)])"

lemma store_one: "read_gauges (store_metrics fl [(model, metrics)] node c) model node = reported fl metrics (read_gauges c model node)"
  by (cases metrics) (simp_all add: read_gauges_def gauges_def store_defs Let_def reported_def)

subsection \<open>The lists of best nodes\<close>

lemma insert_best_keeps: "best model = Some nodes \<Longrightarrow> insert_best m ns best model = Some nodes"
  by (auto simp: insert_best_def split: option.split)

lemma collect_keeps:
  "best model = Some nodes \<Longrightarrow> fst (collect_best_available_nodes prom url k order best) model = Some nodes"
  by (induction prom url k order best rule: collect_best_available_nodes.induct)
    (auto simp: insert_best_keeps split: metrics_result.split)

lemma step_keeps:
  "mt_best s model = Some nodes \<Longrightarrow> metrics_step cfg fl ev s = (s', sent, st) \<Longrightarrow>
   mt_best s' model = Some nodes \<and> (\<forall>ns. (model, ns) \<in> set sent \<longrightarrow> ns = nodes)"
proof (cases ev)
  case (SelectionTick prom order)
  assume "mt_best s model = Some nodes" and "metrics_step cfg fl ev s = (s', sent, st)"
  then show ?thesis
    using SelectionTick collect_keeps [of "mt_best s" model nodes prom "mc_metrics_url cfg" "mc_top_k cfg" order]
    by (auto split: prod.splits metrics_result.splits)
next
  case (BestRequested m waits)
  assume "mt_best s model = Some nodes" and "metrics_step cfg fl ev s = (s', sent, st)"
  then show ?thesis using BestRequested
    by (auto simp: send_best_available_nodes_def res_iffs split: sum.splits if_splits)
qed auto

lemma node_ids_of_Ok:
  "node_ids_of results = MetricsOk ids \<longleftrightarrow> map (\<lambda>m. Option.bind (m ''node_small_id'') parse_i64) results = map Some ids"
proof (induction results arbitrary: ids)
  case (Cons m results)
  show ?case
    by (cases "Option.bind (m ''node_small_id'') parse_i64"; cases ids) (auto simp: metrics_bind_Ok_iff Cons)
qed auto

definition query_of :: "modalities \<Rightarrow> string \<Rightarrow> nat \<Rightarrow> string" where
  "query_of modality = (case modality of ChatCompletions \<Rightarrow> chat_completions_query
     | Embeddings \<Rightarrow> embeddings_query | ImagesGenerations \<Rightarrow> image_generation_query)"

lemma retrieve_best_Ok:
  "retrieve_best prom url k modality model = MetricsOk ids \<longleftrightarrow>
   (\<exists>results. prom (url @ ''/api/v1/query'') (query_of modality model (top_k_of k)) = Inr results \<and>
     map (\<lambda>m. Option.bind (m ''node_small_id'') parse_i64) results = map Some ids)"
  by (cases modality)
    (auto simp: retrieve_best_def retrieve_best_available_nodes_for_chat_completions_def
      retrieve_best_available_nodes_for_embeddings_def retrieve_best_available_nodes_for_image_generation_def
      retrieve_prometheus_metrics_def query_of_def node_ids_of_Ok split: sum.split)

lemma collect_new:
  "fst (collect_best_available_nodes prom url k order best) model = Some nodes \<Longrightarrow> best model = None \<Longrightarrow>
   \<exists>modality. (modality, model) \<in> set order \<and> retrieve_best prom url k modality model = MetricsOk nodes"
proof (induction prom url k order best rule: collect_best_available_nodes.induct)
  case (2 prom url k modality m order best)
  show ?case
  proof (cases "retrieve_best prom url k modality m")
    case (MetricsOk ns)
    show ?thesis
    proof (cases "m = model")
      case True
      then have "insert_best m ns best model = Some ns" using "2.prems"(2) by (simp add: insert_best_def)
      with collect_keeps [of "insert_best m ns best" model ns prom url k order] "2.prems"(1) MetricsOk have "nodes = ns" by simp
      with True MetricsOk show ?thesis by auto
    next
      case False
      then have "insert_best m ns best model = None" using "2.prems"(2) by (simp add: insert_best_def split: option.split)
      with "2.IH" [OF MetricsOk] "2.prems"(1) MetricsOk show ?thesis by auto
    qed
  qed (use "2.prems" in auto)
qed simp

lemma run_keeps:
  assumes "metrics_run cfg fl evs s = (s', sent, st)" and "mt_best s model = Some nodes"
  shows "mt_best s' model = Some nodes \<and> (\<forall>ns. (model, ns) \<in> set sent \<longrightarrow> ns = nodes)"
  using assms
proof (induction cfg fl evs s arbitrary: s' sent st rule: metrics_run.induct)
  case (2 cfg fl ev evs s)
  obtain s1 sent1 st1 where s1: "metrics_step cfg fl ev s = (s1, sent1, st1)" by (cases "metrics_step cfg fl ev s")
  note kept = step_keeps [OF "2.prems"(2) s1]
  show ?case
  proof (cases st1)
    case Looping
    obtain s2 sent2 st2 where s2: "metrics_run cfg fl evs s1 = (s2, sent2, st2)" by (cases "metrics_run cfg fl evs s1")
    from "2.IH" [OF s1 [symmetric] refl Looping s2] kept "2.prems"(1) s1 s2 Looping show ?thesis by auto
  qed (use kept "2.prems"(1) s1 in auto)
qed simp

subsection \<open>Properties\<close>


definition no_gauges :: "'n node_metrics_collector" where
  "no_gauges = \<lparr>avg_waiting_queue_duration = Map.empty, chat_completions_gpu_kv_cache_usage = Map.empty,
     chat_completions_ttft = Map.empty, chat_completions_tpot = Map.empty,
     chat_completions_num_running_requests = Map.empty, chat_completions_num_waiting_requests = Map.empty,
     embeddings_queue_duration = Map.empty, embeddings_inference_duration = Map.empty,
     embeddings_input_length = Map.empty, embeddings_batch_size = Map.empty, embeddings_batch_tokens = Map.empty,
     image_generation_latency = Map.empty, image_generation_num_running_requests = Map.empty\<rparr>"

definition sample_metrics_config :: metrics_collection_config where
  "sample_metrics_config = \<lparr>mc_metrics_url = ''u'', mc_models = [(ImagesGenerations, ''m'')], mc_top_k = Some 2\<rparr>"

definition sample_floats :: "int floats" where
  "sample_floats = \<lparr>fl_zero = 0, fl_of_u32 = uint\<rparr>"

text \<open>Prometheus answers with one node.\<close>

definition sample_prometheus :: "string \<Rightarrow> prometheus" where
  "sample_prometheus node = (\<lambda>url query. Inr [[''node_small_id'' \<mapsto> node]])"

definition sample_metrics_run :: "int metrics_event list \<Rightarrow> int metrics_state \<times> (string \<times> int list) list \<times> task_status" where
  "sample_metrics_run evs = metrics_run sample_metrics_config sample_floats evs \<lparr>mt_best = Map.empty, mt_collector = no_gauges\<rparr>"


text \<open>
  A list of best nodes is what Prometheus gave: a list that the collector gets for a model
  is, in this order, the node ids of the answer that Prometheus gave at one of the
  selections to the query for this model and the modality that it is configured with.
\<close>

theorem best_nodes_come_from_prometheus:
  assumes "metrics_run cfg fl evs s = (s', sent, st)" and "mt_best s model = None" and "mt_best s' model = Some nodes"
  shows "\<exists>prom order modality results. SelectionTick prom order \<in> set evs \<and> (modality, model) \<in> set order \<and>
    prom (mc_metrics_url cfg @ ''/api/v1/query'') (query_of modality model (top_k_of (mc_top_k cfg))) = Inr results \<and>
    map (\<lambda>m. Option.bind (m ''node_small_id'') parse_i64) results = map Some nodes"
  using assms
proof (induction cfg fl evs s arbitrary: s' sent st rule: metrics_run.induct)
  case (2 cfg fl ev evs s)
  obtain s1 sent1 st1 where s1: "metrics_step cfg fl ev s = (s1, sent1, st1)" by (cases "metrics_step cfg fl ev s")
  show ?case
  proof (cases "mt_best s1 model")
    case None
    obtain s2 sent2 st2 where s2: "metrics_run cfg fl evs s1 = (s2, sent2, st2)" by (cases "metrics_run cfg fl evs s1")
    have run: "st1 = Looping" "s' = s2"
      using "2.prems"(1,3) s1 s2 None by (cases st1; simp)+
    from "2.IH" [OF s1 [symmetric] refl run(1) s2 None] "2.prems"(3) run(2) show ?thesis by fastforce
  next
    case (Some ns)
    have "mt_best s' model = Some ns"
    proof (cases st1)
      case Looping
      obtain s2 sent2 st2 where s2: "metrics_run cfg fl evs s1 = (s2, sent2, st2)" by (cases "metrics_run cfg fl evs s1")
      from run_keeps [OF s2 Some] "2.prems"(1) s1 s2 Looping show ?thesis by simp
    qed (use Some "2.prems"(1) s1 in auto)
    then have "ns = nodes" using "2.prems"(3) by simp
    with Some s1 "2.prems"(2) obtain prom order where ev: "ev = SelectionTick prom order"
      and new: "fst (collect_best_available_nodes prom (mc_metrics_url cfg) (mc_top_k cfg) order (mt_best s)) model = Some nodes"
      by (cases ev) (auto split: prod.splits metrics_result.splits)
    from collect_new [OF new "2.prems"(2)] ev show ?thesis by (auto simp: retrieve_best_Ok)
  qed
qed simp

theorem best_nodes_come_from_prometheus_witness:
  "mt_best (fst (sample_metrics_run [SelectionTick (sample_prometheus ''9'') [(ImagesGenerations, ''m'')]])) ''m'' = Some [9]"
proof -
  let ?run = "sample_metrics_run [SelectionTick (sample_prometheus ''9'') [(ImagesGenerations, ''m'')]]"
  have "mt_best (fst ?run) ''m'' \<noteq> None" by code_simp
  then obtain nodes where nodes: "mt_best (fst ?run) ''m'' = Some nodes" by blast
  have "metrics_run sample_metrics_config sample_floats [SelectionTick (sample_prometheus ''9'') [(ImagesGenerations, ''m'')]]
      \<lparr>mt_best = Map.empty, mt_collector = no_gauges\<rparr> = (fst ?run, fst (snd ?run), snd (snd ?run))"
    by (simp add: sample_metrics_run_def)
  from best_nodes_come_from_prometheus [OF this _ nodes] have "[parse_i64 ''9''] = map Some nodes"
    by (auto simp: sample_prometheus_def)
  moreover have "parse_i64 ''9'' = Some 9" by code_simp
  ultimately show ?thesis using nodes by auto
qed

text \<open>
  C38. A node reports its own gauges: after the report of a node is stored, the gauges of
  each model in it hold its values under the node's id, which reads back as this id, and no
  gauge of another node or of another model has changed.
\<close>

theorem node_reports_its_own_gauges:
  assumes "distinct (map fst metrics)" and "(model, report) \<in> set metrics" and "in_i64 node"
  shows "read_gauges (store_metrics fl metrics node c) model node = reported fl report (read_gauges c model node) \<and>
    parse_i64 (show_id node) = Some node \<and>
    (other \<noteq> node \<or> m \<notin> fst ` set metrics \<longrightarrow>
      read_gauges (store_metrics fl metrics node c) m other = read_gauges c m other)"
proof -
  from assms(2) obtain xs ys where split: "metrics = xs @ (model, report) # ys" by (meson split_list)
  with assms(1) have apart: "model \<notin> fst ` set xs" "model \<notin> fst ` set ys" by auto
  have "store_metrics fl metrics node c = store_metrics fl ys node
      (store_metrics fl [(model, report)] node (store_metrics fl xs node c))"
    unfolding split store_metrics_append by simp
  then have "read_gauges (store_metrics fl metrics node c) model node = reported fl report (read_gauges c model node)"
    by (simp only: store_metrics_frame [OF disjI1 [OF apart(2)]] store_one store_metrics_frame [OF disjI1 [OF apart(1)]])
  moreover have "read_gauges (store_metrics fl metrics node c) m other = read_gauges c m other"
    if "other \<noteq> node \<or> m \<notin> fst ` set metrics"
    using that by (intro store_metrics_frame) blast
  ultimately show ?thesis using parse_show_id [OF assms(3)] by blast
qed

theorem node_reports_its_own_gauges_witness:
  "read_gauges (store_metrics sample_floats
     [(''m'', ImageGenerationReport \<lparr>im_image_generation_latency = 3, im_num_running_requests = 4\<rparr>)] 9 no_gauges) ''m'' 9 =
   replicate 11 None @ [Some 3, Some 4]"
proof -
  let ?r = "ImageGenerationReport \<lparr>im_image_generation_latency = 3 :: int, im_num_running_requests = 4\<rparr>"
  have "distinct (map fst [(''m'', ?r)])" and "(''m'', ?r) \<in> set [(''m'', ?r)]" and "in_i64 9"
    by (simp_all add: i64_bounds)
  from node_reports_its_own_gauges [OF this, THEN conjunct1]
  have "read_gauges (store_metrics sample_floats [(''m'', ?r)] 9 no_gauges) ''m'' 9 =
    reported sample_floats ?r (read_gauges no_gauges ''m'' 9)" .
  also have "\<dots> = replicate 11 None @ [Some 3, Some 4]" by code_simp
  finally show ?thesis .
qed

text \<open>
  An answer of Prometheus without the label of the node, as an aggregation may give it, ends the
  whole task, since the unwrap panics.
\<close>

lemma missing_label_ends_collection:
  "collect_best_available_nodes (\<lambda>url query. Inr [Map.empty]) url k ((modality, model) # order) best = (best, MetricsPanic)"
  by (cases modality)
    (simp_all add: retrieve_best_def retrieve_best_available_nodes_for_chat_completions_def
      retrieve_best_available_nodes_for_embeddings_def retrieve_best_available_nodes_for_image_generation_def
      retrieve_prometheus_metrics_def)

end
