(* ===== verification/Spec2Isabelle.thy ===== *)
theory Spec2Isabelle
  imports NodeLocks Service Metrics
begin

text \<open>
  A model of the core of the Atoma proxy: how it authenticates a request, reserves units or
  money for it, selects or buys a stack on a node, forwards it, and settles it, and the state
  that all of this keeps in a database.

  \<^bold>\<open>Parts and how they interact.\<close> The HTTP server (\<^verbatim>\<open>atoma-proxy/src/server\<close>) runs a
  request in tasks of its own and sends messages to one state manager
  (\<^verbatim>\<open>atoma-state/src/state_manager.rs\<close>), whose loop handles them one after the other together
  with the events of the chain and of the p2p network (\<^verbatim>\<open>atoma-state/src/handlers.rs\<close>), on a
  PostgreSQL database. A stack is bought through the Sui client (\<^verbatim>\<open>atoma-auth/src/sui/mod.rs\<close>).

  \<^bold>\<open>Theories and sources.\<close>
  \<^item> \<open>Prelude\<close>, \<open>Sql\<close>, \<open>Types\<close>: integers of 64 bits, results, tables as lists of rows with
    the statements that the queries use, and the structs of \<^verbatim>\<open>types.rs\<close>. A statement yields the
    new table or a database error, so a failing statement changes nothing.
  \<^item> \<open>Stacks\<close>, \<open>Balances\<close>, \<open>Registry\<close>, \<open>Stats\<close>, \<open>Settlement\<close>, \<open>Accounts\<close>: the queries of
    \<^verbatim>\<open>state_manager.rs\<close> on the tables of stacks, balances and prices, tasks, nodes,
    subscriptions and keys, statistics, settlement tickets, users and tokens. \<open>Ledger\<close> is the
    contract that stacks and fiat balances share: reservations that are settled once.
  \<^item> \<open>Attestation\<close>, \<open>Handlers\<close>, \<open>Manager\<close>: key commitments, every event handler, the loop.
  \<^item> \<open>ProxyErrors\<close>, \<open>Endpoints\<close>, \<open>Pricing\<close>, \<open>Events\<close>, \<open>StackLocks\<close>, \<open>Responses\<close>, \<open>Streamer\<close>:
    errors and paths, amounts, the messages that settle, the two maps of locks in memory, the
    check of a node's answer, and the stream of a node's answer with its settlement.
  \<^item> \<open>Sui\<close>, \<open>Billing\<close>: the purchase on the chain; the \<^verbatim>\<open>auth\<close> module of \<^verbatim>\<open>middleware.rs\<close>,
    which checks tokens, reserves, selects and buys.
  \<^item> \<open>Requests\<close>: what the JSON of a request is read as and estimated at
    (\<^verbatim>\<open>handlers/chat_completions.rs\<close> and its siblings).
  \<^item> \<open>Inference\<close>: the handlers of the eight inference endpoints with their settlement.
  \<^item> \<open>Gateway\<close>, \<open>Confidential\<close>: the middleware functions and their composition with the
    handlers in \<^verbatim>\<open>create_router\<close>, for the regular and the confidential routes.
  \<^item> \<open>NodeLocks\<close>: the endpoints of \<^verbatim>\<open>handlers/nodes.rs\<close>, which publish a node's address and
    lock the units that confidential requests claim.
  \<^item> \<open>WalletSignatures\<close>, \<open>Tokens\<close>: the users' side in \<^verbatim>\<open>atoma-auth/src/auth.rs\<close> and
    \<^verbatim>\<open>google.rs\<close>: the address of a wallet's signature with its decoder of base64 pieces;
    registration, sign-in, JSON web tokens, API tokens and wallets.
  \<^item> \<open>Payments\<close>: \<^verbatim>\<open>usdc_payment\<close> with \<^verbatim>\<open>get_balance_changes\<close> of \<^verbatim>\<open>sui/mod.rs\<close>.
  \<^item> \<open>Service\<close>: the handlers of \<^verbatim>\<open>atoma-proxy-service/src/handlers\<close> over all of these; their
    direct reads and writes of the database meet the state manager's messages, too.
  \<^item> \<open>Metrics\<close>: the collector of node metrics in \<^verbatim>\<open>atoma-state/src/metrics.rs\<close>, a task of its
    own that takes the reports the state manager passes on.

  The state of a request is the record \<open>proxy\<close>: the database with the state manager's status,
  the map of buying locks, the Sui client, and \<open>px_meet\<close>, which says for each message what
  the manager handles before it, ahead of it in the channel, and in which context. Requests
  thus interleave with any other messages; \<open>alone\<close> is the hypothesis that none comes in
  between, and the invariants are proved without it.

  \<^bold>\<open>What the lemmas show.\<close> In the state: the invariants of every table over every run of the
  loop, the selection, reservation and settlement of stacks and balances on every branch,
  key attestation and rotation. In the proxy: a request that is let through has reserved its
  price; each handler turns that into the charge or releases it (the locales \<open>fiat_handler\<close> and
  \<open>stack_handler\<close>, interpreted on all of them); the composed service does so for every
  outcome; a streamer settles exactly once; a purchase is refunded or inserted; an answered
  lock request is in memory and in the database; only its owner changes a node's address. For users:
  tokens need the password or Google's key and stand for one account, an API token opens the
  proxy for its owner, a wallet is bound by its own signature, a payment credits its payer
  and no digest is credited twice under any interleaving; a user's salt stays the same.
  Where the code does not do this, the theorem says what it does: reservations that a panic
  or a rejected body leaves behind, limits near 2^64, units of confidential requests that stay
  locked, zkLogin signatures without a proof, payments that a failed attempt uses up, lists of
  best nodes that are never renewed.

  \<^bold>\<open>Bounds.\<close> Loops are total functions: the wait for another buyer's stack takes at most its ten
  attempts and the publication of an address at most three; coin pages and a node's stream
  are finite lists of any length, the heaps of locks shrink with each step, and a payment asks
  the chain five times. No fuel is used.

  \<^bold>\<open>Parameters.\<close> Code outside the repository is an argument: the cryptography, JSON and base64
  crates, tokenizers, the Sui SDK and the chain, the HTTP client and the node, clocks, axum's
  extractors, and floating-point sums of the database.

  \<^bold>\<open>Not modelled.\<close> Counters, tracing and timers, which do not influence the program; the OpenAPI
  descriptions; start-up, routing and configuration; the dashboards that are read from
  Grafana and the pings of nodes, which only pass on what other systems report.
\<close>

subsection \<open>A request from its reservation to its settlement\<close>

lemma reserved_fiat:
  "reserved d uid n m d' md \<Longrightarrow>
   reserve_fiat uid (fiat_locked_amount n (sm_price_per_one_million_input_compute_units md),
     fiat_locked_amount m (sm_price_per_one_million_output_compute_units md)) (db_fiat d) = Some (db_fiat d')"
  by (auto simp: reserved_def reserve_fiat_iff)

lemma execute_Inr_iff: "execute put d res = (d2, Inr r) \<longleftrightarrow> (\<exists>t. res = Inr t \<and> d2 = put t \<and> r = Done)"
  by (cases res) auto

lemma handled_fiat:
  "handle_state_manager_event cx (UpdateStackNumTokensFiat uid model ei i it eo c ot) d = (d2, Inr r) \<Longrightarrow>
   settle_fiat_amounts uid (ei, eo) (i, c) (db_fiat d) = Some (db_fiat d2)"
  by (auto simp: handle_fiat_update_def Let_def execute_Inr_iff split: sum.splits if_splits)


definition sample_metadata :: stack_metadata where
  "sample_metadata = \<lparr>sm_optional_stack = None, sm_num_input_tokens = 2000000, sm_max_output_tokens = 1000000,
     sm_model = ''m'', sm_user_id = 1, sm_selected_node_id = 8,
     sm_price_per_one_million_input_compute_units = 20, sm_price_per_one_million_output_compute_units = 20,
     sm_is_fiat_request = True\<rparr>"

lemma sample_reserved: "reserved sample_db 1 2000000 1000000 sample_reserved_db sample_metadata"
proof -
  have "node_for sample_db (sm_model sample_metadata) = Some sample_node"
    and "get_custom_pricing (db_prices sample_db) 1 (sm_model sample_metadata) = None"
    and "lock_user_fiat_balance (db_fiat sample_db) 1 40 20 =
      Inr ([sample_fiat_row 7 50 0 0, sample_fiat_row 1 100 40 20], True)" by code_simp+
  moreover have "fiat_locked_amount 2000000 20 = 40" "fiat_locked_amount 1000000 20 = 20"
    by (simp_all add: fiat_locked_amount_eq i64_max_def ONE_MILLION_def)
  ultimately show ?thesis
    by (simp add: reserved_def sample_metadata_def sample_reserved_db_def prices_of_def sample_node_def)
qed


end
